(* ===== verification/Prelude.thy ===== *)
theory Prelude
  imports Complex_Main
begin

text \<open>
  Shared material of the development: the named theorem collections, the arithmetic of
  JavaScript's \<open>bigint\<close> (division truncates towards zero), decimal rendering of
  integers as \<open>toString\<close> does it, \<open>padStart\<close>, the HTTP exceptions the
  services throw and the result type of a handler.

  A handler of the coordinator reads and writes the database and either returns a value or
  throws.  What it wrote before it threw stays written (outside a transaction), so a handler is a
  function from the database to the database after it and the outcome.
\<close>

named_theorems table_simps \<open>rewriting of table operations\<close>
named_theorems bigint_simps \<open>truncating division of non-negative integers\<close>
named_theorems status_sets \<open>the status lists of the source, unfolded\<close>

section \<open>Exceptions and handlers\<close>

datatype http_error =
    BadRequestException string
  | UnauthorizedException string
  | ForbiddenException string
  | NotFoundException string
  | ConflictException string
  | ServiceUnavailableException string
  | BadGatewayException string
  | InternalServerErrorException string
  | HttpException int string
  | RangeError string
  | UncaughtError string

type_synonym 'a outcome = "http_error + 'a"
type_synonym ('s, 'a) handler = "'s \<Rightarrow> 's \<times> 'a outcome"

text \<open>A transaction writes everything or, when its body throws, nothing.\<close>

definition transaction :: "('s, 'a) handler \<Rightarrow> ('s, 'a) handler" where
  "transaction body s =
     (case body s of (s', Inr a) \<Rightarrow> (s', Inr a) | (s', Inl e) \<Rightarrow> (s, Inl e))"

lemma transaction_Inl: "transaction body s = (s', Inl e) \<Longrightarrow> s' = s"
  by (auto simp: transaction_def split: prod.splits sum.splits)

lemma transaction_Inr:
  "transaction body s = (s', Inr a) \<longleftrightarrow> body s = (s', Inr a)"
  by (auto simp: transaction_def split: prod.splits sum.splits)

lemma transaction_fails: "body s = (s', Inl e) \<Longrightarrow> transaction body s = (s, Inl e)"
  by (simp add: transaction_def)

lemma fst_transaction: "P s \<Longrightarrow> P (fst (body s)) \<Longrightarrow> P (fst (transaction body s))"
  by (auto simp: transaction_def split: prod.splits sum.splits)

definition is_ok :: "'a outcome \<Rightarrow> bool" where
  "is_ok r = (case r of Inl _ \<Rightarrow> False | Inr _ \<Rightarrow> True)"

lemma is_ok_simps [simp]: "is_ok (Inr a)" "\<not> is_ok (Inl e)"
  by (simp_all add: is_ok_def)

section \<open>Bigint division\<close>

definition bigdiv :: "int \<Rightarrow> int \<Rightarrow> int" where
  "bigdiv a b = sgn a * sgn b * (\<bar>a\<bar> div \<bar>b\<bar>)"

definition bigmod :: "int \<Rightarrow> int \<Rightarrow> int" where
  "bigmod a b = a - b * bigdiv a b"

lemma bigdiv_nonneg [bigint_simps]: "0 \<le> a \<Longrightarrow> 0 < b \<Longrightarrow> bigdiv a b = a div b"
  by (cases "a = 0") (simp_all add: bigdiv_def)

lemma bigmod_nonneg [bigint_simps]: "0 \<le> a \<Longrightarrow> 0 < b \<Longrightarrow> bigmod a b = a mod b"
  by (simp add: bigmod_def bigdiv_nonneg minus_mult_div_eq_mod)

lemma bigdiv_neg: "bigdiv (- a) b = - bigdiv a b"
  by (simp add: bigdiv_def)

lemma bigdiv_nonneg_ge: "0 \<le> a \<Longrightarrow> 0 < b \<Longrightarrow> 0 \<le> bigdiv a b"
  by (simp add: bigdiv_nonneg pos_imp_zdiv_nonneg_iff)

lemma int_le_div_iff:
  fixes a b c :: int
  assumes "0 < b"
  shows "c \<le> a div b \<longleftrightarrow> c * b \<le> a"
proof
  assume "c \<le> a div b"
  then have "c * b \<le> a div b * b" using assms by (intro mult_right_mono) auto
  also have "\<dots> \<le> a" using assms pos_mod_sign [of b a] by (simp add: minus_mod_eq_div_mult [symmetric])
  finally show "c * b \<le> a" .
next
  assume "c * b \<le> a"
  then have "c * b div b \<le> a div b" using assms by (intro zdiv_mono1) auto
  then show "c \<le> a div b" using assms by simp
qed

section \<open>Decimal rendering\<close>

definition digit_char :: "nat \<Rightarrow> char" where
  "digit_char d = ''0123456789'' ! d"

definition digit_val :: "char \<Rightarrow> nat" where
  "digit_val c = of_char c - 48"

definition is_digit :: "char \<Rightarrow> bool" where
  "is_digit c = (48 \<le> (of_char c :: nat) \<and> (of_char c :: nat) \<le> 57)"

fun dec_nat :: "nat \<Rightarrow> string" where
  "dec_nat n = (if n < 10 then [digit_char n] else dec_nat (n div 10) @ [digit_char (n mod 10)])"

declare dec_nat.simps [simp del]

definition dec_int :: "int \<Rightarrow> string" where
  "dec_int i = (if i < 0 then CHR ''-'' # dec_nat (nat (- i)) else dec_nat (nat i))"

definition pad_start :: "nat \<Rightarrow> char \<Rightarrow> string \<Rightarrow> string" where
  "pad_start w c s = replicate (w - length s) c @ s"

text \<open>The value of a string of digits, the most significant first.\<close>

definition digits_val :: "string \<Rightarrow> nat" where
  "digits_val s = foldl (\<lambda>v c. 10 * v + digit_val c) 0 s"

lemma of_char_digit_char:
  assumes "d < 10"
  shows "of_char (digit_char d) = 48 + d"
proof -
  have "d \<in> {0, 1, 2, 3, 4, 5, 6, 7, 8, 9}" using assms by auto
  then show ?thesis by (auto simp: digit_char_def)
qed

lemma digit_char_props [simp]:
  "d < 10 \<Longrightarrow> is_digit (digit_char d)"
  "d < 10 \<Longrightarrow> digit_val (digit_char d) = d"
  by (simp_all add: is_digit_def digit_val_def of_char_digit_char)

lemma digits_val_snoc [simp]: "digits_val (s @ [c]) = 10 * digits_val s + digit_val c"
  by (simp add: digits_val_def)

lemma digits_val_Nil [simp]: "digits_val [] = 0"
  by (simp add: digits_val_def)

lemma digits_val_append: "digits_val (s @ t) = digits_val s * 10 ^ length t + digits_val t"
proof (induction t rule: rev_induct)
  case Nil
  then show ?case by simp
next
  case (snoc c t)
  have "digits_val (s @ t @ [c]) = 10 * digits_val (s @ t) + digit_val c"
    using digits_val_snoc [of "s @ t" c] by simp
  with snoc show ?case by (simp add: algebra_simps)
qed

lemma digits_val_zeros: "digits_val (replicate n (CHR ''0'')) = 0"
  by (induction n) (simp_all add: digits_val_def replicate_append_same [symmetric] digit_val_def)

lemma digits_val_dec_nat [simp]: "digits_val (dec_nat n) = n"
proof (induction n rule: dec_nat.induct)
  case (1 n)
  then show ?case
    by (cases "n < 10") (simp_all add: dec_nat.simps [of n] digits_val_def)
qed

lemma dec_nat_digits: "c \<in> set (dec_nat n) \<Longrightarrow> is_digit c"
proof (induction n rule: dec_nat.induct)
  case (1 n)
  then show ?case
    by (cases "n < 10") (auto simp: dec_nat.simps [of n])
qed

lemma dec_nat_not_Nil [simp]: "dec_nat n \<noteq> []"
  by (subst dec_nat.simps) simp

lemma length_dec_nat_le: "n < 10 ^ k \<Longrightarrow> 0 < k \<Longrightarrow> length (dec_nat n) \<le> k"
proof (induction n arbitrary: k rule: dec_nat.induct)
  case (1 n)
  show ?case
  proof (cases "n < 10")
    case True
    then show ?thesis using "1.prems" by (simp add: dec_nat.simps [of n])
  next
    case False
    obtain j where k: "k = Suc j" using "1.prems" by (cases k) auto
    have small: "n div 10 < 10 ^ j" using "1.prems" k by (simp add: less_mult_imp_div_less mult.commute)
    have "j \<noteq> 0"
    proof
      assume "j = 0"
      with "1.prems" k False show False by simp
    qed
    then have "length (dec_nat (n div 10)) \<le> j" using "1.IH" [OF False small] by simp
    then show ?thesis using False k by (simp add: dec_nat.simps [of n])
  qed
qed

lemma dec_nat_inj: "dec_nat m = dec_nat n \<longleftrightarrow> m = n"
  by (metis digits_val_dec_nat)

lemma digits_val_pad [simp]: "digits_val (pad_start w (CHR ''0'') s) = digits_val s"
  by (simp add: pad_start_def digits_val_append digits_val_zeros)

section \<open>Lists\<close>

lemma find_in_set: "find p xs = Some x \<Longrightarrow> x \<in> set xs \<and> p x"
  by (auto simp: find_Some_iff)

lemma sum_list_filter_update_le:
  fixes g :: "'a \<Rightarrow> int"
  assumes "\<forall>x \<in> set xs. P x \<longrightarrow> 0 \<le> g x" and "\<And>x. Q x \<Longrightarrow> P x"
  shows "sum_list (map g (filter Q xs)) \<le> sum_list (map g (filter P xs))"
  using assms by (induction xs) auto

section \<open>Separated text\<close>

lemma token_append_eq:
  "c \<notin> set u \<Longrightarrow> c \<notin> set u' \<Longrightarrow> u @ c # r = u' @ c # r' \<longleftrightarrow> u = u' \<and> r = r'"
proof (induction u arbitrary: u')
  case Nil
  then show ?case by (cases u') auto
next
  case (Cons a u)
  then show ?case by (cases u') auto
qed

end
