(* ===== verification/Store.thy ===== *)
theory Store
  imports Prelude
begin

text \<open>
  The database client.  A table is the list of its rows.  The operations are those the services
  call on a Prisma model (\<open>findUnique\<close>, \<open>findMany\<close>, \<open>count\<close>,
  \<open>updateMany\<close>, \<open>deleteMany\<close>, \<open>create\<close> under a unique key and
  \<open>createMany\<close> with \<open>skipDuplicates\<close>), with the result the database documents:
  an \<open>updateMany\<close> rewrites exactly the rows its condition selects, in one step, and
  reports how many there were.

  Two interfaces are stated as locales.  \<open>row_write\<close>: an update that leaves the key of
  every row alone, with the lookup law that follows.  \<open>latch\<close>: an update whose own effect
  makes its condition false, which is how the services let exactly one of several concurrent
  requests win (a quote is spent once, a dispute is filed once, a nonce is consumed once).
\<close>

section \<open>Operations\<close>

definition find_row :: "('r \<Rightarrow> 'k) \<Rightarrow> 'k \<Rightarrow> 'r list \<Rightarrow> 'r option" where
  "find_row key k t = find (\<lambda>r. key r = k) t"

definition count_rows :: "('r \<Rightarrow> bool) \<Rightarrow> 'r list \<Rightarrow> nat" where
  "count_rows p t = length (filter p t)"

definition update_many :: "('r \<Rightarrow> bool) \<Rightarrow> ('r \<Rightarrow> 'r) \<Rightarrow> 'r list \<Rightarrow> 'r list" where
  "update_many p f t = map (\<lambda>r. if p r then f r else r) t"

definition delete_many :: "('r \<Rightarrow> bool) \<Rightarrow> 'r list \<Rightarrow> 'r list" where
  "delete_many p t = filter (\<lambda>r. \<not> p r) t"

text \<open>A unique violation (P2002) is the result None.  A null key never collides.\<close>

definition create_unique :: "('r \<Rightarrow> 'k option) \<Rightarrow> 'r \<Rightarrow> 'r list \<Rightarrow> 'r list option" where
  "create_unique key r t =
     (if key r \<noteq> None \<and> (\<exists>x \<in> set t. key x = key r) then None else Some (t @ [r]))"

definition create_skip :: "('r \<Rightarrow> 'k option) \<Rightarrow> 'r \<Rightarrow> 'r list \<Rightarrow> 'r list" where
  "create_skip key r t = (case create_unique key r t of None \<Rightarrow> t | Some t' \<Rightarrow> t')"

section \<open>Laws\<close>

lemma find_row_Some: "find_row key k t = Some r \<Longrightarrow> r \<in> set t \<and> key r = k"
  unfolding find_row_def by (rule find_in_set)

lemma find_row_None: "find_row key k t = None \<longleftrightarrow> k \<notin> key ` set t"
  by (auto simp: find_row_def find_None_iff)

lemma find_row_distinct:
  "distinct (map key t) \<Longrightarrow> r \<in> set t \<Longrightarrow> find_row key (key r) t = Some r"
  unfolding find_row_def
proof (induction t)
  case (Cons x t)
  then show ?case by (cases "key x = key r") (auto simp: image_iff)
qed simp

lemma set_update_many [table_simps]:
  "set (update_many p f t) = (\<lambda>r. if p r then f r else r) ` set t"
  by (simp add: update_many_def)

lemma update_many_id: "(\<And>r. r \<in> set t \<Longrightarrow> \<not> p r) \<Longrightarrow> update_many p f t = t"
  by (induction t) (auto simp: update_many_def)

lemma count_rows_0: "count_rows p t = 0 \<longleftrightarrow> (\<forall>r \<in> set t. \<not> p r)"
  by (auto simp: count_rows_def filter_empty_conv)

lemma update_many_count_0: "count_rows p t = 0 \<Longrightarrow> update_many p f t = t"
  by (simp add: count_rows_0 update_many_id)

lemma update_many_Nil [simp]: "update_many p f [] = []"
  by (simp add: update_many_def)

lemma length_update_many [simp]: "length (update_many p f t) = length t"
  by (simp add: update_many_def)

lemma list_all_update_many:
  "list_all P t \<Longrightarrow> (\<And>r. r \<in> set t \<Longrightarrow> P r \<Longrightarrow> p r \<Longrightarrow> P (f r)) \<Longrightarrow> list_all P (update_many p f t)"
  by (auto simp: list_all_iff update_many_def)

lemma count_rows_distinct_le_1:
  assumes "distinct (map key t)" "\<And>r. p r \<Longrightarrow> key r = k"
  shows "count_rows p t \<le> 1"
  using assms(1)
proof (induction t)
  case (Cons x t)
  show ?case
  proof (cases "p x")
    case True
    have "filter p t = []"
    proof (rule ccontr)
      assume "filter p t \<noteq> []"
      then obtain y where "y \<in> set t" "p y" by (auto simp: filter_empty_conv)
      with True assms(2) have "key x \<in> key ` set t" by force
      with Cons.prems show False by simp
    qed
    then show ?thesis using True by (simp add: count_rows_def)
  next
    case False
    then show ?thesis using Cons by (simp add: count_rows_def)
  qed
qed (simp add: count_rows_def)

lemma find_row_append:
  "find_row key k (s @ t) = (case find_row key k s of None \<Rightarrow> find_row key k t | Some r \<Rightarrow> Some r)"
  unfolding find_row_def by (induction s) auto

section \<open>Writes that keep the key\<close>

locale row_write =
  fixes key :: "'r \<Rightarrow> 'k" and put :: "'r \<Rightarrow> 'r"
  assumes key_write: "key (put r) = key r"
begin

lemma keys_kept: "map key (update_many p put t) = map key t"
  by (simp add: update_many_def key_write)

lemma find_after_write:
  "find_row key k (update_many p put t)
     = map_option (\<lambda>r. if p r then put r else r) (find_row key k t)"
  unfolding find_row_def update_many_def
  by (induction t) (auto simp: key_write)

lemma find_other:
  "(\<And>r. p r \<Longrightarrow> key r \<noteq> k) \<Longrightarrow> find_row key k (update_many p put t) = find_row key k t"
  unfolding find_row_def update_many_def
  by (induction t) (auto simp: key_write)

end

section \<open>Latches\<close>

locale latch =
  fixes is_open :: "'r \<Rightarrow> bool" and close :: "'r \<Rightarrow> 'r"
  assumes closes: "is_open r \<Longrightarrow> \<not> is_open (close r)"
begin

lemma claimed_once:
  "count_rows (\<lambda>r. p r \<and> is_open r) (update_many (\<lambda>r. p r \<and> is_open r) close t) = 0"
  using closes by (auto simp: count_rows_0 table_simps)

lemma claim_idempotent:
  "update_many (\<lambda>r. p r \<and> is_open r) close (update_many (\<lambda>r. p r \<and> is_open r) close t)
     = update_many (\<lambda>r. p r \<and> is_open r) close t"
  by (rule update_many_count_0) (rule claimed_once)

lemma second_claim_loses:
  assumes "t' = update_many (\<lambda>r. p r \<and> is_open r) close t" "\<And>r. q r \<Longrightarrow> p r"
  shows "count_rows (\<lambda>r. q r \<and> is_open r) t' = 0"
  using assms closes by (auto simp: count_rows_0 table_simps)

lemma closed_after_claim:
  assumes "\<And>r. P (close r) = P r"
  shows "count_rows (\<lambda>r. P r \<and> \<not> is_open r) (update_many (\<lambda>r. q r \<and> is_open r) close t)
         = count_rows (\<lambda>r. P r \<and> \<not> is_open r) t + count_rows (\<lambda>r. P r \<and> q r \<and> is_open r) t"
  using assms closes by (induction t) (auto simp: count_rows_def update_many_def)

end

locale keyed_latch = latch is_open close + row_write key close
  for is_open :: "'r \<Rightarrow> bool" and close :: "'r \<Rightarrow> 'r" and key :: "'r \<Rightarrow> 'k"
begin

lemma at_most_one_claimed:
  "distinct (map key t) \<Longrightarrow> count_rows (\<lambda>r. key r = k \<and> is_open r) t \<le> 1"
  by (erule count_rows_distinct_le_1 [where key = key and k = k]) simp

lemma claimed_row:
  assumes "find_row key k t = Some r" "is_open r"
  shows "find_row key k (update_many (\<lambda>r. key r = k \<and> is_open r) close t) = Some (close r)"
  using assms find_row_Some [OF assms(1)] by (simp add: find_after_write)

lemma claim_counts:
  assumes "distinct (map key t)" "find_row key k t = Some r"
  shows "count_rows (\<lambda>r. key r = k \<and> is_open r) t = (if is_open r then 1 else 0)"
proof (cases "is_open r")
  case True
  have "r \<in> set t" "key r = k" using find_row_Some [OF assms(2)] by auto
  then have "count_rows (\<lambda>r. key r = k \<and> is_open r) t \<noteq> 0" using True by (auto simp: count_rows_0)
  then show ?thesis using True at_most_one_claimed [OF assms(1), of k] by simp
next
  case False
  have "\<not> is_open x" if "x \<in> set t" "key x = k" for x
    using find_row_distinct [OF assms(1) that(1)] that(2) assms(2) False by simp
  then show ?thesis using False by (auto simp: count_rows_0)
qed

end

section \<open>Unique keys\<close>

lemma create_unique_Some:
  "create_unique key r t = Some t' \<Longrightarrow> t' = t @ [r] \<and> (key r \<noteq> None \<longrightarrow> key r \<notin> key ` set t)"
  by (auto simp: create_unique_def split: if_splits)

lemma create_skip_second:
  "key r = key r' \<Longrightarrow> key r \<noteq> None \<Longrightarrow> create_skip key r' (create_skip key r t) = create_skip key r t"
  by (auto simp: create_skip_def create_unique_def)

lemma set_create_skip: "set (create_skip key r t) \<subseteq> insert r (set t)"
  by (auto simp: create_skip_def create_unique_def)

lemma create_skip_keeps: "x \<in> set t \<Longrightarrow> x \<in> set (create_skip key r t)"
  by (auto simp: create_skip_def create_unique_def)

definition unique_keys :: "('r \<Rightarrow> 'k option) \<Rightarrow> 'r list \<Rightarrow> bool" where
  "unique_keys key t = distinct (filter (\<lambda>k. k \<noteq> None) (map key t))"

lemma unique_keys_create_skip:
  "unique_keys key t \<Longrightarrow> unique_keys key (create_skip key r t)"
  by (auto simp: unique_keys_def create_skip_def create_unique_def)

lemma unique_keys_delete: "unique_keys key t \<Longrightarrow> unique_keys key (delete_many p t)"
  by (induction t) (force simp: unique_keys_def delete_many_def)+

end
