(* ===== verification/Schema.thy ===== *)
theory Schema
  imports Store
begin

text \<open>
  The data model of \<open>src/services/coordinator/prisma/schema.prisma\<close>: the enums, the rows
  the modelled services read or write, and the database as a record of tables.  An instant is a
  number of milliseconds (a \<open>DateTime\<close> column) or of seconds (the chain's deadlines, which
  the schema holds as \<open>BigInt\<close>); an optional column is an \<open>option\<close>.  The order's
  two check constraints (migrations 25 and 30) are \<open>order_ok\<close>.
\<close>

type_synonym address = string
type_synonym ms = int
type_synonym secs = int

section \<open>Enums\<close>

datatype lp_status = LP_PENDING | LP_APPROVED | LP_SUSPENDED | LP_REVOKED
datatype rail = BANK | QRIS | EWALLET
datatype flow = TOP_UP | WITHDRAW
datatype order_status =
  CREATED | MATCHED | AWAITING_ONCHAIN | FUNDED | FIAT_PAID | RELEASED | REFUNDED | DISPUTED | EXPIRED | CANCELLED
datatype kyc_status = NEEDS_INFO | PROCESSING | ACCEPTED | REJECTED
datatype outbox_status = PENDING | SENT | FAILED
datatype link_status = ACTIVE | REVOKED
datatype auth_method = SEP10 | SEP53

text \<open>The strings the dispute columns hold: who filed, and what the resolver decided.\<close>

datatype disputer = ByUser | ByLp | ByResolver
datatype resolution = Released | Refunded

section \<open>Rows\<close>

record payment_method =
  pm_id :: string
  pm_rail :: rail
  pm_label :: string
  pm_details :: string
  pm_currency :: string
  pm_active :: bool

record lp =
  lp_id :: string
  lp_stellarAddress :: address
  lp_status :: lp_status
  lp_disputesLost :: int
  lp_contact :: string
  lp_liquidityProof :: string
  lp_approvalNote :: "string option"
  lp_online :: bool
  lp_lastHeartbeatAt :: "ms option"
  lp_paymentMethods :: "payment_method list"
  lp_createdAt :: ms
  lp_approvedAt :: "ms option"
  lp_personId :: "string option"
  lp_alertEmail :: "string option"

record order =
  o_id :: string
  o_tradeId :: string
  o_contractId :: "string option"
  o_userAddress :: address
  o_personId :: string
  o_lpId :: "string option"
  o_flow :: flow
  o_rail :: rail
  o_usdcAmount :: int
  o_fiatAmount :: int
  o_fiatCurrency :: string
  o_rateSnapshot :: string
  o_platformFeeBps :: int
  o_lpFeeBps :: int
  o_spreadBps :: int
  o_platformWallet :: address
  o_lpWallet :: "address option"
  o_paymentMethodId :: "string option"
  o_lpPaymentDetails :: "string option"
  o_lpPaymentLabel :: "string option"
  o_userPaymentDetails :: "string option"
  o_status :: order_status
  o_payDeadline :: secs
  o_confirmDeadline :: secs
  o_disputeDeadline :: secs
  o_createdAt :: ms
  o_expiresAt :: ms
  o_ref :: "string option"
  o_proofUrl :: "string option"
  o_proofUploadedAt :: "ms option"
  o_proofRrn :: "string option"
  o_proofAmount :: "int option"
  o_proofPaidAt :: "ms option"
  o_userClaimedPaidAt :: "ms option"
  o_settledAt :: "ms option"
  o_settledStatus :: "order_status option"
  o_settlementTxHash :: "string option"
  o_postSettleDeadline :: "secs option"
  o_resolverDisputed :: bool
  o_onChainDisputedBy :: "address option"
  o_slashDeadline :: "secs option"
  o_liabilityEstablished :: bool
  o_disputeBy :: "disputer option"
  o_disputeReason :: "string option"
  o_disputeNote :: "string option"
  o_disputeEvidenceUrl :: "string option"
  o_disputeAt :: "ms option"
  o_disputeClosedAt :: "ms option"
  o_resolution :: "resolution option"
  o_disputeLossAccrued :: bool

record quote =
  q_id :: string
  q_userAddress :: address
  q_flow :: flow
  q_rail :: rail
  q_usdcAmount :: int
  q_fiatAmount :: int
  q_fiatCurrency :: string
  q_rateSnapshot :: string
  q_platformFeeBps :: int
  q_lpFeeBps :: int
  q_expiresAt :: ms
  q_usedAt :: "ms option"

record market =
  m_code :: string
  m_country :: string
  m_currencySymbol :: string
  m_locale :: string
  m_railName :: string
  m_manualRateOverride :: "string option"
  m_priceMinPerUsdc :: string
  m_priceMaxPerUsdc :: string
  m_decimals :: int
  m_enabled :: bool

text \<open>\<open>dailyLimitByTier\<close> is JSON: None when it is not an object, else its numeric
  members by tier name (a member that is no finite number is absent).\<close>

record config =
  c_spreadBps :: int
  c_platformFeeBps :: int
  c_lpFeeBps :: int
  c_platformWallet :: address
  c_minOrder :: int
  c_maxOrder :: int
  c_payWindowSecs :: int
  c_confirmWindowSecs :: int
  c_disputeWindowSecs :: int
  c_paused :: bool
  c_requireProof :: bool
  c_autoRefund :: bool
  c_dailyLimitByTier :: "(string \<times> rat) list option"
  c_postSettleDisputeWindowSecs :: int
  c_updatedAt :: ms

record price_cache =
  p_fiat :: string
  p_source :: string
  p_pricePerUsdc :: string
  p_fetchedAt :: ms

text \<open>The JSON payload of a queued message, by the kinds that are queued.\<close>

datatype outbox_payload =
    EmailPayload (ep_personId: "string option") (ep_lpId: "string option") (ep_subject: string) (ep_text: string)
  | AlertPayload (ap_text: string) (ap_at: string)

record outbox_message =
  x_id :: string
  x_kind :: string
  x_payload :: outbox_payload
  x_dedupeKey :: "string option"
  x_status :: outbox_status
  x_attempts :: int
  x_lastError :: "string option"
  x_createdAt :: ms
  x_sentAt :: "ms option"
  x_nextAttemptAt :: ms

record notification =
  n_id :: string
  n_address :: address
  n_orderId :: "string option"
  n_event :: string
  n_title :: string
  n_body :: string
  n_read :: bool
  n_createdAt :: ms

record person =
  person_id :: string
  person_email :: "string option"

record wallet_link =
  w_stellarAddress :: address
  w_personId :: string
  w_authMethod :: auth_method
  w_status :: link_status
  w_provenAt :: ms

record link_challenge =
  k_nonce :: string
  k_personId :: string
  k_stellarAddress :: address
  k_expiresAt :: ms
  k_consumedAt :: "ms option"

record consumed_challenge =
  cc_nonce :: string
  cc_expiresAt :: ms

record indexed_event =
  e_id :: string
  e_createdAt :: ms

record kyc_row =
  v_customerRef :: string
  v_personId :: string
  v_status :: kyc_status
  v_providerRef :: "string option"
  v_rejectionReason :: "string option"
  v_environment :: "string option"
  v_verificationUrl :: "string option"
  v_deliveredAt :: "ms option"
  v_screenedAt :: "ms option"
  v_verifiedAt :: "ms option"
  v_updatedAt :: ms

record user_profile =
  u_address :: address
  u_disputesLost :: int

text \<open>The payload of an audit row: the columns the audited writer recorded.\<close>

record dispute_columns =
  h_disputeBy :: "disputer option"
  h_disputeReason :: "string option"
  h_disputeNote :: "string option"
  h_disputeEvidenceUrl :: "string option"
  h_disputeAt :: "ms option"
  h_onChainDisputedBy :: "address option"

datatype evidence = AdminNote string | SignedReceipt (sr_message: string) (sr_signature: string) (sr_receivedAt: ms)

datatype audit_payload =
    NoPayload
  | DisputePayload dispute_columns
  | RegisteredPayload lp_status address
  | StandingPayload lp_status "string option" "string list option"
  | ConfigPayload "config option"
  | MarketPayload "market option"
  | TradePayload order_status string string
  | AttestPayload evidence string "string option" "string option"
  | ReceiptPayload evidence

record audit =
  a_actorAddress :: string
  a_action :: string
  a_targetType :: string
  a_targetId :: "string option"
  a_before :: audit_payload
  a_after :: audit_payload

record alert_state =
  as_key :: string
  as_fingerprint :: string
  as_firstSeenAt :: ms
  as_lastSentAt :: ms
  as_sendCount :: int

record sep24_transaction =
  tx_id :: string
  tx_personId :: string
  tx_stellarAccount :: string
  tx_assetCode :: string
  tx_flow :: flow
  tx_orderId :: "string option"
  tx_startedAt :: ms

record realtime_event =
  r_orderId :: string
  r_status :: string
  r_flow :: flow
  r_userAddress :: address
  r_lpWallet :: "address option"

section \<open>The database\<close>

record db =
  db_orders :: "order list"
  db_quotes :: "quote list"
  db_lps :: "lp list"
  db_markets :: "market list"
  db_config :: "config option"
  db_prices :: "price_cache list"
  db_outbox :: "outbox_message list"
  db_notifications :: "notification list"
  db_persons :: "person list"
  db_links :: "wallet_link list"
  db_challenges :: "link_challenge list"
  db_consumed :: "consumed_challenge list"
  db_events :: "indexed_event list"
  db_kyc :: "kyc_row list"
  db_profiles :: "user_profile list"
  db_audits :: "audit list"
  db_cursor :: "string option"
  db_alerts :: "alert_state list"
  db_sep24 :: "sep24_transaction list"
  db_emitted :: "realtime_event list" \<comment> \<open>what was pushed to connected clients, in order\<close>

abbreviation upd_orders :: "(order list \<Rightarrow> order list) \<Rightarrow> db \<Rightarrow> db" where
  "upd_orders f d \<equiv> d\<lparr>db_orders := f (db_orders d)\<rparr>"

definition find_order :: "db \<Rightarrow> string \<Rightarrow> order option" where
  "find_order d i = find_row o_id i (db_orders d)"

definition find_lp :: "db \<Rightarrow> string \<Rightarrow> lp option" where
  "find_lp d i = find_row lp_id i (db_lps d)"

text \<open>The \<open>lp\<close> relation of an order (\<open>include: { lp: true }\<close>).\<close>

definition order_lp :: "db \<Rightarrow> order \<Rightarrow> lp option" where
  "order_lp d x = Option.bind (o_lpId x) (find_lp d)"

section \<open>Truthiness of optional columns\<close>

fun truthy_str :: "string option \<Rightarrow> bool" where
  "truthy_str None = False"
| "truthy_str (Some s) = (s \<noteq> [])"

fun truthy_int :: "int option \<Rightarrow> bool" where
  "truthy_int None = False"
| "truthy_int (Some n) = (n \<noteq> 0)"

section \<open>Constraints\<close>

definition settled_status :: "order_status \<Rightarrow> bool" where
  "settled_status s = (s = RELEASED \<or> s = REFUNDED)"

definition order_ok :: "order \<Rightarrow> bool" where
  "order_ok x = ((settled_status (o_status x) \<longrightarrow> o_settledStatus x \<noteq> None) \<and>
                 (o_userClaimedPaidAt x \<noteq> None \<longrightarrow> o_flow x = TOP_UP))"

definition orders_ok :: "db \<Rightarrow> bool" where
  "orders_ok d = (distinct (map o_id (db_orders d)) \<and> list_all order_ok (db_orders d))"

lemma find_order_Some: "find_order d i = Some x \<Longrightarrow> x \<in> set (db_orders d) \<and> o_id x = i"
  unfolding find_order_def by (rule find_row_Some)

lemma find_order_frame: "db_orders d' = db_orders d \<Longrightarrow> find_order d' i = find_order d i"
  by (simp add: find_order_def)

section \<open>Writers of the order table\<close>

text \<open>
  What every writer of the order table promises: it removes no order, keeps the identifying columns
  of each and keeps the constraints.  The interface is stated once; its clients compose writers in
  sequence and over a list of inputs.
\<close>

definition order_key :: "order \<Rightarrow> string \<times> string \<times> flow \<times> address \<times> int" where
  "order_key x = (o_id x, o_tradeId x, o_flow x, o_userAddress x, o_usdcAmount x)"

text \<open>What no write takes from an order: the columns that identify it, a settlement once recorded, and the depositor's claim of having paid.\<close>

definition row_kept :: "order \<Rightarrow> order \<Rightarrow> bool" where
  "row_kept x y =
     (order_key y = order_key x \<and> (o_settledStatus x \<noteq> None \<longrightarrow> o_settledStatus y \<noteq> None) \<and>
      (o_userClaimedPaidAt x \<noteq> None \<longrightarrow> o_userClaimedPaidAt y = o_userClaimedPaidAt x))"

lemma row_kept_refl [simp]: "row_kept x x"
  by (simp add: row_kept_def)

lemma row_kept_trans: "row_kept x y \<Longrightarrow> row_kept y z \<Longrightarrow> row_kept x z"
  by (simp add: row_kept_def)

lemma row_kept_key: "row_kept x y \<Longrightarrow> order_key y = order_key x"
  by (simp add: row_kept_def)

definition same_orders :: "db \<Rightarrow> db \<Rightarrow> bool" where
  "same_orders d d' = list_all2 row_kept (db_orders d) (db_orders d')"

lemma same_orders_refl [simp]: "same_orders d d"
  by (simp add: same_orders_def list_all2_refl)

lemma same_orders_trans: "same_orders d d' \<Longrightarrow> same_orders d' d'' \<Longrightarrow> same_orders d d''"
  unfolding same_orders_def using list_all2_trans [of row_kept row_kept row_kept] row_kept_trans by blast

lemma same_orders_frame: "db_orders d' = db_orders d \<Longrightarrow> same_orders d d'"
  by (simp add: same_orders_def list_all2_refl)

lemma same_orders_ids: "same_orders d d' \<Longrightarrow> map o_id (db_orders d) = map o_id (db_orders d')"
  unfolding same_orders_def list_all2_conv_all_nth by (auto intro!: nth_equalityI simp: row_kept_def order_key_def)

locale order_writer =
  fixes run :: "'a \<Rightarrow> db \<Rightarrow> db"
  assumes run_same: "same_orders d (run a d)"
    and run_ok: "orders_ok d \<Longrightarrow> orders_ok (run a d)"
begin

lemma fold_same: "same_orders d (fold run xs d)"
proof (induction xs arbitrary: d)
  case (Cons a xs)
  then show ?case using same_orders_trans [OF run_same [of d a]] by simp
qed simp

lemma fold_ok: "orders_ok d \<Longrightarrow> orders_ok (fold run xs d)"
  using run_ok by (induction xs arbitrary: d) auto

end

text \<open>The general case: an \<open>updateMany\<close> of the order table.\<close>

lemma orders_ok_update:
  assumes "orders_ok d" "\<And>x. p x \<Longrightarrow> o_id (f x :: order) = o_id x"
    and "\<And>x. x \<in> set (db_orders d) \<Longrightarrow> p x \<Longrightarrow> order_ok x \<Longrightarrow> order_ok (f x)"
  shows "orders_ok (upd_orders (update_many p f) d)"
proof -
  have "map o_id (update_many p f (db_orders d)) = map o_id (db_orders d)"
    using assms(2) by (simp add: update_many_def)
  moreover have "list_all order_ok (update_many p f (db_orders d))"
    using assms(1,3) by (intro list_all_update_many) (auto simp: orders_ok_def)
  ultimately show ?thesis using assms(1) by (simp add: orders_ok_def)
qed

lemma same_orders_update:
  assumes "\<And>x. p x \<Longrightarrow> row_kept x (f x)"
  shows "same_orders d (upd_orders (update_many p f) d)"
  using assms by (simp add: same_orders_def update_many_def list_all2_conv_all_nth)

lemma orders_ok_frame: "db_orders d' = db_orders d \<Longrightarrow> orders_ok d' = orders_ok d"
  by (simp add: orders_ok_def)

section \<open>Steps of the order table\<close>

text \<open>One step of a writer: no order is removed or changes identity, and the constraints are kept.  Steps
  compose, so a handler that writes several times is one step.\<close>

definition order_step :: "db \<Rightarrow> db \<Rightarrow> bool" where
  "order_step d d' = (same_orders d d' \<and> (orders_ok d \<longrightarrow> orders_ok d'))"

lemma order_step_refl [simp]: "order_step d d"
  by (simp add: order_step_def)

lemma order_step_trans: "order_step d d' \<Longrightarrow> order_step d' d'' \<Longrightarrow> order_step d d''"
  using same_orders_trans by (auto simp: order_step_def)

lemma order_step_frame: "db_orders d' = db_orders d \<Longrightarrow> order_step d d'"
  using same_orders_frame [of d' d] orders_ok_frame [of d' d] by (simp add: order_step_def)

lemma order_step_update:
  assumes "\<And>x. p x \<Longrightarrow> row_kept x (f x)" "\<And>x. p x \<Longrightarrow> order_ok x \<Longrightarrow> order_ok (f x)"
  shows "order_step d (upd_orders (update_many p f) d)"
  unfolding order_step_def
proof (intro conjI impI)
  show "same_orders d (upd_orders (update_many p f) d)" using assms(1) by (rule same_orders_update)
  assume ok: "orders_ok d"
  have "o_id (f x) = o_id x" if "p x" for x using row_kept_key [OF assms(1) [OF that]] by (simp add: order_key_def)
  then show "orders_ok (upd_orders (update_many p f) d)" using ok assms(2) by (intro orders_ok_update) auto
qed

lemma order_writerI: "(\<And>a d. order_step d (run a d)) \<Longrightarrow> order_writer run"
  by unfold_locales (auto simp: order_step_def)

end
