(* ===== verification/ContractLimits.thy ===== *)
theory ContractLimits
  imports Schema
begin

text \<open>
  \<open>src/services/coordinator/src/config/contract-limits.ts\<close> and
  \<open>rate-guard.ts\<close>: the bounds the escrow contract puts on a trade's windows, the cooldown
  the staking contract has to run for a bond to stay reachable, and the two guards on the spread;
  with \<open>computeWindows\<close> of \<open>order/order.service.ts\<close>, which turns the windows
  into the deadlines of one order.
\<close>

definition MIN_PAY_WINDOW_SECS :: int where "MIN_PAY_WINDOW_SECS = 600"
definition MIN_USABLE_PAY_WINDOW_SECS :: int where
  "MIN_USABLE_PAY_WINDOW_SECS = MIN_PAY_WINDOW_SECS * 2"
definition signingDeadlineSecs :: "int \<Rightarrow> int" where
  "signingDeadlineSecs payDeadline = payDeadline - MIN_PAY_WINDOW_SECS"
definition SIGNING_SUBMIT_MARGIN_SECS :: int where "SIGNING_SUBMIT_MARGIN_SECS = 60"
definition signingCutoffSecs :: "int \<Rightarrow> int" where
  "signingCutoffSecs payDeadline = signingDeadlineSecs payDeadline - SIGNING_SUBMIT_MARGIN_SECS"
definition MAX_PAY_WINDOW_SECS :: int where "MAX_PAY_WINDOW_SECS = 86400"
definition MAX_TOTAL_WINDOW_SECS :: int where "MAX_TOTAL_WINDOW_SECS = 2592000"
definition MAX_DISPUTE_WINDOW_SECS :: int where "MAX_DISPUTE_WINDOW_SECS = 86400"
definition RESOLVER_WINDOW_SECS :: int where "RESOLVER_WINDOW_SECS = 86400"
definition POST_VERDICT_GRACE_SECS :: int where "POST_VERDICT_GRACE_SECS = RESOLVER_WINDOW_SECS"
definition SLASH_CEILING_PAST_POST_SETTLE_SECS :: int where
  "SLASH_CEILING_PAST_POST_SETTLE_SECS = 2 * RESOLVER_WINDOW_SECS + POST_VERDICT_GRACE_SECS"
definition LONGEST_TAIL_PAST_SETTLEMENT_SECS :: int where
  "LONGEST_TAIL_PAST_SETTLEMENT_SECS = MAX_DISPUTE_WINDOW_SECS + SLASH_CEILING_PAST_POST_SETTLE_SECS"

lemmas limit_defs = MIN_PAY_WINDOW_SECS_def MIN_USABLE_PAY_WINDOW_SECS_def signingDeadlineSecs_def
  SIGNING_SUBMIT_MARGIN_SECS_def signingCutoffSecs_def MAX_PAY_WINDOW_SECS_def
  MAX_TOTAL_WINDOW_SECS_def MAX_DISPUTE_WINDOW_SECS_def RESOLVER_WINDOW_SECS_def
  POST_VERDICT_GRACE_SECS_def SLASH_CEILING_PAST_POST_SETTLE_SECS_def
  LONGEST_TAIL_PAST_SETTLEMENT_SECS_def

definition cooldownFloorSecs :: "int \<Rightarrow> int \<Rightarrow> int" where
  "cooldownFloorSecs payWindowSecs confirmWindowSecs =
     payWindowSecs + confirmWindowSecs + LONGEST_TAIL_PAST_SETTLEMENT_SECS + 1"

text \<open>The refusals of \<open>windowsFitTheContract\<close>, one per sentence, with the numbers it
  quotes; None is its \<open>null\<close>.\<close>

datatype window_refusal =
    PayWindowTooShort
  | PayWindowTooLong
  | TotalTooLong int
  | CooldownTooShort int int

definition windowsFitTheContract :: "int \<Rightarrow> int \<Rightarrow> int \<Rightarrow> int option \<Rightarrow> window_refusal option" where
  "windowsFitTheContract payWindowSecs confirmWindowSecs disputeWindowSecs deployedCooldownSecs =
     (if payWindowSecs < MIN_USABLE_PAY_WINDOW_SECS then Some PayWindowTooShort
      else if payWindowSecs > MAX_PAY_WINDOW_SECS then Some PayWindowTooLong
      else let total = payWindowSecs + confirmWindowSecs + disputeWindowSecs
           in if total > MAX_TOTAL_WINDOW_SECS then Some (TotalTooLong total)
              else case deployedCooldownSecs of
                     None \<Rightarrow> None
                   | Some cooldown \<Rightarrow>
                       let fl = cooldownFloorSecs payWindowSecs confirmWindowSecs
                       in if cooldown < fl then Some (CooldownTooShort fl cooldown) else None)"

text \<open>\<open>rate-guard.ts\<close>: True is \<open>null\<close>, the setting is accepted.\<close>

definition spreadCoversPriceDeviation :: "int \<Rightarrow> int \<Rightarrow> bool" where
  "spreadCoversPriceDeviation spreadBps priceDeviationMaxBps = (priceDeviationMaxBps < spreadBps)"

definition platformFeeFitsSpread :: "int \<Rightarrow> int \<Rightarrow> int \<Rightarrow> bool" where
  "platformFeeFitsSpread platformFeeBps spreadBps priceDeviationMaxBps =
     (\<not> (platformFeeBps + priceDeviationMaxBps \<ge> spreadBps))"

record windows =
  payDeadline :: secs
  confirmDeadline :: secs
  disputeDeadline :: secs
  expiresAt :: ms

definition computeWindows :: "config \<Rightarrow> ms \<Rightarrow> windows" where
  "computeWindows conf now_ms =
     (let now = now_ms div 1000;
          pay = now + c_payWindowSecs conf;
          confirm = pay + c_confirmWindowSecs conf;
          dispute = confirm + c_disputeWindowSecs conf
      in \<lparr>payDeadline = pay, confirmDeadline = confirm, disputeDeadline = dispute,
          expiresAt = signingDeadlineSecs pay * 1000\<rparr>)"

text \<open>
  The deadline checks of \<open>create_trade\<close> in \<open>src/contracts/escrow/src/lib.rs\<close>
  at the ledger time \<open>t\<close>, which the coordinator's guard is written against.
\<close>

definition escrow_deadlines_ok :: "secs \<Rightarrow> windows \<Rightarrow> bool" where
  "escrow_deadlines_ok t w =
     (if \<not> (t < payDeadline w \<and> payDeadline w < confirmDeadline w \<and> confirmDeadline w < disputeDeadline w)
      then False
      else if payDeadline w < t + MIN_PAY_WINDOW_SECS then False
      else if payDeadline w > t + MAX_PAY_WINDOW_SECS \<or> disputeDeadline w > t + MAX_TOTAL_WINDOW_SECS then False
      else True)"

text \<open>When the configured windows pass the guard,
  an order made from them can be signed at least nine minutes after it was opened, and every
  \<open>create_trade\<close> that lands from its opening up to its signing deadline meets the escrow's
  deadline bounds; the deadlines come in order.\<close>

theorem accepted_windows_meet_the_contract:
  assumes "windowsFitTheContract (c_payWindowSecs conf) (c_confirmWindowSecs conf)
             (c_disputeWindowSecs conf) cooldown = None"
    and "0 < c_confirmWindowSecs conf" "0 < c_disputeWindowSecs conf"
    and "w = computeWindows conf now_ms"
    and "now_ms div 1000 \<le> t" "t * 1000 \<le> expiresAt w"
  shows "escrow_deadlines_ok t w \<and> now_ms div 1000 + 540 \<le> signingCutoffSecs (payDeadline w)
         \<and> signingCutoffSecs (payDeadline w) * 1000 < expiresAt w"
  using assms
  by (auto simp: windowsFitTheContract_def computeWindows_def escrow_deadlines_ok_def limit_defs
      Let_def split: if_splits)

definition demo_config :: config where
  "demo_config = \<lparr>c_spreadBps = 150, c_platformFeeBps = 30, c_lpFeeBps = 120, c_platformWallet = ''GP'',
     c_minOrder = 50000000, c_maxOrder = 10000000000, c_payWindowSecs = 1800,
     c_confirmWindowSecs = 1800, c_disputeWindowSecs = 7200, c_paused = False, c_requireProof = True,
     c_autoRefund = True, c_dailyLimitByTier = None, c_postSettleDisputeWindowSecs = 3600, c_updatedAt = 0\<rparr>"

lemma demo_config_simps [simp]:
  "\<not> c_paused demo_config" "c_minOrder demo_config = 50000000" "c_maxOrder demo_config = 10000000000" "c_spreadBps demo_config = 150"
  "c_dailyLimitByTier demo_config = None" "c_requireProof demo_config" "c_autoRefund demo_config"
  by (simp_all add: demo_config_def)

theorem accepted_windows_meet_the_contract_witness:
  "escrow_deadlines_ok 1700000100 (computeWindows demo_config 1700000000500)"
proof -
  have "windowsFitTheContract (c_payWindowSecs demo_config) (c_confirmWindowSecs demo_config)
          (c_disputeWindowSecs demo_config) (Some 349201) = None"
    by (simp add: windowsFitTheContract_def demo_config_def cooldownFloorSecs_def limit_defs)
  from accepted_windows_meet_the_contract [OF this, of "computeWindows demo_config 1700000000500" 1700000000500 1700000100]
  show ?thesis by (simp add: computeWindows_def demo_config_def limit_defs)
qed

text \<open>While the guard accepts the deployed cooldown, a provider who asks to
  unstake at the moment a trade is opened still has the bond locked at the last second at which that
  trade can be slashed: settled at its confirm deadline, disputed at the end of the longest
  post-settlement window and decided at the slash ceiling.\<close>

theorem cooldown_outlasts_every_claim:
  assumes "windowsFitTheContract pay confirm dispute (Some cooldown) = None"
    and "opened \<le> unstakedAt" "settledAt \<le> opened + pay + confirm"
    and "postSettleDeadline \<le> settledAt + MAX_DISPUTE_WINDOW_SECS"
    and "slashDeadline \<le> postSettleDeadline + SLASH_CEILING_PAST_POST_SETTLE_SECS"
  shows "slashDeadline < unstakedAt + cooldown"
  using assms
  by (auto simp: windowsFitTheContract_def cooldownFloorSecs_def limit_defs Let_def split: if_splits)

theorem cooldown_outlasts_every_claim_witness:
  "(349199::int) < 0 + 349201"
proof -
  have "windowsFitTheContract 1800 1800 7200 (Some 349201) = None"
    by (simp add: windowsFitTheContract_def cooldownFloorSecs_def limit_defs)
  from cooldown_outlasts_every_claim [OF this, of 0 0 3600 90000 349199] show ?thesis
    by (simp add: limit_defs)
qed

text \<open>The two spread guards together: a fee that fits leaves the deviation band inside the spread.\<close>

lemma fee_guard_implies_deviation_guard:
  "0 \<le> fee \<Longrightarrow> platformFeeFitsSpread fee spread dev \<Longrightarrow> spreadCoversPriceDeviation spread dev"
  by (simp add: platformFeeFitsSpread_def spreadCoversPriceDeviation_def)

end
