(* ===== verification/JsNumber.thy ===== *)
theory JsNumber
  imports Prelude
begin

text \<open>
  The numbers of the language: IEEE 754 binary64 with round to nearest, ties to even, as the
  price code uses them (\<open>parseFloat\<close>, \<open>Number\<close>, \<open>Math.round\<close>,
  \<open>Math.abs\<close>, \<open>-\<close>, \<open>*\<close>, \<open>/\<close> and the comparisons).
  A finite double is its exact rational value; the two zeros are one value, because no code
  modelled here tells them apart.  The main lemma bounds the relative error of one rounding by
  \<open>1/2^53\<close> in the normal range.
\<close>

datatype jsnum = NaN | Infinity bool \<comment> \<open>True: negative\<close> | Fin rat

section \<open>Rounding a rational to a double\<close>

function scale_up :: "rat \<Rightarrow> int \<Rightarrow> rat \<times> int" where
  "scale_up x e = (if x < 2 ^ 52 \<and> - 1074 < e then scale_up (2 * x) (e - 1) else (x, e))"
  by pat_completeness auto
termination
  by (relation "measure (\<lambda>(x, e). nat (e + 1074))") auto

function scale_down :: "rat \<Rightarrow> int \<Rightarrow> rat \<times> int" where
  "scale_down x e = (if 2 ^ 53 \<le> x then scale_down (x / 2) (e + 1) else (x, e))"
  by pat_completeness auto
termination
proof (relation "measure (\<lambda>(x, e). nat \<lfloor>x\<rfloor>)")
  fix x :: rat and e :: int
  assume "2 ^ 53 \<le> x"
  then have big: "2 \<le> x" by (rule order_trans [rotated]) simp
  have "of_int \<lfloor>x / 2\<rfloor> \<le> x / 2" by (rule of_int_floor_le)
  also have "x / 2 \<le> x - 1" using big by simp
  also have "x - 1 < of_int \<lfloor>x\<rfloor>" by linarith
  finally have "\<lfloor>x / 2\<rfloor> < \<lfloor>x\<rfloor>" by simp
  moreover have "0 < \<lfloor>x\<rfloor>" using big by linarith
  ultimately show "((x / 2, e + 1), (x, e)) \<in> measure (\<lambda>(x, e). nat \<lfloor>x\<rfloor>)"
    by (simp only: in_measure case_prod_conv nat_less_eq_zless nat_mono_iff)
qed simp

declare scale_up.simps [simp del] scale_down.simps [simp del]

definition pow2 :: "int \<Rightarrow> rat" where
  "pow2 e = (if 0 \<le> e then 2 ^ nat e else 1 / 2 ^ nat (- e))"

definition normalise :: "rat \<Rightarrow> rat \<times> int" where
  "normalise x = (let (m, e) = scale_up x 0 in scale_down m e)"

definition round_half_even :: "rat \<Rightarrow> int" where
  "round_half_even x =
     (let f = \<lfloor>x\<rfloor>; d = x - of_int f
      in if d < 1 / 2 then f else if 1 / 2 < d then f + 1 else if even f then f else f + 1)"

definition round_magnitude :: "rat \<Rightarrow> rat" where
  "round_magnitude x = (let (m, e) = normalise x in of_int (round_half_even m) * pow2 e)"

definition to_double :: "rat \<Rightarrow> jsnum" where
  "to_double x =
     (if x = 0 then Fin 0
      else let r = round_magnitude \<bar>x\<bar>
           in if 2 ^ 1024 \<le> r then Infinity (x < 0) else Fin (sgn x * r))"

section \<open>Operators\<close>

fun js_neg :: "jsnum \<Rightarrow> jsnum" where
  "js_neg NaN = NaN"
| "js_neg (Infinity s) = Infinity (\<not> s)"
| "js_neg (Fin x) = Fin (- x)"

fun js_add :: "jsnum \<Rightarrow> jsnum \<Rightarrow> jsnum" where
  "js_add (Fin x) (Fin y) = to_double (x + y)"
| "js_add (Infinity s) (Fin _) = Infinity s"
| "js_add (Fin _) (Infinity s) = Infinity s"
| "js_add (Infinity s) (Infinity t) = (if s = t then Infinity s else NaN)"
| "js_add _ _ = NaN"

definition js_sub :: "jsnum \<Rightarrow> jsnum \<Rightarrow> jsnum" where
  "js_sub a b = js_add a (js_neg b)"

fun js_mul :: "jsnum \<Rightarrow> jsnum \<Rightarrow> jsnum" where
  "js_mul (Fin x) (Fin y) = to_double (x * y)"
| "js_mul (Infinity s) (Fin y) = (if y = 0 then NaN else Infinity (s \<noteq> (y < 0)))"
| "js_mul (Fin x) (Infinity s) = (if x = 0 then NaN else Infinity (s \<noteq> (x < 0)))"
| "js_mul (Infinity s) (Infinity t) = Infinity (s \<noteq> t)"
| "js_mul _ _ = NaN"

fun js_div :: "jsnum \<Rightarrow> jsnum \<Rightarrow> jsnum" where
  "js_div (Fin x) (Fin y) =
     (if y = 0 then (if x = 0 then NaN else Infinity (x < 0)) else to_double (x / y))"
| "js_div (Infinity s) (Fin y) = Infinity (s \<noteq> (y < 0))"
| "js_div (Fin _) (Infinity _) = Fin 0"
| "js_div _ _ = NaN"

fun js_abs :: "jsnum \<Rightarrow> jsnum" where
  "js_abs (Fin x) = Fin \<bar>x\<bar>"
| "js_abs (Infinity _) = Infinity False"
| "js_abs NaN = NaN"

fun js_less :: "jsnum \<Rightarrow> jsnum \<Rightarrow> bool" where
  "js_less (Fin x) (Fin y) = (x < y)"
| "js_less (Fin _) (Infinity s) = (\<not> s)"
| "js_less (Infinity s) (Fin _) = s"
| "js_less (Infinity s) (Infinity t) = (s \<and> \<not> t)"
| "js_less _ _ = False"

fun js_le :: "jsnum \<Rightarrow> jsnum \<Rightarrow> bool" where
  "js_le (Fin x) (Fin y) = (x \<le> y)"
| "js_le (Fin _) (Infinity s) = (\<not> s)"
| "js_le (Infinity s) (Fin _) = s"
| "js_le (Infinity s) (Infinity t) = (s \<or> \<not> t)"
| "js_le _ _ = False"

fun is_finite :: "jsnum \<Rightarrow> bool" where
  "is_finite (Fin _) = True"
| "is_finite _ = False"

text \<open>\<open>Math.round\<close> rounds halves up; on a finite double its result is an integer.\<close>

definition math_round :: "rat \<Rightarrow> int" where
  "math_round x = \<lfloor>x + 1 / 2\<rfloor>"

section \<open>Reading numbers\<close>

definition is_space :: "char \<Rightarrow> bool" where
  "is_space c = ((of_char c :: nat) \<in> {9, 10, 11, 12, 13, 32})"

definition trim_start :: "string \<Rightarrow> string" where
  "trim_start = dropWhile is_space"

definition trim :: "string \<Rightarrow> string" where
  "trim s = rev (dropWhile is_space (rev (dropWhile is_space s)))"

definition take_digits :: "string \<Rightarrow> string \<times> string" where
  "take_digits s = (takeWhile is_digit s, dropWhile is_digit s)"

text \<open>The exponent part, when a well-formed one follows.\<close>

definition read_exponent :: "string \<Rightarrow> int \<times> string" where
  "read_exponent s =
     (case s of
        c # r \<Rightarrow>
          if c = CHR ''e'' \<or> c = CHR ''E''
          then (let (neg, r') = (case r of
                      d # t \<Rightarrow> if d = CHR ''-'' then (True, t)
                               else if d = CHR ''+'' then (False, t) else (False, r)
                    | [] \<Rightarrow> (False, r));
                    (ds, rest) = take_digits r'
                in if ds = [] then (0, s)
                   else ((if neg then - int (digits_val ds) else int (digits_val ds)), rest))
          else (0, s)
      | [] \<Rightarrow> (0, s))"

definition pow10 :: "int \<Rightarrow> rat" where
  "pow10 e = (if 0 \<le> e then 10 ^ nat e else 1 / 10 ^ nat (- e))"

text \<open>An unsigned decimal literal at the front of a string: its exact value and what follows.\<close>

definition read_decimal :: "string \<Rightarrow> (rat \<times> string) option" where
  "read_decimal s =
     (let (ip, r) = take_digits s;
          (fp, r', dot) = (case r of
              c # t \<Rightarrow> if c = CHR ''.'' then (let (f, t') = take_digits t in (f, t', True)) else ([], r, False)
            | [] \<Rightarrow> ([], r, False))
      in if ip = [] \<and> fp = [] then None
         else let (e, rest) = read_exponent r'
              in Some (of_nat (digits_val (ip @ fp)) * pow10 (e - int (length fp)), rest))"

definition read_sign :: "string \<Rightarrow> bool \<times> string" where
  "read_sign s =
     (case s of c # r \<Rightarrow> if c = CHR ''-'' then (True, r) else if c = CHR ''+'' then (False, r) else (False, s)
              | [] \<Rightarrow> (False, s))"

definition signed_num :: "bool \<Rightarrow> rat \<Rightarrow> jsnum" where
  "signed_num neg x = to_double (if neg then - x else x)"

text \<open>\<open>parseFloat\<close> reads the longest decimal prefix; \<open>Number\<close> wants all of it.\<close>

definition parse_float :: "string \<Rightarrow> jsnum" where
  "parse_float s =
     (let (neg, r) = read_sign (trim_start s)
      in if take 8 r = ''Infinity'' then Infinity neg
         else case read_decimal r of None \<Rightarrow> NaN | Some (x, _) \<Rightarrow> signed_num neg x)"

text \<open>\<open>Number\<close> also reads \<open>0x\<close>, \<open>0o\<close> and \<open>0b\<close> literals, unsigned.\<close>

definition radix_of :: "string \<Rightarrow> nat option" where
  "radix_of s =
     (if take 1 s \<noteq> ''0'' then None
      else if take 1 (drop 1 s) \<in> {''x'', ''X''} then Some 16
      else if take 1 (drop 1 s) \<in> {''o'', ''O''} then Some 8
      else if take 1 (drop 1 s) \<in> {''b'', ''B''} then Some 2
      else None)"

definition radix_digit :: "char \<Rightarrow> nat" where
  "radix_digit c =
     (let n = of_char c in
      if is_digit c then digit_val c else if 97 \<le> n \<and> n \<le> 102 then n - 87 else if 65 \<le> n \<and> n \<le> 70 then n - 55 else 16)"

definition read_radix :: "nat \<Rightarrow> string \<Rightarrow> jsnum" where
  "read_radix b ds =
     (if ds = [] \<or> list_ex (\<lambda>c. b \<le> radix_digit c) ds then NaN
      else to_double (of_nat (foldl (\<lambda>n c. n * b + radix_digit c) 0 ds)))"

definition to_number :: "string \<Rightarrow> jsnum" where
  "to_number s =
     (let t = trim s; (neg, r) = read_sign t
      in if t = [] then Fin 0
         else case radix_of t of
           Some b \<Rightarrow> read_radix b (drop 2 t)
         | None \<Rightarrow>
             if r = ''Infinity'' then Infinity neg
             else case read_decimal r of
                    Some (x, rest) \<Rightarrow> if rest = [] then signed_num neg x else NaN
                  | None \<Rightarrow> NaN)"

section \<open>The error of one rounding\<close>

lemma pow2_pos [simp]: "0 < pow2 e"
  by (simp add: pow2_def)

lemma pow2_succ: "pow2 (e + 1) = 2 * pow2 e"
proof (cases "0 \<le> e")
  case True
  then show ?thesis by (simp add: pow2_def nat_add_distrib)
next
  case False
  show ?thesis
  proof (cases "e = -1")
    case True
    then show ?thesis by (simp add: pow2_def)
  next
    case other: False
    have "nat (- e) = Suc (nat (- (e + 1)))" using False other by simp
    then show ?thesis using False other by (simp add: pow2_def)
  qed
qed

lemma scale_up_value: "fst (scale_up x e) * pow2 (snd (scale_up x e)) = x * pow2 e"
proof (induction x e rule: scale_up.induct)
  case (1 x e)
  show ?case
  proof (cases "x < 2 ^ 52 \<and> - 1074 < e")
    case True
    then show ?thesis
      using "1.IH" pow2_succ [of "e - 1"] by (simp add: scale_up.simps [of x e])
  next
    case False
    then show ?thesis by (subst (1 2) scale_up.simps) auto
  qed
qed

lemma scale_up_normal:
  "0 < x \<Longrightarrow> - 1074 \<le> e \<Longrightarrow> 2 ^ 52 * pow2 (- 1074) \<le> x * pow2 e \<Longrightarrow> 2 ^ 52 \<le> fst (scale_up x e)"
proof (induction x e rule: scale_up.induct)
  case (1 x e)
  show ?case
  proof (cases "x < 2 ^ 52 \<and> - 1074 < e")
    case True
    then show ?thesis
      using "1.IH" "1.prems" pow2_succ [of "e - 1"] by (simp add: scale_up.simps [of x e])
  next
    case False
    have "2 ^ 52 \<le> x"
    proof (rule ccontr)
      assume "\<not> 2 ^ 52 \<le> x"
      with False "1.prems" have e: "e = -1074" by simp
      with "1.prems" have "2 ^ 52 * pow2 e \<le> x * pow2 e" by simp
      then have "2 ^ 52 \<le> x" using pow2_pos [of e] by (simp only: mult_le_cancel_right_pos)
      with \<open>\<not> 2 ^ 52 \<le> x\<close> show False ..
    qed
    then show ?thesis using False by (subst scale_up.simps) auto
  qed
qed

lemma scale_down_value: "fst (scale_down x e) * pow2 (snd (scale_down x e)) = x * pow2 e"
proof (induction x e rule: scale_down.induct)
  case (1 x e)
  show ?case
  proof (cases "2 ^ 53 \<le> x")
    case True
    then show ?thesis using "1.IH" pow2_succ [of e] by (simp add: scale_down.simps [of x e])
  next
    case False
    then show ?thesis by (simp add: scale_down.simps [of x e])
  qed
qed

lemma scale_down_normal: "2 ^ 52 \<le> x \<Longrightarrow> 2 ^ 52 \<le> fst (scale_down x e)"
proof (induction x e rule: scale_down.induct)
  case (1 x e)
  show ?case
  proof (cases "2 ^ 53 \<le> x")
    case True
    then show ?thesis using "1.IH" by (simp add: scale_down.simps [of x e])
  next
    case False
    then show ?thesis using "1.prems" by (simp add: scale_down.simps [of x e])
  qed
qed

lemma round_half_even_error: "\<bar>of_int (round_half_even x) - x\<bar> \<le> 1 / 2"
proof -
  have "0 \<le> x - of_int \<lfloor>x\<rfloor>" "x - of_int \<lfloor>x\<rfloor> < 1" by linarith+
  then show ?thesis by (auto simp: round_half_even_def Let_def)
qed

lemma normalise_eq:
  "normalise x = scale_down (fst (scale_up x 0)) (snd (scale_up x 0))"
  by (simp add: normalise_def case_prod_unfold Let_def)

lemma normalise_value:
  assumes "normalise x = (m, e)"
  shows "m * pow2 e = x"
proof -
  have "fst (normalise x) * pow2 (snd (normalise x)) = x * pow2 0"
    unfolding normalise_eq scale_down_value scale_up_value ..
  then show ?thesis using assms by (simp add: pow2_def)
qed

lemma normalise_normal:
  assumes "0 < x" "1 / 10 ^ 9 \<le> x" "normalise x = (m, e)"
  shows "2 ^ 52 \<le> m"
proof -
  have "2 ^ 52 * pow2 (- 1074) \<le> 1 / 10 ^ 9" by (simp add: pow2_def)
  with assms have "2 ^ 52 \<le> fst (scale_up x 0)"
    by (intro scale_up_normal) (auto simp: pow2_def)
  then have "2 ^ 52 \<le> fst (normalise x)"
    unfolding normalise_eq by (rule scale_down_normal)
  then show ?thesis using assms(3) by simp
qed

lemma round_magnitude_error:
  assumes "1 / 10 ^ 9 \<le> x"
  shows "\<bar>round_magnitude x - x\<bar> \<le> x / 2 ^ 53"
proof -
  have pos: "0 < x" using assms by (rule less_le_trans [rotated]) simp
  obtain m e where me: "normalise x = (m, e)" by (cases "normalise x")
  have x: "m * pow2 e = x" by (rule normalise_value [OF me])
  have m: "2 ^ 52 \<le> m" by (rule normalise_normal [OF pos assms me])
  have r: "round_magnitude x = of_int (round_half_even m) * pow2 e"
    using me by (simp add: round_magnitude_def)
  have "round_magnitude x - x = (of_int (round_half_even m) - m) * pow2 e"
    unfolding r left_diff_distrib x ..
  then have "\<bar>round_magnitude x - x\<bar> = \<bar>of_int (round_half_even m) - m\<bar> * pow2 e"
    by (simp add: abs_mult less_imp_le)
  also have "\<dots> \<le> 1 / 2 * pow2 e"
    by (intro mult_right_mono round_half_even_error) (simp add: less_imp_le)
  also have "\<dots> \<le> (m / 2 ^ 53) * pow2 e"
    using m by (intro mult_right_mono) (simp_all add: less_imp_le)
  also have "\<dots> = x / 2 ^ 53" using x by simp
  finally show ?thesis .
qed

lemma to_double_pos:
  assumes "1 / 10 ^ 9 \<le> x" "x \<le> 2 ^ 1000"
  obtains r where "to_double x = Fin r" "\<bar>r - x\<bar> \<le> x / 2 ^ 53"
proof -
  have pos: "0 < x" using assms(1) by (rule less_le_trans [rotated]) simp
  have err: "\<bar>round_magnitude x - x\<bar> \<le> x / 2 ^ 53" by (rule round_magnitude_error [OF assms(1)])
  have "x / 2 ^ 53 \<le> x" using pos by (simp add: field_simps)
  then have "round_magnitude x \<le> 2 * x" using err by linarith
  also have "\<dots> \<le> 2 ^ 1001" using assms(2) by simp
  also have "\<dots> < (2 ^ 1024 :: rat)" by (rule power_strict_increasing) simp_all
  finally have "round_magnitude x < 2 ^ 1024" .
  then have "to_double x = Fin (round_magnitude x)"
    using pos by (simp add: to_double_def Let_def)
  then show ?thesis using err by (rule that)
qed

section \<open>Safe integers are exact\<close>

lemma scale_up_int: "x \<in> \<int> \<Longrightarrow> fst (scale_up x e) \<in> \<int>"
proof (induction x e rule: scale_up.induct)
  case (1 x e)
  then show ?case by (cases "x < 2 ^ 52 \<and> - 1074 < e") (auto simp: scale_up.simps [of x e])
qed

lemma scale_up_bound: "x < 2 ^ 53 \<Longrightarrow> fst (scale_up x e) < 2 ^ 53"
proof (induction x e rule: scale_up.induct)
  case (1 x e)
  then show ?case by (cases "x < 2 ^ 52 \<and> - 1074 < e") (auto simp: scale_up.simps [of x e])
qed

lemma round_half_even_int: "x \<in> \<int> \<Longrightarrow> of_int (round_half_even x) = x"
  by (auto simp: round_half_even_def Let_def elim!: Ints_cases)

lemma round_magnitude_int:
  assumes "x \<in> \<int>" "x < 2 ^ 53"
  shows "round_magnitude x = x"
proof -
  have "normalise x = scale_up x 0"
    using scale_up_bound [OF assms(2), of 0] unfolding normalise_eq by (subst scale_down.simps) simp
  moreover have "fst (scale_up x 0) \<in> \<int>" by (rule scale_up_int [OF assms(1)])
  ultimately show ?thesis
    using scale_up_value [of x 0] round_half_even_int [of "fst (scale_up x 0)"]
    by (simp add: round_magnitude_def case_prod_unfold pow2_def)
qed

lemma to_double_int:
  assumes "\<bar>n\<bar> < 2 ^ 53"
  shows "to_double (of_int n) = Fin (of_int n)"
proof -
  have b: "\<bar>of_int n :: rat\<bar> < 2 ^ 53"
    using assms by (metis of_int_abs of_int_less_iff of_int_numeral of_int_power)
  then have r: "round_magnitude \<bar>of_int n\<bar> = \<bar>of_int n\<bar>" by (intro round_magnitude_int) simp_all
  have "(2::rat) ^ 53 \<le> 2 ^ 1024" by (intro power_increasing) simp_all
  then have "\<not> 2 ^ 1024 \<le> \<bar>of_int n :: rat\<bar>" using b by linarith
  then show ?thesis using r by (simp add: to_double_def Let_def sgn_mult_abs)
qed

lemma to_double_numeral:
  "(numeral k :: int) < 2 ^ 53 \<Longrightarrow> to_double (numeral k) = Fin (numeral k)"
  using to_double_int [of "numeral k"] by simp

text \<open>A number written by \<open>dec_nat\<close> is read back.\<close>

lemma digit_not_special: "is_digit c \<Longrightarrow> \<not> is_space c \<and> c \<noteq> CHR ''-'' \<and> c \<noteq> CHR ''+'' \<and> c \<notin> {CHR ''x'', CHR ''X'', CHR ''o'', CHR ''O'', CHR ''b'', CHR ''B'', CHR ''I''}"
  by (auto simp: is_digit_def is_space_def)

lemma to_number_digits:
  assumes "ds \<noteq> []" "\<forall>c\<in>set ds. is_digit c" "int (digits_val ds) < 2 ^ 53"
  shows "to_number ds = Fin (of_nat (digits_val ds))"
proof -
  obtain c r where c: "ds = c # r" "is_digit c" "\<forall>c\<in>set r. is_digit c" using assms(1,2) by (cases ds) auto
  have d: "dropWhile is_space t = t" if "\<forall>c\<in>set t. is_digit c" for t using that digit_not_special by (cases t) auto
  have t: "trim ds = ds" using d [of ds] d [of "rev ds"] assms(2) by (simp add: trim_def)
  have s: "read_sign ds = (False, ds)" using c digit_not_special [OF c(2)] by (simp add: read_sign_def)
  have x: "radix_of ds = None" using c digit_not_special by (cases r) (auto simp: radix_of_def)
  have e: "takeWhile is_digit ds = ds" "dropWhile is_digit ds = []" using assms(2) by (auto simp: takeWhile_eq_all_conv)
  have n: "to_double (of_nat (digits_val ds)) = Fin (of_nat (digits_val ds))"
    using to_double_int [of "int (digits_val ds)"] assms(3) by simp
  have "ds \<noteq> ''Infinity''" using c digit_not_special [OF c(2)] by auto
  then show ?thesis
    using n assms(1) by (simp add: to_number_def t s x e read_decimal_def take_digits_def read_exponent_def pow10_def signed_num_def)
qed

end
