(* ===== verification/Money.thy ===== *)
theory Money
  imports JsNumber
begin

text \<open>
  \<open>src/services/coordinator/src/money/money.ts\<close>: fees in basis points, the spread on
  a rate, the two directions of a quote and the rupiah amounts a user may type.  Amounts are
  \<open>bigint\<close>s (\<open>int\<close>), the rate is a string read by \<open>parseFloat\<close>.
\<close>

section \<open>Fees and base units\<close>

definition applyBps :: "int \<Rightarrow> int \<Rightarrow> int" where
  "applyBps amount bps = bigdiv (amount * bps) 10000"

definition USDC_BASE_UNITS :: int where
  "USDC_BASE_UNITS = 10000000"

definition baseUnitsToUsdc :: "int \<Rightarrow> jsnum" where
  "baseUnitsToUsdc base =
     (let whole = bigdiv base USDC_BASE_UNITS; frac = bigmod base USDC_BASE_UNITS
      in js_add (to_double (of_int whole)) (js_div (to_double (of_int frac)) (Fin 10000000)))"

definition baseUnitsToUsdcString :: "int \<Rightarrow> string" where
  "baseUnitsToUsdcString base =
     (let negative = base < 0;
          magnitude = (if negative then - base else base);
          whole = bigdiv magnitude USDC_BASE_UNITS;
          frac = bigmod magnitude USDC_BASE_UNITS
      in (if negative then ''-'' else []) @ dec_int whole @ ''.'' @ pad_start 7 (CHR ''0'') (dec_int frac))"

record fee_split =
  platformFee :: int
  lpFee :: int
  net :: int

definition splitFees :: "int \<Rightarrow> int \<Rightarrow> int \<Rightarrow> fee_split" where
  "splitFees usdc platformBps lpBps =
     (let pf = applyBps usdc platformBps; lf = applyBps usdc lpBps
      in \<lparr>platformFee = pf, lpFee = lf, net = usdc - pf - lf\<rparr>)"

section \<open>Rates\<close>

text \<open>
  The reading of a rate, shared by the three functions below: a finite positive
  \<open>parseFloat\<close>, scaled by a million and rounded.  \<open>BigInt\<close> of an infinite
  product throws a \<open>RangeError\<close> of its own.
\<close>

definition price_micro :: "string \<Rightarrow> string \<Rightarrow> int outcome" where
  "price_micro label s =
     (let parsed = parse_float s
      in if \<not> is_finite parsed \<or> js_le parsed (Fin 0)
         then Inl (RangeError (''Invalid '' @ label))
         else case js_mul parsed (Fin 1000000) of
                Fin x \<Rightarrow> Inr (math_round x)
              | _ \<Rightarrow> Inl (RangeError ''cannot be converted to a BigInt''))"

definition strip_zeros :: "string \<Rightarrow> string" where
  "strip_zeros s = rev (dropWhile (\<lambda>c. c = CHR ''0'') (rev s))"

definition print_micro :: "int \<Rightarrow> string" where
  "print_micro withSpread =
     (let whole = bigdiv withSpread 1000000; frac = bigmod withSpread 1000000
      in if frac = 0 then dec_int whole
         else dec_int whole @ ''.'' @ strip_zeros (pad_start 6 (CHR ''0'') (dec_int frac)))"

definition applySpreadToRate :: "string \<Rightarrow> int \<Rightarrow> string outcome" where
  "applySpreadToRate midPrice spreadBps =
     (case price_micro ''midPrice'' midPrice of
        Inl e \<Rightarrow> Inl e
      | Inr priceMicro \<Rightarrow> Inr (print_micro (priceMicro + bigdiv (priceMicro * spreadBps) 10000)))"

definition with_spread :: "int \<Rightarrow> int \<Rightarrow> bool \<Rightarrow> int" where
  "with_spread priceMicro spreadBps sell =
     (let spreadMicro = bigdiv (priceMicro * spreadBps) 10000
      in if sell then priceMicro - spreadMicro else priceMicro + spreadMicro)"

definition quoteFiat :: "int \<Rightarrow> string \<Rightarrow> int \<Rightarrow> bool \<Rightarrow> int outcome" where
  "quoteFiat usdcBaseUnits idrPerUsdc spreadBps sell =
     (case price_micro ''idrPerUsdc'' idrPerUsdc of
        Inl e \<Rightarrow> Inl e
      | Inr priceMicro \<Rightarrow>
          Inr (bigdiv (bigdiv (usdcBaseUnits * with_spread priceMicro spreadBps sell) 10000000) 1000000))"

definition quoteUsdcForFiat :: "int \<Rightarrow> string \<Rightarrow> int \<Rightarrow> bool \<Rightarrow> int outcome" where
  "quoteUsdcForFiat fiatAmount idrPerUsdc spreadBps sell =
     (case price_micro ''idrPerUsdc'' idrPerUsdc of
        Inl e \<Rightarrow> Inl e
      | Inr priceMicro \<Rightarrow>
          if fiatAmount \<le> 0 then Inl (RangeError ''fiatAmount must be positive'')
          else let w = with_spread priceMicro spreadBps sell
               in if w \<le> 0 then Inl (RangeError ''spread too large'')
                  else let numerator = fiatAmount * 10000000 * 1000000
                       in Inr (bigdiv (numerator + w - 1) w))"

section \<open>Rupiah amounts as typed\<close>

definition all_digits :: "string \<Rightarrow> bool" where
  "all_digits s = (s \<noteq> [] \<and> list_all is_digit s)"

text \<open>One or more groups of a dot and three digits, up to the end.\<close>

fun dot_groups :: "string \<Rightarrow> bool" where
  "dot_groups (d # a # b # c # r) =
     (d = CHR ''.'' \<and> is_digit a \<and> is_digit b \<and> is_digit c \<and> (r = [] \<or> dot_groups r))"
| "dot_groups _ = False"

definition grouped :: "string \<Rightarrow> bool" where
  "grouped s =
     (let ds = takeWhile is_digit s; r = dropWhile is_digit s
      in ds \<noteq> [] \<and> length ds \<le> 3 \<and> hd ds \<noteq> CHR ''0'' \<and> dot_groups r)"

definition strip_rp :: "string \<Rightarrow> string" where
  "strip_rp s =
     (case s of
        a # b # r \<Rightarrow>
          if (a = CHR ''R'' \<or> a = CHR ''r'') \<and> (b = CHR ''P'' \<or> b = CHR ''p'')
          then dropWhile is_space (case r of d # t \<Rightarrow> if d = CHR ''.'' then t else r | [] \<Rightarrow> r)
          else s
      | _ \<Rightarrow> s)"

definition fiatInputAccepted :: "string \<Rightarrow> bool" where
  "fiatInputAccepted raw = (let s = strip_rp (trim raw) in all_digits s \<or> grouped s)"

definition fiatDigits :: "string \<Rightarrow> string" where
  "fiatDigits raw = filter is_digit raw"

section \<open>Fees\<close>

lemma applyBps_nonneg: "0 \<le> amount \<Longrightarrow> 0 \<le> bps \<Longrightarrow> 0 \<le> applyBps amount bps"
  by (simp add: applyBps_def bigdiv_nonneg_ge)

lemma applyBps_le_share:
  assumes "0 \<le> amount" "0 \<le> bps"
  shows "applyBps amount bps * 10000 \<le> amount * bps"
proof -
  have "0 \<le> amount * bps" using assms by simp
  then show ?thesis unfolding applyBps_def by (simp add: bigint_simps)
qed

lemma applyBps_floor:
  assumes "0 \<le> amount" "0 \<le> bps"
  shows "amount * bps < (applyBps amount bps + 1) * 10000"
proof -
  have "0 \<le> amount * bps" using assms by simp
  then show ?thesis unfolding applyBps_def by (simp add: bigint_simps)
qed

text \<open>The three parts of a trade add up to the amount exactly, no part is
  negative as long as the two fees stay within 10000 basis points, and each fee is the exact share
  rounded down.\<close>

theorem splitFees_conserves:
  assumes "0 \<le> usdc" "0 \<le> platformBps" "0 \<le> lpBps" "platformBps + lpBps \<le> 10000"
    and "s = splitFees usdc platformBps lpBps"
  shows "platformFee s + lpFee s + net s = usdc \<and> 0 \<le> platformFee s \<and> 0 \<le> lpFee s \<and> 0 \<le> net s \<and>
         platformFee s = usdc * platformBps div 10000 \<and> lpFee s = usdc * lpBps div 10000"
proof -
  have "usdc * (platformBps + lpBps) \<le> usdc * 10000" using assms by (intro mult_left_mono) auto
  then have "applyBps usdc platformBps * 10000 + applyBps usdc lpBps * 10000 \<le> usdc * 10000"
    using applyBps_le_share [of usdc platformBps] applyBps_le_share [of usdc lpBps] assms
    by (simp add: distrib_left)
  moreover have "applyBps usdc platformBps = usdc * platformBps div 10000"
    "applyBps usdc lpBps = usdc * lpBps div 10000"
    using assms by (simp_all add: applyBps_def bigint_simps)
  ultimately show ?thesis
    using assms applyBps_nonneg [of usdc platformBps] applyBps_nonneg [of usdc lpBps]
    by (simp add: splitFees_def Let_def)
qed

theorem splitFees_conserves_witness:
  "platformFee (splitFees 1234567 30 120) + lpFee (splitFees 1234567 30 120)
     + net (splitFees 1234567 30 120) = 1234567 \<and> net (splitFees 1234567 30 120) = 1216050"
  using splitFees_conserves [of 1234567 30 120 "splitFees 1234567 30 120"]
  by (simp add: splitFees_def Let_def applyBps_def bigdiv_def)

section \<open>The two directions of a quote\<close>

lemma quoteFiat_value:
  assumes "0 \<le> u" "0 \<le> with_spread p spreadBps sell" "price_micro ''idrPerUsdc'' s = Inr p"
  shows "quoteFiat u s spreadBps sell = Inr (u * with_spread p spreadBps sell div 10 ^ 13)"
proof -
  have "0 \<le> u * with_spread p spreadBps sell" using assms by simp
  then have "bigdiv (bigdiv (u * with_spread p spreadBps sell) 10000000) 1000000
      = u * with_spread p spreadBps sell div (10000000 * 1000000)"
    by (simp add: bigint_simps pos_imp_zdiv_nonneg_iff zdiv_zmult2_eq)
  then show ?thesis using assms(3) by (simp add: quoteFiat_def)
qed

lemma ceil_div_least:
  fixes n w u :: int
  assumes "0 < w"
  shows "n \<le> u * w \<longleftrightarrow> (n + w - 1) div w \<le> u"
proof
  assume "n \<le> u * w"
  then have "n + w - 1 < (u + 1) * w" by (simp add: distrib_right)
  then have "\<not> u + 1 \<le> (n + w - 1) div w" using assms by (simp add: int_le_div_iff)
  then show "(n + w - 1) div w \<le> u" by simp
next
  assume "(n + w - 1) div w \<le> u"
  then have "(n + w - 1) div w * w \<le> u * w" using assms by (intro mult_right_mono) auto
  moreover have "n + w - 1 - (n + w - 1) mod w = (n + w - 1) div w * w"
    by (rule minus_mod_eq_div_mult)
  moreover have "(n + w - 1) mod w \<le> w - 1" using assms pos_mod_bound [of w "n + w - 1"] by simp
  ultimately show "n \<le> u * w" by simp
qed

text \<open>C9 (quoteUsdcForFiat against quoteFiat): the USDC amount quoted for a rupiah amount is the
  least non-negative amount whose own rupiah quote, at the same rate, spread and side, reaches the
  amount asked for: the rounding never costs the side that pays rupiah a unit more than needed.\<close>

theorem quoteUsdcForFiat_least:
  assumes q: "quoteUsdcForFiat fiatAmount rate spreadBps sell = Inr usdc" and u: "0 \<le> u"
  shows "0 < usdc \<and> (\<exists>g. quoteFiat u rate spreadBps sell = Inr g \<and> (fiatAmount \<le> g \<longleftrightarrow> usdc \<le> u))"
proof -
  obtain p where p: "price_micro ''idrPerUsdc'' rate = Inr p" and f: "0 < fiatAmount"
      and w: "0 < with_spread p spreadBps sell"
      and usdc: "usdc = bigdiv (fiatAmount * 10000000 * 1000000 + with_spread p spreadBps sell - 1)
                        (with_spread p spreadBps sell)"
    using q by (auto simp: quoteUsdcForFiat_def Let_def split: sum.splits if_splits)
  define W where "W = with_spread p spreadBps sell"
  have usdc': "usdc = (fiatAmount * 10 ^ 13 + W - 1) div W"
    using usdc f w by (simp add: W_def bigint_simps mult.commute)
  have g: "quoteFiat u rate spreadBps sell = Inr (u * W div 10 ^ 13)"
    unfolding W_def by (rule quoteFiat_value [OF u _ p]) (use w in simp)
  have "fiatAmount \<le> u * W div 10 ^ 13 \<longleftrightarrow> fiatAmount * 10 ^ 13 \<le> u * W"
    by (rule int_le_div_iff) simp
  also have "\<dots> \<longleftrightarrow> usdc \<le> u" unfolding usdc' by (rule ceil_div_least) (use w in \<open>simp add: W_def\<close>)
  finally have eq: "fiatAmount \<le> u * W div 10 ^ 13 \<longleftrightarrow> usdc \<le> u" .
  have "\<not> fiatAmount * 10 ^ 13 \<le> 0 * W" using f by simp
  then have "\<not> usdc \<le> 0"
    using ceil_div_least [of W "fiatAmount * 10 ^ 13" 0] w usdc' by (simp add: W_def)
  then show ?thesis using g eq by auto
qed

section \<open>Printing and reading a rate\<close>

lemma digit_facts:
  assumes "is_digit c"
  shows "\<not> is_space c" "c \<noteq> CHR ''-''" "c \<noteq> CHR ''+''" "c \<noteq> CHR ''.''" "c \<noteq> CHR ''I''"
    "c \<noteq> CHR ''e''" "c \<noteq> CHR ''E''"
  using assms by (auto simp: is_digit_def is_space_def)

lemma take_digits_append:
  assumes "list_all is_digit ds" "r = [] \<or> \<not> is_digit (hd r)"
  shows "take_digits (ds @ r) = (ds, r)"
  using assms
  by (cases r) (auto simp: take_digits_def list_all_iff takeWhile_append dropWhile_append
      takeWhile_eq_all_conv dropWhile_eq_Nil_conv)

lemma read_decimal_integer:
  assumes "list_all is_digit ip" "ip \<noteq> []"
  shows "read_decimal ip = Some (of_nat (digits_val ip), [])"
  using take_digits_append [of ip "[]"] assms
  by (simp add: read_decimal_def read_exponent_def pow10_def)

lemma read_decimal_fraction:
  assumes "list_all is_digit ip" "ip \<noteq> []" "list_all is_digit fp"
  shows "read_decimal (ip @ CHR ''.'' # fp) =
    Some (of_nat (digits_val (ip @ fp)) / 10 ^ length fp, [])"
proof -
  have dot: "\<not> is_digit (CHR ''.'')" by (simp add: is_digit_def)
  show ?thesis
    using take_digits_append [of ip "CHR ''.'' # fp"] take_digits_append [of fp "[]"] assms dot
    by (cases "fp = []") (simp_all add: read_decimal_def read_exponent_def pow10_def)
qed

lemma parse_float_digit_start:
  assumes "s = c # r" "is_digit c" "read_decimal s = Some (x, rest)"
  shows "parse_float s = to_double x"
  using assms digit_facts [OF assms(2)]
  by (auto simp: parse_float_def trim_start_def read_sign_def signed_num_def)

lemma strip_zeros_pad: "\<exists>j. s = strip_zeros s @ replicate j (CHR ''0'')"
proof -
  let ?p = "\<lambda>c. c = CHR ''0''"
  have "rev s = takeWhile ?p (rev s) @ dropWhile ?p (rev s)" by simp
  moreover have "takeWhile ?p (rev s) = replicate (length (takeWhile ?p (rev s))) (CHR ''0'')"
    by (metis (full_types) replicate_length_same set_takeWhileD)
  ultimately have "rev s = replicate (length (takeWhile ?p (rev s))) (CHR ''0'') @ dropWhile ?p (rev s)"
    by simp
  then have "rev (rev s) = rev (dropWhile ?p (rev s)) @ rev (replicate (length (takeWhile ?p (rev s))) (CHR ''0''))"
    by (metis rev_append)
  then show ?thesis by (auto simp: strip_zeros_def)
qed

lemma strip_zeros_value:
  "of_nat (digits_val (strip_zeros s)) / 10 ^ length (strip_zeros s)
     = (of_nat (digits_val s) / 10 ^ length s :: rat)"
proof -
  obtain j where j: "s = strip_zeros s @ replicate j (CHR ''0'')" using strip_zeros_pad by blast
  define t where "t = strip_zeros s"
  have "digits_val s = digits_val t * 10 ^ j" and "length s = length t + j"
    using j by (metis digits_val_append digits_val_zeros length_replicate add_0_right t_def,
        metis length_append length_replicate t_def)
  then show ?thesis by (simp add: t_def [symmetric] power_add)
qed

lemma strip_zeros_digits: "list_all is_digit s \<Longrightarrow> list_all is_digit (strip_zeros s)"
  by (auto simp: strip_zeros_def list_all_iff dest: set_dropWhileD)

lemma pad_digits: "list_all is_digit s \<Longrightarrow> list_all is_digit (pad_start w (CHR ''0'') s)"
  by (auto simp: pad_start_def list_all_iff is_digit_def)

lemma dec_nat_all_digits: "list_all is_digit (dec_nat n)"
  by (auto simp: list_all_iff dec_nat_digits)

lemma read_fraction_value:
  assumes "list_all is_digit ip" "ip \<noteq> []" "list_all is_digit fp" "length fp = w"
  shows "read_decimal (ip @ CHR ''.'' # fp) =
    Some (of_nat (digits_val ip) + of_nat (digits_val fp) / 10 ^ w, [])"
  using read_decimal_fraction [OF assms(1,2,3)] assms(4)
  by (simp add: digits_val_append add_divide_distrib)

lemma print_micro_reads:
  assumes "0 \<le> k"
  shows "read_decimal (print_micro k) = Some (of_int k / 1000000, [])"
proof -
  define w where "w = nat (k div 1000000)"
  define f where "f = nat (k mod 1000000)"
  have "0 \<le> k div 1000000" using assms by (simp add: pos_imp_zdiv_nonneg_iff)
  then have k: "k = int w * 1000000 + int f" by (simp add: w_def f_def)
  have f_small: "f < 10 ^ 6" by (simp add: f_def nat_less_iff)
  have wf: "bigdiv k 1000000 = int w" "bigmod k 1000000 = int f"
    using assms \<open>0 \<le> k div 1000000\<close> by (simp_all add: bigint_simps w_def f_def)
  show ?thesis
  proof (cases "f = 0")
    case True
    then show ?thesis
      using k wf read_decimal_integer [OF dec_nat_all_digits, of w]
      by (simp add: print_micro_def dec_int_def)
  next
    case False
    let ?pad = "pad_start 6 (CHR ''0'') (dec_nat f)"
    let ?fp = "strip_zeros ?pad"
    have len: "length ?pad = 6" using length_dec_nat_le [OF f_small] by (simp add: pad_start_def)
    have pm: "print_micro k = dec_nat w @ CHR ''.'' # ?fp"
      using wf False by (simp add: print_micro_def dec_int_def)
    have "list_all is_digit ?fp"
      by (intro strip_zeros_digits pad_digits dec_nat_all_digits)
    then have "read_decimal (print_micro k) =
        Some (of_nat w + of_nat (digits_val ?fp) / 10 ^ length ?fp, [])"
      unfolding pm using read_fraction_value [OF dec_nat_all_digits dec_nat_not_Nil _ refl] by simp
    also have "of_nat (digits_val ?fp) / 10 ^ length ?fp = (of_nat f / 1000000 :: rat)"
      unfolding strip_zeros_value len by simp
    finally show ?thesis using k by (simp add: add_divide_distrib)
  qed
qed

lemma print_micro_starts:
  assumes "0 \<le> k"
  obtains c r where "print_micro k = c # r" "is_digit c"
proof -
  have "0 \<le> bigdiv k 1000000" using assms by (simp add: bigdiv_nonneg_ge)
  then have whole: "dec_int (bigdiv k 1000000) = dec_nat (nat (bigdiv k 1000000))"
    by (simp add: dec_int_def)
  have "\<exists>t. print_micro k = dec_nat (nat (bigdiv k 1000000)) @ t"
    by (cases "bigmod k 1000000 = 0") (simp_all add: print_micro_def whole)
  then obtain t where t: "print_micro k = dec_nat (nat (bigdiv k 1000000)) @ t" ..
  obtain c r where cr: "dec_nat (nat (bigdiv k 1000000)) = c # r"
    by (cases "dec_nat (nat (bigdiv k 1000000))") auto
  then have "is_digit c" using dec_nat_digits [of c "nat (bigdiv k 1000000)"] by simp
  then show ?thesis using t cr that by simp
qed

lemma scaled_round_exact:
  assumes k: "0 < k" "k < 2 ^ 50"
  obtains r q where "to_double (of_int k / 1000000) = Fin r" "0 < r"
    "to_double (r * 1000000) = Fin q" "math_round q = k"
proof -
  define x :: rat where "x = of_int k / 1000000"
  have k1: "(1::rat) \<le> of_int k" using k by simp
  have k50: "of_int k < (2 ^ 50 :: rat)" using k(2) by (metis of_int_less_iff of_int_numeral of_int_power)
  have xlo: "1 / 10 ^ 9 \<le> x" using k1 by (simp add: x_def)
  have xhi: "x \<le> 2 ^ 50" using k50 k1 by (simp add: x_def)
  have big: "(2 ^ 53 :: rat) \<le> 2 ^ 1000" by (rule power_increasing) simp_all
  obtain r where r: "to_double x = Fin r" "\<bar>r - x\<bar> \<le> x / 2 ^ 53"
    by (rule to_double_pos [OF xlo]) (use xhi big in simp)
  define y where "y = r * 1000000"
  have "\<bar>y - of_int k\<bar> = \<bar>r - x\<bar> * 1000000" by (simp add: y_def x_def abs_if)
  also have "\<dots> \<le> of_int k / 2 ^ 53" using r(2) by (simp add: x_def)
  finally have "\<bar>y - of_int k\<bar> \<le> of_int k / 9007199254740992" by simp
  then have yk: "y - of_int k \<le> of_int k / 9007199254740992"
    "of_int k - y \<le> of_int k / 9007199254740992"
    using abs_le_D1 abs_le_D2 [of "y - of_int k"] by (blast, simp only: minus_diff_eq)
  have kb: "of_int k < (1125899906842624 :: rat)" using k50 by simp
  have yhi: "y \<le> 4503599627370496" and ylo: "1 / 2 \<le> y" using yk kb k1 by linarith+
  obtain q where q: "to_double y = Fin q" "\<bar>q - y\<bar> \<le> y / 2 ^ 53"
  proof (rule to_double_pos)
    show "1 / 10 ^ 9 \<le> y" using ylo by simp
    show "y \<le> 2 ^ 1000" using yhi big by simp
  qed
  have "\<bar>q - y\<bar> \<le> y / 9007199254740992" using q(2) by simp
  then have "q - y \<le> y / 9007199254740992" "y - q \<le> y / 9007199254740992"
    using abs_le_D1 abs_le_D2 [of "q - y"] by (blast, simp only: minus_diff_eq)
  then have "\<bar>q - of_int k\<bar> < 1 / 2" using yk kb k1 by linarith
  then have "of_int k \<le> q + 1 / 2" "q + 1 / 2 < of_int k + 1" by linarith+
  then have "math_round q = k" unfolding math_round_def by (simp add: floor_eq_iff)
  moreover have "0 < r" using ylo by (simp add: y_def)
  ultimately show ?thesis using r(1) q(1) that by (simp add: x_def y_def)
qed

text \<open>A rate printed
  with up to six decimals and below \<open>2^50\<close> micro units is read back exactly: the two
  roundings of \<open>parseFloat\<close> and of the multiplication by a million never move it to
  another micro unit.\<close>

theorem price_micro_print_micro:
  assumes "0 < k" "k < 2 ^ 50"
  shows "price_micro label (print_micro k) = Inr k"
proof -
  obtain c t where ct: "print_micro k = c # t" "is_digit c"
    using assms print_micro_starts [of k] by (metis less_imp_le)
  have parsed: "parse_float (print_micro k) = to_double (of_int k / 1000000)"
    by (rule parse_float_digit_start [OF ct print_micro_reads]) (use assms in simp)
  obtain r q where "to_double (of_int k / 1000000) = Fin r" "0 < r"
    "to_double (r * 1000000) = Fin q" "math_round q = k"
    by (rule scaled_round_exact [OF assms])
  then show ?thesis using parsed by (simp add: price_micro_def)
qed

theorem price_micro_print_micro_witness:
  "price_micro ''midPrice'' ''16250.5'' = Inr 16250500000"
proof -
  have "print_micro 16250500000 = ''16250.5''"
    by (simp add: print_micro_def bigdiv_def bigmod_def dec_int_def dec_nat.simps digit_char_def
        pad_start_def strip_zeros_def)
  then show ?thesis using price_micro_print_micro [of 16250500000 "''midPrice''"] by simp
qed

lemma rate_16250: "price_micro label ''16250.5'' = Inr 16250500000"
proof -
  obtain r q where "to_double (of_int 16250500000 / 1000000) = Fin r" "0 < r"
    "to_double (r * 1000000) = Fin q" "math_round q = 16250500000"
    by (rule scaled_round_exact [of 16250500000]) simp_all
  moreover have "parse_float ''16250.5'' = to_double (of_int 16250500000 / 1000000)"
    by (simp add: parse_float_def trim_start_def is_space_def read_sign_def read_decimal_def
        take_digits_def is_digit_def read_exponent_def digits_val_def digit_val_def pow10_def
        signed_num_def)
  ultimately show ?thesis by (simp add: price_micro_def)
qed

theorem quoteUsdcForFiat_least_witness:
  "quoteUsdcForFiat 200000 ''16250.5'' 150 False = Inr 121254322 \<and>
   (\<exists>g. quoteFiat 121254321 ''16250.5'' 150 False = Inr g \<and> \<not> 200000 \<le> g)"
proof -
  have q: "quoteUsdcForFiat 200000 ''16250.5'' 150 False = Inr 121254322"
    by (simp add: quoteUsdcForFiat_def rate_16250 with_spread_def bigdiv_def)
  show ?thesis using q quoteUsdcForFiat_least [OF q, of 121254321] by auto
qed

text \<open>The displayed rate is the mid price in micro units plus the spread
  rounded down, and reading the string that is shown gives that number back.\<close>

theorem applySpreadToRate_reads_back:
  assumes "price_micro ''midPrice'' mid = Inr p" "0 < p" "0 \<le> spreadBps"
    and "p + p * spreadBps div 10000 < 2 ^ 50"
  shows "\<exists>shown. applySpreadToRate mid spreadBps = Inr shown \<and>
           price_micro label shown = Inr (p + p * spreadBps div 10000)"
  using assms price_micro_print_micro [of "p + p * spreadBps div 10000" label]
  by (simp add: applySpreadToRate_def bigint_simps pos_imp_zdiv_nonneg_iff add_pos_nonneg)

theorem applySpreadToRate_reads_back_witness:
  "\<exists>shown. applySpreadToRate ''16250.5'' 150 = Inr shown \<and>
     price_micro ''idrPerUsdc'' shown = Inr 16494257500"
  using applySpreadToRate_reads_back [OF rate_16250, of 150 "''idrPerUsdc''"] by simp

end
