(* ===== verification/Trade.thy ===== *)
theory Trade
  imports ContractLimits Money
begin

text \<open>
  What ties an order to its trade on chain.  \<open>order/order.params.ts\<close>: the roles a flow
  gives the two parties.  \<open>stellar/stellar-read.types.ts\<close>: a trade as read from the
  escrow.  \<open>order/trade-binding.ts\<close>: the comparison that must succeed before a trade may
  drive an order.  \<open>order/dispute.util.ts\<close>: the dispute window, the evidence paths and
  the refund instant.  A mismatch sentence is named by its constructor, with the field it names.
\<close>

section \<open>Roles (order.params.ts)\<close>

record roles =
  usdcProvider :: address
  usdcRecipient :: address
  confirmer :: address

definition mapRoles :: "flow \<Rightarrow> address \<Rightarrow> address \<Rightarrow> roles" where
  "mapRoles fl user lp =
     (if fl = TOP_UP then \<lparr>usdcProvider = lp, usdcRecipient = user, confirmer = lp\<rparr>
      else \<lparr>usdcProvider = user, usdcRecipient = lp, confirmer = user\<rparr>)"

definition contractIdFor :: "order \<Rightarrow> string \<Rightarrow> string" where
  "contractIdFor x escrowContractId = (case o_contractId x of Some c \<Rightarrow> c | None \<Rightarrow> escrowContractId)"

definition getFiatPayer :: "flow \<Rightarrow> address \<Rightarrow> address \<Rightarrow> address" where
  "getFiatPayer fl user lpAddress = (if fl = TOP_UP then user else lpAddress)"

definition requireLp :: "db \<Rightarrow> order \<Rightarrow> lp outcome" where
  "requireLp d x = (case order_lp d x of
      None \<Rightarrow> Inl (ConflictException ''order has no matched LP yet'') | Some l \<Rightarrow> Inr l)"

section \<open>A trade on chain\<close>

datatype jsval = JUndefined | JBigInt int | JNumber jsnum | JString string | JBool bool

record trade =
  t_status :: order_status \<comment> \<open>FUNDED, FIAT_PAID, RELEASED, REFUNDED or DISPUTED\<close>
  t_settledAt :: secs
  t_usdcAmount :: jsval
  t_fiatAmount :: jsval
  t_fiatCurrency :: jsval
  t_flow :: jsval
  t_usdcProvider :: jsval
  t_usdcRecipient :: jsval
  t_confirmer :: jsval
  t_platformWallet :: jsval
  t_lpWallet :: jsval
  t_platformFeeBps :: jsval
  t_lpFeeBps :: jsval
  t_payDeadline :: jsval
  t_confirmDeadline :: jsval
  t_disputeDeadline :: jsval
  t_postSettleDeadline :: "secs option"
  t_slashDeadline :: "secs option"
  t_liabilityEstablished :: "bool option"

section \<open>Binding (trade-binding.ts)\<close>

definition BOUND_ON_CHAIN :: "order_status list" where
  [status_sets]: "BOUND_ON_CHAIN = [FUNDED, FIAT_PAID, DISPUTED, RELEASED, REFUNDED]"

definition notYetBoundOnChain :: "order_status \<Rightarrow> bool" where
  "notYetBoundOnChain s = (\<not> List.member BOUND_ON_CHAIN s)"

definition FLOW_DISCRIMINANT :: "flow \<Rightarrow> int" where
  "FLOW_DISCRIMINANT fl = (case fl of TOP_UP \<Rightarrow> 0 | WITHDRAW \<Rightarrow> 1)"

definition is_integer :: "rat \<Rightarrow> bool" where
  "is_integer x = (of_int \<lfloor>x\<rfloor> = x)"

definition MAX_SAFE_INTEGER :: int where
  "MAX_SAFE_INTEGER = 9007199254740991"

definition read_bigint :: "string \<Rightarrow> int option" where
  "read_bigint s =
     (case s of
        c # r \<Rightarrow> if c = CHR ''-'' then (if all_digits r then Some (- int (digits_val r)) else None)
                 else if all_digits s then Some (int (digits_val s)) else None
      | [] \<Rightarrow> None)"

fun bigintOrNull :: "jsval \<Rightarrow> int option" where
  "bigintOrNull (JBigInt v) = Some v"
| "bigintOrNull (JNumber (Fin x)) =
     (if is_integer x \<and> \<bar>\<lfloor>x\<rfloor>\<bar> \<le> MAX_SAFE_INTEGER then Some \<lfloor>x\<rfloor> else None)"
| "bigintOrNull (JString s) = read_bigint s"
| "bigintOrNull _ = None"

fun numberOrNull :: "jsval \<Rightarrow> int option" where
  "numberOrNull (JNumber (Fin x)) = (if is_integer x then Some \<lfloor>x\<rfloor> else None)"
| "numberOrNull (JBigInt v) = (if - MAX_SAFE_INTEGER \<le> v \<and> v \<le> MAX_SAFE_INTEGER then Some v else None)"
| "numberOrNull _ = None"

fun stringOrNull :: "jsval \<Rightarrow> string option" where
  "stringOrNull (JString s) = (if s \<noteq> [] then Some s else None)"
| "stringOrNull _ = None"

datatype mismatch = NoMatchedProvider | Undecodable string | Differs string

definition compare_field :: "string \<Rightarrow> 'a option \<Rightarrow> 'a \<Rightarrow> mismatch list" where
  "compare_field field got expected =
     (case got of None \<Rightarrow> [Undecodable field] | Some g \<Rightarrow> if g \<noteq> expected then [Differs field] else [])"

definition compareBigint :: "string \<Rightarrow> jsval \<Rightarrow> int \<Rightarrow> mismatch list" where
  "compareBigint field actual expected = compare_field field (bigintOrNull actual) expected"

definition compareNumber :: "string \<Rightarrow> jsval \<Rightarrow> int \<Rightarrow> mismatch list" where
  "compareNumber field actual expected = compare_field field (numberOrNull actual) expected"

definition compareString :: "string \<Rightarrow> jsval \<Rightarrow> string \<Rightarrow> mismatch list" where
  "compareString field actual expected = compare_field field (stringOrNull actual) expected"

definition verifyTradeMatchesOrder :: "trade \<Rightarrow> order \<Rightarrow> mismatch list" where
  "verifyTradeMatchesOrder t x =
     (if \<not> truthy_str (o_lpWallet x) then [NoMatchedProvider]
      else let lpw = the (o_lpWallet x); r = mapRoles (o_flow x) (o_userAddress x) lpw
           in compareBigint ''usdcAmount'' (t_usdcAmount t) (o_usdcAmount x)
            @ compareBigint ''fiatAmount'' (t_fiatAmount t) (o_fiatAmount x)
            @ compareString ''fiatCurrency'' (t_fiatCurrency t) (o_fiatCurrency x)
            @ compareNumber ''flow'' (t_flow t) (FLOW_DISCRIMINANT (o_flow x))
            @ compareString ''usdcProvider'' (t_usdcProvider t) (usdcProvider r)
            @ compareString ''usdcRecipient'' (t_usdcRecipient t) (usdcRecipient r)
            @ compareString ''confirmer'' (t_confirmer t) (confirmer r)
            @ compareString ''platformWallet'' (t_platformWallet t) (o_platformWallet x)
            @ compareString ''lpWallet'' (t_lpWallet t) lpw
            @ compareNumber ''platformFeeBps'' (t_platformFeeBps t) (o_platformFeeBps x)
            @ compareNumber ''lpFeeBps'' (t_lpFeeBps t) (o_lpFeeBps x)
            @ compareBigint ''payDeadline'' (t_payDeadline t) (o_payDeadline x)
            @ compareBigint ''confirmDeadline'' (t_confirmDeadline t) (o_confirmDeadline x)
            @ compareBigint ''disputeDeadline'' (t_disputeDeadline t) (o_disputeDeadline x))"

section \<open>Disputes (dispute.util.ts)\<close>

definition postSettleDeadlineMs :: "order \<Rightarrow> config \<Rightarrow> ms option" where
  "postSettleDeadlineMs x conf =
     (if truthy_int (o_postSettleDeadline x) then Some (the (o_postSettleDeadline x) * 1000)
      else case o_settledAt x of
             None \<Rightarrow> None
           | Some s \<Rightarrow> Some (s + c_postSettleDisputeWindowSecs conf * 1000))"

definition canDispute :: "order \<Rightarrow> config \<Rightarrow> ms \<Rightarrow> bool" where
  "canDispute x conf now =
     (if o_status x = FIAT_PAID then True
      else if o_status x = RELEASED \<or> o_status x = REFUNDED
      then (case postSettleDeadlineMs x conf of None \<Rightarrow> False | Some dl \<Rightarrow> now \<le> dl)
      else False)"

definition TOP_UP_DISPUTE_REASONS :: "string list" where
  "TOP_UP_DISPUTE_REASONS = [''USDC_NOT_RELEASED'', ''PAID_WRONG_AMOUNT'', ''OTHER'']"

definition FIAT_PAYER_DISPUTE_REASONS :: "string list" where
  "FIAT_PAYER_DISPUTE_REASONS = [''PAYMENT_NOT_RECEIVED'', ''WRONG_AMOUNT'', ''FAKE_PROOF'', ''OTHER'']"

definition allowedDisputeReasons :: "flow \<Rightarrow> string list" where
  "allowedDisputeReasons fl = (if fl = TOP_UP then TOP_UP_DISPUTE_REASONS else FIAT_PAYER_DISPUTE_REASONS)"

definition EVIDENCE_EXTENSIONS :: "string list" where
  "EVIDENCE_EXTENSIONS = [''jpg'', ''png'', ''webp'', ''pdf'']"

datatype party = PUser | PLp

definition party_name :: "party \<Rightarrow> string" where
  "party_name r = (case r of PUser \<Rightarrow> ''user'' | PLp \<Rightarrow> ''lp'')"

definition evidenceKeyFor :: "string \<Rightarrow> party \<Rightarrow> ms option \<Rightarrow> string" where
  "evidenceKeyFor orderId role closedAt =
     (case closedAt of
        Some c \<Rightarrow> orderId @ ''-'' @ party_name role @ ''-'' @ dec_int c
      | None \<Rightarrow> orderId @ ''-'' @ party_name role)"

definition isOwnEvidencePath :: "string \<Rightarrow> string \<Rightarrow> party \<Rightarrow> ms option \<Rightarrow> bool" where
  "isOwnEvidencePath evidenceUrl orderId role closedAt =
     (let pre = ''evidence/'' @ evidenceKeyFor orderId role closedAt @ ''.''
      in if take (length pre) evidenceUrl \<noteq> pre then False
         else List.member EVIDENCE_EXTENSIONS (drop (length pre) evidenceUrl))"

text \<open>The deadline a client is shown, as the instant its ISO string denotes.\<close>

definition postSettleDisputeDeadline :: "order \<Rightarrow> config \<Rightarrow> ms \<Rightarrow> ms option" where
  "postSettleDisputeDeadline x conf now =
     (if o_status x \<noteq> RELEASED \<and> o_status x \<noteq> REFUNDED then None
      else if o_disputeBy x \<noteq> None then None
      else case postSettleDeadlineMs x conf of
             None \<Rightarrow> None
           | Some dl \<Rightarrow> if now > dl then None else Some dl)"

definition ATTEST_GRACE_SECS :: secs where
  "ATTEST_GRACE_SECS = 3600"

definition refundOpensAt :: "order \<Rightarrow> secs" where
  "refundOpensAt x =
     (if o_flow x \<noteq> TOP_UP then o_confirmDeadline x
      else let graced = o_payDeadline x + ATTEST_GRACE_SECS
           in if graced < o_confirmDeadline x then graced else o_confirmDeadline x)"

section \<open>Properties of the binding\<close>

lemma compare_field_Nil [simp]: "compare_field field got expected = [] \<longleftrightarrow> got = Some expected"
  by (auto simp: compare_field_def split: option.splits)

text \<open>C4 (verifyTradeMatchesOrder): an empty list of mismatches says exactly that the order has a
  provider and that every field of the trade the escrow will act on (amounts, currency, direction,
  the three roles, both wallets, both fees, all three deadlines) decodes to the order's own value:
  no field is skipped and an undecodable field never passes.\<close>

theorem verifyTradeMatchesOrder_complete:
  "verifyTradeMatchesOrder t x = [] \<longleftrightarrow>
     (\<exists>lpw. o_lpWallet x = Some lpw \<and> lpw \<noteq> [] \<and>
        bigintOrNull (t_usdcAmount t) = Some (o_usdcAmount x) \<and>
        bigintOrNull (t_fiatAmount t) = Some (o_fiatAmount x) \<and>
        stringOrNull (t_fiatCurrency t) = Some (o_fiatCurrency x) \<and>
        numberOrNull (t_flow t) = Some (FLOW_DISCRIMINANT (o_flow x)) \<and>
        stringOrNull (t_usdcProvider t) = Some (if o_flow x = TOP_UP then lpw else o_userAddress x) \<and>
        stringOrNull (t_usdcRecipient t) = Some (if o_flow x = TOP_UP then o_userAddress x else lpw) \<and>
        stringOrNull (t_confirmer t) = Some (if o_flow x = TOP_UP then lpw else o_userAddress x) \<and>
        stringOrNull (t_platformWallet t) = Some (o_platformWallet x) \<and>
        stringOrNull (t_lpWallet t) = Some lpw \<and>
        numberOrNull (t_platformFeeBps t) = Some (o_platformFeeBps x) \<and>
        numberOrNull (t_lpFeeBps t) = Some (o_lpFeeBps x) \<and>
        bigintOrNull (t_payDeadline t) = Some (o_payDeadline x) \<and>
        bigintOrNull (t_confirmDeadline t) = Some (o_confirmDeadline x) \<and>
        bigintOrNull (t_disputeDeadline t) = Some (o_disputeDeadline x))"
proof (cases "o_lpWallet x")
  case None
  then show ?thesis by (simp add: verifyTradeMatchesOrder_def)
next
  case (Some lpw)
  then show ?thesis
    by (cases "o_flow x")
       (simp_all add: verifyTradeMatchesOrder_def compareBigint_def compareNumber_def
         compareString_def mapRoles_def Let_def)
qed

lemma roles_disjoint:
  "user \<noteq> lp \<Longrightarrow> usdcProvider (mapRoles fl user lp) \<noteq> usdcRecipient (mapRoles fl user lp)"
  by (simp add: mapRoles_def)

text \<open>The one who pays rupiah is never the one who confirms its receipt.\<close>

lemma payer_is_not_confirmer:
  "user \<noteq> lp \<Longrightarrow> getFiatPayer fl user lp \<noteq> confirmer (mapRoles fl user lp)"
  by (cases fl) (simp_all add: mapRoles_def getFiatPayer_def)

section \<open>Properties of the dispute windows\<close>

text \<open>The condition the sweeps put into their query, against the instant the escrow uses.\<close>

lemma refund_query_exact:
  "(o_confirmDeadline x < now \<or> (o_flow x = TOP_UP \<and> o_payDeadline x < now - ATTEST_GRACE_SECS))
     \<longleftrightarrow> refundOpensAt x < now"
  by (cases "o_flow x") (auto simp: refundOpensAt_def Let_def)

lemma postSettleDisputeDeadline_canDispute:
  "postSettleDisputeDeadline x conf now = Some dl \<Longrightarrow> canDispute x conf now \<and> now \<le> dl"
  by (auto simp: postSettleDisputeDeadline_def canDispute_def split: if_splits option.splits)

lemma extension_no_dot: "List.member EVIDENCE_EXTENSIONS e \<Longrightarrow> CHR ''.'' \<notin> set e"
  by (auto simp: EVIDENCE_EXTENSIONS_def)

lemma split_at_last_dot:
  assumes "p @ CHR ''.'' # e = p' @ CHR ''.'' # e'" "CHR ''.'' \<notin> set e" "CHR ''.'' \<notin> set e'"
  shows "p = p' \<and> e = e'"
proof -
  have tail: "takeWhile (\<lambda>c. c \<noteq> CHR ''.'') (rev (q @ CHR ''.'' # f)) = rev f"
    if "CHR ''.'' \<notin> set f" for q f :: string
  proof -
    have "\<forall>c \<in> set (rev f). c \<noteq> CHR ''.''" using that by auto
    then have "takeWhile (\<lambda>c. c \<noteq> CHR ''.'') (rev f @ CHR ''.'' # rev q)
        = rev f @ takeWhile (\<lambda>c. c \<noteq> CHR ''.'') (CHR ''.'' # rev q)"
      by (intro takeWhile_append2) blast
    then show ?thesis by simp
  qed
  have "rev e = rev e'" using tail [OF assms(2), of p] tail [OF assms(3), of p'] assms(1) by metis
  then show ?thesis using assms(1) by simp
qed

lemma isOwnEvidencePath_split:
  assumes "isOwnEvidencePath url i r c"
  obtains e where "url = (''evidence/'' @ evidenceKeyFor i r c) @ CHR ''.'' # e"
    "List.member EVIDENCE_EXTENSIONS e"
proof -
  define pre where "pre = ''evidence/'' @ evidenceKeyFor i r c @ ''.''"
  have "take (length pre) url = pre" "List.member EVIDENCE_EXTENSIONS (drop (length pre) url)"
    using assms by (auto simp: isOwnEvidencePath_def pre_def Let_def split: if_splits)
  then show ?thesis
    using that [of "drop (length pre) url"] append_take_drop_id [of "length pre" url]
    by (simp add: pre_def)
qed

lemma dec_int_inj: "dec_int a = dec_int b \<longleftrightarrow> a = b"
proof
  have minus: "CHR ''-'' \<notin> set (dec_nat n)" for n
    using dec_nat_digits [of "CHR ''-''" n] by (auto simp: is_digit_def)
  assume "dec_int a = dec_int b"
  then show "a = b"
    using minus [of "nat a"] minus [of "nat b"]
    by (auto simp: dec_int_def dec_nat_inj split: if_splits)
       (metis list.set_intros(1))+
qed simp

lemma evidenceKeyFor_inj:
  "evidenceKeyFor i r c = evidenceKeyFor i r' c' \<Longrightarrow> r = r' \<and> c = c'"
  by (cases r; cases r'; cases c; cases c')
     (auto simp: evidenceKeyFor_def party_name_def dec_int_inj)

text \<open>A stored evidence object belongs to one filing.  A path that is accepted
  as a party's own for one dispute round of an order is not accepted for the other party, nor for any
  other round of that order: neither side can file the other's upload, and no upload is carried into
  a later round.\<close>

theorem evidence_path_belongs_to_one_filing:
  assumes "isOwnEvidencePath url orderId role closedAt" "isOwnEvidencePath url orderId role' closedAt'"
  shows "role = role' \<and> closedAt = closedAt'"
proof -
  obtain e where e: "url = (''evidence/'' @ evidenceKeyFor orderId role closedAt) @ CHR ''.'' # e"
    "CHR ''.'' \<notin> set e"
    using isOwnEvidencePath_split [OF assms(1)] extension_no_dot by metis
  obtain e' where e': "url = (''evidence/'' @ evidenceKeyFor orderId role' closedAt') @ CHR ''.'' # e'"
    "CHR ''.'' \<notin> set e'"
    using isOwnEvidencePath_split [OF assms(2)] extension_no_dot by metis
  have "''evidence/'' @ evidenceKeyFor orderId role closedAt = ''evidence/'' @ evidenceKeyFor orderId role' closedAt'"
    using split_at_last_dot [OF trans [OF e(1) [symmetric] e'(1)] e(2) e'(2)] by simp
  then show ?thesis by (intro evidenceKeyFor_inj) simp
qed

theorem evidence_path_belongs_to_one_filing_witness:
  "isOwnEvidencePath ''evidence/a1-user.png'' ''a1'' PUser None \<and>
   \<not> isOwnEvidencePath ''evidence/a1-user.png'' ''a1'' PLp None"
proof -
  have own: "isOwnEvidencePath ''evidence/a1-user.png'' ''a1'' PUser None"
    by (simp add: isOwnEvidencePath_def evidenceKeyFor_def party_name_def EVIDENCE_EXTENSIONS_def)
  then show ?thesis using evidence_path_belongs_to_one_filing [OF own, of PLp None] by auto
qed

end
