(* ===== verification/Env.thy ===== *)
theory Env
  imports Trade
begin

text \<open>
  What the coordinator's handlers take from outside the database: the deployment's configuration
  (\<open>config/app-config.service.ts\<close>), the Stellar SDK and the answers of the chain and of
  Horizon, as functions.  A read that can fail answers \<open>Inl\<close>.  One handler call sees one
  answer per question; where the source asks twice and the world may have changed in between, the
  handler takes the second answer as an argument of its own.
\<close>

record stake_info =
  s_staked :: int
  s_unbonding :: int
  s_eligible :: bool

record env =
  cfg_escrowContractId :: string
  cfg_escrowContractIdsExtra :: "string list"
  cfg_stakingContractId :: string
  cfg_platformWallet :: address
  cfg_kycRequireAml :: bool
  cfg_diditEnvironment :: string
  cfg_adminAddresses :: "address list"
  cfg_priceStaleSecs :: int
  cfg_priceDeviationMaxBps :: int
  cfg_alertWebhookUrl :: "string option"
  cfg_usdcAssetCode :: string
  cfg_usdcAssetIssuer :: string
  cfg_anchorBaseUrl :: string
  cfg_challengeTtl :: secs
  sdk_baseStellarAccount :: "string \<Rightarrow> string"
  sdk_isValidEd25519PublicKey :: "string \<Rightarrow> bool"
  sdk_verifySep53 :: "address \<Rightarrow> string \<Rightarrow> string \<Rightarrow> bool"
  rpc_getTradeStatus :: "string \<Rightarrow> string \<Rightarrow> trade option"
  rpc_getTradeStatusStrict :: "string \<Rightarrow> string \<Rightarrow> trade option outcome"
  rpc_readEscrowPlatformDefaults :: "string \<Rightarrow> (int \<times> address) outcome"
  rpc_stakingCooldownSecs :: "int outcome"
  rpc_latestLedgerCloseTime :: "ms outcome"
  rpc_readEscrowFiatAttestor :: "string \<Rightarrow> address outcome"
  rpc_getAccountFirstTxAt :: "address \<Rightarrow> ms option"
  rpc_getStakeInfo :: "address \<Rightarrow> stake_info outcome"
  rpc_hasUsdcTrustline :: "address \<Rightarrow> bool outcome"
  rpc_readEscrowResolver :: "string \<Rightarrow> address option"
  rpc_readDisputeSigners :: "string \<Rightarrow> (address \<times> address) outcome"
  rpc_getSlashedSoFar :: "string \<Rightarrow> int outcome"
  refund_signer :: "address option"
  attestor_key :: "address option"
  sdk_uuid :: "string \<Rightarrow> string" \<comment> \<open>the uuid drawn for the row the argument names\<close>

definition demo_env :: env where
  "demo_env = \<lparr>cfg_escrowContractId = ''CE'', cfg_escrowContractIdsExtra = [], cfg_stakingContractId = ''CS'',
     cfg_platformWallet = ''GP'', cfg_kycRequireAml = True, cfg_diditEnvironment = ''live'', cfg_adminAddresses = [''GA''],
     cfg_priceStaleSecs = 60, cfg_priceDeviationMaxBps = 100, cfg_alertWebhookUrl = Some ''https://hook'', cfg_usdcAssetCode = ''USDC'', cfg_usdcAssetIssuer = ''GI'',
     cfg_anchorBaseUrl = ''https://a'', cfg_challengeTtl = 300, sdk_baseStellarAccount = (\<lambda>s. s),
     sdk_isValidEd25519PublicKey = (\<lambda>s. take 1 s = ''G''),
     sdk_verifySep53 = (\<lambda>a m s. s = ''ok''), rpc_getTradeStatus = (\<lambda>_ _. None),
     rpc_getTradeStatusStrict = (\<lambda>_ _. Inr None),
     rpc_readEscrowPlatformDefaults = (\<lambda>_. Inr (30, ''GP'')), rpc_stakingCooldownSecs = Inr 2592000,
     rpc_latestLedgerCloseTime = Inr 1800000000000,
     rpc_readEscrowFiatAttestor = (\<lambda>_. Inr ''GT''), rpc_getAccountFirstTxAt = (\<lambda>_. Some 1600000000000),
     rpc_getStakeInfo = (\<lambda>_. Inr \<lparr>s_staked = 10000000000, s_unbonding = 0, s_eligible = True\<rparr>),
     rpc_hasUsdcTrustline = (\<lambda>_. Inr True), rpc_readEscrowResolver = (\<lambda>_. Some ''GR''),
     rpc_readDisputeSigners = (\<lambda>_. Inr (''GR'', ''GA'')), rpc_getSlashedSoFar = (\<lambda>_. Inr 0),
     refund_signer = Some ''GF'', attestor_key = Some ''GT'', sdk_uuid = (\<lambda>tag. tag)\<rparr>"

lemma demo_env_simps [simp]:
  "cfg_escrowContractId demo_env = ''CE''" "cfg_escrowContractIdsExtra demo_env = []" "cfg_stakingContractId demo_env = ''CS''"
  "cfg_platformWallet demo_env = ''GP''" "cfg_kycRequireAml demo_env" "rpc_getTradeStatus demo_env c t = None"
  "rpc_getTradeStatusStrict demo_env c t = Inr None" "rpc_hasUsdcTrustline demo_env a = Inr True"
  "rpc_readEscrowResolver demo_env c = Some ''GR''" "rpc_readDisputeSigners demo_env c = Inr (''GR'', ''GA'')"
  "rpc_getSlashedSoFar demo_env t = Inr 0" "refund_signer demo_env = Some ''GF''" "sdk_uuid demo_env tag = tag"
  "sdk_baseStellarAccount demo_env a = a"
  by (simp_all add: demo_env_def)

definition empty_db :: db where
  "empty_db = \<lparr>db_orders = [], db_quotes = [], db_lps = [], db_markets = [], db_config = Some demo_config,
     db_prices = [], db_outbox = [], db_notifications = [], db_persons = [], db_links = [],
     db_challenges = [], db_consumed = [], db_events = [], db_kyc = [], db_profiles = [],
     db_audits = [], db_cursor = None, db_alerts = [], db_sep24 = [], db_emitted = []\<rparr>"

text \<open>An order, a provider and a market for the examples.\<close>

definition demo_order :: order where
  "demo_order = \<lparr>o_id = ''o1'', o_tradeId = ''t1'', o_contractId = Some ''CE'', o_userAddress = ''GU'', o_personId =
     ''p1'', o_lpId = Some ''lp1'', o_flow = TOP_UP, o_rail = BANK, o_usdcAmount = 100000000, o_fiatAmount =
     163000, o_fiatCurrency = ''IDR'', o_rateSnapshot = ''16300'', o_platformFeeBps = 50, o_lpFeeBps = 50,
     o_spreadBps = 150, o_platformWallet = ''GP'', o_lpWallet = Some ''GL'', o_paymentMethodId = Some ''pm1'',
     o_lpPaymentDetails = Some ''123'', o_lpPaymentLabel = Some ''BCA'', o_userPaymentDetails = None, o_status
     = MATCHED, o_payDeadline = 1700001800, o_confirmDeadline = 1700005400, o_disputeDeadline = 1700091800,
     o_createdAt = 1700000000000, o_expiresAt = 1700002400000, o_ref = None, o_proofUrl = None,
     o_proofUploadedAt = None, o_proofRrn = None, o_proofAmount = None, o_proofPaidAt = None,
     o_userClaimedPaidAt = None, o_settledAt = None, o_settledStatus = None, o_settlementTxHash = None,
     o_postSettleDeadline = None, o_resolverDisputed = False, o_onChainDisputedBy = None, o_slashDeadline =
     None, o_liabilityEstablished = False, o_disputeBy = None, o_disputeReason = None, o_disputeNote = None,
     o_disputeEvidenceUrl = None, o_disputeAt = None, o_disputeClosedAt = None, o_resolution = None,
     o_disputeLossAccrued = False\<rparr>"

lemma demo_order_simps [simp]:
  "o_id demo_order = ''o1''" "o_tradeId demo_order = ''t1''" "o_status demo_order = MATCHED" "o_flow demo_order = TOP_UP"
  "o_userAddress demo_order = ''GU''" "o_personId demo_order = ''p1''" "o_lpId demo_order = Some ''lp1''"
  "o_lpWallet demo_order = Some ''GL''" "o_usdcAmount demo_order = 100000000" "o_settledStatus demo_order = None"
  "o_settledAt demo_order = None" "o_userClaimedPaidAt demo_order = None" "o_disputeAt demo_order = None"
  "o_disputeBy demo_order = None" "o_contractId demo_order = Some ''CE''" "o_payDeadline demo_order = 1700001800"
  "o_confirmDeadline demo_order = 1700005400" "o_disputeDeadline demo_order = 1700091800"
  "o_createdAt demo_order = 1700000000000" "o_expiresAt demo_order = 1700002400000" "o_resolution demo_order = None"
  "o_disputeLossAccrued demo_order = False" "o_settlementTxHash demo_order = None" "o_resolverDisputed demo_order = False"
  "o_postSettleDeadline demo_order = None" "o_slashDeadline demo_order = None" "o_disputeClosedAt demo_order = None"
  by (simp_all add: demo_order_def)

definition demo_method :: payment_method where
  "demo_method = \<lparr>pm_id = ''pm1'', pm_rail = BANK, pm_label = ''BCA'', pm_details = ''123'',
     pm_currency = ''IDR'', pm_active = True\<rparr>"

definition demo_lp :: lp where
  "demo_lp = \<lparr>lp_id = ''lp1'', lp_stellarAddress = ''GL'', lp_status = LP_APPROVED, lp_disputesLost = 0, lp_contact = ''c'', lp_liquidityProof = ''p'', lp_approvalNote = None,
     lp_online = True, lp_lastHeartbeatAt = Some 1700000000000, lp_paymentMethods = [demo_method], lp_createdAt = 0,
     lp_approvedAt = Some 0, lp_personId = None, lp_alertEmail = None\<rparr>"

end
