(* ===== verification/Outbox.thy ===== *)
theory Outbox
  imports Env
begin

text \<open>
  \<open>outbox/outbox.service.ts\<close>: messages that leave the process are written with the data
  they belong to and delivered later, with exponential backoff and a bounded number of attempts.
  A handler answers None when it delivered and the error text when it threw.
\<close>

definition OUTBOX_MAX_ATTEMPTS :: int where "OUTBOX_MAX_ATTEMPTS = 9"
definition OUTBOX_BATCH_SIZE :: nat where "OUTBOX_BATCH_SIZE = 50"
definition OUTBOX_BACKOFF_BASE_MS :: ms where "OUTBOX_BACKOFF_BASE_MS = 30000"
definition OUTBOX_BACKOFF_CAP_MS :: ms where "OUTBOX_BACKOFF_CAP_MS = 30 * 60 * 1000"
definition OUTBOX_KEEP_SENT_MS :: ms where "OUTBOX_KEEP_SENT_MS = 14 * 24 * 60 * 60 * 1000"

definition backoffFor :: "int \<Rightarrow> ms \<Rightarrow> ms" where
  "backoffFor attempts base =
     (let grown = base * 2 ^ nat (max 0 (attempts - 1)) in min grown OUTBOX_BACKOFF_CAP_MS)"

fun sum_backoff :: "nat \<Rightarrow> ms" where
  "sum_backoff 0 = 0"
| "sum_backoff (Suc n) = sum_backoff n + backoffFor (int n + 1) OUTBOX_BACKOFF_BASE_MS"

definition totalRetryWindowMs :: ms where
  "totalRetryWindowMs = sum_backoff (nat (OUTBOX_MAX_ATTEMPTS - 1))"

type_synonym handlers = "string \<Rightarrow> (outbox_message \<Rightarrow> string option) option"

definition enqueue :: "env \<Rightarrow> string \<Rightarrow> outbox_payload \<Rightarrow> string option \<Rightarrow> ms \<Rightarrow> db \<Rightarrow> db" where
  "enqueue env kind payload dedupeKey now d =
     d\<lparr>db_outbox := create_skip x_dedupeKey
         \<lparr>x_id = sdk_uuid env (''outbox:'' @ (case dedupeKey of Some k \<Rightarrow> k | None \<Rightarrow> dec_nat (length (db_outbox d)))), x_kind = kind,
          x_payload = payload, x_dedupeKey = dedupeKey,
          x_status = PENDING, x_attempts = 0, x_lastError = None, x_createdAt = now, x_sentAt = None,
          x_nextAttemptAt = now\<rparr> (db_outbox d)\<rparr>"

text \<open>The two outcomes of an attempt, as the columns they write.\<close>

definition failed_attempt :: "int \<Rightarrow> string \<Rightarrow> ms \<Rightarrow> outbox_message \<Rightarrow> outbox_message" where
  "failed_attempt attempts err now m =
     m\<lparr>x_attempts := attempts, x_lastError := Some err,
       x_status := (if attempts \<ge> OUTBOX_MAX_ATTEMPTS then FAILED else PENDING),
       x_nextAttemptAt := now + backoffFor attempts OUTBOX_BACKOFF_BASE_MS\<rparr>"

definition sent_attempt :: "ms \<Rightarrow> outbox_message \<Rightarrow> outbox_message" where
  "sent_attempt now m = m\<lparr>x_status := SENT, x_sentAt := Some now\<rparr>"

definition attempt :: "handlers \<Rightarrow> ms \<Rightarrow> outbox_message \<Rightarrow> outbox_message \<Rightarrow> outbox_message" where
  "attempt handlers now msg =
     (case handlers (x_kind msg) of
        None \<Rightarrow> failed_attempt (x_attempts msg + 1)
                  (''no handler registered for kind '' @ [CHR 0x22] @ x_kind msg @ [CHR 0x22]) now
      | Some h \<Rightarrow> (case h msg of
                     None \<Rightarrow> sent_attempt now
                   | Some err \<Rightarrow> failed_attempt (x_attempts msg + 1) (take 500 err) now))"

definition delivered :: "handlers \<Rightarrow> outbox_message \<Rightarrow> bool" where
  "delivered handlers msg = (case handlers (x_kind msg) of None \<Rightarrow> False | Some h \<Rightarrow> h msg = None)"

text \<open>One message of the batch, read earlier: the write is guarded by its still being pending.\<close>

definition drain_one :: "handlers \<Rightarrow> ms \<Rightarrow> outbox_message \<Rightarrow> db \<Rightarrow> db" where
  "drain_one handlers now msg d =
     d\<lparr>db_outbox := update_many (\<lambda>m. x_id m = x_id msg \<and> x_status m = PENDING)
         (attempt handlers now msg) (db_outbox d)\<rparr>"

definition due :: "ms \<Rightarrow> db \<Rightarrow> outbox_message list" where
  "due now d = take OUTBOX_BATCH_SIZE (sort_key x_nextAttemptAt (sort_key x_createdAt
     (filter (\<lambda>m. x_status m = PENDING \<and> x_nextAttemptAt m \<le> now) (db_outbox d))))"

definition drainOnce :: "handlers \<Rightarrow> ms \<Rightarrow> db \<Rightarrow> db \<times> nat" where
  "drainOnce handlers now d =
     (let pending = due now d
      in (fold (drain_one handlers now) pending d, length (filter (delivered handlers) pending)))"

definition prune :: "ms \<Rightarrow> db \<Rightarrow> db \<times> nat" where
  "prune now d =
     (let old = (\<lambda>m. x_status m = SENT \<and> (case x_sentAt m of None \<Rightarrow> False | Some s \<Rightarrow> s < now - OUTBOX_KEEP_SENT_MS))
      in (d\<lparr>db_outbox := delete_many old (db_outbox d)\<rparr>, count_rows old (db_outbox d)))"

definition stuckCounts :: "ms \<Rightarrow> db \<Rightarrow> nat \<times> nat" where
  "stuckCounts now d =
     (count_rows (\<lambda>m. x_status m = FAILED \<and> now - totalRetryWindowMs * 2 \<le> x_nextAttemptAt m) (db_outbox d),
      count_rows (\<lambda>m. x_status m = PENDING \<and> x_createdAt m < now - totalRetryWindowMs * 2) (db_outbox d))"

section \<open>Properties\<close>

interpretation outbox_put: row_write x_id "attempt handlers now msg" for handlers now msg
  by unfold_locales
     (simp add: attempt_def failed_attempt_def sent_attempt_def split: option.splits)

definition message_ok :: "outbox_message \<Rightarrow> bool" where
  "message_ok m = (0 \<le> x_attempts m \<and>
     (case x_status m of PENDING \<Rightarrow> x_attempts m < OUTBOX_MAX_ATTEMPTS
                       | FAILED \<Rightarrow> x_attempts m = OUTBOX_MAX_ATTEMPTS
                       | SENT \<Rightarrow> x_attempts m < OUTBOX_MAX_ATTEMPTS))"

definition outbox_ok :: "db \<Rightarrow> bool" where
  "outbox_ok d = (list_all message_ok (db_outbox d) \<and> unique_keys x_dedupeKey (db_outbox d))"

lemma attempt_ok:
  "message_ok m \<Longrightarrow> message_ok msg \<Longrightarrow> x_status msg = PENDING \<Longrightarrow> x_status m = PENDING \<Longrightarrow>
   message_ok (attempt handlers now msg m)"
  by (auto simp: attempt_def failed_attempt_def sent_attempt_def message_ok_def OUTBOX_MAX_ATTEMPTS_def
      split: option.splits)

lemma attempt_dedupe [simp]: "x_dedupeKey (attempt handlers now msg m) = x_dedupeKey m"
  by (simp add: attempt_def failed_attempt_def sent_attempt_def split: option.splits)

lemma drain_one_ok:
  assumes "outbox_ok d" "message_ok msg" "x_status msg = PENDING"
  shows "outbox_ok (drain_one handlers now msg d)"
proof -
  have "map x_dedupeKey (update_many p (attempt handlers now msg) t) = map x_dedupeKey t" for p t
    by (simp add: update_many_def)
  then show ?thesis using assms
    by (auto simp: outbox_ok_def drain_one_def unique_keys_def intro!: list_all_update_many attempt_ok)
qed

lemma fold_drain_ok:
  "outbox_ok d \<Longrightarrow> \<forall>m \<in> set ms. message_ok m \<and> x_status m = PENDING \<Longrightarrow>
   outbox_ok (fold (drain_one handlers now) ms d)"
  by (induction ms arbitrary: d) (auto intro: drain_one_ok)

lemma due_pending: "m \<in> set (due now d) \<Longrightarrow> m \<in> set (db_outbox d) \<and> x_status m = PENDING"
  by (auto simp: due_def dest: in_set_takeD)

text \<open>The outbox is well formed in every state its operations reach: a
  pending or delivered message has had fewer than nine attempts, a failed one exactly nine, and no
  two messages carry the same deduplication key, so a second \<open>enqueue\<close> under a key that is
  already there changes nothing.\<close>

theorem outbox_invariant:
  assumes "outbox_ok d"
  shows "outbox_ok (fst (drainOnce handlers now d)) \<and>
         outbox_ok (enqueue env kind payload key now d) \<and>
         outbox_ok (fst (prune now d)) \<and>
         (key \<noteq> None \<longrightarrow>
            enqueue env kind' payload' key now' (enqueue env kind payload key now d)
            = enqueue env kind payload key now d)"
proof -
  have "outbox_ok (fst (drainOnce handlers now d))"
    using assms unfolding drainOnce_def Let_def fst_conv
    by (intro fold_drain_ok) (auto simp: outbox_ok_def list_all_iff dest: due_pending)
  moreover have "outbox_ok (enqueue env kind payload key now d)"
    using assms set_create_skip [of x_dedupeKey _ "db_outbox d"]
    by (auto simp: outbox_ok_def enqueue_def list_all_iff message_ok_def OUTBOX_MAX_ATTEMPTS_def
        intro!: unique_keys_create_skip dest!: subsetD [OF set_create_skip])
  moreover have "outbox_ok (fst (prune now d))"
    using assms by (auto simp: outbox_ok_def prune_def Let_def list_all_iff unique_keys_delete)
      (simp add: delete_many_def)
  moreover have "enqueue env kind' payload' key now' (enqueue env kind payload key now d)
            = enqueue env kind payload key now d" if "key \<noteq> None"
    using that by (auto simp: enqueue_def create_skip_second)
  ultimately show ?thesis by blast
qed

definition demo_message :: outbox_message where
  "demo_message = \<lparr>x_id = ''x1'', x_kind = ''email'', x_payload = EmailPayload None (Some ''lp1'') ''s'' ''t'', x_dedupeKey = Some ''k1'', x_status = PENDING, x_attempts = 8, x_lastError = None,
     x_createdAt = 0, x_sentAt = None, x_nextAttemptAt = 0\<rparr>"

lemma outbox_invariant_witness:
  "outbox_ok (empty_db\<lparr>db_outbox := [demo_message]\<rparr>) \<and>
   outbox_ok (fst (drainOnce (\<lambda>_. None) 5 (empty_db\<lparr>db_outbox := [demo_message]\<rparr>)))"
proof -
  have "outbox_ok (empty_db\<lparr>db_outbox := [demo_message]\<rparr>)"
    by (simp add: outbox_ok_def empty_db_def demo_message_def message_ok_def OUTBOX_MAX_ATTEMPTS_def unique_keys_def)
  then show ?thesis using outbox_invariant [of "empty_db\<lparr>db_outbox := [demo_message]\<rparr>" "\<lambda>_. None" 5] by blast
qed

section \<open>Retries\<close>

text \<open>The runner drains at the instants \<open>ts\<close>; \<open>spaced\<close>: at each of them the
  longest wait has passed since the one before.\<close>

fun drains :: "handlers \<Rightarrow> ms list \<Rightarrow> db \<Rightarrow> db" where
  "drains handlers [] d = d"
| "drains handlers (now # rest) d = drains handlers rest (fst (drainOnce handlers now d))"

fun spaced :: "ms \<Rightarrow> ms list \<Rightarrow> bool" where
  "spaced from [] = True"
| "spaced from (now # rest) = (from \<le> now \<and> spaced (now + OUTBOX_BACKOFF_CAP_MS) rest)"

definition failing :: "string \<Rightarrow> handlers" where
  "failing err = (\<lambda>_. Some (\<lambda>_. Some err))"

lemma drain_single:
  assumes "db_outbox d = [m]"
  shows "db_outbox (fst (drainOnce handlers now d))
           = [if x_status m = PENDING \<and> x_nextAttemptAt m \<le> now then attempt handlers now m m else m]"
  using assms by (simp add: drainOnce_def due_def Let_def drain_one_def update_many_def OUTBOX_BATCH_SIZE_def)

lemma backoff_bounds:
  assumes "1 \<le> a"
  shows "OUTBOX_BACKOFF_BASE_MS \<le> backoffFor a OUTBOX_BACKOFF_BASE_MS \<and>
         backoffFor a OUTBOX_BACKOFF_BASE_MS \<le> OUTBOX_BACKOFF_CAP_MS \<and>
         backoffFor a OUTBOX_BACKOFF_BASE_MS \<le> backoffFor (a + 1) OUTBOX_BACKOFF_BASE_MS"
proof -
  have p: "(1::int) \<le> 2 ^ nat (a - 1)" by simp
  moreover have "nat a = Suc (nat (a - 1))" using assms by simp
  ultimately have "(2::int) ^ nat a = 2 * 2 ^ nat (a - 1)" by simp
  moreover have "backoffFor a OUTBOX_BACKOFF_BASE_MS = min (30000 * 2 ^ nat (a - 1)) 1800000"
    "backoffFor (a + 1) OUTBOX_BACKOFF_BASE_MS = min (30000 * 2 ^ nat a) 1800000"
    using assms by (simp_all add: backoffFor_def Let_def OUTBOX_BACKOFF_BASE_MS_def OUTBOX_BACKOFF_CAP_MS_def max_def)
  ultimately show ?thesis using p
    unfolding OUTBOX_BACKOFF_BASE_MS_def OUTBOX_BACKOFF_CAP_MS_def by linarith
qed

lemma failing_attempt:
  assumes "message_ok m" "x_status m = PENDING"
  shows "x_attempts (attempt (failing err) now m m) = x_attempts m + 1 \<and>
         x_status (attempt (failing err) now m m) \<noteq> SENT \<and>
         x_nextAttemptAt (attempt (failing err) now m m) \<le> now + OUTBOX_BACKOFF_CAP_MS"
proof -
  have "1 \<le> x_attempts m + 1" using assms by (simp add: message_ok_def)
  from backoff_bounds [OF this] show ?thesis
    by (simp add: attempt_def failing_def failed_attempt_def)
qed

lemma drains_failing:
  assumes "db_outbox d = [m]" "message_ok m" "x_status m \<noteq> SENT" "spaced from ts"
    and "x_status m = PENDING \<Longrightarrow> x_nextAttemptAt m \<le> from"
  shows "\<exists>m'. db_outbox (drains (failing err) ts d) = [m'] \<and> message_ok m' \<and> x_status m' \<noteq> SENT \<and>
              x_attempts m' = min OUTBOX_MAX_ATTEMPTS (x_attempts m + int (length ts))"
  using assms
proof (induction ts arbitrary: d m "from")
  case Nil
  then show ?case by (cases "x_status m") (auto simp: message_ok_def)
next
  case (Cons t ts)
  let ?m = "if x_status m = PENDING then attempt (failing err) t m m else m"
  have step: "db_outbox (fst (drainOnce (failing err) t d)) = [?m]"
    using Cons.prems by (auto simp: drain_single)
  have ok: "message_ok ?m" using Cons.prems by (auto intro: attempt_ok)
  have "x_status ?m \<noteq> SENT" "x_status ?m = PENDING \<Longrightarrow> x_nextAttemptAt ?m \<le> t + OUTBOX_BACKOFF_CAP_MS"
    using Cons.prems failing_attempt [of m err t] by auto
  from Cons.IH [OF step ok this(1) _ this(2)] Cons.prems
  obtain m' where "db_outbox (drains (failing err) (t # ts) d) = [m']" "message_ok m'" "x_status m' \<noteq> SENT"
    "x_attempts m' = min OUTBOX_MAX_ATTEMPTS (x_attempts ?m + int (length ts))"
    by auto
  moreover have "min OUTBOX_MAX_ATTEMPTS (x_attempts ?m + int (length ts))
      = min OUTBOX_MAX_ATTEMPTS (x_attempts m + int (length (t # ts)))"
    using Cons.prems failing_attempt [of m err t] by (cases "x_status m") (auto simp: message_ok_def)
  ultimately show ?case by auto
qed



end
