(* ===== verification/People.thy ===== *)
theory People
  imports Env
begin

text \<open>
  \<open>person/person.service.ts\<close>: a person and the wallets proven to be theirs, and
  \<open>auth/consumed-challenge.service.ts\<close>: single use of a login nonce.  The
  transactions take the person's advisory lock, so each is one step of the database; what a handler
  read before its transaction is the state \<open>d0\<close>, which may be older than the state
  \<open>d\<close> the transaction sees.
\<close>

definition WALLET_CAP :: nat where "WALLET_CAP = 5"
definition LINK_CHALLENGE_TTL_MS :: ms where "LINK_CHALLENGE_TTL_MS = 5 * 60 * 1000"
definition LINK_PREFIX :: string where "LINK_PREFIX = ''lolipay-wallet-link''"

text \<open>\<open>String.split\<close> on one character.\<close>

fun split_on :: "char \<Rightarrow> string \<Rightarrow> string list" where
  "split_on c [] = [[]]"
| "split_on c (x # xs) =
     (if x = c then [] # split_on c xs
      else case split_on c xs of [] \<Rightarrow> [[x]] | p # ps \<Rightarrow> (x # p) # ps)"

definition accountOf :: "env \<Rightarrow> string \<Rightarrow> string" where
  "accountOf env subject = sdk_baseStellarAccount env (hd (split_on (CHR '':'') subject))"

definition find_link :: "db \<Rightarrow> address \<Rightarrow> wallet_link option" where
  "find_link d a = find_row w_stellarAddress a (db_links d)"

definition find_person :: "db \<Rightarrow> string \<Rightarrow> person option" where
  "find_person d i = find_row person_id i (db_persons d)"

definition linkedPerson :: "db \<Rightarrow> address \<Rightarrow> person option" where
  "linkedPerson d a = Option.bind (find_link d a) (\<lambda>w. find_person d (w_personId w))"

definition lookupPerson :: "env \<Rightarrow> db \<Rightarrow> string \<Rightarrow> person option" where
  "lookupPerson env d subject =
     (case find_link d (accountOf env subject) of
        None \<Rightarrow> None
      | Some w \<Rightarrow> if w_status w \<noteq> ACTIVE then None else find_person d (w_personId w))"

definition walletsOf :: "db \<Rightarrow> string \<Rightarrow> address list" where
  "walletsOf d personId = map w_stellarAddress (filter (\<lambda>w. w_personId w = personId) (db_links d))"

definition proveWallet :: "address \<Rightarrow> auth_method \<Rightarrow> string \<Rightarrow> ms \<Rightarrow> db \<Rightarrow> (db, person) handler" where
  "proveWallet a method newId now d0 d =
     (case linkedPerson d0 a of
        Some p \<Rightarrow> (d, Inr p)
      | None \<Rightarrow>
          let p = \<lparr>person_id = newId, person_email = None\<rparr>;
              w = \<lparr>w_stellarAddress = a, w_personId = newId, w_authMethod = method, w_status = ACTIVE, w_provenAt = now\<rparr>
          in case create_unique (\<lambda>w. Some (w_stellarAddress w)) w (db_links d) of
               Some ls \<Rightarrow> (d\<lparr>db_persons := db_persons d @ [p], db_links := ls\<rparr>, Inr p)
             | None \<Rightarrow> (case linkedPerson d a of
                  None \<Rightarrow> (d, Inl (UncaughtError ''P2002''))
                | Some raced \<Rightarrow> (d, Inr raced)))"

definition requirePersonId :: "env \<Rightarrow> db \<Rightarrow> address \<Rightarrow> string outcome" where
  "requirePersonId env d caller =
     (case lookupPerson env d caller of
        None \<Rightarrow> Inl (UnauthorizedException ''caller has no proven wallet'')
      | Some p \<Rightarrow> Inr (person_id p))"

definition issueLinkChallenge :: "env \<Rightarrow> address \<Rightarrow> address \<Rightarrow> string \<Rightarrow> ms \<Rightarrow> (db, string) handler" where
  "issueLinkChallenge env caller a nonce now d =
     (case requirePersonId env d caller of
        Inl e \<Rightarrow> (d, Inl e)
      | Inr personId \<Rightarrow>
          let expires = now + LINK_CHALLENGE_TTL_MS;
              k = \<lparr>k_nonce = nonce, k_personId = personId, k_stellarAddress = a, k_expiresAt = expires, k_consumedAt = None\<rparr>
          in (d\<lparr>db_challenges := db_challenges d @ [k]\<rparr>,
              Inr (LINK_PREFIX @ '':'' @ a @ '':'' @ nonce @ '':'' @ dec_int expires)))"

definition active_of :: "string \<Rightarrow> wallet_link \<Rightarrow> bool" where
  "active_of personId w = (w_personId w = personId \<and> w_status w = ACTIVE)"

definition active_count :: "db \<Rightarrow> string \<Rightarrow> nat" where
  "active_count d personId = count_rows (active_of personId) (db_links d)"

definition spend_challenge :: "ms \<Rightarrow> link_challenge \<Rightarrow> link_challenge" where
  "spend_challenge now k = k\<lparr>k_consumedAt := Some now\<rparr>"

definition reactivate :: "ms \<Rightarrow> wallet_link \<Rightarrow> wallet_link" where
  "reactivate now w = w\<lparr>w_status := ACTIVE, w_authMethod := SEP53, w_provenAt := now\<rparr>"

text \<open>The transaction of \<open>linkWallet\<close>.\<close>

definition linkWallet_tx :: "string \<Rightarrow> address \<Rightarrow> string \<Rightarrow> ms \<Rightarrow> (db, wallet_link) handler" where
  "linkWallet_tx personId a nonce now d =
     (let existing = find_link d a in
      if (\<exists>w. existing = Some w \<and> w_personId w \<noteq> personId)
      then (d, Inl (ConflictException ''address is already linked to another person''))
      else if (case existing of None \<Rightarrow> True | Some w \<Rightarrow> w_status w = REVOKED)
              \<and> active_count d personId \<ge> WALLET_CAP
      then (d, Inl (ConflictException ''a person may hold at most 5 active wallets''))
      else if count_rows (\<lambda>k. k_nonce k = nonce \<and> k_consumedAt k = None) (db_challenges d) \<noteq> 1
      then (d, Inl (UnauthorizedException ''link challenge is unknown, spent or expired''))
      else let d1 = d\<lparr>db_challenges := update_many (\<lambda>k. k_nonce k = nonce \<and> k_consumedAt k = None)
                        (spend_challenge now) (db_challenges d)\<rparr>
           in case existing of
                Some w \<Rightarrow> (d1\<lparr>db_links := update_many (\<lambda>w. w_stellarAddress w = a) (reactivate now) (db_links d1)\<rparr>,
                           Inr (reactivate now w))
              | None \<Rightarrow> (let w = \<lparr>w_stellarAddress = a, w_personId = personId, w_authMethod = SEP53,
                                   w_status = ACTIVE, w_provenAt = now\<rparr>
                         in (d1\<lparr>db_links := db_links d1 @ [w]\<rparr>, Inr w)))"

definition challenge_usable :: "db \<Rightarrow> string \<Rightarrow> string \<Rightarrow> address \<Rightarrow> ms \<Rightarrow> bool" where
  "challenge_usable d nonce personId a now =
     (case find_row k_nonce nonce (db_challenges d) of
        None \<Rightarrow> False
      | Some k \<Rightarrow> k_consumedAt k = None \<and> k_personId k = personId \<and> k_stellarAddress k = a \<and> now < k_expiresAt k)"

definition linkWallet ::
  "env \<Rightarrow> address \<Rightarrow> address \<Rightarrow> string \<Rightarrow> string \<Rightarrow> ms \<Rightarrow> db \<Rightarrow> (db, wallet_link) handler" where
  "linkWallet env caller a challenge signature now d0 d =
     (case requirePersonId env d0 caller of
        Inl e \<Rightarrow> (d, Inl e)
      | Inr personId \<Rightarrow>
          let parts = split_on (CHR '':'') challenge in
          if length parts \<noteq> 4 \<or> parts ! 0 \<noteq> LINK_PREFIX \<or> parts ! 1 \<noteq> a
          then (d, Inl (UnauthorizedException ''link challenge does not belong to this address''))
          else if \<not> sdk_verifySep53 env a challenge signature
          then (d, Inl (UnauthorizedException ''link proof is not signed by the address''))
          else if \<not> challenge_usable d0 (parts ! 2) personId a now
          then (d, Inl (UnauthorizedException ''link challenge is unknown, spent or expired''))
          else transaction (linkWallet_tx personId a (parts ! 2) now) d)"

definition revoke_link :: "wallet_link \<Rightarrow> wallet_link" where
  "revoke_link w = w\<lparr>w_status := REVOKED\<rparr>"

definition revokeWallet_tx :: "string \<Rightarrow> address \<Rightarrow> (db, unit) handler" where
  "revokeWallet_tx personId a d =
     (if active_count d personId \<le> 1
      then (d, Inl (ConflictException ''a person must keep at least one active wallet''))
      else if count_rows (\<lambda>w. w_stellarAddress w = a \<and> active_of personId w) (db_links d) \<noteq> 1
      then (d, Inl (ConflictException ''no active link between this person and this address''))
      else (d\<lparr>db_links := update_many (\<lambda>w. w_stellarAddress w = a \<and> active_of personId w)
                 revoke_link (db_links d)\<rparr>, Inr ()))"

definition revokeWallet :: "env \<Rightarrow> address \<Rightarrow> address \<Rightarrow> db \<Rightarrow> (db, unit) handler" where
  "revokeWallet env caller a d0 d =
     (case requirePersonId env d0 caller of
        Inl e \<Rightarrow> (d, Inl e)
      | Inr personId \<Rightarrow> transaction (revokeWallet_tx personId a) d)"

text \<open>\<open>ConsumedChallengeService.consume\<close>: the insert that fails on a nonce already there.\<close>

definition consume :: "string \<Rightarrow> ms \<Rightarrow> db \<Rightarrow> db \<times> bool" where
  "consume nonce expires d =
     (case create_unique (\<lambda>c. Some (cc_nonce c)) \<lparr>cc_nonce = nonce, cc_expiresAt = expires\<rparr> (db_consumed d) of
        Some t \<Rightarrow> (d\<lparr>db_consumed := t\<rparr>, True)
      | None \<Rightarrow> (d, False))"

section \<open>Interfaces\<close>

interpretation challenge: keyed_latch "\<lambda>k. k_consumedAt k = None" "spend_challenge now" k_nonce for now
  by unfold_locales (simp_all add: spend_challenge_def)

interpretation revocation: keyed_latch "active_of p" revoke_link w_stellarAddress for p
  by unfold_locales (simp_all add: revoke_link_def active_of_def)

interpretation reactivation: row_write w_stellarAddress "reactivate now" for now
  by unfold_locales (simp add: reactivate_def)

section \<open>The wallet cap\<close>

definition links_ok :: "db \<Rightarrow> bool" where
  "links_ok d = (distinct (map w_stellarAddress (db_links d)) \<and> (\<forall>p. active_count d p \<le> WALLET_CAP))"

lemma count_rows_append [simp]: "count_rows p (xs @ ys) = count_rows p xs + count_rows p ys"
  by (simp add: count_rows_def)

lemma count_rows_single: "count_rows p [x] = (if p x then 1 else 0)"
  by (simp add: count_rows_def)

text \<open>Rewriting the one row with a key changes a count by that row alone.\<close>

lemma count_update_key:
  assumes "distinct (map key t)" "find_row key k t = Some r" "key (f r) = key r"
  shows "int (count_rows q (update_many (\<lambda>r. key r = k) f t))
       = int (count_rows q t) - (if q r then 1 else 0) + (if q (f r) then 1 else 0)"
  using assms
proof (induction t)
  case (Cons x t)
  show ?case
  proof (cases "key x = k")
    case True
    then have "x = r" using Cons.prems(2) by (simp add: find_row_def)
    moreover have "update_many (\<lambda>r. key r = k) f t = t"
      using Cons.prems(1) True by (intro update_many_id) (auto simp: image_iff)
    ultimately show ?thesis using True by (simp add: update_many_def count_rows_def)
  next
    case False
    then have "find_row key k t = Some r" using Cons.prems(2) by (simp add: find_row_def)
    with Cons False show ?thesis by (auto simp: update_many_def count_rows_def split: if_splits)
  qed
qed (simp add: find_row_def)

lemma reactivate_cap:
  assumes ok: "links_ok d" and w: "find_link d a = Some w" "w_personId w = p"
    and cap: "w_status w = REVOKED \<Longrightarrow> active_count d p < WALLET_CAP"
  shows "count_rows (active_of q) (update_many (\<lambda>w. w_stellarAddress w = a) (reactivate now) (db_links d)) \<le> WALLET_CAP"
proof -
  have old: "count_rows (active_of q) (db_links d) \<le> WALLET_CAP"
    using ok by (simp add: links_ok_def active_count_def)
  have "int (count_rows (active_of q) (update_many (\<lambda>w. w_stellarAddress w = a) (reactivate now) (db_links d)))
      = int (count_rows (active_of q) (db_links d)) - (if active_of q w then 1 else 0)
        + (if active_of q (reactivate now w) then 1 else 0)"
    using ok w(1) by (intro count_update_key) (auto simp: links_ok_def find_link_def reactivate_def)
  moreover have "w_status w = ACTIVE \<or> w_status w = REVOKED" by (cases "w_status w") auto
  ultimately show ?thesis
    using old cap w(2) by (auto simp: active_of_def reactivate_def active_count_def split: if_splits)
qed

lemma linkWallet_tx_ok: "links_ok d \<Longrightarrow> links_ok (fst (linkWallet_tx p a nonce now d))"
proof -
  assume ok: "links_ok d"
  show ?thesis
  proof (cases "find_link d a")
    case None
    then have "a \<notin> w_stellarAddress ` set (db_links d)"
      by (simp add: find_link_def find_row_None)
    then show ?thesis using ok None
      by (auto simp: linkWallet_tx_def Let_def links_ok_def active_count_def count_rows_single
          active_of_def Suc_le_eq)
  next
    case (Some w)
    show ?thesis
    proof (cases "w_personId w = p \<and> (w_status w = REVOKED \<longrightarrow> active_count d p < WALLET_CAP)")
      case True
      then show ?thesis using ok Some reactivate_cap [OF ok Some, of p]
        by (auto simp: linkWallet_tx_def Let_def links_ok_def active_count_def reactivation.keys_kept)
    next
      case False
      then show ?thesis using ok Some by (auto simp: linkWallet_tx_def Let_def)
    qed
  qed
qed

lemma revokeWallet_tx_ok: "links_ok d \<Longrightarrow> links_ok (fst (revokeWallet_tx p a d))"
proof -
  assume ok: "links_ok d"
  have "count_rows (active_of q) (update_many P revoke_link t) \<le> count_rows (active_of q) t" for q P t
    by (induction t) (auto simp: update_many_def count_rows_def active_of_def revoke_link_def)
  then have "active_count (fst (revokeWallet_tx p a d)) q \<le> active_count d q" for q
    by (simp add: revokeWallet_tx_def active_count_def)
  then have "active_count (fst (revokeWallet_tx p a d)) q \<le> WALLET_CAP" for q
    using ok by (meson links_ok_def order_trans)
  moreover have "map w_stellarAddress (db_links (fst (revokeWallet_tx p a d))) = map w_stellarAddress (db_links d)"
    by (simp add: revokeWallet_tx_def revocation.keys_kept)
  ultimately show ?thesis using ok by (simp add: links_ok_def)
qed

text \<open>However stale the reads a request made before its transaction,
  linking or revoking keeps every person at no more than five active wallets and every address linked
  at most once; and a revocation never leaves a person who had an active wallet without one.\<close>

theorem wallet_cap_kept:
  assumes "links_ok d"
  shows "links_ok (fst (linkWallet env caller a challenge sig now d0 d)) \<and>
         links_ok (fst (revokeWallet env caller a d0 d)) \<and>
         (1 \<le> active_count d p \<longrightarrow> 1 \<le> active_count (fst (revokeWallet env caller a d0 d)) p)"
proof -
  have link: "links_ok (fst (linkWallet env caller a challenge sig now d0 d))"
    using assms by (auto simp: linkWallet_def Let_def intro!: fst_transaction linkWallet_tx_ok split: sum.splits)
  have rev: "links_ok (fst (revokeWallet env caller a d0 d))"
    using assms by (auto simp: revokeWallet_def intro!: fst_transaction revokeWallet_tx_ok split: sum.splits)
  have "1 \<le> active_count (fst (revokeWallet_tx q a d)) p" if "1 \<le> active_count d p" for q
  proof (cases "p = q \<and> 1 < active_count d q \<and> count_rows (\<lambda>w. w_stellarAddress w = a \<and> active_of q w) (db_links d) = 1")
    case True
    have "count_rows (active_of q) (update_many (\<lambda>w. w_stellarAddress w = a \<and> active_of q w) revoke_link t)
        + count_rows (\<lambda>w. w_stellarAddress w = a \<and> active_of q w) t = count_rows (active_of q) t" for t
      by (induction t) (auto simp: update_many_def count_rows_def active_of_def revoke_link_def)
    from this [of "db_links d"] show ?thesis using True
      by (simp add: revokeWallet_tx_def active_count_def)
  next
    case False
    have "count_rows (active_of p) (update_many (\<lambda>w. w_stellarAddress w = a \<and> active_of q w) revoke_link t)
        = count_rows (active_of p) t" if "p \<noteq> q" for t
      using that by (induction t) (auto simp: update_many_def count_rows_def active_of_def revoke_link_def)
    then show ?thesis using False that by (auto simp: revokeWallet_tx_def active_count_def)
  qed
  then have "1 \<le> active_count (fst (transaction (revokeWallet_tx q a) d)) p" if "1 \<le> active_count d p" for q
    using that by (intro fst_transaction [where P = "\<lambda>s. 1 \<le> active_count s p"]) auto
  then have "1 \<le> active_count (fst (revokeWallet env caller a d0 d)) p" if "1 \<le> active_count d p"
    using that by (cases "requirePersonId env d0 caller") (simp_all add: revokeWallet_def)
  then show ?thesis using link rev by blast
qed

text \<open>A link challenge is worth one link.  Once a request that carried it has
  succeeded, every other request carrying the same challenge fails and writes nothing, also one that
  had already found the challenge unspent before the first request committed, whoever sends it and
  whatever it is signed with.\<close>

theorem link_challenge_single_use:
  assumes "linkWallet env caller a challenge sig now d0 d = (d', Inr w)"
  shows "\<exists>e. linkWallet env' caller' a' challenge sig' now' d0' d' = (d', Inl e)"
proof -
  define nonce where "nonce = split_on (CHR '':'') challenge ! 2"
  obtain p where tx: "linkWallet_tx p a nonce now d = (d', Inr w)"
    using assms by (auto simp: linkWallet_def Let_def nonce_def transaction_Inr split: sum.splits if_splits)
  have "db_challenges d' = update_many (\<lambda>k. k_nonce k = nonce \<and> k_consumedAt k = None)
          (spend_challenge now) (db_challenges d)"
    using tx by (auto simp: linkWallet_tx_def Let_def split: if_splits option.splits)
  then have spent: "count_rows (\<lambda>k. k_nonce k = nonce \<and> k_consumedAt k = None) (db_challenges d') = 0"
    using challenge.claimed_once [of "\<lambda>k. k_nonce k = nonce"] by simp
  have "\<exists>e. linkWallet_tx q a' nonce now' d' = (d', Inl e)" for q
    using spent by (simp add: linkWallet_tx_def Let_def)
  then have "\<exists>e. transaction (linkWallet_tx q a' nonce now') d' = (d', Inl e)" for q
    by (meson transaction_fails)
  then show ?thesis by (auto simp: linkWallet_def Let_def nonce_def [symmetric] split: sum.splits)
qed

lemma consume_once:
  "consume nonce e d = (d', True) \<Longrightarrow> consume nonce e' d' = (d', False)"
  by (auto simp: consume_def create_unique_def split: option.splits if_splits)

section \<open>A person with one wallet linking a second\<close>

definition link_db :: db where
  "link_db = empty_db\<lparr>db_persons := [\<lparr>person_id = ''p1'', person_email = None\<rparr>],
     db_links := [\<lparr>w_stellarAddress = ''G1'', w_personId = ''p1'', w_authMethod = SEP10, w_status = ACTIVE, w_provenAt = 0\<rparr>],
     db_challenges := [\<lparr>k_nonce = ''n1'', k_personId = ''p1'', k_stellarAddress = ''G2'', k_expiresAt = 300000, k_consumedAt = None\<rparr>]\<rparr>"

abbreviation link_request :: "db \<Rightarrow> db \<times> wallet_link outcome" where
  "link_request \<equiv> linkWallet demo_env ''G1'' ''G2'' ''lolipay-wallet-link:G2:n1:300000'' ''ok'' 1000 link_db"

lemmas link_eval = linkWallet_def requirePersonId_def lookupPerson_def accountOf_def find_link_def
  find_person_def find_row_def LINK_PREFIX_def challenge_usable_def transaction_def linkWallet_tx_def
  active_count_def count_rows_def active_of_def WALLET_CAP_def update_many_def spend_challenge_def
  link_db_def empty_db_def demo_env_def Let_def

lemma link_request_ok: "\<exists>d' w. link_request link_db = (d', Inr w) \<and> active_count d' ''p1'' = 2"
  by (simp add: link_eval)

theorem wallet_cap_kept_witness:
  "links_ok link_db \<and> links_ok (fst (link_request link_db)) \<and> active_count (fst (link_request link_db)) ''p1'' = 2"
proof -
  have "links_ok link_db" by (simp add: links_ok_def link_eval)
  then show ?thesis
    using wallet_cap_kept [of link_db demo_env "''G1''" "''G2''" "''lolipay-wallet-link:G2:n1:300000''" "''ok''" 1000 link_db]
      link_request_ok by auto
qed

theorem link_challenge_single_use_witness:
  "\<exists>d' w e. link_request link_db = (d', Inr w) \<and> link_request d' = (d', Inl e)"
proof -
  obtain d' w where ok: "link_request link_db = (d', Inr w)" using link_request_ok by blast
  show ?thesis using ok link_challenge_single_use [OF ok] by blast
qed

end
