(* ===== verification/Notify.thy ===== *)
theory Notify
  imports Outbox People "HOL-Library.List_Lexorder" "HOL-Library.Char_ord"
begin

text \<open>
  \<open>notification/notification.service.ts\<close>: which party is told what when an order changes,
  the notification rows, the e-mails queued with them and the push to connected clients.  Strings
  are UTF-8; the em dash and the emoji are written as their bytes.  \<open>iso_string\<close> is
  \<open>Date.toISOString\<close> for the years 0 to 9999.
\<close>

section \<open>Dates\<close>

text \<open>The proleptic Gregorian date of a day number counted from 1970-01-01.\<close>

definition civil_from_days :: "int \<Rightarrow> int \<times> int \<times> int" where
  "civil_from_days days =
     (let z = days + 719468; era = z div 146097; doe = z mod 146097;
          yoe = (doe - doe div 1460 + doe div 36524 - doe div 146096) div 365;
          doy = doe - (365 * yoe + yoe div 4 - yoe div 100);
          mp = (5 * doy + 2) div 153;
          d = doy - (153 * mp + 2) div 5 + 1;
          m = (if mp < 10 then mp + 3 else mp - 9)
      in (yoe + era * 400 + (if m \<le> 2 then 1 else 0), m, d))"

definition pad0 :: "nat \<Rightarrow> int \<Rightarrow> string" where
  "pad0 w i = pad_start w (CHR ''0'') (dec_int i)"

definition iso_string :: "ms \<Rightarrow> string" where
  "iso_string t =
     (let (y, m, d) = civil_from_days (t div 86400000); r = t mod 86400000
      in pad0 4 y @ ''-'' @ pad0 2 m @ ''-'' @ pad0 2 d @ ''T'' @ pad0 2 (r div 3600000) @ '':'' @
         pad0 2 (r div 60000 mod 60) @ '':'' @ pad0 2 (r div 1000 mod 60) @ ''.'' @ pad0 3 (r mod 1000) @ ''Z'')"

section \<open>Messages\<close>

datatype role = RoleUser | RoleLp

definition em_dash :: string where "em_dash = [CHR 0xE2, CHR 0x80, CHR 0x94]"
definition party_popper :: string where "party_popper = [CHR 0xF0, CHR 0x9F, CHR 0x8E, CHR 0x89]"

fun status_name :: "order_status \<Rightarrow> string" where
  "status_name CREATED = ''CREATED''"
| "status_name MATCHED = ''MATCHED''"
| "status_name AWAITING_ONCHAIN = ''AWAITING_ONCHAIN''"
| "status_name FUNDED = ''FUNDED''"
| "status_name FIAT_PAID = ''FIAT_PAID''"
| "status_name RELEASED = ''RELEASED''"
| "status_name REFUNDED = ''REFUNDED''"
| "status_name DISPUTED = ''DISPUTED''"
| "status_name EXPIRED = ''EXPIRED''"
| "status_name CANCELLED = ''CANCELLED''"

text \<open>The cases of \<open>messageFor\<close>, one definition each.\<close>

definition matched_message :: "bool \<Rightarrow> role \<Rightarrow> secs option \<Rightarrow> (string \<times> string) option" where
  "matched_message isBuy role pay =
       (if role \<noteq> RoleLp then None
        else if \<not> isBuy then
          Some (''New order assigned'',
            ''An order has been assigned to you. The seller locks their USDC first '' @ em_dash @ '' nothing is needed from you yet.'')
        else Some (''New order '' @ em_dash @ '' lock the USDC'',
            (case pay of
               Some p \<Rightarrow> ''An order has been assigned to you. Lock the USDC in escrow before '' @
                         iso_string (signingCutoffSecs p * 1000) @ '' or the assignment expires.''
             | None \<Rightarrow> ''An order has been assigned to you. Lock the USDC in escrow before the assignment expires.'')))"

definition expired_message :: "role \<Rightarrow> bool \<Rightarrow> (string \<times> string) option" where
  "expired_message role lpPenalized =
       (if role = RoleUser then
          Some (''Order expired'', ''Your order was not completed on-chain in time and was cancelled.'')
        else if lpPenalized then
          Some (''Assignment expired '' @ em_dash @ '' you have been set unavailable'',
            ''The order assigned to you was not completed on-chain in time, so this anchor has set you unavailable and you will not be assigned new orders. Set yourself available again on your dashboard, where the readiness list shows your stake and payment method. If your transaction reaches the network after this, the order will reopen and you will be told.'')
        else
          Some (''Assignment expired'',
            ''The order assigned to you was not completed on-chain in time and the assignment has been closed. If your transaction reaches the network after this, the order will reopen and you will be told.''))"

definition cancelled_message :: "role \<Rightarrow> (string \<times> string) option" where
  "cancelled_message role =
       (if role = RoleUser then
          Some (''Order cancelled'', ''Your order was cancelled before it was funded on-chain.'')
        else
          Some (''Assignment cancelled'',
            ''The order assigned to you was cancelled before anything was locked on chain, so nothing is needed from you. If your transaction reaches the network after this, the order will reopen and you will be told.''))"

definition funded_message :: "bool \<Rightarrow> role \<Rightarrow> (string \<times> string) option" where
  "funded_message isBuy role =
       (if isBuy then
          (if role = RoleUser then
             Some (''USDC locked'', ''The merchant locked the USDC '' @ em_dash @ '' pay now to receive it.'')
           else Some (''You locked USDC'', ''USDC is locked in escrow for your order.''))
        else if role = RoleUser then
          Some (''USDC locked'', ''Your USDC is locked '' @ em_dash @ '' waiting for the merchant to pay.'')
        else Some (''Seller locked USDC'', ''Pay the seller, then mark it paid to receive the USDC.''))"

definition fiat_paid_message :: "bool \<Rightarrow> role \<Rightarrow> (string \<times> string) option" where
  "fiat_paid_message isBuy role =
       (if isBuy then
          (if role = RoleUser then
             Some (''Payment marked'', ''Waiting for the merchant to release your USDC.'')
           else Some (''Marked as paid on chain'',
             ''This order is now marked as paid on chain, so it can only be released or settled through a dispute. If the rupiah is in your account and you have not released yet, release it from Assignments. If it is not, open a dispute there.''))
        else if role = RoleUser then
          Some (''Merchant paid'', ''Confirm you received it to release the USDC.'')
        else Some (''You marked paid'', ''Waiting for the seller to confirm & release.''))"

definition released_message :: "bool \<Rightarrow> role \<Rightarrow> (string \<times> string) option" where
  "released_message isBuy role =
       (if isBuy then
          (if role = RoleUser then
             Some (''USDC released '' @ party_popper, ''Your USDC has been released. Trade complete.'')
           else Some (''Trade complete'', ''The USDC was released to the buyer.''))
        else if role = RoleUser then
          Some (''Trade complete'', ''Your USDC was released to the merchant.'')
        else Some (''USDC released '' @ party_popper, ''The USDC was released to you. Trade complete.''))"

definition refunded_message :: "bool \<Rightarrow> role \<Rightarrow> (string \<times> string) option" where
  "refunded_message isBuy role =
       (if isBuy then
          (if role = RoleUser then
             Some (''Order refunded'',
               ''The USDC was returned to the merchant. You were not charged, and you can still open a dispute on this order for a short time.'')
           else Some (''Order refunded'',
               ''The USDC you locked was returned to your wallet in full. You can still open a dispute on this order for a short time.''))
        else if role = RoleUser then
          Some (''Order refunded'',
            ''Your USDC was returned to your wallet in full. You can still open a dispute on this order for a short time.'')
        else
          Some (''Order refunded'',
            ''The USDC was returned to the seller and it did not come to you. If you already sent the rupiah for this order, open a dispute from your assignments now '' @ em_dash @ '' the window to do it is short.''))"

definition disputed_message :: "ms option \<Rightarrow> (string \<times> string) option" where
  "disputed_message settledAt =
       (case settledAt of
          Some _ \<Rightarrow> Some (''Post-settlement dispute opened'',
            ''A dispute was raised after this order settled '' @ em_dash @ '' it is under review by the platform.'')
        | None \<Rightarrow> Some (''Dispute opened'', ''This order is under review by the platform.''))"

definition messageFor :: "flow \<Rightarrow> string \<Rightarrow> role \<Rightarrow> ms option \<Rightarrow> secs option \<Rightarrow> bool \<Rightarrow> (string \<times> string) option" where
  "messageFor flw status role settledAt pay lpPenalized =
    (let isBuy = (flw = TOP_UP) in
     if status = ''MATCHED'' then matched_message isBuy role pay
     else if status = ''MATCHED_EXPIRED'' then expired_message role lpPenalized
     else if status = ''CANCELLED'' then cancelled_message role
     else if status = ''FUNDED'' then funded_message isBuy role
     else if status = ''FIAT_PAID'' then fiat_paid_message isBuy role
     else if status = ''RELEASED'' then released_message isBuy role
     else if status = ''REFUNDED'' then refunded_message isBuy role
     else if status = ''DISPUTED'' then disputed_message settledAt
     else None)"

section \<open>The service\<close>

text \<open>The part of an order the callers hand over.\<close>

record notice =
  no_id :: string
  no_userAddress :: address
  no_lpWallet :: "address option"
  no_lpId :: "string option"
  no_flow :: flow
  no_settledAt :: "ms option"
  no_payDeadline :: "secs option"

definition notice_of :: "order \<Rightarrow> notice" where
  "notice_of x = \<lparr>no_id = o_id x, no_userAddress = o_userAddress x, no_lpWallet = o_lpWallet x,
     no_lpId = o_lpId x, no_flow = o_flow x, no_settledAt = o_settledAt x, no_payDeadline = Some (o_payDeadline x)\<rparr>"

definition EMAIL_OUTBOX_KIND :: string where "EMAIL_OUTBOX_KIND = ''email''"
definition NOTIFICATIONS_PAGE_SIZE :: nat where "NOTIFICATIONS_PAGE_SIZE = 50"

definition n_key :: "notification \<Rightarrow> (address \<times> string \<times> string) option" where
  "n_key n = map_option (\<lambda>i. (n_address n, i, n_event n)) (n_orderId n)"

definition notice_row :: "env \<Rightarrow> ms \<Rightarrow> notice \<Rightarrow> string \<Rightarrow> address \<Rightarrow> string \<times> string \<Rightarrow> notification" where
  "notice_row env now x status addr msg =
     \<lparr>n_id = sdk_uuid env (''notification:'' @ addr @ '':'' @ no_id x @ '':'' @ status), n_address = addr,
      n_orderId = Some (no_id x), n_event = status, n_title = fst msg, n_body = snd msg, n_read = False,
      n_createdAt = now\<rparr>"

definition notice_rows :: "env \<Rightarrow> ms \<Rightarrow> notice \<Rightarrow> string \<Rightarrow> bool \<Rightarrow> notification list" where
  "notice_rows env now x status lpPenalized =
     (case messageFor (no_flow x) status RoleUser (no_settledAt x) (no_payDeadline x) lpPenalized of
        None \<Rightarrow> [] | Some u \<Rightarrow> [notice_row env now x status (no_userAddress x) u]) @
     (case (messageFor (no_flow x) status RoleLp (no_settledAt x) (no_payDeadline x) lpPenalized, no_lpWallet x) of
        (Some l, Some w) \<Rightarrow> if w \<noteq> [] \<and> w \<noteq> no_userAddress x then [notice_row env now x status w l] else []
      | _ \<Rightarrow> [])"

text \<open>Who gets an e-mail for a row, and under which deduplication key: the person's id, the
  provider's id, the key.  People and providers are looked up before the transaction, in \<open>d0\<close>.\<close>

definition email_target :: "env \<Rightarrow> db \<Rightarrow> notice \<Rightarrow> string \<Rightarrow> notification \<Rightarrow> (string option \<times> string option \<times> string) option" where
  "email_target env d0 x status row =
     (let dedupe = EMAIL_OUTBOX_KIND @ '':'' @ no_id x @ '':'' @ status @ '':'' in
      if Some (n_address row) = no_lpWallet x then
        (case (if truthy_str (no_lpId x) then Option.bind (no_lpId x) (find_lp d0) else None) of
           None \<Rightarrow> None
         | Some l \<Rightarrow> if truthy_str (lp_alertEmail l) then Some (None, Some (lp_id l), dedupe @ lp_id l) else None)
      else
        (case lookupPerson env d0 (n_address row) of
           None \<Rightarrow> None
         | Some p \<Rightarrow> if truthy_str (person_email p) then Some (Some (person_id p), None, dedupe @ person_id p) else None))"

definition queue_email :: "env \<Rightarrow> ms \<Rightarrow> db \<Rightarrow> notice \<Rightarrow> string \<Rightarrow> notification \<Rightarrow> db \<Rightarrow> db" where
  "queue_email env now d0 x status row d =
     (case email_target env d0 x status row of
        None \<Rightarrow> d
      | Some (personId, lpId, key) \<Rightarrow>
          enqueue env EMAIL_OUTBOX_KIND (EmailPayload personId lpId (n_title row) (n_body row)) (Some key) now d)"

definition emitOrderUpdate :: "realtime_event \<Rightarrow> db \<Rightarrow> db" where
  "emitOrderUpdate ev d = d\<lparr>db_emitted := db_emitted d @ [ev]\<rparr>"

definition notifyOrderStatus :: "env \<Rightarrow> ms \<Rightarrow> notice \<Rightarrow> string \<Rightarrow> bool \<Rightarrow> db \<Rightarrow> db" where
  "notifyOrderStatus env now x status lpPenalized d =
     (let rows = notice_rows env now x status lpPenalized;
          d1 = d\<lparr>db_notifications := fold (create_skip n_key) rows (db_notifications d)\<rparr>;
          d2 = fold (queue_email env now d x status) rows d1
      in emitOrderUpdate \<lparr>r_orderId = no_id x, r_status = status, r_flow = no_flow x,
           r_userAddress = no_userAddress x, r_lpWallet = no_lpWallet x\<rparr> d2)"

text \<open>Newest first.\<close>

definition list_notifications :: "db \<Rightarrow> address \<Rightarrow> nat \<Rightarrow> notification list" where
  "list_notifications d addr n =
     take n (rev (sort_key n_createdAt (sort_key n_id (filter (\<lambda>r. n_address r = addr) (db_notifications d)))))"

definition unreadCount :: "db \<Rightarrow> address \<Rightarrow> nat" where
  "unreadCount d addr = count_rows (\<lambda>r. n_address r = addr \<and> \<not> n_read r) (db_notifications d)"

definition markAllRead :: "address \<Rightarrow> nat \<Rightarrow> db \<Rightarrow> db" where
  "markAllRead addr n d =
     (let shown = map n_id (list_notifications d addr n)
      in if shown = [] then d
         else d\<lparr>db_notifications := update_many (\<lambda>r. n_id r \<in> set shown \<and> \<not> n_read r)
                  (\<lambda>r. r\<lparr>n_read := True\<rparr>) (db_notifications d)\<rparr>)"

section \<open>Properties\<close>

text \<open>A notification touches the notification, outbox and realtime tables only.\<close>

definition notify_frame :: "db \<Rightarrow> db \<Rightarrow> bool" where
  "notify_frame d d' = (d' = d\<lparr>db_notifications := db_notifications d', db_outbox := db_outbox d',
                              db_emitted := db_emitted d'\<rparr>)"

lemma queue_email_frame: "notify_frame d (queue_email env now d0 x status row d)"
  by (auto simp: notify_frame_def queue_email_def enqueue_def split: option.splits)

lemma notify_frame_trans: "notify_frame d d' \<Longrightarrow> notify_frame d' d'' \<Longrightarrow> notify_frame d d''"
  unfolding notify_frame_def by (cases d, cases d', cases d'') simp

lemma fold_queue_frame: "notify_frame d (fold (queue_email env now d0 x status) rows d)"
proof (induction rows arbitrary: d)
  case Nil
  then show ?case by (simp add: notify_frame_def)
next
  case (Cons r rows)
  show ?case using notify_frame_trans [OF queue_email_frame Cons] by simp
qed

lemma notify_frame_keeps:
  assumes "notify_frame d d'"
  shows "db_orders d' = db_orders d" "db_quotes d' = db_quotes d" "db_lps d' = db_lps d"
    "db_markets d' = db_markets d" "db_config d' = db_config d" "db_prices d' = db_prices d"
    "db_persons d' = db_persons d" "db_links d' = db_links d" "db_challenges d' = db_challenges d"
    "db_consumed d' = db_consumed d" "db_events d' = db_events d" "db_kyc d' = db_kyc d"
    "db_profiles d' = db_profiles d" "db_audits d' = db_audits d" "db_cursor d' = db_cursor d"
proof -
  obtain n m e where "d' = d\<lparr>db_notifications := n, db_outbox := m, db_emitted := e\<rparr>"
    using assms unfolding notify_frame_def by blast
  then show "db_orders d' = db_orders d" "db_quotes d' = db_quotes d" "db_lps d' = db_lps d"
    "db_markets d' = db_markets d" "db_config d' = db_config d" "db_prices d' = db_prices d"
    "db_persons d' = db_persons d" "db_links d' = db_links d" "db_challenges d' = db_challenges d"
    "db_consumed d' = db_consumed d" "db_events d' = db_events d" "db_kyc d' = db_kyc d"
    "db_profiles d' = db_profiles d" "db_audits d' = db_audits d" "db_cursor d' = db_cursor d"
    by simp_all
qed

lemma notifyOrderStatus_frame: "notify_frame d (notifyOrderStatus env now x status pen d)"
proof -
  let ?d1 = "d\<lparr>db_notifications := fold (create_skip n_key) (notice_rows env now x status pen) (db_notifications d)\<rparr>"
  let ?d2 = "fold (queue_email env now d x status) (notice_rows env now x status pen) ?d1"
  have "notify_frame d ?d1" by (simp add: notify_frame_def)
  then have "notify_frame d ?d2" by (rule notify_frame_trans) (rule fold_queue_frame)
  moreover have "notify_frame ?d2 (emitOrderUpdate ev ?d2)" for ev
    by (simp add: notify_frame_def emitOrderUpdate_def)
  ultimately show ?thesis unfolding notifyOrderStatus_def Let_def by (rule notify_frame_trans)
qed

lemmas notify_keeps [simp] = notify_frame_keeps [OF notifyOrderStatus_frame]

lemma notify_fold_notifications [simp]:
  "db_notifications (fold (queue_email env now d0 x status) rows d) = db_notifications d"
proof (induction rows arbitrary: d)
  case (Cons r rows)
  have "db_notifications (queue_email env now d0 x status r d) = db_notifications d"
    by (simp add: queue_email_def enqueue_def split: option.splits)
  then show ?case using Cons by simp
qed simp

lemma notify_notifications:
  "db_notifications (notifyOrderStatus env now x status pen d)
     = fold (create_skip n_key) (notice_rows env now x status pen) (db_notifications d)"
  by (simp add: notifyOrderStatus_def Let_def emitOrderUpdate_def)

lemma notice_rows_addr:
  "r \<in> set (notice_rows env now x status pen) \<Longrightarrow>
   n_event r = status \<and> n_orderId r = Some (no_id x) \<and>
   (n_address r = no_userAddress x \<or> Some (n_address r) = no_lpWallet x)"
  by (auto simp: notice_rows_def notice_row_def split: option.splits if_splits)

lemma fold_create_skip_present:
  assumes "\<forall>r \<in> set rows. \<exists>x \<in> set t. n_key x = n_key r" "\<forall>r \<in> set rows. n_key r \<noteq> None"
  shows "fold (create_skip n_key) rows t = t"
  using assms by (induction rows) (auto simp: create_skip_def create_unique_def)

lemma fold_create_skip_grows: "x \<in> set t \<Longrightarrow> x \<in> set (fold (create_skip n_key) rows t)"
  by (induction rows arbitrary: t) (auto intro: create_skip_keeps)

lemma fold_create_skip_covers:
  assumes "r \<in> set rows" "n_key r \<noteq> None"
  shows "\<exists>x \<in> set (fold (create_skip n_key) rows t). n_key x = n_key r"
  using assms
proof (induction rows arbitrary: t)
  case (Cons a rows)
  show ?case
  proof (cases "r = a")
    case True
    have "\<exists>x \<in> set (create_skip n_key a t). n_key x = n_key a"
      by (auto simp: create_skip_def create_unique_def)
    then show ?thesis using True fold_create_skip_grows by fastforce
  next
    case False
    then show ?thesis using Cons by auto
  qed
qed simp

lemma fold_create_skip_sub: "set (fold (create_skip n_key) rows t) \<subseteq> set rows \<union> set t"
proof (induction rows arbitrary: t)
  case (Cons a rows)
  then show ?case using set_create_skip [of n_key a t] by fastforce
qed simp

lemma fold_create_skip_unique:
  "unique_keys n_key t \<Longrightarrow> unique_keys n_key (fold (create_skip n_key) rows t)"
  by (induction rows arbitrary: t) (auto intro: unique_keys_create_skip)

lemma message_present:
  "matched_message b r p = None \<longleftrightarrow> r \<noteq> RoleLp" "expired_message r pen \<noteq> None" "cancelled_message r \<noteq> None"
  "funded_message b r \<noteq> None" "fiat_paid_message b r \<noteq> None" "released_message b r \<noteq> None"
  "refunded_message b r \<noteq> None" "disputed_message t \<noteq> None"
  unfolding matched_message_def expired_message_def cancelled_message_def funded_message_def
    fiat_paid_message_def released_message_def refunded_message_def disputed_message_def
  by (simp_all only: option.distinct simp_thms if_True if_False not_True_eq_False not_False_eq_True split: if_split option.split)

lemma messageFor_None:
  "messageFor f s r a p pen = None \<longleftrightarrow> messageFor f s r a' p' pen' = None"
  by (simp add: messageFor_def Let_def message_present)

lemma notice_rows_keys:
  "map (\<lambda>r. (n_address r, n_key r)) (notice_rows env now x status pen)
     = map (\<lambda>r. (n_address r, n_key r)) (notice_rows env' now' x status pen')"
  using messageFor_None [of "no_flow x" status RoleUser "no_settledAt x" "no_payDeadline x" pen
      "no_settledAt x" "no_payDeadline x" pen']
    messageFor_None [of "no_flow x" status RoleLp "no_settledAt x" "no_payDeadline x" pen
      "no_settledAt x" "no_payDeadline x" pen']
  by (auto simp: notice_rows_def notice_row_def n_key_def split: option.splits)

text \<open>The e-mails of a call, by deduplication key.\<close>

definition email_keys :: "db \<Rightarrow> string option set" where
  "email_keys d = x_dedupeKey ` set (db_outbox d)"

lemma enqueue_keys:
  "email_keys (enqueue env kind payload (Some k) now d) = insert (Some k) (email_keys d)"
  by (auto simp: email_keys_def enqueue_def create_skip_def create_unique_def) (metis imageI)

lemma enqueue_present:
  "Some k \<in> email_keys d \<Longrightarrow> enqueue env kind payload (Some k) now d = d"
  by (auto simp: email_keys_def enqueue_def create_skip_def create_unique_def)

lemma queue_email_keys:
  "email_keys (queue_email env now d0 x status row d)
     = (case email_target env d0 x status row of None \<Rightarrow> {} | Some (p, l, k) \<Rightarrow> {Some k}) \<union> email_keys d"
  by (auto simp: queue_email_def enqueue_keys split: option.splits)

lemma fold_queue_keys_grow:
  "email_keys d \<subseteq> email_keys (fold (queue_email env now d0 x status) rows d)"
proof (induction rows arbitrary: d)
  case (Cons r rows)
  show ?case using Cons [of "queue_email env now d0 x status r d"] queue_email_keys [of env now d0 x status r d]
    by auto
qed simp

lemma fold_queue_keys_cover:
  "r \<in> set rows \<Longrightarrow> email_target env d0 x status r = Some (p, l, k) \<Longrightarrow>
   Some k \<in> email_keys (fold (queue_email env now d0 x status) rows d)"
proof (induction rows arbitrary: d)
  case (Cons a rows)
  show ?case
  proof (cases "r = a")
    case True
    then have "Some k \<in> email_keys (queue_email env now d0 x status a d)"
      using Cons.prems by (simp add: queue_email_keys)
    then show ?thesis using fold_queue_keys_grow by fastforce
  qed (use Cons in auto)
qed simp

lemma fold_queue_present:
  assumes "\<And>r p l k. r \<in> set rows \<Longrightarrow> email_target env d0 x status r = Some (p, l, k) \<Longrightarrow> Some k \<in> email_keys d"
  shows "fold (queue_email env now d0 x status) rows d = d"
  using assms
proof (induction rows)
  case (Cons r rows)
  have "queue_email env now d0 x status r d = d"
    using Cons.prems [of r] by (auto simp: queue_email_def enqueue_present split: option.splits)
  then show ?case using Cons by auto
qed simp

lemma email_target_cong:
  assumes "db_lps d' = db_lps d" "db_persons d' = db_persons d" "db_links d' = db_links d"
    and "n_address r' = n_address r"
  shows "email_target env d' x status r' = email_target env d x status r"
proof -
  have l: "find_lp d' = find_lp d" using assms(1) by (simp add: find_lp_def fun_eq_iff)
  have p: "find_person d' = find_person d" "find_link d' = find_link d"
    using assms(2,3) by (simp_all add: find_link_def find_person_def fun_eq_iff)
  show ?thesis unfolding email_target_def lookupPerson_def l p assms(4) ..
qed

lemma notify_email_keys:
  "email_keys (notifyOrderStatus env now x status pen d)
     = email_keys (fold (queue_email env now d x status) (notice_rows env now x status pen)
         (d\<lparr>db_notifications := fold (create_skip n_key) (notice_rows env now x status pen) (db_notifications d)\<rparr>))"
  by (simp add: notifyOrderStatus_def Let_def emitOrderUpdate_def email_keys_def)

lemma notice_rows_addresses:
  assumes "r \<in> set (notice_rows env now x status pen)"
  shows "\<exists>r' \<in> set (notice_rows env' now' x status pen'). n_address r' = n_address r \<and> n_key r' = n_key r"
proof -
  let ?f = "\<lambda>r. (n_address r, n_key r)"
  have "?f r \<in> set (map ?f (notice_rows env now x status pen))" using assms by simp
  then have "?f r \<in> set (map ?f (notice_rows env' now' x status pen'))"
    by (simp only: notice_rows_keys [of env now x status pen env' now' pen'])
  then show ?thesis by force
qed

text \<open>Telling the parties of the same status of the same order a second time (the
  indexer and a request handler may both observe the change) adds no notification and queues no
  e-mail, at whatever time and with whatever message text; only the push to connected clients is
  repeated.\<close>

theorem notification_idempotent:
  "notifyOrderStatus env now' x status pen' (notifyOrderStatus env now x status pen d)
     = emitOrderUpdate \<lparr>r_orderId = no_id x, r_status = status, r_flow = no_flow x,
         r_userAddress = no_userAddress x, r_lpWallet = no_lpWallet x\<rparr> (notifyOrderStatus env now x status pen d)"
proof -
  let ?d' = "notifyOrderStatus env now x status pen d"
  let ?rows = "notice_rows env now' x status pen'"
  have "fold (create_skip n_key) ?rows (db_notifications ?d') = db_notifications ?d'"
  proof (rule fold_create_skip_present; rule ballI)
    fix r assume r: "r \<in> set ?rows"
    show k: "n_key r \<noteq> None" using notice_rows_addr [OF r] by (simp add: n_key_def)
    obtain r' where r': "r' \<in> set (notice_rows env now x status pen)" "n_key r' = n_key r"
      using notice_rows_addresses [OF r] by blast
    then show "\<exists>y \<in> set (db_notifications ?d'). n_key y = n_key r"
      using fold_create_skip_covers [of r' "notice_rows env now x status pen"] k
      by (simp add: notify_notifications)
  qed
  moreover have "fold (queue_email env now' ?d' x status) ?rows ?d' = ?d'"
  proof (rule fold_queue_present)
    fix r p l k assume r: "r \<in> set ?rows" and t: "email_target env ?d' x status r = Some (p, l, k)"
    obtain r' where r': "r' \<in> set (notice_rows env now x status pen)" "n_address r' = n_address r"
      using notice_rows_addresses [OF r] by blast
    then have "email_target env d x status r' = Some (p, l, k)"
      using t email_target_cong [of ?d' d r r' env x status] by simp
    then show "Some k \<in> email_keys ?d'"
      unfolding notify_email_keys by (rule fold_queue_keys_cover [OF r'(1)])
  qed
  ultimately show ?thesis
    unfolding notifyOrderStatus_def [of env now' x status pen' ?d'] Let_def by simp
qed

section \<open>Reading\<close>

lemma list_notifications_set:
  "r \<in> set (list_notifications d addr n) \<Longrightarrow> r \<in> set (db_notifications d) \<and> n_address r = addr"
  by (auto simp: list_notifications_def dest!: in_set_takeD)

lemma mark_row:
  assumes "r \<in> set t" "n_id r \<in> set shown"
  shows "(if \<not> n_read r then r\<lparr>n_read := True\<rparr> else r)
           \<in> set (update_many (\<lambda>r. n_id r \<in> set shown \<and> \<not> n_read r) (\<lambda>r. r\<lparr>n_read := True\<rparr>) t)"
proof -
  have "(if n_id r \<in> set shown \<and> \<not> n_read r then r\<lparr>n_read := True\<rparr> else r)
           \<in> set (update_many (\<lambda>r. n_id r \<in> set shown \<and> \<not> n_read r) (\<lambda>r. r\<lparr>n_read := True\<rparr>) t)"
    unfolding set_update_many using assms(1) by (rule imageI)
  then show ?thesis using assms(2) by simp
qed

lemma unmarked_row:
  assumes "r \<in> set t" "n_id r \<notin> set shown"
  shows "r \<in> set (update_many (\<lambda>r. n_id r \<in> set shown \<and> \<not> n_read r) (\<lambda>r. r\<lparr>n_read := True\<rparr>) t)"
  unfolding set_update_many using assms by (intro image_eqI [of _ _ r]) simp_all

text \<open>A notification is addressed to a party of the order: every
  row the call adds names the order, the status and the user's or the provider's wallet.  Marking
  as read leaves every row that is not on the reader's page, in particular every row of another
  address, as it was when identifiers are unique.\<close>

theorem notifications_reach_parties_only:
  assumes "distinct (map n_id (db_notifications d))"
  shows "(\<forall>r \<in> set (db_notifications (notifyOrderStatus env now x status pen d)) - set (db_notifications d).
            n_orderId r = Some (no_id x) \<and> n_event r = status \<and>
            (n_address r = no_userAddress x \<or> Some (n_address r) = no_lpWallet x)) \<and>
         (\<forall>r \<in> set (db_notifications d). n_address r \<noteq> addr \<longrightarrow> r \<in> set (db_notifications (markAllRead addr n d))) \<and>
         (\<forall>r \<in> set (list_notifications d addr n).
            \<exists>r' \<in> set (db_notifications (markAllRead addr n d)). n_id r' = n_id r \<and> n_read r')"
proof (intro conjI ballI impI)
  fix r assume "r \<in> set (db_notifications (notifyOrderStatus env now x status pen d)) - set (db_notifications d)"
  then have "r \<in> set (notice_rows env now x status pen)"
    using fold_create_skip_sub by (auto simp: notify_notifications)
  then show "n_orderId r = Some (no_id x)" "n_event r = status"
    "n_address r = no_userAddress x \<or> Some (n_address r) = no_lpWallet x"
    by (auto dest: notice_rows_addr)
next
  fix r assume r: "r \<in> set (db_notifications d)" "n_address r \<noteq> addr"
  have "n_id r \<noteq> n_id s" if "s \<in> set (list_notifications d addr n)" for s
    using list_notifications_set [OF that] r find_row_distinct [OF assms, of r]
      find_row_distinct [OF assms, of s] by (metis option.inject)
  then have other: "n_id r \<notin> set (map n_id (list_notifications d addr n))" by auto
  show "r \<in> set (db_notifications (markAllRead addr n d))"
    using unmarked_row [OF r(1) other] r(1) by (auto simp: markAllRead_def Let_def)
next
  fix r assume r: "r \<in> set (list_notifications d addr n)"
  then have "r \<in> set (db_notifications d)" by (auto dest: list_notifications_set)
  then have "(if \<not> n_read r then r\<lparr>n_read := True\<rparr> else r) \<in> set (db_notifications (markAllRead addr n d))"
    using r mark_row [of r "db_notifications d" "map n_id (list_notifications d addr n)"]
    by (cases "list_notifications d addr n") (auto simp: markAllRead_def Let_def)
  then show "\<exists>r' \<in> set (db_notifications (markAllRead addr n d)). n_id r' = n_id r \<and> n_read r'"
    by (rule bexI [rotated]) simp
qed

definition demo_notice :: notice where
  "demo_notice = \<lparr>no_id = ''o1'', no_userAddress = ''GU'', no_lpWallet = Some ''GL'', no_lpId = Some ''lp1'',
     no_flow = TOP_UP, no_settledAt = None, no_payDeadline = Some 1700000000\<rparr>"

lemma notifications_reach_parties_only_witness:
  "set (map n_address (db_notifications (notifyOrderStatus demo_env 5 demo_notice ''FUNDED'' False empty_db))) \<subseteq> {''GU'', ''GL''}"
proof -
  have "n_address r \<in> {''GU'', ''GL''}"
    if "r \<in> set (db_notifications (notifyOrderStatus demo_env 5 demo_notice ''FUNDED'' False empty_db))" for r
    using that notifications_reach_parties_only [of empty_db demo_env 5 demo_notice "''FUNDED''" False]
    by (simp add: empty_db_def demo_notice_def)
  then show ?thesis by auto
qed

end
