(* ===== verification/OrderStatus.thy ===== *)
theory OrderStatus
  imports Notify
begin

text \<open>
  \<open>order/order-status.service.ts\<close>: bringing an order up to date with its trade on chain
  when a request reads it.  The order handed in is a snapshot; the write is guarded by the row still
  having the snapshot's status.
\<close>

definition REFRESH_FROM_CHAIN_STATUSES :: "order_status list" where
  [status_sets]: "REFRESH_FROM_CHAIN_STATUSES = [MATCHED, AWAITING_ONCHAIN, FUNDED, FIAT_PAID, DISPUTED]"

definition PRE_CHAIN_STATUSES :: "order_status list" where
  [status_sets]: "PRE_CHAIN_STATUSES = [CREATED, MATCHED, AWAITING_ONCHAIN]"

definition STATUS_ORDER :: "order_status list" where
  [status_sets]: "STATUS_ORDER = [CREATED, MATCHED, AWAITING_ONCHAIN, FUNDED, FIAT_PAID, DISPUTED, RELEASED, REFUNDED, EXPIRED, CANCELLED]"

text \<open>\<open>Array.indexOf\<close>: -1 when absent.\<close>

fun index_of :: "'a list \<Rightarrow> 'a \<Rightarrow> int" where
  "index_of [] x = -1"
| "index_of (y # ys) x = (if y = x then 0 else let i = index_of ys x in if i = -1 then -1 else i + 1)"

definition isAhead :: "order_status \<Rightarrow> order_status \<Rightarrow> bool" where
  "isAhead newStatus currentStatus =
     (let newIdx = index_of STATUS_ORDER newStatus; curIdx = index_of STATUS_ORDER currentStatus in newIdx > curIdx)"

text \<open>The columns \<open>settlementFieldsFrom\<close> adds to a write.\<close>

definition settlementFieldsFrom :: "ms \<Rightarrow> trade \<Rightarrow> order \<Rightarrow> order" where
  "settlementFieldsFrom now t x =
     (if t_status t \<noteq> RELEASED \<and> t_status t \<noteq> REFUNDED then x
      else x\<lparr>o_settledStatus := Some (t_status t),
             o_settledAt := Some (if t_settledAt t > 0 then t_settledAt t * 1000 else now),
             o_postSettleDeadline := (case t_postSettleDeadline t of None \<Rightarrow> o_postSettleDeadline x | p \<Rightarrow> p),
             o_slashDeadline := (case t_slashDeadline t of None \<Rightarrow> o_slashDeadline x | s \<Rightarrow> s),
             o_liabilityEstablished := (case t_liabilityEstablished t of None \<Rightarrow> o_liabilityEstablished x | Some b \<Rightarrow> b)\<rparr>)"

definition tradeBindsToOrder :: "trade \<Rightarrow> order \<Rightarrow> bool" where
  "tradeBindsToOrder t x = (if \<not> notYetBoundOnChain (o_status x) then True else verifyTradeMatchesOrder t x = [])"

definition refresh_row :: "ms \<Rightarrow> trade \<Rightarrow> order \<Rightarrow> order \<Rightarrow> order" where
  "refresh_row now t snapshot x =
     settlementFieldsFrom now t
       (x\<lparr>o_status := t_status t,
          o_disputeAt := (if t_status t = DISPUTED \<and> o_disputeAt snapshot = None then Some now else o_disputeAt x)\<rparr>)"

definition realtime_of :: "order \<Rightarrow> realtime_event" where
  "realtime_of x = \<lparr>r_orderId = o_id x, r_status = status_name (o_status x), r_flow = o_flow x,
     r_userAddress = o_userAddress x, r_lpWallet = o_lpWallet x\<rparr>"

definition refreshOrderStatus :: "env \<Rightarrow> ms \<Rightarrow> string \<Rightarrow> order \<Rightarrow> db \<Rightarrow> db \<times> order" where
  "refreshOrderStatus env now i x d =
     (if o_status x \<notin> set REFRESH_FROM_CHAIN_STATUSES then (d, x)
      else case rpc_getTradeStatus env (contractIdFor x (cfg_escrowContractId env)) (o_tradeId x) of
        None \<Rightarrow> (d, x)
      | Some t \<Rightarrow>
          if \<not> tradeBindsToOrder t x then (d, x)
          else if isAhead (t_status t) (o_status x) then
            (let guard = (\<lambda>y. o_id y = i \<and> o_status y = o_status x);
                 d1 = upd_orders (update_many guard (refresh_row now t x)) d
             in case find_order d1 i of
                  None \<Rightarrow> (d1, x)
                | Some updated \<Rightarrow>
                    if count_rows guard (db_orders d) = 0 then (d1, updated)
                    else (emitOrderUpdate (realtime_of updated)
                            (notifyOrderStatus env now (notice_of x) (status_name (t_status t)) False d1), updated))
          else (d, x))"

section \<open>Properties\<close>

lemma settlementFieldsFrom_keeps [simp]:
  "o_id (settlementFieldsFrom now t x) = o_id x"
  "order_key (settlementFieldsFrom now t x) = order_key x"
  "o_status (settlementFieldsFrom now t x) = o_status x"
  "o_flow (settlementFieldsFrom now t x) = o_flow x"
  "o_userClaimedPaidAt (settlementFieldsFrom now t x) = o_userClaimedPaidAt x"
  by (simp_all add: settlementFieldsFrom_def order_key_def)

lemma settlementFieldsFrom_direction:
  "settled_status (t_status t) \<Longrightarrow> o_settledStatus (settlementFieldsFrom now t x) = Some (t_status t)"
  by (auto simp: settlementFieldsFrom_def settled_status_def)

lemma refresh_row_keeps [simp]:
  "o_id (refresh_row now t s x) = o_id x" "o_status (refresh_row now t s x) = t_status t"
  "order_key (refresh_row now t s x) = order_key x"
  by (simp_all add: refresh_row_def order_key_def settlementFieldsFrom_def)

lemma refresh_row_kept: "row_kept x (refresh_row now t s x)"
  by (simp add: row_kept_def) (simp add: refresh_row_def settlementFieldsFrom_def)

lemma refresh_row_ok: "order_ok x \<Longrightarrow> order_ok (refresh_row now t s x)"
  by (auto simp: order_ok_def settlementFieldsFrom_direction refresh_row_def)

lemma emitOrderUpdate_orders [simp]: "db_orders (emitOrderUpdate ev d) = db_orders d"
  by (simp add: emitOrderUpdate_def)

text \<open>The order table after a refresh: as it was, or rewritten where the guard holds.\<close>

lemma refresh_orders:
  "db_orders (fst (refreshOrderStatus env now i x d)) = db_orders d \<or>
   (\<exists>t. rpc_getTradeStatus env (contractIdFor x (cfg_escrowContractId env)) (o_tradeId x) = Some t \<and>
        tradeBindsToOrder t x \<and> isAhead (t_status t) (o_status x) \<and> o_status x \<in> set REFRESH_FROM_CHAIN_STATUSES \<and>
        db_orders (fst (refreshOrderStatus env now i x d))
          = update_many (\<lambda>y. o_id y = i \<and> o_status y = o_status x) (refresh_row now t x) (db_orders d))"
  by (auto simp: refreshOrderStatus_def Let_def split: option.splits)

interpretation refresh: order_writer "\<lambda>(env, now, i, x) d. fst (refreshOrderStatus env now i x d)"
proof
  fix d and a :: "env \<times> ms \<times> string \<times> order"
  obtain env now i x where a: "a = (env, now, i, x)" by (cases a)
  note c = refresh_orders [of env now i x d]
  show "same_orders d ((case a of (env, now, i, x) \<Rightarrow> \<lambda>d. fst (refreshOrderStatus env now i x d)) d)"
    using c by (auto simp: a same_orders_def update_many_def list_all2_conv_all_nth refresh_row_kept)
  show "orders_ok ((case a of (env, now, i, x) \<Rightarrow> \<lambda>d. fst (refreshOrderStatus env now i x d)) d)" if "orders_ok d"
    using c
  proof
    assume "\<exists>t. rpc_getTradeStatus env (contractIdFor x (cfg_escrowContractId env)) (o_tradeId x) = Some t \<and>
        tradeBindsToOrder t x \<and> isAhead (t_status t) (o_status x) \<and> o_status x \<in> set REFRESH_FROM_CHAIN_STATUSES \<and>
        db_orders (fst (refreshOrderStatus env now i x d))
          = update_many (\<lambda>y. o_id y = i \<and> o_status y = o_status x) (refresh_row now t x) (db_orders d)"
    then obtain t where "db_orders (fst (refreshOrderStatus env now i x d))
          = update_many (\<lambda>y. o_id y = i \<and> o_status y = o_status x) (refresh_row now t x) (db_orders d)" by blast
    then show ?thesis
      using orders_ok_update [OF that, of "\<lambda>y. o_id y = i \<and> o_status y = o_status x" "refresh_row now t x"]
        refresh_row_ok by (simp add: a orders_ok_def)
  qed (use that in \<open>simp add: a orders_ok_def\<close>)
qed

lemma isAhead_iff: "isAhead s s' \<longleftrightarrow> index_of STATUS_ORDER s' < index_of STATUS_ORDER s"
  by (simp add: isAhead_def Let_def)

text \<open>C3 (refreshOrderStatus, tradeBindsToOrder, isAhead): a refresh only ever moves an order forward, and
  only on the evidence of its own trade.  If the row differs from the order before, then the row's
  status was the snapshot's (a stale snapshot writes nothing), the contract named by the order
  reported a trade, that trade matched the order in every compared field unless the order was bound
  to it already, and the new status is the trade's and lies strictly later in the status order.\<close>

theorem refresh_moves_forward:
  assumes "orders_ok d" "find_order d i = Some x" "find_order (fst (refreshOrderStatus env now i s d)) i = Some x'" "x' \<noteq> x"
  shows "\<exists>t. rpc_getTradeStatus env (contractIdFor s (cfg_escrowContractId env)) (o_tradeId s) = Some t \<and>
             o_status x = o_status s \<and> o_status x' = t_status t \<and>
             index_of STATUS_ORDER (o_status x) < index_of STATUS_ORDER (o_status x') \<and>
             (notYetBoundOnChain (o_status s) \<longrightarrow> verifyTradeMatchesOrder t s = []) \<and>
             (settled_status (o_status x') \<longrightarrow> o_settledStatus x' = Some (o_status x'))"
proof -
  have "find_order (fst (refreshOrderStatus env now i s d)) i = find_order d i \<longrightarrow> x' = x" using assms(2,3) by simp
  then have "db_orders (fst (refreshOrderStatus env now i s d)) \<noteq> db_orders d"
    using assms(4) by (auto simp: find_order_def)
  then obtain t where t: "rpc_getTradeStatus env (contractIdFor s (cfg_escrowContractId env)) (o_tradeId s) = Some t"
      "tradeBindsToOrder t s" "isAhead (t_status t) (o_status s)"
      "db_orders (fst (refreshOrderStatus env now i s d))
          = update_many (\<lambda>y. o_id y = i \<and> o_status y = o_status s) (refresh_row now t s) (db_orders d)"
    using refresh_orders [of env now i s d] by blast
  let ?p = "\<lambda>y. o_id y = i \<and> o_status y = o_status s"
  have rw: "row_write o_id (refresh_row now t s)" by unfold_locales simp
  have "x' = (if ?p x then refresh_row now t s x else x)"
    using row_write.find_after_write [OF rw, of i ?p "db_orders d"] assms(2,3) t(4) by (simp add: find_order_def)
  then have x: "?p x" "x' = refresh_row now t s x" using assms(4) by (auto split: if_splits)
  moreover have "settled_status (t_status t) \<longrightarrow> o_settledStatus x' = Some (t_status t)"
    using x(2) by (simp add: refresh_row_def settlementFieldsFrom_direction)
  ultimately show ?thesis using t by (simp add: isAhead_iff tradeBindsToOrder_def split: if_splits)
qed

text \<open>Of two requests that read the same order and observe the same chain, at
  most one writes it and tells the parties; the other finds the status already moved.\<close>

theorem refresh_race_has_one_winner:
  assumes "orders_ok d" "find_order d i = Some s"
  shows "db_orders (fst (refreshOrderStatus env now' i s (fst (refreshOrderStatus env now i s d))))
           = db_orders (fst (refreshOrderStatus env now i s d)) \<and>
         db_notifications (fst (refreshOrderStatus env now' i s (fst (refreshOrderStatus env now i s d))))
           = db_notifications (fst (refreshOrderStatus env now i s d))"
proof (cases "rpc_getTradeStatus env (contractIdFor s (cfg_escrowContractId env)) (o_tradeId s)")
  case (Some t)
  show ?thesis
  proof (cases "o_status s \<in> set REFRESH_FROM_CHAIN_STATUSES \<and> tradeBindsToOrder t s \<and> isAhead (t_status t) (o_status s)")
    case True
    let ?p = "\<lambda>y. o_id y = i \<and> o_status y = o_status s"
    let ?d1 = "fst (refreshOrderStatus env now i s d)"
    have ne: "t_status t \<noteq> o_status s" using True by (auto simp: isAhead_iff)
    have o: "db_orders ?d1 = update_many ?p (refresh_row now t s) (db_orders d)"
      using True Some by (simp add: refreshOrderStatus_def Let_def split: option.split)
    have "latch (\<lambda>y. o_status y = o_status s) (refresh_row now t s)" using ne by unfold_locales simp
    then have none: "count_rows ?p (db_orders ?d1) = 0" unfolding o by (rule latch.claimed_once)
    then have same: "update_many ?p (refresh_row now' t s) (db_orders ?d1) = db_orders ?d1" by (rule update_many_count_0)
    show ?thesis unfolding refreshOrderStatus_def [of env now' i s ?d1] Let_def
      using True Some none same by (simp split: option.split)
  next
    case False
    then show ?thesis using Some by (auto simp: refreshOrderStatus_def split: if_splits)
  qed
qed (simp add: refreshOrderStatus_def)

section \<open>Examples\<close>

definition demo_trade :: trade where
  "demo_trade = \<lparr>t_status = FUNDED, t_settledAt = 0, t_usdcAmount = JBigInt 100000000, t_fiatAmount = JBigInt 163000,
     t_fiatCurrency = JString ''IDR'', t_flow = JNumber (Fin 0), t_usdcProvider = JString ''GL'',
     t_usdcRecipient = JString ''GU'', t_confirmer = JString ''GL'', t_platformWallet = JString ''GP'',
     t_lpWallet = JString ''GL'', t_platformFeeBps = JNumber (Fin 50), t_lpFeeBps = JNumber (Fin 50),
     t_payDeadline = JBigInt 1700001800, t_confirmDeadline = JBigInt 1700005400, t_disputeDeadline = JBigInt 1700091800,
     t_postSettleDeadline = None, t_slashDeadline = None, t_liabilityEstablished = None\<rparr>"

definition chain_env :: env where
  "chain_env = demo_env\<lparr>rpc_getTradeStatus := (\<lambda>_ _. Some demo_trade), rpc_getTradeStatusStrict := (\<lambda>_ _. Inr (Some demo_trade))\<rparr>"

definition order_db :: db where
  "order_db = empty_db\<lparr>db_orders := [demo_order], db_lps := [demo_lp]\<rparr>"

lemma demo_trade_matches: "verifyTradeMatchesOrder demo_trade demo_order = []"
  by (simp add: verifyTradeMatchesOrder_def demo_trade_def demo_order_def mapRoles_def Let_def compareBigint_def
      compareNumber_def compareString_def compare_field_def is_integer_def FLOW_DISCRIMINANT_def)

lemma demo_trade_status [simp]: "t_status demo_trade = FUNDED"
  by (simp add: demo_trade_def)

lemma order_db_ok: "orders_ok order_db" "find_order order_db ''o1'' = Some demo_order"
  by (simp_all add: orders_ok_def order_ok_def order_db_def find_order_def find_row_def settled_status_def)

lemma demo_ahead: "isAhead FUNDED MATCHED"
  by (simp add: isAhead_def status_sets Let_def)

lemma order_db_refreshed:
  "find_order (fst (refreshOrderStatus chain_env 5 ''o1'' demo_order order_db)) ''o1'' = Some (refresh_row 5 demo_trade demo_order demo_order)"
proof -
  have "rpc_getTradeStatus chain_env c t = Some demo_trade" for c t by (simp add: chain_env_def)
  then show ?thesis
    using demo_trade_matches demo_ahead
    by (simp add: refreshOrderStatus_def tradeBindsToOrder_def Let_def REFRESH_FROM_CHAIN_STATUSES_def
        order_db_def update_many_def find_order_def find_row_def)
qed

theorem refresh_moves_forward_witness:
  "o_status (refresh_row 5 demo_trade demo_order demo_order) = FUNDED \<and> verifyTradeMatchesOrder demo_trade demo_order = []"
proof -
  have ne: "refresh_row 5 demo_trade demo_order demo_order \<noteq> demo_order"
    using refresh_row_keeps(2) [of 5 demo_trade demo_order demo_order] by (metis demo_order_simps(3) demo_trade_status order_status.distinct(21))
  have "rpc_getTradeStatus chain_env c t = Some demo_trade" for c t by (simp add: chain_env_def)
  moreover have "notYetBoundOnChain MATCHED" by (simp add: notYetBoundOnChain_def status_sets)
  ultimately show ?thesis using refresh_moves_forward [OF order_db_ok order_db_refreshed ne] by simp
qed

theorem refresh_race_has_one_winner_witness:
  "db_orders (fst (refreshOrderStatus chain_env 6 ''o1'' demo_order (fst (refreshOrderStatus chain_env 5 ''o1'' demo_order order_db))))
     = db_orders (fst (refreshOrderStatus chain_env 5 ''o1'' demo_order order_db))"
  using refresh_race_has_one_winner [OF order_db_ok] by blast

end
