(* ===== verification/Matching.thy ===== *)
theory Matching
  imports OrderStatus
begin

text \<open>
  \<open>order/lp-exposure.ts\<close> (the amount a provider's bond already answers for) and
  \<open>matching/matching.service.ts\<close> (the choice of a provider).  A table without an
  \<open>orderBy\<close> is read in the order of its list.
\<close>

section \<open>Exposure (lp-exposure.ts)\<close>

text \<open>The last second at which a settled order can still cost its provider.  The cast of an epoch
  to \<open>bigint\<close> rounds to the nearest second.\<close>

definition claim_until :: "order \<Rightarrow> ms \<Rightarrow> secs" where
  "claim_until x settled =
     (if o_slashDeadline x = None \<and> o_postSettleDeadline x = None
      then (settled + 500) div 1000 + LONGEST_TAIL_PAST_SETTLEMENT_SECS
      else max (case o_slashDeadline x of None \<Rightarrow> 0 | Some s \<Rightarrow> s)
               ((case o_postSettleDeadline x of None \<Rightarrow> 0 | Some p \<Rightarrow> p) +
                (if o_status x = DISPUTED \<or> o_disputeAt x \<noteq> None then SLASH_CEILING_PAST_POST_SETTLE_SECS else 0)))"

definition exposes :: "string \<Rightarrow> secs \<Rightarrow> order \<Rightarrow> bool" where
  "exposes lpId nowSec x =
     (o_lpId x = Some lpId \<and> o_status x \<notin> {EXPIRED, CANCELLED} \<and>
      \<not> (o_status x = RELEASED \<and> o_flow x = TOP_UP) \<and> \<not> (o_status x = REFUNDED \<and> o_flow x = WITHDRAW) \<and>
      (case o_settledAt x of None \<Rightarrow> True | Some settled \<Rightarrow> claim_until x settled \<ge> nowSec))"

definition lpExposure :: "db \<Rightarrow> string \<Rightarrow> secs \<Rightarrow> int" where
  "lpExposure d lpId nowSec = sum_list (map o_usdcAmount (filter (exposes lpId nowSec) (db_orders d)))"

section \<open>Matching (matching.service.ts)\<close>

record lp_match =
  lm_id :: string
  lm_stellarAddress :: address
  lm_paymentMethodId :: string
  lm_details :: string
  lm_label :: string
  lm_staked :: int

definition matchableLpWhere :: "lp \<Rightarrow> bool" where
  "matchableLpWhere l = (lp_status l = LP_APPROVED \<and> lp_online l \<and> list_ex pm_active (lp_paymentMethods l))"

definition methods_for :: "rail \<Rightarrow> string \<Rightarrow> lp \<Rightarrow> payment_method list" where
  "methods_for rl fiat l = filter (\<lambda>m. pm_rail m = rl \<and> pm_active m \<and> pm_currency m = fiat) (lp_paymentMethods l)"

definition LOAD_STATUSES :: "order_status list" where
  [status_sets]: "LOAD_STATUSES = [MATCHED, AWAITING_ONCHAIN, FUNDED, FIAT_PAID]"

definition load :: "db \<Rightarrow> lp \<Rightarrow> nat" where
  "load d l = count_rows (\<lambda>x. o_lpId x = Some (lp_id l) \<and> o_status x \<in> set LOAD_STATUSES) (db_orders d)"

text \<open>The query narrows the payment methods further; a method it asks for is an active one.\<close>

definition candidates :: "db \<Rightarrow> rail \<Rightarrow> string \<Rightarrow> lp list" where
  "candidates d rl fiat = sort_key (load d) (filter (\<lambda>l. matchableLpWhere l \<and> methods_for rl fiat l \<noteq> []) (db_lps d))"

definition own_order :: http_error where
  "own_order = ForbiddenException ''you cannot be matched with your own order''"

definition no_provider :: http_error where
  "no_provider = ServiceUnavailableException ''no eligible LP available''"

text \<open>The loop over the other providers; None when it runs out of them.\<close>

fun pick_from :: "env \<Rightarrow> db \<Rightarrow> secs \<Rightarrow> rail \<Rightarrow> string \<Rightarrow> int \<Rightarrow> string option \<Rightarrow> lp list \<Rightarrow> lp_match outcome option" where
  "pick_from env d nowSec rl fiat amount exclude [] = None"
| "pick_from env d nowSec rl fiat amount exclude (l # rest) =
     (case rpc_getStakeInfo env (lp_stellarAddress l) of
        Inl _ \<Rightarrow> pick_from env d nowSec rl fiat amount exclude rest
      | Inr stake \<Rightarrow>
          if \<not> s_eligible stake then pick_from env d nowSec rl fiat amount exclude rest
          else if lpExposure d (lp_id l) nowSec + amount > s_staked stake
            then pick_from env d nowSec rl fiat amount exclude rest
          else if truthy_str exclude \<and> map_option person_id (lookupPerson env d (lp_stellarAddress l)) = exclude
            then Some (Inl own_order)
          else (let pm = hd (methods_for rl fiat l)
                in Some (Inr \<lparr>lm_id = lp_id l, lm_stellarAddress = lp_stellarAddress l, lm_paymentMethodId = pm_id pm,
                              lm_details = pm_details pm, lm_label = pm_label pm, lm_staked = s_staked stake\<rparr>)))"

definition pickLp :: "env \<Rightarrow> db \<Rightarrow> ms \<Rightarrow> rail \<Rightarrow> string \<Rightarrow> int \<Rightarrow> string option \<Rightarrow> lp_match outcome" where
  "pickLp env d now rl fiat amount exclude =
     (let cs = candidates d rl fiat;
          own = (if truthy_str exclude then set (walletsOf d (the exclude)) else {});
          others = filter (\<lambda>l. lp_stellarAddress l \<notin> own) cs;
          refusedOwn = (length others < length cs);
          nowSec = now div 1000
      in case pick_from env d nowSec rl fiat amount exclude others of
           Some r \<Rightarrow> r
         | None \<Rightarrow> if refusedOwn \<and> others = [] then Inl own_order else Inl no_provider)"

section \<open>Properties\<close>

text \<open>What makes a provider fit for an order.\<close>

definition can_take :: "env \<Rightarrow> db \<Rightarrow> secs \<Rightarrow> int \<Rightarrow> lp \<Rightarrow> bool" where
  "can_take env d nowSec amount l =
     (case rpc_getStakeInfo env (lp_stellarAddress l) of
        Inl _ \<Rightarrow> False
      | Inr stake \<Rightarrow> s_eligible stake \<and> lpExposure d (lp_id l) nowSec + amount \<le> s_staked stake)"

lemma pick_from_find:
  "pick_from env d nowSec rl fiat amount exclude ls =
     (case find (can_take env d nowSec amount) ls of
        None \<Rightarrow> None
      | Some l \<Rightarrow> pick_from env d nowSec rl fiat amount exclude [l])"
  by (induction ls) (auto simp: can_take_def split: sum.splits)

lemma find_sorted_least:
  assumes "sorted (map f xs)" "find p xs = Some x" "y \<in> set xs" "p y"
  shows "f x \<le> (f y :: nat)"
  using assms by (induction xs) (auto split: if_splits)

lemma candidates_props:
  "l \<in> set (candidates d rl fiat) \<longleftrightarrow> l \<in> set (db_lps d) \<and> matchableLpWhere l \<and> methods_for rl fiat l \<noteq> []"
  by (auto simp: candidates_def)

lemma others_sorted: "sorted (map (load d) (filter p (candidates d rl fiat)))"
  unfolding candidates_def by (rule sorted_filter) simp

text \<open>The set of providers an order may go to.\<close>

definition eligible :: "env \<Rightarrow> db \<Rightarrow> ms \<Rightarrow> rail \<Rightarrow> string \<Rightarrow> int \<Rightarrow> string option \<Rightarrow> lp \<Rightarrow> bool" where
  "eligible env d now rl fiat amount exclude l =
     (l \<in> set (db_lps d) \<and> matchableLpWhere l \<and> methods_for rl fiat l \<noteq> [] \<and>
      (truthy_str exclude \<longrightarrow> lp_stellarAddress l \<notin> set (walletsOf d (the exclude))) \<and>
      can_take env d (now div 1000) amount l)"

lemma pickLp_result:
  assumes "pickLp env d now rl fiat amount exclude = Inr r"
  shows "\<exists>l stake m. eligible env d now rl fiat amount exclude l \<and> lm_id r = lp_id l \<and>
           lm_stellarAddress r = lp_stellarAddress l \<and>
           m \<in> set (lp_paymentMethods l) \<and> pm_rail m = rl \<and> pm_active m \<and> pm_currency m = fiat \<and>
           lm_paymentMethodId r = pm_id m \<and> lm_details r = pm_details m \<and> lm_label r = pm_label m \<and>
           rpc_getStakeInfo env (lp_stellarAddress l) = Inr stake \<and> lm_staked r = s_staked stake \<and>
           lpExposure d (lp_id l) (now div 1000) + amount \<le> lm_staked r \<and>
           (\<forall>l' \<in> set (db_lps d). eligible env d now rl fiat amount exclude l' \<longrightarrow> load d l \<le> load d l')"
proof -
  define own where "own = (if truthy_str exclude then set (walletsOf d (the exclude)) else {})"
  define others where "others = filter (\<lambda>l. lp_stellarAddress l \<notin> own) (candidates d rl fiat)"
  have el: "eligible env d now rl fiat amount exclude l \<longleftrightarrow> l \<in> set others \<and> can_take env d (now div 1000) amount l" for l
    by (auto simp: others_def own_def eligible_def candidates_props)
  have "pick_from env d (now div 1000) rl fiat amount exclude others = Some (Inr r)"
    using assms by (auto simp: pickLp_def Let_def others_def own_def split: option.splits if_splits)
  then obtain l where l: "find (can_take env d (now div 1000) amount) others = Some l"
      "pick_from env d (now div 1000) rl fiat amount exclude [l] = Some (Inr r)"
    using pick_from_find [of env d "now div 1000" rl fiat amount exclude others] by (auto split: option.splits)
  have l': "l \<in> set others" "can_take env d (now div 1000) amount l" using find_in_set [OF l(1)] by auto
  obtain stake where st: "rpc_getStakeInfo env (lp_stellarAddress l) = Inr stake" "s_eligible stake"
      "lpExposure d (lp_id l) (now div 1000) + amount \<le> s_staked stake"
    using l'(2) by (auto simp: can_take_def split: sum.splits)
  let ?m = "hd (methods_for rl fiat l)"
  have "methods_for rl fiat l \<noteq> []" using l'(1) by (auto simp: others_def candidates_props)
  then have m: "?m \<in> set (methods_for rl fiat l)" by simp
  have r: "lm_id r = lp_id l" "lm_stellarAddress r = lp_stellarAddress l" "lm_staked r = s_staked stake"
      "lm_paymentMethodId r = pm_id ?m" "lm_details r = pm_details ?m" "lm_label r = pm_label ?m"
    using l(2) st by (auto simp: Let_def split: if_splits)
  have "load d l \<le> load d l2" if "eligible env d now rl fiat amount exclude l2" for l2
    using find_sorted_least [OF _ l(1), of "load d"] others_sorted [of d "\<lambda>l. lp_stellarAddress l \<notin> own" rl fiat] that
    by (auto simp: el others_def [symmetric])
  then show ?thesis using el l' m r st
    by (intro exI [of _ l] exI [of _ stake] exI [of _ ?m]) (auto simp: methods_for_def)
qed

text \<open>The provider chosen is fit for the order and the least loaded of those that are.  It is
  approved, online, has an active payment method for the rail and the currency, is not a wallet of
  the requester, has an eligible stake, and its bond covers what it already answers for plus the
  new amount; its payment details are those of that method.  Every other fit provider has at least
  as many running orders.\<close>

theorem pickLp_sound:
  assumes "pickLp env d now rl fiat amount exclude = Inr r"
  shows "\<exists>l stake m. eligible env d now rl fiat amount exclude l \<and> lm_id r = lp_id l \<and>
           lm_stellarAddress r = lp_stellarAddress l \<and>
           m \<in> set (lp_paymentMethods l) \<and> pm_rail m = rl \<and> pm_active m \<and> pm_currency m = fiat \<and>
           lm_paymentMethodId r = pm_id m \<and> lm_details r = pm_details m \<and> lm_label r = pm_label m \<and>
           rpc_getStakeInfo env (lp_stellarAddress l) = Inr stake \<and> lm_staked r = s_staked stake \<and>
           lpExposure d (lp_id l) (now div 1000) + amount \<le> lm_staked r \<and>
           (\<forall>l' \<in> set (db_lps d). eligible env d now rl fiat amount exclude l' \<longrightarrow> load d l \<le> load d l')"
  using assms by (rule pickLp_result)

text \<open>A requester is turned away only when there is nobody: "no eligible LP available" means
  that no provider in the table is fit for the order.\<close>

theorem pickLp_complete:
  assumes "pickLp env d now rl fiat amount exclude = Inl no_provider"
  shows "\<not> (\<exists>l \<in> set (db_lps d). eligible env d now rl fiat amount exclude l)"
proof -
  define own where "own = (if truthy_str exclude then set (walletsOf d (the exclude)) else {})"
  define others where "others = filter (\<lambda>l. lp_stellarAddress l \<notin> own) (candidates d rl fiat)"
  have "pick_from env d (now div 1000) rl fiat amount exclude [l] \<noteq> Some (Inl no_provider)" for l
    by (auto simp: own_order_def no_provider_def Let_def split: sum.splits)
  then have "find (can_take env d (now div 1000) amount) others = None"
    using assms pick_from_find [of env d "now div 1000" rl fiat amount exclude others]
    by (auto simp: pickLp_def Let_def others_def [symmetric] own_def [symmetric] own_order_def no_provider_def
        can_take_def split: option.splits if_splits sum.splits dest!: find_in_set)
  then show ?thesis
    by (cases "truthy_str exclude") (auto simp: find_None_iff eligible_def others_def own_def candidates_props)
qed

section \<open>Examples\<close>

lemmas pick_eval = pickLp_def pick_from.simps candidates_def matchableLpWhere_def methods_for_def load_def count_rows_def
  lpExposure_def exposes_def walletsOf_def lookupPerson_def find_link_def find_row_def accountOf_def find_person_def
  demo_env_def empty_db_def demo_lp_def demo_method_def Let_def

definition demo_match :: lp_match where
  "demo_match = \<lparr>lm_id = ''lp1'', lm_stellarAddress = ''GL'', lm_paymentMethodId = ''pm1'', lm_details = ''123'',
     lm_label = ''BCA'', lm_staked = 10000000000\<rparr>"

lemma demo_pick: "pickLp demo_env (empty_db\<lparr>db_lps := [demo_lp]\<rparr>) 1700000000000 BANK ''IDR'' 100000000 (Some ''p1'') = Inr demo_match"
  by (simp add: pick_eval demo_match_def)

theorem pickLp_sound_witness:
  "\<exists>l. eligible demo_env (empty_db\<lparr>db_lps := [demo_lp]\<rparr>) 1700000000000 BANK ''IDR'' 100000000 (Some ''p1'') l \<and> lp_id l = ''lp1''"
  using pickLp_sound [OF demo_pick] by (auto simp: demo_match_def)

theorem pickLp_complete_witness:
  "\<not> (\<exists>l \<in> set (db_lps (empty_db\<lparr>db_lps := [demo_lp\<lparr>lp_online := False\<rparr>]\<rparr>)).
       eligible demo_env (empty_db\<lparr>db_lps := [demo_lp\<lparr>lp_online := False\<rparr>]\<rparr>) 0 BANK ''IDR'' 1 None l)"
  by (rule pickLp_complete) (simp add: pick_eval no_provider_def)

end
