(* ===== verification/OrderTx.thy ===== *)
theory OrderTx
  imports OrderStatus
begin

text \<open>
  \<open>order/order-tx.service.ts\<close> and \<open>order/contract-error.ts\<close>: who may have which
  contract call built for an order, and when.  A call is a value of \<open>chain_call\<close>; the
  builder that simulates it and returns the envelope is an argument, which answers the text of its
  error when the simulation fails.  The configuration row is an argument (\<open>getConfig\<close> serves
  one that is at most five seconds old).  Dropping a cached chain answer has no counterpart here:
  the chain's answers are functions of the environment.
\<close>

section \<open>Contract errors (contract-error.ts)\<close>

definition to_lower :: "char \<Rightarrow> char" where
  "to_lower c = (if 65 \<le> (of_char c :: nat) \<and> (of_char c :: nat) \<le> 90 then char_of ((of_char c :: nat) + 32) else c)"

text \<open>The pattern \<open>Error(Contract, #digits)\<close>, in any case, at the start of a string; the digits.\<close>

definition match_here :: "string \<Rightarrow> string option" where
  "match_here s =
     (if map to_lower (take 15 s) = ''error(contract,'' then
        (case dropWhile is_space (drop 15 s) of
           [] \<Rightarrow> None
         | c # r \<Rightarrow> if c \<noteq> CHR ''#'' then None
                    else (let (ds, rest) = take_digits r
                          in if ds \<noteq> [] \<and> take 1 rest = '')'' then Some ds else None))
      else None)"

fun match_contract_error :: "string \<Rightarrow> string option" where
  "match_contract_error [] = None"
| "match_contract_error (c # s) = (case match_here (c # s) of Some ds \<Rightarrow> Some ds | None \<Rightarrow> match_contract_error s)"

definition ESCROW_ERRORS :: "(nat \<times> string) list" where
  "ESCROW_ERRORS =
     [(1, ''the escrow contract is already initialised''),
      (2, ''the escrow contract at this address is not initialised '' @ em_dash @ '' check the contract id this order is bound to''),
      (3, ''the escrow contract is paused on-chain''),
      (4, ''a trade already exists for this id on-chain''),
      (5, ''no trade exists for this id on-chain''),
      (6, ''the amount is not accepted by the escrow contract''),
      (7, ''the fee configuration does not match the escrow contract '' @ em_dash @ '' check platformFeeBps and platformWallet against the deployed config''),
      (8, ''the deadlines do not satisfy the escrow contract bounds '' @ em_dash @ '' check payWindowSecs, confirmWindowSecs and disputeWindowSecs''),
      (9, ''the trade is not in a state that allows this call''),
      (10, ''the deadline for this call has already passed''),
      (11, ''the deadline for this call has not been reached yet''),
      (12, ''the caller is not authorised for this call''),
      (13, ''the trade is not disputed''),
      (14, ''the escrow token cannot be changed once set''),
      (15, ''the platform wallet cannot be changed once set''),
      (16, ''the roles do not satisfy the escrow contract''),
      (17, ''the configuration is not accepted by the escrow contract''),
      (18, ''the window to raise a dispute on this trade has closed''),
      (19, ''this dispute has already been resolved''),
      (20, ''this trade cannot be released early '' @ em_dash @ '' early release applies only to top-up trades from a provider on the escrow allowlist''),
      (21, ''a dispute cannot be raised on this trade at this stage'')]"

definition STAKING_ERRORS :: "(nat \<times> string) list" where
  "STAKING_ERRORS =
     [(2, ''the staking contract is not initialised''),
      (3, ''the staking contract is paused on-chain''),
      (4, ''the amount is not accepted by the staking contract '' @ em_dash @ '' it must be positive and within what is still recoverable on this trade''),
      (5, ''the provider does not have that much staked''),
      (6, ''the provider no longer holds enough collateral to cover this amount '' @ em_dash @ '' its bond may already have been withdrawn''),
      (9, ''the caller is not the resolver or the administrator of the staking contract''),
      (12, ''no post-settlement dispute was raised on this trade, so there is nothing to enforce''),
      (13, ''that address is not a party to this trade''),
      (14, ''this trade has already been slashed for its full value''),
      (17, ''a slash does not apply here '' @ em_dash @ '' the trade has not settled, or that address is not the party that ended up holding the money''),
      (18, ''the window to slash this trade has closed''),
      (19, ''the staking contract could not read the escrow '' @ em_dash @ '' it refuses to act rather than act on no evidence''),
      (20, ''a verdict is still pending on this trade '' @ em_dash @ '' resolve the dispute first, then slash''),
      (21, ''no liability has been established on this trade '' @ em_dash @ '' resolving it in the counterparty'' @ [CHR 0x27] @ ''s favour is what establishes liability'')]"

definition describeStakingError :: "string \<Rightarrow> string option" where
  "describeStakingError err =
     (case match_contract_error err of None \<Rightarrow> None
      | Some ds \<Rightarrow> (let code = digits_val ds in
          Some (case map_of STAKING_ERRORS code of Some m \<Rightarrow> m
                | None \<Rightarrow> ''the staking contract rejected this call (error #'' @ dec_nat code @ '')'')))"

definition describeContractError :: "string \<Rightarrow> string option" where
  "describeContractError err =
     (case match_contract_error err of None \<Rightarrow> None
      | Some ds \<Rightarrow> (let code = digits_val ds in
          Some (case map_of ESCROW_ERRORS code of Some m \<Rightarrow> m
                | None \<Rightarrow> ''the escrow contract rejected this call (error #'' @ dec_nat code @ '')'')))"

section \<open>Calls\<close>

datatype verdict = Release | Refund

record trade_params =
  tp_contractId :: string
  tp_tradeId :: string
  tp_roles :: roles
  tp_usdcAmount :: int
  tp_fiatAmount :: int
  tp_fiatCurrency :: string
  tp_flow :: flow
  tp_platformFeeBps :: int
  tp_lpFeeBps :: int
  tp_platformWallet :: address
  tp_lpWallet :: address
  tp_payDeadline :: secs
  tp_confirmDeadline :: secs
  tp_disputeDeadline :: secs

datatype chain_call =
    MarkFiatPaid (contract: string) (caller: address) (trade_id: string) secs
  | CreateTrade trade_params
  | ConfirmRelease (contract: string) (caller: address) (trade_id: string)
  | RaiseDispute (contract: string) (caller: address) (trade_id: string)
  | Resolve (contract: string) (caller: address) (trade_id: string) verdict
  | Slash (caller: address) address (trade_id: string) int

type_synonym builder = "chain_call \<Rightarrow> string + string" \<comment> \<open>the error's text, or the envelope\<close>
type_synonym built = "chain_call \<times> string"

definition escrowBuildFailure :: "string \<Rightarrow> http_error" where
  "escrowBuildFailure err =
     (case describeContractError err of
        None \<Rightarrow> ServiceUnavailableException ''Stellar RPC unavailable, retry later''
      | Some problem \<Rightarrow> ConflictException problem)"

definition build_escrow :: "builder \<Rightarrow> chain_call \<Rightarrow> built outcome" where
  "build_escrow build c = (case build c of Inl err \<Rightarrow> Inl (escrowBuildFailure err) | Inr xdr \<Rightarrow> Inr (c, xdr))"

definition order_not_found :: http_error where "order_not_found = NotFoundException ''order not found''"

definition contract_of :: "env \<Rightarrow> order \<Rightarrow> string" where
  "contract_of env x = contractIdFor x (cfg_escrowContractId env)"

section \<open>The builders\<close>

definition buildMarkFiatPaidTx :: "env \<Rightarrow> builder \<Rightarrow> config \<Rightarrow> ms \<Rightarrow> string \<Rightarrow> address \<Rightarrow> (db, built) handler" where
  "buildMarkFiatPaidTx env build conf now orderId who d =
     (case find_order d orderId of
        None \<Rightarrow> (d, Inl order_not_found)
      | Some x \<Rightarrow>
          (case requireLp d x of
             Inl e \<Rightarrow> (d, Inl e)
           | Inr l \<Rightarrow>
               if who \<noteq> getFiatPayer (o_flow x) (o_userAddress x) (lp_stellarAddress l)
               then (d, Inl (ForbiddenException ''only the fiat payer may build this transaction''))
               else (let (d1, cur) = refreshOrderStatus env now orderId x d in
                 if o_status cur \<noteq> FUNDED
                 then (d1, Inl (ConflictException ''order must be in FUNDED status to mark fiat paid''))
                 else if o_flow x \<noteq> TOP_UP \<and> c_requireProof conf \<and> \<not> truthy_str (o_proofUrl cur)
                 then (d1, Inl (BadRequestException ''payment proof required before marking paid''))
                 else (d1, build_escrow build (MarkFiatPaid (contract_of env cur) who (o_tradeId cur)
                             (if o_flow cur = TOP_UP then o_payDeadline cur else o_confirmDeadline cur))))))"

definition create_params :: "env \<Rightarrow> roles \<Rightarrow> lp \<Rightarrow> order \<Rightarrow> trade_params" where
  "create_params env r l x =
     \<lparr>tp_contractId = contract_of env x, tp_tradeId = o_tradeId x, tp_roles = r, tp_usdcAmount = o_usdcAmount x,
      tp_fiatAmount = o_fiatAmount x, tp_fiatCurrency = o_fiatCurrency x, tp_flow = o_flow x,
      tp_platformFeeBps = o_platformFeeBps x, tp_lpFeeBps = o_lpFeeBps x, tp_platformWallet = o_platformWallet x,
      tp_lpWallet = (case o_lpWallet x of Some w \<Rightarrow> w | None \<Rightarrow> lp_stellarAddress l),
      tp_payDeadline = o_payDeadline x, tp_confirmDeadline = o_confirmDeadline x, tp_disputeDeadline = o_disputeDeadline x\<rparr>"

definition buildCreateTradeTx :: "env \<Rightarrow> builder \<Rightarrow> ms \<Rightarrow> string \<Rightarrow> address \<Rightarrow> (db, built) handler" where
  "buildCreateTradeTx env build now orderId who d =
     (case find_order d orderId of
        None \<Rightarrow> (d, Inl order_not_found)
      | Some x \<Rightarrow>
          (case requireLp d x of
             Inl e \<Rightarrow> (d, Inl e)
           | Inr l \<Rightarrow>
               (let r = mapRoles (o_flow x) (o_userAddress x) (lp_stellarAddress l) in
                if who \<noteq> usdcProvider r
                then (d, Inl (ForbiddenException ''only the usdc_provider may build this transaction''))
                else (let (d1, cur) = refreshOrderStatus env now orderId x d in
                  if o_status cur \<noteq> MATCHED \<and> o_status cur \<noteq> AWAITING_ONCHAIN
                  then (d1, Inl (ConflictException ''order must be in MATCHED or AWAITING_ONCHAIN status to build create_trade''))
                  else if signingCutoffSecs (o_payDeadline cur) * 1000 \<le> now
                  then (d1, Inl (ConflictException ''the signing window for this order has closed; it will expire on its own''))
                  else (d1, build_escrow build (CreateTrade (create_params env r l cur)))))))"

definition buildConfirmReleaseTx :: "env \<Rightarrow> builder \<Rightarrow> ms \<Rightarrow> string \<Rightarrow> address \<Rightarrow> (db, built) handler" where
  "buildConfirmReleaseTx env build now orderId who d =
     (case find_order d orderId of
        None \<Rightarrow> (d, Inl order_not_found)
      | Some x \<Rightarrow>
          (case requireLp d x of
             Inl e \<Rightarrow> (d, Inl e)
           | Inr l \<Rightarrow>
               if who \<noteq> confirmer (mapRoles (o_flow x) (o_userAddress x) (lp_stellarAddress l))
               then (d, Inl (ForbiddenException ''only the confirmer may build this transaction''))
               else (let (d1, cur) = refreshOrderStatus env now orderId x d in
                 if o_status cur \<noteq> FIAT_PAID
                 then (d1, Inl (ConflictException ''order must be in FIAT_PAID status to confirm release''))
                 else (d1, build_escrow build (ConfirmRelease (contract_of env cur) who (o_tradeId cur))))))"

definition isParty :: "db \<Rightarrow> order \<Rightarrow> address \<Rightarrow> bool" where
  "isParty d x who = (who = o_userAddress x \<or> map_option lp_stellarAddress (order_lp d x) = Some who)"

definition buildRaiseDisputeTx :: "env \<Rightarrow> builder \<Rightarrow> config \<Rightarrow> ms \<Rightarrow> string \<Rightarrow> address \<Rightarrow> (db, built) handler" where
  "buildRaiseDisputeTx env build conf now orderId who d =
     (case find_order d orderId of
        None \<Rightarrow> (d, Inl order_not_found)
      | Some x \<Rightarrow>
          if \<not> isParty d x who \<and> rpc_readEscrowResolver env (contract_of env x) \<noteq> Some who
          then (d, Inl (ForbiddenException ''only a trade party or the escrow resolver may raise a dispute''))
          else (let (d1, cur) = refreshOrderStatus env now orderId x d in
            if \<not> canDispute cur conf now
            then (d1, Inl (ConflictException ''a dispute can only be raised while FIAT_PAID or within the post-settlement dispute window''))
            else (d1, build_escrow build (RaiseDispute (contract_of env cur) who (o_tradeId cur)))))"

definition assertDisputeSigner :: "env \<Rightarrow> string \<Rightarrow> address \<Rightarrow> bool \<Rightarrow> unit outcome" where
  "assertDisputeSigner env contractId who isEscrow =
     (case rpc_readDisputeSigners env contractId of
        Inl _ \<Rightarrow> Inl (ServiceUnavailableException (''cannot read who may settle this dispute right now '' @ em_dash @
                   '' refusing rather than sending you to sign something that will be rejected''))
      | Inr (resolver, admin) \<Rightarrow>
          if who \<noteq> resolver \<and> who \<noteq> admin
          then Inl (ForbiddenException
                 ((if isEscrow then ''the escrow lets only its resolver '' @ resolver @ '' settle this dispute, or its admin '' @ admin @
                                    '' once the resolver'' @ [CHR 0x27] @ ''s day has passed''
                   else ''the staking contract lets only its resolver '' @ resolver @ '' or its admin '' @ admin @ '' slash a provider'')
                  @ ''; '' @ who @ '' is neither''))
          else Inr ())"

definition buildResolveTx :: "env \<Rightarrow> builder \<Rightarrow> ms \<Rightarrow> string \<Rightarrow> address \<Rightarrow> verdict \<Rightarrow> (db, built) handler" where
  "buildResolveTx env build now orderId who v d =
     (case find_order d orderId of
        None \<Rightarrow> (d, Inl order_not_found)
      | Some x \<Rightarrow>
          (let (d1, cur) = refreshOrderStatus env now orderId x d in
           if o_status cur \<noteq> DISPUTED then (d1, Inl (ConflictException ''order is not in DISPUTED status''))
           else case assertDisputeSigner env (contract_of env cur) who True of
                  Inl e \<Rightarrow> (d1, Inl e)
                | Inr _ \<Rightarrow> (d1, build_escrow build (Resolve (contract_of env cur) who (o_tradeId cur) v))))"

section \<open>Slashing\<close>

definition CLOCK_SKEW_MARGIN_SECS :: secs where "CLOCK_SKEW_MARGIN_SECS = 900"

record slash_state =
  ss_tradeAmount :: int
  ss_recovered :: int
  ss_remaining :: int
  ss_deadline :: "secs option"
  ss_liabilityEstablished :: "bool option"

definition slashState :: "env \<Rightarrow> order \<Rightarrow> slash_state outcome" where
  "slashState env x =
     (case rpc_getSlashedSoFar env (o_tradeId x) of
        Inl _ \<Rightarrow> Inl (ServiceUnavailableException (''cannot read how much has already been recovered on this trade '' @ em_dash @
                   '' refusing rather than risking a double recovery''))
      | Inr recovered \<Rightarrow>
          (let (deadline, liable) =
                 (case rpc_getTradeStatusStrict env (contract_of env x) (o_tradeId x) of
                    Inr (Some t) \<Rightarrow> (case t_slashDeadline t of Some s \<Rightarrow> if s > 0 then Some s else None | None \<Rightarrow> None,
                                      t_liabilityEstablished t)
                  | _ \<Rightarrow> (None, None));
               remaining = o_usdcAmount x - recovered
           in Inr \<lparr>ss_tradeAmount = o_usdcAmount x, ss_recovered = recovered,
                   ss_remaining = (if remaining > 0 then remaining else 0), ss_deadline = deadline,
                   ss_liabilityEstablished = liable\<rparr>))"

definition orderForSlashState :: "db \<Rightarrow> string \<Rightarrow> order outcome" where
  "orderForSlashState d orderId = (case find_order d orderId of None \<Rightarrow> Inl order_not_found | Some x \<Rightarrow> Inr x)"

text \<open>The checks on the chain's verdict.\<close>

definition slash_verdict :: "env \<Rightarrow> ms \<Rightarrow> order \<Rightarrow> unit outcome" where
  "slash_verdict env now x =
     (case rpc_getTradeStatusStrict env (contract_of env x) (o_tradeId x) of
        Inl _ \<Rightarrow> Inl (ServiceUnavailableException (''cannot read the verdict on chain right now '' @ em_dash @
                   '' refusing rather than sending you to sign something that will be rejected''))
      | Inr None \<Rightarrow> Inl (ConflictException ''the escrow has no record of this trade'')
      | Inr (Some t) \<Rightarrow>
          (case t_liabilityEstablished t of
             None \<Rightarrow> Inl (ServiceUnavailableException (''the deployed escrow did not report whether liability was established '' @ em_dash @
                      '' refusing rather than guessing at a verdict''))
           | Some liable \<Rightarrow>
               if \<not> liable
               then Inl (ConflictException (''no liability has been established on this trade '' @ em_dash @
                      '' resolving a dispute against the party holding the money is what establishes it, and the contract will refuse a slash until then''))
               else (let deadline = (case t_slashDeadline t of Some s \<Rightarrow> s | None \<Rightarrow> 0) in
                 if deadline = 0
                 then Inl (ConflictException ''the slash window on this trade has been closed by an exonerating verdict'')
                 else if now div 1000 > deadline + CLOCK_SKEW_MARGIN_SECS
                 then Inl (ConflictException (''the window to slash this trade closed some time ago '' @ em_dash @
                        '' the bond is no longer reachable for it''))
                 else Inr ())))"

definition buildSlashTx :: "env \<Rightarrow> builder \<Rightarrow> ms \<Rightarrow> string \<Rightarrow> address \<Rightarrow> int \<Rightarrow> (db, built) handler" where
  "buildSlashTx env build now orderId who amount d =
     (case find_order d orderId of
        None \<Rightarrow> (d, Inl order_not_found)
      | Some x \<Rightarrow>
          (case requireLp d x of
             Inl e \<Rightarrow> (d, Inl e)
           | Inr l \<Rightarrow>
               if amount \<le> 0 then (d, Inl (BadRequestException ''amount must be positive''))
               else (let (d1, cur) = refreshOrderStatus env now orderId x d in
                 if settled_status (o_status cur) \<and>
                    \<not> (o_flow cur = TOP_UP \<and> o_status cur = REFUNDED) \<and> \<not> (o_flow cur = WITHDRAW \<and> o_status cur = RELEASED)
                 then (d1, Inl (ConflictException (''this settlement left the user holding the money, not the provider '' @ em_dash @
                            '' there is no provider bond to draw on'')))
                 else if \<not> settled_status (o_status cur) \<and> o_status cur \<noteq> DISPUTED
                 then (d1, Inl (ConflictException (''a slash is restitution after settlement '' @ em_dash @
                            '' this order has not settled, and while it has not, releasing or refunding the escrow is the remedy'')))
                 else (case assertDisputeSigner env (cfg_stakingContractId env) who False of
                     Inl e \<Rightarrow> (d1, Inl e)
                   | Inr _ \<Rightarrow>
                       (case slash_verdict env now cur of
                          Inl e \<Rightarrow> (d1, Inl e)
                        | Inr _ \<Rightarrow>
                            (case slashState env cur of
                               Inl e \<Rightarrow> (d1, Inl e)
                             | Inr st \<Rightarrow>
                                 if ss_remaining st \<le> 0
                                 then (d1, Inl (ConflictException (''this trade has already been recovered in full '' @ em_dash @ '' nothing is left to take'')))
                                 else if amount > ss_remaining st
                                 then (d1, Inl (BadRequestException (''amount exceeds what is left on this trade '' @ em_dash @ '' '' @
                                          dec_int (ss_recovered st) @ '' of '' @ dec_int (o_usdcAmount x) @
                                          '' base units has already been recovered, leaving '' @ dec_int (ss_remaining st))))
                                 else (let c = Slash who (lp_stellarAddress l) (o_tradeId cur) amount in
                                   case build c of
                                     Inr xdr \<Rightarrow> (d1, Inr (c, xdr))
                                   | Inl err \<Rightarrow> (d1, Inl (case describeStakingError err of
                                         Some p \<Rightarrow> ConflictException p
                                       | None \<Rightarrow> ServiceUnavailableException ''Stellar RPC unavailable, retry later'')))))))))"

section \<open>Properties\<close>

text \<open>A refresh of the order just read returns that order, or that order rewritten.\<close>

lemma refresh_result:
  assumes "find_order d i = Some x"
  shows "snd (refreshOrderStatus env now i x d) = x \<or> (\<exists>t. snd (refreshOrderStatus env now i x d) = refresh_row now t x x)"
proof -
  have x: "o_id x = i" using find_order_Some [OF assms] by simp
  have rw: "row_write o_id (refresh_row now t x)" for t by unfold_locales simp
  have "find_order (upd_orders (update_many (\<lambda>y. o_id y = i \<and> o_status y = o_status x) (refresh_row now t x)) d) i
      = Some (refresh_row now t x x)" for t
    using row_write.find_after_write [OF rw, of i "\<lambda>y. o_id y = i \<and> o_status y = o_status x" t "db_orders d"] assms x
    by (simp add: find_order_def)
  then show ?thesis by (auto simp: refreshOrderStatus_def Let_def split: option.split)
qed

lemma refresh_row_same [simp]:
  "o_flow (refresh_row now t s x) = o_flow x" "o_userAddress (refresh_row now t s x) = o_userAddress x"
  "o_lpWallet (refresh_row now t s x) = o_lpWallet x" "o_tradeId (refresh_row now t s x) = o_tradeId x"
  "o_contractId (refresh_row now t s x) = o_contractId x" "o_usdcAmount (refresh_row now t s x) = o_usdcAmount x"
  "o_lpId (refresh_row now t s x) = o_lpId x" "o_payDeadline (refresh_row now t s x) = o_payDeadline x"
  "o_personId (refresh_row now t s x) = o_personId x" "o_disputeBy (refresh_row now t s x) = o_disputeBy x"
  by (simp_all add: refresh_row_def settlementFieldsFrom_def)

lemma refresh_same:
  assumes "find_order d i = Some x" "refreshOrderStatus env now i x d = (d1, cur)"
  shows "o_flow cur = o_flow x \<and> o_userAddress cur = o_userAddress x \<and> o_lpWallet cur = o_lpWallet x \<and>
         o_tradeId cur = o_tradeId x \<and> o_contractId cur = o_contractId x \<and> o_usdcAmount cur = o_usdcAmount x \<and>
         o_lpId cur = o_lpId x \<and> o_payDeadline cur = o_payDeadline x \<and> o_personId cur = o_personId x \<and>
         o_disputeBy cur = o_disputeBy x"
  using refresh_result [OF assms(1), of env now] unfolding assms(2) snd_conv by (elim disjE exE) simp_all

lemma requireLp_Inr: "requireLp d x = Inr l \<longleftrightarrow> order_lp d x = Some l"
  by (auto simp: requireLp_def split: option.splits)

lemma build_escrow_Inr: "build_escrow build c = Inr (c', xdr) \<Longrightarrow> c' = c"
  by (auto simp: build_escrow_def split: sum.splits)

text \<open>The trade the escrow records for a \<open>create_trade\<close> call, as the coordinator reads it back.\<close>

definition recorded_trade :: "trade_params \<Rightarrow> trade" where
  "recorded_trade p = \<lparr>t_status = FUNDED, t_settledAt = 0, t_usdcAmount = JBigInt (tp_usdcAmount p),
     t_fiatAmount = JBigInt (tp_fiatAmount p), t_fiatCurrency = JString (tp_fiatCurrency p),
     t_flow = JNumber (Fin (of_int (FLOW_DISCRIMINANT (tp_flow p)))),
     t_usdcProvider = JString (usdcProvider (tp_roles p)), t_usdcRecipient = JString (usdcRecipient (tp_roles p)),
     t_confirmer = JString (confirmer (tp_roles p)), t_platformWallet = JString (tp_platformWallet p),
     t_lpWallet = JString (tp_lpWallet p), t_platformFeeBps = JNumber (Fin (of_int (tp_platformFeeBps p))),
     t_lpFeeBps = JNumber (Fin (of_int (tp_lpFeeBps p))), t_payDeadline = JBigInt (tp_payDeadline p),
     t_confirmDeadline = JBigInt (tp_confirmDeadline p), t_disputeDeadline = JBigInt (tp_disputeDeadline p),
     t_postSettleDeadline = None, t_slashDeadline = None, t_liabilityEstablished = None\<rparr>"

lemma recorded_trade_matches:
  assumes "o_lpWallet x = Some (lp_stellarAddress l)" "lp_stellarAddress l \<noteq> []" "o_userAddress x \<noteq> []"
    and "o_fiatCurrency x \<noteq> []" "o_platformWallet x \<noteq> []" "r = mapRoles (o_flow x) (o_userAddress x) (lp_stellarAddress l)"
  shows "verifyTradeMatchesOrder (recorded_trade (create_params env r l x)) x = []"
  using assms by (cases "o_flow x")
    (simp_all add: verifyTradeMatchesOrder_def recorded_trade_def create_params_def compareBigint_def compareNumber_def
      compareString_def compare_field_def Let_def mapRoles_def is_integer_def)

text \<open>C5 (buildCreateTradeTx against verifyTradeMatchesOrder): the call the coordinator hands out to open an
  escrow is one the coordinator will accept when it sees it on chain.  It is built only for the
  party that provides the USDC, for an order not yet on chain and before the signing cutoff; and a
  trade recorded with its parameters matches the order in every compared field, provided the order's
  provider wallet is still the provider's address and the addresses and the currency are not empty
  strings.\<close>

theorem created_trade_binds:
  assumes "buildCreateTradeTx env build now orderId who d = (d', Inr (c, xdr))"
    and "find_order d orderId = Some x" "order_lp d x = Some l" "o_lpWallet x = Some (lp_stellarAddress l)"
    and "lp_stellarAddress l \<noteq> []" "o_userAddress x \<noteq> []"
  shows "\<exists>p cur. c = CreateTrade p \<and> refreshOrderStatus env now orderId x d = (d', cur) \<and>
           who = usdcProvider (mapRoles (o_flow x) (o_userAddress x) (lp_stellarAddress l)) \<and>
           o_status cur \<in> {MATCHED, AWAITING_ONCHAIN} \<and> now < signingCutoffSecs (o_payDeadline cur) * 1000 \<and>
           (o_fiatCurrency cur \<noteq> [] \<and> o_platformWallet cur \<noteq> [] \<longrightarrow>
              verifyTradeMatchesOrder (recorded_trade p) cur = [])"
proof -
  obtain d1 cur where r: "refreshOrderStatus env now orderId x d = (d1, cur)" by (cases "refreshOrderStatus env now orderId x d")
  note same = refresh_same [OF assms(2) r]
  let ?r = "mapRoles (o_flow x) (o_userAddress x) (lp_stellarAddress l)"
  have lp: "requireLp d x = Inr l" using assms(3) by (simp add: requireLp_Inr)
  have c: "who = usdcProvider ?r" "o_status cur \<in> {MATCHED, AWAITING_ONCHAIN}" "now < signingCutoffSecs (o_payDeadline cur) * 1000"
      "d' = d1" "build_escrow build (CreateTrade (create_params env ?r l cur)) = Inr (c, xdr)"
    using assms(1,2) lp r by (auto simp: buildCreateTradeTx_def Let_def split: if_splits)
  have "c = CreateTrade (create_params env ?r l cur)" by (rule build_escrow_Inr [OF c(5)])
  moreover have "verifyTradeMatchesOrder (recorded_trade (create_params env ?r l cur)) cur = []"
    if "o_fiatCurrency cur \<noteq> []" "o_platformWallet cur \<noteq> []"
    using recorded_trade_matches [of cur l ?r env] assms(4-6) same that by simp
  ultimately show ?thesis using c r by auto
qed


text \<open>C6 (buildSlashTx, slashState): a slash is built only against an established liability, only by a signer
  of the staking contract, only for an order whose money ended with the provider or is disputed, only
  while the window (plus the clock margin) is open, and never for more than is left: what was
  recovered before plus the amount does not exceed the order.\<close>

theorem slash_never_over_recovers:
  assumes "buildSlashTx env build now i who amount d = (d', Inr (c, xdr))" "find_order d i = Some x" "order_lp d x = Some l"
  shows "\<exists>cur t deadline recovered resolver admin.
           refreshOrderStatus env now i x d = (d', cur) \<and>
           (o_status cur = DISPUTED \<or> (o_flow x = TOP_UP \<and> o_status cur = REFUNDED) \<or> (o_flow x = WITHDRAW \<and> o_status cur = RELEASED)) \<and>
           rpc_readDisputeSigners env (cfg_stakingContractId env) = Inr (resolver, admin) \<and> who \<in> {resolver, admin} \<and>
           rpc_getTradeStatusStrict env (contract_of env x) (o_tradeId x) = Inr (Some t) \<and>
           t_liabilityEstablished t = Some True \<and> t_slashDeadline t = Some deadline \<and> deadline \<noteq> 0 \<and>
           now div 1000 \<le> deadline + CLOCK_SKEW_MARGIN_SECS \<and>
           rpc_getSlashedSoFar env (o_tradeId x) = Inr recovered \<and>
           0 < amount \<and> recovered + amount \<le> o_usdcAmount x \<and>
           c = Slash who (lp_stellarAddress l) (o_tradeId x) amount"
proof -
  obtain d1 cur where r: "refreshOrderStatus env now i x d = (d1, cur)" by (cases "refreshOrderStatus env now i x d")
  note same = refresh_same [OF assms(2) r]
  have lp: "requireLp d x = Inr l" using assms(3) by (simp add: requireLp_Inr)
  have con: "contract_of env cur = contract_of env x" using same by (simp add: contract_of_def contractIdFor_def)
  obtain st where st: "slashState env cur = Inr st" "assertDisputeSigner env (cfg_stakingContractId env) who False = Inr ()"
      "slash_verdict env now cur = Inr ()" "0 < amount" "amount \<le> ss_remaining st" "d' = d1"
      "c = Slash who (lp_stellarAddress l) (o_tradeId cur) amount"
      "settled_status (o_status cur) \<longrightarrow> (o_flow cur = TOP_UP \<and> o_status cur = REFUNDED) \<or> (o_flow cur = WITHDRAW \<and> o_status cur = RELEASED)"
      "\<not> settled_status (o_status cur) \<longrightarrow> o_status cur = DISPUTED"
    using assms(1,2) lp r by (auto simp: buildSlashTx_def Let_def split: if_splits sum.splits)
  have rec: "\<exists>recovered. rpc_getSlashedSoFar env (o_tradeId x) = Inr recovered \<and> recovered + amount \<le> o_usdcAmount x"
    using st(1,4,5) same by (auto simp: slashState_def Let_def case_prod_unfold split: sum.splits if_splits)
  have sig: "\<exists>resolver admin. rpc_readDisputeSigners env (cfg_stakingContractId env) = Inr (resolver, admin) \<and> who \<in> {resolver, admin}"
    using st(2) by (auto simp: assertDisputeSigner_def split: sum.splits if_splits)
  have ver: "\<exists>t deadline. rpc_getTradeStatusStrict env (contract_of env x) (o_tradeId x) = Inr (Some t) \<and>
      t_liabilityEstablished t = Some True \<and> t_slashDeadline t = Some deadline \<and> deadline \<noteq> 0 \<and>
      now div 1000 \<le> deadline + CLOCK_SKEW_MARGIN_SECS"
    using st(3) same con by (auto simp: slash_verdict_def Let_def split: sum.splits option.splits if_splits)
  show ?thesis using rec sig ver st(4,6,7,8,9) r same by metis
qed

section \<open>Examples\<close>

lemma no_trade_refresh: "refreshOrderStatus (demo_env\<lparr>rpc_getTradeStatusStrict := g\<rparr>) now i x d = (d, x)"
  "refreshOrderStatus demo_env now i x d = (d, x)"
  by (simp_all add: refreshOrderStatus_def demo_env_def)

lemma order_db_lp: "order_lp order_db demo_order = Some demo_lp"
  by (simp add: order_lp_def find_lp_def find_row_def order_db_def demo_lp_def)

lemma demo_lp_simps [simp]: "lp_stellarAddress demo_lp = ''GL''" "lp_id demo_lp = ''lp1''"
  by (simp_all add: demo_lp_def)

lemma demo_created:
  "buildCreateTradeTx demo_env (\<lambda>_. Inr ''xdr'') 1700000000000 ''o1'' ''GL'' order_db
     = (order_db, Inr (CreateTrade (create_params demo_env (mapRoles TOP_UP ''GU'' ''GL'') demo_lp demo_order), ''xdr''))"
  using order_db_ok(2) order_db_lp
  by (simp add: buildCreateTradeTx_def requireLp_def no_trade_refresh mapRoles_def build_escrow_def limit_defs)

theorem created_trade_binds_witness:
  "verifyTradeMatchesOrder (recorded_trade (create_params demo_env (mapRoles TOP_UP ''GU'' ''GL'') demo_lp demo_order)) demo_order = []"
proof -
  have "o_fiatCurrency demo_order \<noteq> []" "o_platformWallet demo_order \<noteq> []" by (simp_all add: demo_order_def)
  then show ?thesis
    using created_trade_binds [OF demo_created order_db_ok(2) order_db_lp] no_trade_refresh(2) [of 1700000000000 "''o1''" demo_order order_db]
    by auto
qed

definition funded_db :: db where
  "funded_db = empty_db\<lparr>db_orders := [demo_order\<lparr>o_status := FUNDED\<rparr>], db_lps := [demo_lp]\<rparr>"


definition liable_env :: env where
  "liable_env = demo_env\<lparr>rpc_getTradeStatusStrict := (\<lambda>_ _. Inr (Some (demo_trade\<lparr>t_status := DISPUTED,
     t_liabilityEstablished := Some True, t_slashDeadline := Some 1700100000\<rparr>)))\<rparr>"

definition disputed_db :: db where
  "disputed_db = empty_db\<lparr>db_orders := [demo_order\<lparr>o_status := DISPUTED\<rparr>], db_lps := [demo_lp]\<rparr>"

theorem slash_never_over_recovers_witness:
  "\<exists>recovered. rpc_getSlashedSoFar liable_env ''t1'' = Inr recovered \<and> recovered + 60000000 \<le> 100000000"
proof -
  let ?x = "demo_order\<lparr>o_status := DISPUTED\<rparr>"
  have f: "find_order disputed_db ''o1'' = Some ?x" "order_lp disputed_db ?x = Some demo_lp"
    by (simp_all add: find_order_def find_row_def disputed_db_def order_lp_def find_lp_def)
  have "buildSlashTx liable_env (\<lambda>_. Inr ''xdr'') 1700000000000 ''o1'' ''GR'' 60000000 disputed_db
      = (disputed_db, Inr (Slash ''GR'' ''GL'' ''t1'' 60000000, ''xdr''))"
    using f by (simp add: buildSlashTx_def requireLp_def liable_env_def no_trade_refresh settled_status_def Let_def
        assertDisputeSigner_def slash_verdict_def slashState_def CLOCK_SKEW_MARGIN_SECS_def)
  from slash_never_over_recovers [OF this f] show ?thesis by auto
qed

end
