(* ===== verification/Reputation.thy ===== *)
theory Reputation
  imports People
begin

text \<open>
  \<open>reputation/dispute-outcome.ts\<close> (which party a resolution goes against) and
  \<open>reputation/user-reputation.service.ts\<close> (tiers, the rolling daily limit and the dispute
  losses charged to a user).
\<close>

section \<open>Dispute outcomes\<close>

definition userLostDispute :: "flow \<Rightarrow> resolution \<Rightarrow> bool" where
  "userLostDispute flw r = ((flw = TOP_UP \<and> r = Refunded) \<or> (flw = WITHDRAW \<and> r = Released))"

definition providerLostDispute :: "flow \<Rightarrow> resolution \<Rightarrow> bool" where
  "providerLostDispute flw r = ((flw = TOP_UP \<and> r = Released) \<or> (flw = WITHDRAW \<and> r = Refunded))"

definition PROVIDER_LOST_WHERE :: "(flow \<times> resolution) list" where
  "PROVIDER_LOST_WHERE = [(TOP_UP, Released), (WITHDRAW, Refunded)]"

definition USER_LOST_WHERE :: "(flow \<times> resolution) list" where
  "USER_LOST_WHERE = [(TOP_UP, Refunded), (WITHDRAW, Released)]"

section \<open>Tiers and limits\<close>

datatype tier = BRONZE | SILVER | TRUSTED | GOLD

definition TIER_LEVELS :: "tier list" where "TIER_LEVELS = [BRONZE, SILVER, TRUSTED, GOLD]"

text \<open>Tiers are ordered by their place in the list.\<close>

fun tier_rank :: "tier \<Rightarrow> nat" where
  "tier_rank BRONZE = 0"
| "tier_rank SILVER = 1"
| "tier_rank TRUSTED = 2"
| "tier_rank GOLD = 3"

instantiation tier :: linorder
begin

definition less_eq_tier :: "tier \<Rightarrow> tier \<Rightarrow> bool" where "t \<le> u = (tier_rank t \<le> tier_rank u)"

definition less_tier :: "tier \<Rightarrow> tier \<Rightarrow> bool" where "t < u = (tier_rank t < tier_rank u)"

instance
proof
  fix t u :: tier
  show "t \<le> u \<Longrightarrow> u \<le> t \<Longrightarrow> t = u" by (cases t; cases u) (simp_all add: less_eq_tier_def)
qed (auto simp: less_eq_tier_def less_tier_def)

end

fun tier_name :: "tier \<Rightarrow> string" where
  "tier_name BRONZE = ''BRONZE''"
| "tier_name SILVER = ''SILVER''"
| "tier_name TRUSTED = ''TRUSTED''"
| "tier_name GOLD = ''GOLD''"

fun DEFAULT_DAILY_LIMIT_USDC :: "tier \<Rightarrow> rat" where
  "DEFAULT_DAILY_LIMIT_USDC BRONZE = 100"
| "DEFAULT_DAILY_LIMIT_USDC SILVER = 300"
| "DEFAULT_DAILY_LIMIT_USDC TRUSTED = 600"
| "DEFAULT_DAILY_LIMIT_USDC GOLD = 2000"

definition DAY_MS :: ms where "DAY_MS = 24 * 60 * 60 * 1000"

definition VOLUME_EXCLUDED_STATUSES :: "order_status list" where
  "VOLUME_EXCLUDED_STATUSES = [EXPIRED, CANCELLED, REFUNDED]"

definition computeTier :: "int \<Rightarrow> int \<Rightarrow> tier" where
  "computeTier completedTrades disputesLost =
     (let level = (if completedTrades \<ge> 50 then 3 else if completedTrades \<ge> 20 then 2
                   else if completedTrades \<ge> 5 then 1 else 0 :: int);
          lost = (if disputesLost > 0 then disputesLost else 0)
      in TIER_LEVELS ! nat (max 0 (level - lost)))"

definition personIdFor :: "env \<Rightarrow> db \<Rightarrow> address \<Rightarrow> string outcome" where
  "personIdFor env d addr =
     (case lookupPerson env d addr of
        None \<Rightarrow> Inl (ServiceUnavailableException ''cannot establish identity for this address'')
      | Some p \<Rightarrow> if person_id p = [] then Inl (ServiceUnavailableException ''cannot establish identity for this address'')
                  else Inr (person_id p))"

record reputation =
  rep_tier :: tier
  rep_completedTrades :: int
  rep_disputesLost :: int
  rep_completionRate :: "jsnum option"

definition getReputation :: "db \<Rightarrow> string \<Rightarrow> reputation" where
  "getReputation d personId =
     (let addresses = walletsOf d personId;
          completed = int (count_rows (\<lambda>x. o_personId x = personId \<and> o_status x = RELEASED) (db_orders d));
          lost = sum_list (map u_disputesLost (filter (\<lambda>u. u_address u \<in> set addresses) (db_profiles d)));
          concluded = completed + lost
      in \<lparr>rep_tier = computeTier completed lost, rep_completedTrades = completed, rep_disputesLost = lost,
          rep_completionRate = (if concluded > 0 then Some (js_div (Fin (of_int completed)) (Fin (of_int concluded)))
                                else None)\<rparr>)"

definition dailyLimitBaseUnits :: "tier \<Rightarrow> config option \<Rightarrow> int" where
  "dailyLimitBaseUnits t conf =
     (let configured = Option.bind (Option.bind conf c_dailyLimitByTier) (\<lambda>raw. map_of raw (tier_name t));
          usdc = (case configured of Some v \<Rightarrow> if v \<ge> 0 then v else DEFAULT_DAILY_LIMIT_USDC t
                                   | None \<Rightarrow> DEFAULT_DAILY_LIMIT_USDC t)
      in math_round usdc * USDC_BASE_UNITS)"

definition counts_for_volume :: "string \<Rightarrow> ms \<Rightarrow> string option \<Rightarrow> order \<Rightarrow> bool" where
  "counts_for_volume personId now excludeOrderId x =
     (o_personId x = personId \<and> now - DAY_MS \<le> o_createdAt x \<and> o_status x \<notin> set VOLUME_EXCLUDED_STATUSES \<and>
      (truthy_str excludeOrderId \<longrightarrow> Some (o_id x) \<noteq> excludeOrderId))"

definition used24hBaseUnits :: "string \<Rightarrow> ms \<Rightarrow> string option \<Rightarrow> db \<Rightarrow> int" where
  "used24hBaseUnits personId now excludeOrderId d =
     sum_list (map o_usdcAmount (filter (counts_for_volume personId now excludeOrderId) (db_orders d)))"

section \<open>Dispute losses\<close>

definition upsert_profile :: "address \<Rightarrow> (int \<Rightarrow> int) \<Rightarrow> int \<Rightarrow> db \<Rightarrow> db" where
  "upsert_profile addr upd initial d =
     (if \<exists>u \<in> set (db_profiles d). u_address u = addr
      then d\<lparr>db_profiles := update_many (\<lambda>u. u_address u = addr)
               (\<lambda>u. u\<lparr>u_disputesLost := upd (u_disputesLost u)\<rparr>) (db_profiles d)\<rparr>
      else d\<lparr>db_profiles := db_profiles d @ [\<lparr>u_address = addr, u_disputesLost = initial\<rparr>]\<rparr>)"

definition recordDisputeLost :: "address \<Rightarrow> string \<Rightarrow> db \<Rightarrow> db" where
  "recordDisputeLost addr orderId d =
     (let fresh = (\<lambda>x. o_id x = orderId \<and> \<not> o_disputeLossAccrued x);
          d1 = upd_orders (update_many fresh (\<lambda>x. x\<lparr>o_disputeLossAccrued := True\<rparr>)) d
      in if count_rows fresh (db_orders d) = 0 then d1
         else upsert_profile addr (\<lambda>n. n + 1) 1 d1)"

definition user_lost_order :: "order \<Rightarrow> bool" where
  "user_lost_order x = (case o_resolution x of None \<Rightarrow> False
     | Some r \<Rightarrow> settled_status (o_status x) \<and> (o_flow x, r) \<in> set USER_LOST_WHERE)"

definition backfillDisputesLost :: "db \<Rightarrow> db" where
  "backfillDisputesLost d =
     (let lostOrders = filter user_lost_order (db_orders d);
          addresses = rev (remdups (rev (map o_userAddress lostOrders)));
          counts = (\<lambda>a. int (length (filter (\<lambda>x. o_userAddress x = a) lostOrders)));
          d1 = fold (\<lambda>a. upsert_profile a (\<lambda>_. counts a) (counts a)) addresses d
      in if addresses = [] then d
         else upd_orders (update_many (\<lambda>x. o_id x \<in> o_id ` set lostOrders)
                (\<lambda>x. x\<lparr>o_disputeLossAccrued := True\<rparr>)) d1)"

section \<open>Properties\<close>

text \<open>Every resolution of either flow goes
  against exactly one of the two parties, and the lists the queries use select the same pairs as
  the functions.\<close>

theorem dispute_has_one_loser:
  "userLostDispute flw r \<noteq> providerLostDispute flw r \<and>
   ((flw, r) \<in> set USER_LOST_WHERE \<longleftrightarrow> userLostDispute flw r) \<and>
   ((flw, r) \<in> set PROVIDER_LOST_WHERE \<longleftrightarrow> providerLostDispute flw r)"
  by (cases flw; cases r) (simp_all add: userLostDispute_def providerLostDispute_def USER_LOST_WHERE_def
      PROVIDER_LOST_WHERE_def)

lemma tier_rank_level: "i < 4 \<Longrightarrow> tier_rank (TIER_LEVELS ! i) = i"
  by (auto simp: TIER_LEVELS_def less_Suc_eq numeral_eq_Suc)

lemma computeTier_rank:
  "tier_rank (computeTier c l) = nat (max 0 ((if c \<ge> 50 then 3 else if c \<ge> 20 then 2 else if c \<ge> 5 then 1 else 0) - max 0 l))"
  unfolding computeTier_def Let_def by (subst tier_rank_level) auto

text \<open>A trade more never lowers a tier, a dispute lost never raises it.\<close>

theorem computeTier_mono: "c \<le> c' \<Longrightarrow> l' \<le> l \<Longrightarrow> computeTier c l \<le> computeTier c' l'"
  unfolding less_eq_tier_def computeTier_rank by (intro nat_mono max.mono) auto

interpretation loss: keyed_latch "\<lambda>x. \<not> o_disputeLossAccrued x" "\<lambda>x. x\<lparr>o_disputeLossAccrued := True\<rparr>" o_id
  by unfold_locales simp_all

interpretation profile: row_write u_address "\<lambda>u. u\<lparr>u_disputesLost := f (u_disputesLost u)\<rparr>" for f
  by unfold_locales simp

text \<open>The losses charged to an address, and the orders they were charged for.\<close>

definition charged :: "db \<Rightarrow> address \<Rightarrow> int" where
  "charged d a = (case find_row u_address a (db_profiles d) of None \<Rightarrow> 0 | Some u \<Rightarrow> u_disputesLost u)"

definition accrued :: "db \<Rightarrow> address \<Rightarrow> nat" where
  "accrued d a = count_rows (\<lambda>x. o_userAddress x = a \<and> o_disputeLossAccrued x) (db_orders d)"

lemma find_row_append_new:
  "find_row key k (t @ [r]) = (case find_row key k t of Some x \<Rightarrow> Some x | None \<Rightarrow> if key r = k then Some r else None)"
  unfolding find_row_def by (induction t) auto

lemma charged_upsert:
  "charged (upsert_profile a f i d) b =
     (if b = a then (if a \<in> u_address ` set (db_profiles d) then f (charged d a) else i) else charged d b)"
proof (cases "\<exists>u \<in> set (db_profiles d). u_address u = a")
  case True
  then obtain u where u: "find_row u_address a (db_profiles d) = Some u"
    using find_row_None [of u_address a "db_profiles d"] by (cases "find_row u_address a (db_profiles d)") auto
  have "find_row u_address b (update_many (\<lambda>u. u_address u = a) (\<lambda>u. u\<lparr>u_disputesLost := f (u_disputesLost u)\<rparr>) (db_profiles d))
      = map_option (\<lambda>u. if u_address u = a then u\<lparr>u_disputesLost := f (u_disputesLost u)\<rparr> else u)
          (find_row u_address b (db_profiles d))"
    by (rule profile.find_after_write)
  then show ?thesis using True u
    by (auto simp: upsert_profile_def charged_def image_iff dest: find_row_Some split: option.splits)
next
  case False
  then have "find_row u_address a (db_profiles d) = None" by (auto simp: find_row_None)
  then show ?thesis using False
    by (auto simp: upsert_profile_def charged_def find_row_append_new image_iff split: option.splits)
qed

lemma upsert_profile_orders [simp]: "db_orders (upsert_profile a f i d) = db_orders d"
  by (simp add: upsert_profile_def)

lemma charged_orders [simp]: "charged (d\<lparr>db_orders := t\<rparr>) a = charged d a"
  by (simp add: charged_def)

text \<open>A dispute loss is charged exactly once per order.  Charging the user of an
  order moves the user's count of losses and the number of the user's orders marked as accrued
  together, for every address, and charging the same order again changes nothing, however often
  the resolution is delivered.\<close>

theorem dispute_loss_charged_once:
  assumes "orders_ok d" "find_order d i = Some x"
  shows "charged (recordDisputeLost (o_userAddress x) i d) a - int (accrued (recordDisputeLost (o_userAddress x) i d) a)
           = charged d a - int (accrued d a) \<and>
         recordDisputeLost b i (recordDisputeLost (o_userAddress x) i d) = recordDisputeLost (o_userAddress x) i d"
proof -
  let ?p = "\<lambda>x. o_id x = i \<and> \<not> o_disputeLossAccrued x"
  let ?t = "update_many ?p (\<lambda>x. x\<lparr>o_disputeLossAccrued := True\<rparr>) (db_orders d)"
  let ?d' = "recordDisputeLost (o_userAddress x) i d"
  have dist: "distinct (map o_id (db_orders d))" using assms(1) by (simp add: orders_ok_def)
  have f: "find_row o_id i (db_orders d) = Some x" using assms(2) by (simp add: find_order_def)
  have t: "db_orders ?d' = ?t" by (simp add: recordDisputeLost_def Let_def)
  have n: "count_rows ?p (db_orders d) = (if o_disputeLossAccrued x then 0 else 1)"
    using loss.claim_counts [OF dist f] by simp
  have "count_rows (\<lambda>y. o_userAddress y = a \<and> ?p y) (db_orders d) = (if o_userAddress x = a then count_rows ?p (db_orders d) else 0)"
  proof (cases "o_userAddress x = a")
    case True
    have "filter (\<lambda>y. o_userAddress y = a \<and> ?p y) (db_orders d) = filter ?p (db_orders d)"
      using True f find_row_distinct [OF dist] by (intro filter_cong) force+
    then show ?thesis using True by (simp add: count_rows_def)
  next
    case False
    have "\<not> (o_userAddress y = a \<and> ?p y)" if "y \<in> set (db_orders d)" for y
      using False f find_row_distinct [OF dist that] by auto
    then show ?thesis using False by (auto simp: count_rows_0)
  qed
  then have acc: "accrued ?d' a = accrued d a + (if o_userAddress x = a then count_rows ?p (db_orders d) else 0)"
    unfolding accrued_def t
    using loss.closed_after_claim [of "\<lambda>y. o_userAddress y = a" "\<lambda>y. o_id y = i" "db_orders d"] by simp
  have "charged ?d' a = charged d a + (if o_userAddress x = a \<and> \<not> o_disputeLossAccrued x then 1 else 0)"
    by (auto simp: recordDisputeLost_def Let_def n charged_upsert)
       (auto simp: charged_def image_iff split: option.splits dest!: find_row_Some)
  then have one: "charged ?d' a - int (accrued ?d' a) = charged d a - int (accrued d a)" using acc n by simp
  have zero: "count_rows ?p (db_orders ?d') = 0" unfolding t by (rule loss.claimed_once)
  have "recordDisputeLost b i ?d' = ?d'"
    unfolding recordDisputeLost_def [of b i ?d'] Let_def using zero by (simp add: update_many_count_0)
  with one show ?thesis by blast
qed

text \<open>The boot-time recount.\<close>

lemma charged_fold:
  "charged (fold (\<lambda>a. upsert_profile a (\<lambda>_. c a) (c a)) as d) b = (if b \<in> set as then c b else charged d b)"
  by (induction as arbitrary: d) (auto simp: charged_upsert)

lemma fold_upsert_orders [simp]:
  "db_orders (fold (\<lambda>a. upsert_profile a (f a) (c a)) as d) = db_orders d"
  by (induction as arbitrary: d) simp_all

definition lost_orders_of :: "db \<Rightarrow> address \<Rightarrow> nat" where
  "lost_orders_of d a = count_rows (\<lambda>x. user_lost_order x \<and> o_userAddress x = a) (db_orders d)"

lemma record_after_accrual:
  assumes "count_rows (\<lambda>x. o_id x = i \<and> \<not> o_disputeLossAccrued x) (db_orders d) = 0"
  shows "recordDisputeLost b i d = d"
  using assms by (simp add: recordDisputeLost_def Let_def update_many_count_0)

text \<open>The recount at boot sets the losses of every address that lost a resolved
  order to the number of those orders, leaves every other address alone, and marks the orders as
  accrued, so the indexer charging one of them afterwards changes nothing.\<close>

theorem backfill_recounts:
  assumes "orders_ok d" "x \<in> set (db_orders d)" "user_lost_order x"
  shows "charged (backfillDisputesLost d) a = (if lost_orders_of d a > 0 then int (lost_orders_of d a) else charged d a) \<and>
         recordDisputeLost b (o_id x) (backfillDisputesLost d) = backfillDisputesLost d"
proof -
  let ?lost = "filter user_lost_order (db_orders d)"
  let ?as = "rev (remdups (rev (map o_userAddress ?lost)))"
  have ne: "?as \<noteq> []" using assms(2,3) by (auto simp: filter_empty_conv)
  have n: "length (filter (\<lambda>x. o_userAddress x = a) ?lost) = lost_orders_of d a" for a
    by (simp add: lost_orders_of_def count_rows_def conj_commute)
  have "a \<in> set ?as \<longleftrightarrow> lost_orders_of d a > 0"
    using count_rows_0 [of "\<lambda>x. user_lost_order x \<and> o_userAddress x = a" "db_orders d"]
    by (auto simp: lost_orders_of_def)
  then have one: "charged (backfillDisputesLost d) a
      = (if lost_orders_of d a > 0 then int (lost_orders_of d a) else charged d a)"
    using ne n [of a] unfolding backfillDisputesLost_def Let_def by (simp add: charged_fold)
  have "count_rows (\<lambda>y. o_id y = o_id x \<and> \<not> o_disputeLossAccrued y) (db_orders (backfillDisputesLost d)) = 0"
    using ne assms(2,3) unfolding backfillDisputesLost_def Let_def
    by (auto simp: count_rows_0 table_simps)
  with one show ?thesis using record_after_accrual by blast
qed

definition lost_order :: order where
  "lost_order = demo_order\<lparr>o_status := REFUNDED, o_settledStatus := Some REFUNDED, o_resolution := Some Refunded\<rparr>"

lemma lost_db:
  "orders_ok (empty_db\<lparr>db_orders := [lost_order]\<rparr>)" "find_order (empty_db\<lparr>db_orders := [lost_order]\<rparr>) ''o1'' = Some lost_order"
  "user_lost_order lost_order"
  by (simp_all add: orders_ok_def order_ok_def empty_db_def lost_order_def demo_order_def find_order_def find_row_def
      user_lost_order_def settled_status_def USER_LOST_WHERE_def)

theorem dispute_loss_charged_once_witness:
  "charged (recordDisputeLost ''GU'' ''o1'' (empty_db\<lparr>db_orders := [lost_order]\<rparr>)) ''GU'' = 1"
proof -
  let ?d = "empty_db\<lparr>db_orders := [lost_order]\<rparr>"
  have "charged ?d ''GU'' = 0" "accrued ?d ''GU'' = 0" "accrued (recordDisputeLost ''GU'' ''o1'' ?d) ''GU'' = 1"
    by (simp_all add: charged_def accrued_def empty_db_def find_row_def count_rows_def recordDisputeLost_def
        lost_order_def demo_order_def update_many_def)
  moreover have "o_userAddress lost_order = ''GU''" by (simp add: lost_order_def demo_order_def)
  ultimately show ?thesis using dispute_loss_charged_once [OF lost_db(1,2), of "''GU''"] by simp
qed

theorem backfill_recounts_witness:
  "charged (backfillDisputesLost (empty_db\<lparr>db_orders := [lost_order]\<rparr>)) ''GU'' = 1"
proof -
  have "lost_orders_of (empty_db\<lparr>db_orders := [lost_order]\<rparr>) ''GU'' = 1"
    using lost_db(3) by (simp add: lost_orders_of_def count_rows_def lost_order_def demo_order_def)
  then show ?thesis
    using backfill_recounts [of "empty_db\<lparr>db_orders := [lost_order]\<rparr>" lost_order "''GU''"] lost_db by simp
qed

end
