(* ===== verification/Markets.thy ===== *)
theory Markets
  imports Reputation
begin

text \<open>
  \<open>market/markets.service.ts\<close> (the fiat markets and the guard on their price bounds),
  \<open>rate/fiat.ts\<close> (currency codes) and \<open>config/config-cache.ts\<close>.  A cache is
  part of the process memory: the rows it holds and when it read them.
\<close>

section \<open>Currency codes (fiat.ts)\<close>

definition is_upper :: "char \<Rightarrow> bool" where
  "is_upper c = (65 \<le> (of_char c :: nat) \<and> (of_char c :: nat) \<le> 90)"

definition to_upper :: "char \<Rightarrow> char" where
  "to_upper c = (if 97 \<le> (of_char c :: nat) \<and> (of_char c :: nat) \<le> 122 then char_of ((of_char c :: nat) - 32) else c)"

definition normalizeFiat :: "string \<Rightarrow> string outcome" where
  "normalizeFiat s =
     (let u = map to_upper (trim s)
      in if length u = 3 \<and> list_all is_upper u then Inr u
         else Inl (BadRequestException (''invalid fiat code: '' @ [CHR 0x22] @ s @ [CHR 0x22])))"

section \<open>Configuration cache (config-cache.ts)\<close>

definition CONFIG_TTL_MS :: ms where "CONFIG_TTL_MS = 5000"

definition default_config :: "address \<Rightarrow> ms \<Rightarrow> config" where
  "default_config wallet now = \<lparr>c_spreadBps = 150, c_platformFeeBps = 30, c_lpFeeBps = 120, c_platformWallet = wallet,
     c_minOrder = 50000000, c_maxOrder = 10000000000, c_payWindowSecs = 1800, c_confirmWindowSecs = 1800,
     c_disputeWindowSecs = 7200, c_paused = False, c_requireProof = True, c_autoRefund = True,
     c_dailyLimitByTier = None, c_postSettleDisputeWindowSecs = 3600, c_updatedAt = now\<rparr>"

type_synonym config_cache = "(config \<times> ms) option"

definition read_config :: "ms \<Rightarrow> address \<Rightarrow> config_cache \<Rightarrow> db \<Rightarrow> db \<times> config_cache \<times> config" where
  "read_config now wallet cache d =
     (case cache of
        Some (row, readAt) \<Rightarrow> if now - readAt < CONFIG_TTL_MS then (d, cache, row)
          else (let row' = (case db_config d of Some c \<Rightarrow> c | None \<Rightarrow> default_config wallet now)
                in (d\<lparr>db_config := Some row'\<rparr>, Some (row', now), row'))
      | None \<Rightarrow> (let row' = (case db_config d of Some c \<Rightarrow> c | None \<Rightarrow> default_config wallet now)
                in (d\<lparr>db_config := Some row'\<rparr>, Some (row', now), row')))"

definition invalidate :: "config_cache \<Rightarrow> config_cache" where
  "invalidate cache = None"

section \<open>Markets (markets.service.ts)\<close>

definition seed_market :: "string \<Rightarrow> string \<Rightarrow> string \<Rightarrow> string \<Rightarrow> string \<Rightarrow> string \<Rightarrow> string \<Rightarrow> int \<Rightarrow> bool \<Rightarrow> market" where
  "seed_market code country symbol locale rail lo hi decimals enabled =
     \<lparr>m_code = code, m_country = country, m_currencySymbol = symbol, m_locale = locale, m_railName = rail,
      m_manualRateOverride = None, m_priceMinPerUsdc = lo, m_priceMaxPerUsdc = hi, m_decimals = decimals,
      m_enabled = enabled\<rparr>"

definition SEED_MARKETS :: "market list" where
  "SEED_MARKETS =
     [seed_market ''IDR'' ''Indonesia'' ''Rp'' ''id-ID'' ''QRIS'' ''5000'' ''50000'' 0 True,
      seed_market ''PHP'' ''Philippines'' [CHR 0xE2, CHR 0x82, CHR 0xB1] ''en-PH'' ''InstaPay'' ''30'' ''120'' 2 False,
      seed_market ''VND'' ''Vietnam'' [CHR 0xE2, CHR 0x82, CHR 0xAB] ''vi-VN'' ''VietQR'' ''15000'' ''40000'' 0 False,
      seed_market ''INR'' ''India'' [CHR 0xE2, CHR 0x82, CHR 0xB9] ''en-IN'' ''UPI'' ''50'' ''150'' 2 False,
      seed_market ''THB'' ''Thailand'' [CHR 0xE0, CHR 0xB8, CHR 0xBF] ''th-TH'' ''PromptPay'' ''20'' ''60'' 2 False,
      seed_market ''BRL'' ''Brazil'' ''R$'' ''pt-BR'' ''PIX'' ''3'' ''12'' 2 False]"

definition MARKET_TTL_MS :: ms where "MARKET_TTL_MS = 5000"

type_synonym market_cache = "(market list \<times> ms) option"

definition seed_one :: "market \<Rightarrow> db \<Rightarrow> db" where
  "seed_one row d = d\<lparr>db_markets := create_skip (\<lambda>m. Some (m_code m)) row (db_markets d)\<rparr>"

definition seed :: "market_cache \<Rightarrow> db \<Rightarrow> db \<times> market_cache" where
  "seed cache d = (fold seed_one SEED_MARKETS d, None)"

definition cached :: "ms \<Rightarrow> db \<Rightarrow> market_cache \<Rightarrow> market_cache \<times> market list" where
  "cached now d cache =
     (case cache of
        Some (rows, readAt) \<Rightarrow> if now - readAt < MARKET_TTL_MS then (cache, rows) else (Some (db_markets d, now), db_markets d)
      | None \<Rightarrow> (Some (db_markets d, now), db_markets d))"

definition get_market :: "ms \<Rightarrow> db \<Rightarrow> market_cache \<Rightarrow> string \<Rightarrow> market_cache \<times> market option" where
  "get_market now d cache code = (let (cache', rows) = cached now d cache in (cache', find (\<lambda>m. m_code m = code) rows))"

definition getEnabled :: "ms \<Rightarrow> db \<Rightarrow> market_cache \<Rightarrow> string \<Rightarrow> market_cache \<times> market outcome" where
  "getEnabled now d cache code =
     (let (cache', m) = get_market now d cache code
      in (cache', case m of
            None \<Rightarrow> Inl (BadRequestException (''unknown market: '' @ code))
          | Some r \<Rightarrow> if \<not> m_enabled r then Inl (BadRequestException (''market not enabled: '' @ code)) else Inr r))"

text \<open>The columns an administrator may change; None leaves one alone.\<close>

record market_patch =
  mp_manualRateOverride :: "string option option"
  mp_priceMinPerUsdc :: "string option"
  mp_priceMaxPerUsdc :: "string option"
  mp_decimals :: "int option"
  mp_enabled :: "bool option"

definition patch_market :: "market_patch \<Rightarrow> market \<Rightarrow> market" where
  "patch_market p m =
     m\<lparr>m_manualRateOverride := (case mp_manualRateOverride p of Some v \<Rightarrow> v | None \<Rightarrow> m_manualRateOverride m),
       m_priceMinPerUsdc := (case mp_priceMinPerUsdc p of Some v \<Rightarrow> v | None \<Rightarrow> m_priceMinPerUsdc m),
       m_priceMaxPerUsdc := (case mp_priceMaxPerUsdc p of Some v \<Rightarrow> v | None \<Rightarrow> m_priceMaxPerUsdc m),
       m_decimals := (case mp_decimals p of Some v \<Rightarrow> v | None \<Rightarrow> m_decimals m),
       m_enabled := (case mp_enabled p of Some v \<Rightarrow> v | None \<Rightarrow> m_enabled m)\<rparr>"

definition active_methods :: "db \<Rightarrow> string \<Rightarrow> nat" where
  "active_methods d code =
     length (filter (\<lambda>m. pm_currency m = code \<and> pm_active m) (concat (map lp_paymentMethods (db_lps d))))"

definition update_market :: "string \<Rightarrow> market_patch \<Rightarrow> market_cache \<Rightarrow> (db, market \<times> market_cache) handler" where
  "update_market code patch cache d =
     (case find_row m_code code (db_markets d) of
        None \<Rightarrow> (d, Inl (BadRequestException (''unknown market: '' @ code)))
      | Some current \<Rightarrow>
          (let next = patch_market patch current;
               minNum = to_number (m_priceMinPerUsdc next); maxNum = to_number (m_priceMaxPerUsdc next)
           in if m_enabled next \<and> m_decimals next > 0
              then (d, Inl (BadRequestException (''cannot enable market '' @ code @ '': decimals='' @ dec_int (m_decimals next) @
                       '' not supported yet (money path is whole-units only)'')))
              else if m_enabled next \<and> active_methods d code = 0
              then (d, Inl (BadRequestException (''cannot enable market '' @ code @
                       '': no active payment method carries this currency (matching selects providers by payment-method currency, so no order here could find one)'')))
              else if \<not> js_less (Fin 0) minNum
              then (d, Inl (BadRequestException (''priceMinPerUsdc must be > 0 (got '' @ m_priceMinPerUsdc next @ '')'')))
              else if \<not> js_less minNum maxNum
              then (d, Inl (BadRequestException (''priceMinPerUsdc ('' @ m_priceMinPerUsdc next @ '') must be less than priceMaxPerUsdc ('' @
                       m_priceMaxPerUsdc next @ '')'')))
              else if js_less (Fin 10) (js_div maxNum minNum)
              then (d, Inl (BadRequestException ''priceMaxPerUsdc/priceMinPerUsdc ratio too wide: degenerate bounds would neuter plausibility checks''))
              else (d\<lparr>db_markets := update_many (\<lambda>m. m_code m = code) (patch_market patch) (db_markets d)\<rparr>,
                    Inr (next, None))))"

section \<open>Properties\<close>

definition market_ok :: "market \<Rightarrow> bool" where
  "market_ok m =
     ((m_enabled m \<longrightarrow> m_decimals m \<le> 0) \<and>
      js_less (Fin 0) (to_number (m_priceMinPerUsdc m)) \<and>
      js_less (to_number (m_priceMinPerUsdc m)) (to_number (m_priceMaxPerUsdc m)) \<and>
      \<not> js_less (Fin 10) (js_div (to_number (m_priceMaxPerUsdc m)) (to_number (m_priceMinPerUsdc m))))"

definition markets_ok :: "db \<Rightarrow> bool" where
  "markets_ok d = (distinct (map m_code (db_markets d)) \<and> list_all market_ok (db_markets d))"

lemma patch_market_code [simp]: "m_code (patch_market p m) = m_code m"
  by (simp add: patch_market_def)

interpretation market_put: row_write m_code "patch_market p" for p
  by unfold_locales simp

text \<open>An administrator cannot leave a market with degenerate bounds.  After every update, refused
  or not, each market has a positive lower bound below its upper one and no more than ten times
  smaller, an enabled market has no decimals (the money path is in whole units), and a market whose
  update enabled it has an active payment method in its currency.  A refused update changes
  nothing.\<close>

theorem markets_stay_ok:
  assumes "markets_ok d"
  shows "markets_ok (fst (update_market code patch cache d)) \<and>
         (case snd (update_market code patch cache d) of
            Inl e \<Rightarrow> fst (update_market code patch cache d) = d
          | Inr (m, _) \<Rightarrow> find_row m_code code (db_markets (fst (update_market code patch cache d))) = Some m \<and>
                         market_ok m \<and> (m_enabled m \<longrightarrow> active_methods d code > 0))"
proof (cases "find_row m_code code (db_markets d)")
  case None
  then show ?thesis using assms by (simp add: update_market_def)
next
  case (Some m)
  let ?t = "update_many (\<lambda>m. m_code m = code) (patch_market patch) (db_markets d)"
  have mem: "m \<in> set (db_markets d)" "m_code m = code" using find_row_Some [OF Some] by auto
  have only: "x = m" if "x \<in> set (db_markets d)" "m_code x = code" for x
    using find_row_distinct [of m_code "db_markets d" x] that Some assms by (simp add: markets_ok_def)
  have found: "find_row m_code code ?t = Some (patch_market patch m)"
    using market_put.find_after_write [of code "\<lambda>m. m_code m = code" patch "db_markets d"] Some mem by simp
  show ?thesis
  proof (cases "snd (update_market code patch cache d)")
    case (Inl e)
    then have "fst (update_market code patch cache d) = d"
      using Some by (auto simp: update_market_def Let_def split: if_splits)
    then show ?thesis using Inl assms by simp
  next
    case (Inr r)
    then have r: "r = (patch_market patch m, None)" "fst (update_market code patch cache d) = d\<lparr>db_markets := ?t\<rparr>"
      "market_ok (patch_market patch m)" "m_enabled (patch_market patch m) \<longrightarrow> active_methods d code > 0"
      using Some by (auto simp: update_market_def Let_def market_ok_def split: if_splits)
    have "list_all market_ok ?t"
      using assms r(3) only by (intro list_all_update_many) (auto simp: markets_ok_def)
    then have "markets_ok (d\<lparr>db_markets := ?t\<rparr>)"
      using assms market_put.keys_kept [of "\<lambda>m. m_code m = code" patch "db_markets d"] by (simp add: markets_ok_def)
    then show ?thesis using Inr r found by simp
  qed
qed

lemmas number_eval = to_number_def radix_of_def parse_float_def trim_def trim_start_def is_space_def read_sign_def read_decimal_def
  take_digits_def is_digit_def read_exponent_def digits_val_def digit_val_def pow10_def signed_num_def to_double_numeral

lemma seed_bounds:
  "to_number ''5000'' = Fin 5000" "to_number ''50000'' = Fin 50000" "to_number ''30'' = Fin 30" "to_number ''120'' = Fin 120"
  "to_number ''15000'' = Fin 15000" "to_number ''40000'' = Fin 40000" "to_number ''50'' = Fin 50" "to_number ''150'' = Fin 150"
  "to_number ''20'' = Fin 20" "to_number ''60'' = Fin 60" "to_number ''3'' = Fin 3" "to_number ''12'' = Fin 12"
  by (simp_all add: number_eval)

definition demo_market :: market where
  "demo_market = seed_market ''IDR'' ''Indonesia'' ''Rp'' ''id-ID'' ''QRIS'' ''5000'' ''50000'' 0 True"

lemma demo_market_simps [simp]:
  "m_code demo_market = ''IDR''" "m_enabled demo_market" "m_manualRateOverride demo_market = None"
  by (simp_all add: demo_market_def seed_market_def)

lemma demo_market_ok: "market_ok demo_market"
  by (simp add: market_ok_def demo_market_def seed_market_def seed_bounds to_double_numeral)

theorem markets_stay_ok_witness:
  "markets_ok (fst (update_market ''IDR'' \<lparr>mp_manualRateOverride = None, mp_priceMinPerUsdc = Some ''12'', mp_priceMaxPerUsdc = None,
     mp_decimals = None, mp_enabled = None\<rparr> None (empty_db\<lparr>db_markets := [demo_market]\<rparr>)))"
proof -
  have "markets_ok (empty_db\<lparr>db_markets := [demo_market]\<rparr>)" using demo_market_ok by (simp add: markets_ok_def)
  then show ?thesis by (rule markets_stay_ok [THEN conjunct1])
qed

end
