(* ===== verification/Kyc.thy ===== *)
theory Kyc
  imports People
begin

text \<open>
  The identity checks: \<open>kyc/screening-requirement.ts\<close> (which verification admits to
  funds), \<open>kyc/didit-decision.ts\<close> (what a delivery of the provider says) and
  \<open>kyc/sep12.service.ts\<close> (the customer record: submissions, deliveries, erasure).  A
  delivery is JSON, of any shape; \<open>undefined\<close> is None.  The provider is an argument.
\<close>

section \<open>screening-requirement.ts\<close>

definition UNREADABLE_SCREENING :: string where "UNREADABLE_SCREENING = ''the screening could not be read''"
definition SCREENING_DID_NOT_RUN :: string where "SCREENING_DID_NOT_RUN = ''the screening did not run''"
definition HIT_REFUSAL :: string where "HIT_REFUSAL = ''sanctions or watchlist match''"
definition SCREENING_REQUIRED_FAILED :: string where
  "SCREENING_REQUIRED_FAILED = ''the required screening could not be carried out''"
definition UNREADABLE_DECLINE :: string where "UNREADABLE_DECLINE = ''the refusal carried no readable cause''"

definition acceptedForFunds :: "bool \<Rightarrow> kyc_row \<Rightarrow> bool" where
  "acceptedForFunds requireAml row =
     (v_status row = ACCEPTED \<and> (if requireAml then v_screenedAt row \<noteq> None else v_deliveredAt row \<noteq> None))"

definition awaitingProvider :: "kyc_row \<Rightarrow> bool \<Rightarrow> bool" where
  "awaitingProvider row requireAml =
     (if v_status row \<noteq> ACCEPTED then False
      else if requireAml then v_screenedAt row = None else v_deliveredAt row = None)"

definition SESSION_LIFETIME_MS :: ms where "SESSION_LIFETIME_MS = 24 * 60 * 60 * 1000"

definition staleAcceptance :: "ms \<Rightarrow> kyc_row option \<Rightarrow> bool \<Rightarrow> bool" where
  "staleAcceptance now r requireAml =
     (case r of
        None \<Rightarrow> False
      | Some row \<Rightarrow>
          if v_status row \<noteq> ACCEPTED \<or> v_screenedAt row \<noteq> None then False
          else if v_deliveredAt row \<noteq> None then requireAml
          else (case v_verifiedAt row of None \<Rightarrow> False | Some t \<Rightarrow> t < now - SESSION_LIFETIME_MS))"

definition refusedAfterDelivery :: "ms \<Rightarrow> kyc_row \<Rightarrow> bool" where
  "refusedAfterDelivery since row =
     (v_status row = REJECTED \<and> (case v_deliveredAt row of None \<Rightarrow> False | Some t \<Rightarrow> since \<le> t))"

definition acceptedUnscreenedSince :: "ms \<Rightarrow> kyc_row \<Rightarrow> bool" where
  "acceptedUnscreenedSince since row =
     (v_status row = ACCEPTED \<and> v_screenedAt row = None \<and>
      (case v_deliveredAt row of None \<Rightarrow> False | Some t \<Rightarrow> since \<le> t))"

definition popupMayOfferVendor :: "kyc_row option \<Rightarrow> bool" where
  "popupMayOfferVendor r =
     (case r of None \<Rightarrow> True
      | Some row \<Rightarrow> v_status row \<noteq> ACCEPTED \<and> \<not> (v_status row = PROCESSING \<and> v_deliveredAt row \<noteq> None))"

section \<open>didit-decision.ts\<close>

datatype json = JNull | JsonBool bool | JNum jsnum | JStr string | JArr "json list" | JObj "(string \<times> json) list"

text \<open>\<open>value?.name\<close>.\<close>

fun js_prop :: "json option \<Rightarrow> string \<Rightarrow> json option" where
  "js_prop (Some (JObj members)) name = map_of members name"
| "js_prop _ _ = None"

fun json_truthy :: "json option \<Rightarrow> bool" where
  "json_truthy None = False"
| "json_truthy (Some JNull) = False"
| "json_truthy (Some (JsonBool b)) = b"
| "json_truthy (Some (JNum n)) = (n \<noteq> Fin 0 \<and> n \<noteq> NaN)"
| "json_truthy (Some (JStr s)) = (s \<noteq> [])"
| "json_truthy (Some (JArr _)) = True"
| "json_truthy (Some (JObj _)) = True"

definition PROCESSING_STATUSES :: "string list" where
  "PROCESSING_STATUSES = [''In Progress'', ''In Review'']"

definition RETRYABLE_STATUSES :: "string list" where
  "RETRYABLE_STATUSES = [''Awaiting User'', ''Resubmitted'', ''Abandoned'', ''Expired'', ''Kyc Expired'']"

definition CLEARED_SCREENING :: string where "CLEARED_SCREENING = ''Approved''"
definition NOT_PERFORMED :: string where "NOT_PERFORMED = ''COULD_NOT_PERFORM_AML_SCREENING''"
definition PASSED_DOCUMENT :: string where "PASSED_DOCUMENT = ''Approved''"

record didit_conclusion =
  dc_status :: kyc_status
  dc_screened :: bool
  dc_environment :: "json option"
  dc_providerRef :: "json option"
  dc_customerRef :: "json option"
  dc_rejectionReason :: "string option"
  dc_unrecognisedStatus :: bool \<comment> \<open>whether the field is set; its text is only logged\<close>
  dc_notStarted :: bool

definition screenings :: "json option \<Rightarrow> json list" where
  "screenings payload =
     (case js_prop (js_prop payload ''decision'') ''aml_screenings'' of Some (JArr xs) \<Rightarrow> xs | _ \<Rightarrow> [])"

definition emptyOrAbsent :: "json option \<Rightarrow> bool" where
  "emptyOrAbsent v = (v = None \<or> v = Some JNull \<or> v = Some (JArr []))"

definition cleared :: "json \<Rightarrow> bool" where
  "cleared e =
     (if js_prop (Some e) ''status'' \<noteq> Some (JStr CLEARED_SCREENING) then False
      else if js_prop (Some e) ''total_hits'' \<noteq> Some (JNum (Fin 0)) then False
      else if \<not> emptyOrAbsent (js_prop (Some e) ''hits'') then False
      else if \<not> emptyOrAbsent (js_prop (Some e) ''warnings'') then False
      else True)"

definition purelyNotPerformed :: "json \<Rightarrow> bool" where
  "purelyNotPerformed e =
     (let w = js_prop (Some e) ''warnings'' in
      if \<not> json_truthy w \<or> emptyOrAbsent w then False
      else (let xs = (case w of Some (JArr xs) \<Rightarrow> xs | Some x \<Rightarrow> [x] | None \<Rightarrow> [])
            in list_all (\<lambda>x. x = JStr NOT_PERFORMED) xs \<and>
               js_prop (Some e) ''total_hits'' = Some (JNum (Fin 0)) \<and> emptyOrAbsent (js_prop (Some e) ''hits'')))"

definition noScreeningDelivered :: "json option \<Rightarrow> bool" where
  "noScreeningDelivered payload = emptyOrAbsent (js_prop (js_prop payload ''decision'') ''aml_screenings'')"

definition ranAndFoundNothing :: "json option \<Rightarrow> bool" where
  "ranAndFoundNothing payload = (screenings payload \<noteq> [] \<and> list_all cleared (screenings payload))"

definition onlyCouldNotScreen :: "json option \<Rightarrow> bool" where
  "onlyCouldNotScreen payload =
     (screenings payload \<noteq> [] \<and> list_all (\<lambda>s. cleared s \<or> purelyNotPerformed s) (screenings payload) \<and>
      list_ex purelyNotPerformed (screenings payload))"

definition adverse :: "json \<Rightarrow> bool" where
  "adverse e = (if cleared e then False else if purelyNotPerformed e then False else True)"

definition hitsPresent :: "json \<Rightarrow> bool" where
  "hitsPresent e =
     ((case js_prop (Some e) ''total_hits'' of Some (JNum n) \<Rightarrow> js_less (Fin 0) n | _ \<Rightarrow> False) \<or>
      (case js_prop (Some e) ''hits'' of Some (JArr xs) \<Rightarrow> xs \<noteq> [] | _ \<Rightarrow> False))"

definition foundSomething :: "json option \<Rightarrow> bool" where
  "foundSomething payload = list_ex adverse (screenings payload)"

definition foundHits :: "json option \<Rightarrow> bool" where
  "foundHits payload = list_ex hitsPresent (screenings payload)"

definition documentFailed :: "json option \<Rightarrow> bool" where
  "documentFailed payload =
     (case js_prop (js_prop payload ''decision'') ''id_verifications'' of
        Some (JArr xs) \<Rightarrow> list_ex (\<lambda>x. js_prop (Some x) ''status'' \<noteq> Some (JStr PASSED_DOCUMENT)) xs
      | _ \<Rightarrow> False)"

definition readDiditDecision :: "json option \<Rightarrow> bool \<Rightarrow> didit_conclusion" where
  "readDiditDecision payload requireAml =
     (let base = \<lparr>dc_status = PROCESSING, dc_screened = False, dc_environment = js_prop payload ''environment'',
                  dc_providerRef = js_prop payload ''session_id'', dc_customerRef = js_prop payload ''vendor_data'',
                  dc_rejectionReason = None, dc_unrecognisedStatus = False, dc_notStarted = False\<rparr>;
          status = js_prop payload ''status''
      in if status = Some (JStr ''Approved'') then
           (if foundHits payload then base\<lparr>dc_status := REJECTED, dc_rejectionReason := Some HIT_REFUSAL\<rparr>
            else if noScreeningDelivered payload then base\<lparr>dc_status := ACCEPTED\<rparr>
            else if ranAndFoundNothing payload then base\<lparr>dc_status := ACCEPTED, dc_screened := True\<rparr>
            else if onlyCouldNotScreen payload
              then base\<lparr>dc_status := NEEDS_INFO, dc_rejectionReason := Some SCREENING_DID_NOT_RUN\<rparr>
            else base\<lparr>dc_status := NEEDS_INFO, dc_rejectionReason := Some UNREADABLE_SCREENING\<rparr>)
         else if status = Some (JStr ''Declined'') then
           (if foundHits payload then base\<lparr>dc_status := REJECTED, dc_rejectionReason := Some HIT_REFUSAL\<rparr>
            else if foundSomething payload
              then base\<lparr>dc_status := NEEDS_INFO, dc_rejectionReason := Some UNREADABLE_SCREENING\<rparr>
            else if documentFailed payload then base\<lparr>dc_status := NEEDS_INFO\<rparr>
            else if onlyCouldNotScreen payload then
              (if requireAml then base\<lparr>dc_status := REJECTED, dc_rejectionReason := Some SCREENING_REQUIRED_FAILED\<rparr>
               else base\<lparr>dc_status := NEEDS_INFO, dc_rejectionReason := Some SCREENING_DID_NOT_RUN\<rparr>)
            else base\<lparr>dc_status := REJECTED, dc_rejectionReason := Some UNREADABLE_DECLINE\<rparr>)
         else if status = Some (JStr ''Not Started'') then base\<lparr>dc_status := PROCESSING, dc_notStarted := True\<rparr>
         else if status \<in> (Some \<circ> JStr) ` set PROCESSING_STATUSES then base\<lparr>dc_status := PROCESSING\<rparr>
         else if status \<in> (Some \<circ> JStr) ` set RETRYABLE_STATUSES then base\<lparr>dc_status := NEEDS_INFO\<rparr>
         else base\<lparr>dc_status := PROCESSING, dc_unrecognisedStatus := True\<rparr>)"

section \<open>What a delivery can conclude\<close>

text \<open>Whatever JSON the provider delivers, a customer is accepted only by an
  approval in which no screening reported a hit and either no screening was delivered at all or
  every delivered one was cleared; the conclusion counts as screened exactly in the latter case.  A
  delivery with a hit that reports a final status is always a refusal, and no delivery is both
  accepted and given a reason for refusal.\<close>

theorem didit_acceptance_is_clean:
  "(dc_status (readDiditDecision payload aml) = ACCEPTED \<longrightarrow>
      js_prop payload ''status'' = Some (JStr ''Approved'') \<and> \<not> foundHits payload \<and>
      (noScreeningDelivered payload \<or> ranAndFoundNothing payload) \<and>
      dc_rejectionReason (readDiditDecision payload aml) = None) \<and>
   (dc_screened (readDiditDecision payload aml) \<longleftrightarrow>
      js_prop payload ''status'' = Some (JStr ''Approved'') \<and> screenings payload \<noteq> [] \<and> list_all cleared (screenings payload)) \<and>
   (foundHits payload \<and> js_prop payload ''status'' \<in> {Some (JStr ''Approved''), Some (JStr ''Declined'')} \<longrightarrow>
      dc_status (readDiditDecision payload aml) = REJECTED)"
proof -
  have hit: "\<not> hitsPresent e" if "cleared e" for e
    using that by (auto simp: cleared_def hitsPresent_def emptyOrAbsent_def split: if_splits option.splits json.splits)
  have "\<not> foundHits payload" if "list_all cleared (screenings payload)"
    using that hit by (auto simp: foundHits_def list_all_iff list_ex_iff)
  moreover have "screenings payload = []" if "noScreeningDelivered payload"
    using that by (auto simp: noScreeningDelivered_def screenings_def emptyOrAbsent_def)
  ultimately show ?thesis
    by (auto simp: readDiditDecision_def Let_def ranAndFoundNothing_def)
qed

definition clean_delivery :: json where
  "clean_delivery = JObj [(''status'', JStr ''Approved''), (''environment'', JStr ''live''), (''session_id'', JStr ''s1''),
     (''vendor_data'', JStr ''G1''),
     (''decision'', JObj [(''aml_screenings'', JArr [JObj [(''status'', JStr ''Approved''), (''total_hits'', JNum (Fin 0))]])])]"

lemma clean_delivery_accepted:
  "dc_status (readDiditDecision (Some clean_delivery) True) = ACCEPTED \<and> dc_screened (readDiditDecision (Some clean_delivery) True)"
  by (simp add: readDiditDecision_def clean_delivery_def Let_def foundHits_def screenings_def hitsPresent_def
      noScreeningDelivered_def emptyOrAbsent_def ranAndFoundNothing_def cleared_def CLEARED_SCREENING_def)

theorem didit_acceptance_is_clean_witness:
  "\<not> foundHits (Some clean_delivery) \<and> screenings (Some clean_delivery) \<noteq> []"
  using didit_acceptance_is_clean [of "Some clean_delivery" True] clean_delivery_accepted by blast

end
