(* ===== verification/OrderService.thy ===== *)
theory OrderService
  imports Matching OrderTx Markets Kyc
begin

text \<open>
  The handlers of \<open>order/order.service.ts\<close> that write: opening an order from a quote,
  cancelling it, filing a dispute; with \<open>order/payment-destination.ts\<close> and
  \<open>order/ref.util.ts\<close>.  The configuration row and the market cache are arguments.  What
  other requests do between a handler's reads and its transaction is the argument
  \<open>meanwhile\<close>; the random draws (trade id, references) are arguments.  Character classes are
  those of ASCII text.
\<close>

section \<open>Payment destinations (payment-destination.ts)\<close>

definition PAYMENT_DESTINATION_MAX_LEN :: nat where "PAYMENT_DESTINATION_MAX_LEN = 500"
definition PAYMENT_DESTINATION_MIN_WORD_CHARS :: nat where "PAYMENT_DESTINATION_MIN_WORD_CHARS = 6"

definition is_control_char :: "char \<Rightarrow> bool" where
  "is_control_char c = ((of_char c :: nat) < 32 \<or> (of_char c :: nat) = 127)"

definition is_letter :: "char \<Rightarrow> bool" where
  "is_letter c = ((65 \<le> (of_char c :: nat) \<and> (of_char c :: nat) \<le> 90) \<or> (97 \<le> (of_char c :: nat) \<and> (of_char c :: nat) \<le> 122))"

definition is_base32 :: "char \<Rightarrow> bool" where
  "is_base32 c = (is_letter c \<or> (50 \<le> (of_char c :: nat) \<and> (of_char c :: nat) \<le> 55))"

text \<open>\<open>/S[A-Z2-7]{55}/i\<close> anywhere in the string.\<close>

fun has_secret_shape :: "string \<Rightarrow> bool" where
  "has_secret_shape [] = False"
| "has_secret_shape (c # s) =
     ((c \<in> {CHR ''S'', CHR ''s''} \<and> length (take 55 s) = 55 \<and> list_all is_base32 (take 55 s)) \<or> has_secret_shape s)"

datatype destination_problem = Missing | TooLong | BadChars | SecretKey | TooShort

definition checkPaymentDestination :: "string option \<Rightarrow> destination_problem + string" where
  "checkPaymentDestination raw =
     (case raw of
        None \<Rightarrow> Inl Missing
      | Some s \<Rightarrow>
          (let trimmed = trim s in
           if trimmed = [] then Inl Missing
           else if length trimmed > PAYMENT_DESTINATION_MAX_LEN then Inl TooLong
           else if list_ex is_control_char trimmed then Inl BadChars
           else if has_secret_shape trimmed then Inl SecretKey
           else if length (filter (\<lambda>c. is_letter c \<or> is_digit c) trimmed) < PAYMENT_DESTINATION_MIN_WORD_CHARS then Inl TooShort
           else Inr trimmed))"

definition problem_sentence :: "destination_problem \<Rightarrow> string" where
  "problem_sentence p =
     (case p of
        Missing \<Rightarrow> ''name the bank account this anchor should pay the rupiah into''
      | TooLong \<Rightarrow> ''those bank details are too long''
      | BadChars \<Rightarrow> ''those bank details contain characters this anchor will not send on''
      | SecretKey \<Rightarrow> ''That looks like a Stellar secret key, and this field needs a bank account. If it is your secret key and not a public address, it is no longer safe to use ''
                     @ em_dash @ '' move your funds to a new wallet.''
      | TooShort \<Rightarrow> ''Those bank details are too short to pay into. Enter the bank name, the account number, and the name on the account.'')"

definition validatePaymentDestination :: "string option \<Rightarrow> string outcome" where
  "validatePaymentDestination raw =
     (case checkPaymentDestination raw of Inr v \<Rightarrow> Inr v | Inl p \<Rightarrow> Inl (BadRequestException (problem_sentence p)))"

section \<open>References (ref.util.ts)\<close>

definition REF_ALPHABET :: string where "REF_ALPHABET = ''ABCDEFGHJKMNPQRSTUVWXYZ23456789''"

definition generateRef :: "(nat \<Rightarrow> nat) \<Rightarrow> string" where
  "generateRef randomInt = ''LP-'' @ map (\<lambda>i. REF_ALPHABET ! (randomInt i mod length REF_ALPHABET)) [0..<4]"

section \<open>Identity\<close>

definition identityVerified :: "env \<Rightarrow> db \<Rightarrow> string \<Rightarrow> bool" where
  "identityVerified env d personId =
     (if personId = [] then False
      else if \<not> list_ex (\<lambda>v. v_personId v = personId \<and> acceptedForFunds (cfg_kycRequireAml env) v) (db_kyc d) then False
      else \<not> list_ex (\<lambda>v. v_personId v = personId \<and> v_status v = REJECTED) (db_kyc d))"

definition assertIdentityVerified :: "env \<Rightarrow> db \<Rightarrow> string \<Rightarrow> unit outcome" where
  "assertIdentityVerified env d personId =
     (if identityVerified env d personId then Inr ()
      else Inl (ForbiddenException ''identity verification is required before a trade can be opened''))"

section \<open>Opening an order\<close>

definition find_quote :: "db \<Rightarrow> string \<Rightarrow> quote option" where
  "find_quote d i = find_row q_id i (db_quotes d)"

definition first_error :: "'a outcome list \<Rightarrow> http_error option" where
  "first_error rs = (case filter (\<lambda>r. \<not> is_ok r) rs of Inl e # _ \<Rightarrow> Some e | _ \<Rightarrow> None)"

text \<open>The trustline check of the wallets a release pays.\<close>

definition trustlines_ready :: "env \<Rightarrow> address \<Rightarrow> roles \<Rightarrow> address \<Rightarrow> address \<Rightarrow> unit outcome" where
  "trustlines_ready env user r platform lpAddress =
     (let recipients = rev (remdups (rev [usdcRecipient r, platform, lpAddress]));
          trust = map (rpc_hasUsdcTrustline env) recipients;
          missing = filter (\<lambda>a. rpc_hasUsdcTrustline env a = Inr False) recipients
      in case first_error trust of
           Some e \<Rightarrow> Inl e
         | None \<Rightarrow>
             if usdcRecipient r \<in> set missing \<and> usdcRecipient r = user
             then Inl (BadRequestException (''Add a USDC trustline to your wallet before ordering '' @ em_dash @ '' you need it to receive USDC.''))
             else if missing \<noteq> []
             then Inl (ServiceUnavailableException (''A settlement wallet is not ready to receive USDC '' @ em_dash @ '' please try again shortly.''))
             else Inr ())"

record order_plan =
  op_person :: string
  op_limit :: int
  op_lp :: lp_match
  op_order :: order

definition order_data :: "env \<Rightarrow> config \<Rightarrow> ms \<Rightarrow> quote \<Rightarrow> string \<Rightarrow> string \<Rightarrow> lp_match \<Rightarrow> string option \<Rightarrow> order" where
  "order_data env conf now q tradeId personId lm userPaymentDetails =
     (let w = computeWindows conf now in
      \<lparr>o_id = sdk_uuid env (''order:'' @ q_id q), o_tradeId = tradeId, o_contractId = Some (cfg_escrowContractId env),
       o_userAddress = q_userAddress q, o_personId = personId, o_lpId = Some (lm_id lm), o_flow = q_flow q, o_rail = q_rail q,
       o_usdcAmount = q_usdcAmount q, o_fiatAmount = q_fiatAmount q, o_fiatCurrency = q_fiatCurrency q,
       o_rateSnapshot = q_rateSnapshot q, o_platformFeeBps = q_platformFeeBps q, o_lpFeeBps = q_lpFeeBps q,
       o_spreadBps = c_spreadBps conf,
       o_platformWallet = (if c_platformWallet conf \<noteq> [] then c_platformWallet conf else cfg_platformWallet env),
       o_lpWallet = Some (lm_stellarAddress lm), o_paymentMethodId = Some (lm_paymentMethodId lm),
       o_lpPaymentDetails = Some (lm_details lm), o_lpPaymentLabel = Some (lm_label lm),
       o_userPaymentDetails = userPaymentDetails, o_status = MATCHED,
       o_payDeadline = payDeadline w, o_confirmDeadline = confirmDeadline w, o_disputeDeadline = disputeDeadline w,
       o_createdAt = now, o_expiresAt = expiresAt w, o_ref = None, o_proofUrl = None, o_proofUploadedAt = None,
       o_proofRrn = None, o_proofAmount = None, o_proofPaidAt = None, o_userClaimedPaidAt = None, o_settledAt = None,
       o_settledStatus = None, o_settlementTxHash = None, o_postSettleDeadline = None, o_resolverDisputed = False,
       o_onChainDisputedBy = None, o_slashDeadline = None, o_liabilityEstablished = False, o_disputeBy = None,
       o_disputeReason = None, o_disputeNote = None, o_disputeEvidenceUrl = None, o_disputeAt = None,
       o_disputeClosedAt = None, o_resolution = None, o_disputeLossAccrued = False\<rparr>)"

text \<open>Everything before the transaction: the checks, the match and the row to be written.\<close>

definition plan_order :: "env \<Rightarrow> config \<Rightarrow> market_cache \<Rightarrow> ms \<Rightarrow> address \<Rightarrow> string \<Rightarrow> string option \<Rightarrow> string \<Rightarrow> db \<Rightarrow> order_plan outcome" where
  "plan_order env conf mcache now user quoteId upm tradeId d =
     (case find_quote d quoteId of
        None \<Rightarrow> Inl (NotFoundException ''quote not found'')
      | Some q \<Rightarrow>
        if q_userAddress q \<noteq> user then Inl (ForbiddenException ''quote does not belong to you'')
        else if now > q_expiresAt q then Inl (BadRequestException ''quote expired'')
        else (case (if q_flow q = WITHDRAW then map_sum id Some (validatePaymentDestination upm) else Inr None) of
          Inl e \<Rightarrow> Inl e
        | Inr details \<Rightarrow>
          if c_paused conf then Inl (ServiceUnavailableException ''platform is paused'')
          else if q_usdcAmount q < c_minOrder conf \<or> q_usdcAmount q > c_maxOrder conf
          then Inl (BadRequestException ''quote amount is outside current limits'')
          else (case personIdFor env d user of
            Inl e \<Rightarrow> Inl e
          | Inr personId \<Rightarrow>
            (let limitBase = dailyLimitBaseUnits (rep_tier (getReputation d personId)) (Some conf) in
             if used24hBaseUnits personId now None d + q_usdcAmount q > limitBase
             then Inl (BadRequestException ''daily limit exceeded'')
             else (case assertIdentityVerified env d personId of
               Inl e \<Rightarrow> Inl e
             | Inr _ \<Rightarrow>
               (case snd (getEnabled now d mcache (q_fiatCurrency q)) of
                  Inl e \<Rightarrow> Inl e
                | Inr _ \<Rightarrow>
                  (case pickLp env d now (q_rail q) (q_fiatCurrency q) (q_usdcAmount q) (Some personId) of
                     Inl e \<Rightarrow> Inl e
                   | Inr lm \<Rightarrow>
                     (let x = order_data env conf now q tradeId personId lm details;
                          r = mapRoles (q_flow q) user (lm_stellarAddress lm)
                      in case trustlines_ready env user r (o_platformWallet x) (lm_stellarAddress lm) of
                           Inl e \<Rightarrow> Inl e
                         | Inr _ \<Rightarrow> Inr \<lparr>op_person = personId, op_limit = limitBase, op_lp = lm, op_order = x\<rparr>))))))))"

text \<open>A unique violation of the order table: its id, its trade id or its reference.\<close>

definition order_collides :: "order \<Rightarrow> db \<Rightarrow> bool" where
  "order_collides x d =
     list_ex (\<lambda>y. o_id y = o_id x \<or> o_tradeId y = o_tradeId x \<or> (o_ref x \<noteq> None \<and> o_ref y = o_ref x)) (db_orders d)"

definition P2002 :: http_error where "P2002 = UncaughtError ''P2002''"

definition createOrderRow :: "order \<Rightarrow> bool \<Rightarrow> string \<Rightarrow> (db, order) handler" where
  "createOrderRow x needsRef ref d =
     (let row = (if needsRef then x\<lparr>o_ref := Some ref\<rparr> else x)
      in if order_collides row d then (d, Inl P2002) else (upd_orders (\<lambda>t. t @ [row]) d, Inr row))"

definition spend_quote :: "ms \<Rightarrow> quote \<Rightarrow> quote" where
  "spend_quote now q = q\<lparr>q_usedAt := Some now\<rparr>"

definition quote_open :: "quote \<Rightarrow> bool" where
  "quote_open q = (q_usedAt q = None)"

definition place_tx :: "env \<Rightarrow> ms \<Rightarrow> string \<Rightarrow> order_plan \<Rightarrow> string \<Rightarrow> (db, order) handler" where
  "place_tx env now quoteId plan ref d =
     (let x = op_order plan; amount = o_usdcAmount x;
          mine = (\<lambda>q. q_id q = quoteId \<and> quote_open q)
      in if lpExposure d (lm_id (op_lp plan)) (now div 1000) + amount > lm_staked (op_lp plan)
         then (d, Inl no_provider)
         else if used24hBaseUnits (op_person plan) now None d + amount > op_limit plan
         then (d, Inl (BadRequestException ''daily limit exceeded''))
         else (case assertIdentityVerified env d (op_person plan) of
           Inl e \<Rightarrow> (d, Inl e)
         | Inr _ \<Rightarrow>
             (let d1 = d\<lparr>db_quotes := update_many mine (spend_quote now) (db_quotes d)\<rparr>
              in if count_rows mine (db_quotes d) = 0 then (d1, Inl (ConflictException ''quote already used''))
                 else createOrderRow x (o_flow x = TOP_UP) ref d1)))"

definition MAX_REF_ATTEMPTS :: nat where "MAX_REF_ATTEMPTS = 5"

text \<open>The retry loop: \<open>left\<close> attempts remain; before each one other requests may run.\<close>

fun place_order :: "env \<Rightarrow> ms \<Rightarrow> string \<Rightarrow> order_plan \<Rightarrow> (nat \<Rightarrow> db \<Rightarrow> db) \<Rightarrow> (nat \<Rightarrow> string) \<Rightarrow> nat \<Rightarrow> nat \<Rightarrow> (db, order) handler" where
  "place_order env now quoteId plan meanwhile refs 0 k d =
     (d, Inl (ServiceUnavailableException ''could not generate a unique transfer reference, please retry''))"
| "place_order env now quoteId plan meanwhile refs (Suc n) k d =
     (case transaction (place_tx env now quoteId plan (refs k)) (meanwhile k d) of
        (d', Inr x) \<Rightarrow> (d', Inr x)
      | (d', Inl e) \<Rightarrow>
          if o_flow (op_order plan) = TOP_UP \<and> e = P2002
          then place_order env now quoteId plan meanwhile refs n (k + 1) d'
          else (d', Inl e))"

record create_trade_params =
  ct_trade_id :: string
  ct_roles :: roles
  ct_usdc_amount :: string
  ct_pay_deadline :: secs
  ct_confirm_deadline :: secs
  ct_dispute_deadline :: secs
  ct_platform_wallet :: address
  ct_platform_fee_bps :: int
  ct_lp_fee_bps :: int

definition buildCreateTradeParams :: "order \<Rightarrow> roles \<Rightarrow> create_trade_params" where
  "buildCreateTradeParams x r =
     \<lparr>ct_trade_id = o_tradeId x, ct_roles = r, ct_usdc_amount = dec_int (o_usdcAmount x), ct_pay_deadline = o_payDeadline x,
      ct_confirm_deadline = o_confirmDeadline x, ct_dispute_deadline = o_disputeDeadline x,
      ct_platform_wallet = o_platformWallet x, ct_platform_fee_bps = o_platformFeeBps x, ct_lp_fee_bps = o_lpFeeBps x\<rparr>"

definition createFromQuote ::
  "env \<Rightarrow> config \<Rightarrow> market_cache \<Rightarrow> ms \<Rightarrow> address \<Rightarrow> string \<Rightarrow> string option \<Rightarrow> string \<Rightarrow> (nat \<Rightarrow> db \<Rightarrow> db) \<Rightarrow> (nat \<Rightarrow> string) \<Rightarrow>
   (db, order \<times> create_trade_params option) handler" where
  "createFromQuote env conf mcache now user quoteId upm tradeId meanwhile refs d =
     (case plan_order env conf mcache now user quoteId upm tradeId d of
        Inl e \<Rightarrow> (d, Inl e)
      | Inr plan \<Rightarrow>
          (let flw = o_flow (op_order plan); n = (if flw = TOP_UP then MAX_REF_ATTEMPTS else 1)
           in case place_order env now quoteId plan meanwhile refs n 0 d of
                (d1, Inl e) \<Rightarrow> (d1, Inl e)
              | (d1, Inr x) \<Rightarrow>
                  (notifyOrderStatus env now (notice_of x) ''MATCHED'' False d1,
                   Inr (x, if flw \<noteq> TOP_UP
                           then Some (buildCreateTradeParams x (mapRoles flw user (lm_stellarAddress (op_lp plan)))) else None))))"

section \<open>Cancelling\<close>

definition cancel_row :: "order \<Rightarrow> order" where
  "cancel_row x = x\<lparr>o_status := CANCELLED\<rparr>"

definition not_at_this_stage :: http_error where
  "not_at_this_stage = ConflictException ''cannot cancel order at this stage''"

text \<open>The status the order is found to have, after an update by what the chain showed.  The update is by
  id alone.\<close>

definition catch_up :: "ms \<Rightarrow> string \<Rightarrow> order \<Rightarrow> trade option \<Rightarrow> db \<Rightarrow> db \<times> order_status" where
  "catch_up now i x seen d =
     (case seen of
        Some t \<Rightarrow> if tradeBindsToOrder t x \<and> isAhead (t_status t) (o_status x)
                  then (upd_orders (update_many (\<lambda>y. o_id y = i) (\<lambda>y. settlementFieldsFrom now t (y\<lparr>o_status := t_status t\<rparr>))) d,
                        t_status t)
                  else (d, o_status x)
      | None \<Rightarrow> (d, o_status x))"

definition pre_chain_row :: "string \<Rightarrow> order \<Rightarrow> bool" where
  "pre_chain_row i y = (o_id y = i \<and> o_status y \<in> set PRE_CHAIN_STATUSES)"

definition cancelOrder :: "env \<Rightarrow> ms \<Rightarrow> string \<Rightarrow> address \<Rightarrow> (db \<Rightarrow> db) \<Rightarrow> (db, order) handler" where
  "cancelOrder env now i who meanwhile d0 =
     (case find_order d0 i of
        None \<Rightarrow> (d0, Inl order_not_found)
      | Some x \<Rightarrow>
          if \<not> isParty d0 x who then (d0, Inl (ForbiddenException ''not your order''))
          else
            (case (if o_status x \<in> set REFRESH_FROM_CHAIN_STATUSES
                   then rpc_getTradeStatusStrict env (contract_of env x) (o_tradeId x) else Inr None) of
               Inl _ \<Rightarrow> (meanwhile d0, Inl (ConflictException ''cannot verify on-chain status, retry''))
             | Inr seen \<Rightarrow>
                 (let (d1, current) = catch_up now i x seen (meanwhile d0) in
                  if current \<notin> set PRE_CHAIN_STATUSES then (d1, Inl not_at_this_stage)
                  else if count_rows (pre_chain_row i) (db_orders d1) = 0 then (d1, Inl not_at_this_stage)
                  else (let d2 = upd_orders (update_many (pre_chain_row i) cancel_row) d1
                        in case find_order d2 i of
                             None \<Rightarrow> (d2, Inl order_not_found)
                           | Some u \<Rightarrow> (notifyOrderStatus env now (notice_of u) ''CANCELLED'' False d2, Inr u)))))"

section \<open>Filing a dispute\<close>

definition file_dispute :: "ms \<Rightarrow> disputer \<Rightarrow> string \<Rightarrow> string \<Rightarrow> string option \<Rightarrow> order \<Rightarrow> order" where
  "file_dispute now role reason note evidence x =
     x\<lparr>o_disputeBy := Some role, o_disputeReason := Some reason, o_disputeNote := Some note,
       o_disputeEvidenceUrl := evidence, o_disputeAt := Some now\<rparr>"

definition undisputed :: "order \<Rightarrow> bool" where
  "undisputed x = (o_disputeBy x = None)"

definition already_filed :: http_error where
  "already_filed = ConflictException ''a dispute has already been filed for this order''"

fun flow_name :: "flow \<Rightarrow> string" where
  "flow_name TOP_UP = ''TOP_UP''"
| "flow_name WITHDRAW = ''WITHDRAW''"

fun comma_join :: "string list \<Rightarrow> string" where
  "comma_join [] = []"
| "comma_join [s] = s"
| "comma_join (s # t) = s @ '', '' @ comma_join t"

text \<open>The checks on the filing itself.\<close>

definition filing_ok :: "(string \<Rightarrow> bool outcome) \<Rightarrow> string \<Rightarrow> party \<Rightarrow> order \<Rightarrow> string \<Rightarrow> string \<Rightarrow> string option \<Rightarrow> unit outcome" where
  "filing_ok statObject orderId role cur reason note evidence =
     (if \<not> undisputed cur then Inl already_filed
      else if reason \<notin> set (allowedDisputeReasons (o_flow cur))
      then Inl (BadRequestException (''invalid reason for a '' @ flow_name (o_flow cur) @ '' order '' @ em_dash @ '' allowed: '' @
             comma_join (allowedDisputeReasons (o_flow cur))))
      else if trim note = [] then Inl (BadRequestException ''note must not be empty'')
      else (case evidence of
              None \<Rightarrow> Inr ()
            | Some url \<Rightarrow>
                if \<not> isOwnEvidencePath url orderId role (o_disputeClosedAt cur)
                then Inl (BadRequestException ''evidenceUrl must be your OWN uploaded dispute evidence for this order (use POST /orders/:id/dispute-evidence first)'')
                else (case statObject url of
                        Inl e \<Rightarrow> Inl e
                      | Inr False \<Rightarrow> Inl (BadRequestException (''evidenceUrl does not reference an uploaded file '' @ em_dash @ '' upload it first''))
                      | Inr True \<Rightarrow> Inr ())))"

definition postDispute ::
  "env \<Rightarrow> builder \<Rightarrow> (string \<Rightarrow> bool outcome) \<Rightarrow> config \<Rightarrow> ms \<Rightarrow> string \<Rightarrow> address \<Rightarrow> string \<Rightarrow> string \<Rightarrow> string option \<Rightarrow> (db \<Rightarrow> db) \<Rightarrow>
   (db, order \<times> built) handler" where
  "postDispute env build statObject conf now orderId who reason note evidence meanwhile d =
     (case find_order d orderId of
        None \<Rightarrow> (d, Inl order_not_found)
      | Some x \<Rightarrow>
          if \<not> isParty d x who then (d, Inl (ForbiddenException ''only a trade party may open a dispute for this order''))
          else (let role = (if o_userAddress x = who then PUser else PLp);
                    (d1, cur) = refreshOrderStatus env now orderId x d in
            if \<not> canDispute cur conf now
            then (d1, Inl (ConflictException ''a dispute can only be opened while FIAT_PAID or within the post-settlement dispute window''))
            else (case filing_ok statObject orderId role cur reason note evidence of
                Inl e \<Rightarrow> (d1, Inl e)
              | Inr _ \<Rightarrow>
                  (case buildRaiseDisputeTx env build conf now orderId who d1 of
                     (d2, Inl e) \<Rightarrow> (d2, Inl e)
                   | (d2, Inr tx) \<Rightarrow>
                       (let d3 = meanwhile d2; mine = (\<lambda>y. o_id y = orderId \<and> undisputed y);
                            d4 = upd_orders (update_many mine (file_dispute now (case role of PUser \<Rightarrow> ByUser | PLp \<Rightarrow> ByLp)
                                   reason (trim note) evidence)) d3
                        in if count_rows mine (db_orders d3) = 0 then (d4, Inl already_filed)
                           else (case find_order d4 orderId of
                                   None \<Rightarrow> (d4, Inl order_not_found)
                                 | Some u \<Rightarrow> (d4, Inr (u, tx))))))))"

section \<open>Properties of opening an order\<close>

interpretation quote_latch: keyed_latch quote_open "spend_quote now" q_id for now
  by unfold_locales (simp_all add: quote_open_def spend_quote_def)

definition quote_spent :: "db \<Rightarrow> string \<Rightarrow> bool" where
  "quote_spent d i = (count_rows (\<lambda>q. q_id q = i \<and> quote_open q) (db_quotes d) = 0)"

lemma plan_order_facts:
  assumes "plan_order env conf mcache now user quoteId upm tradeId d = Inr plan"
  shows "\<exists>q lm details. find_quote d quoteId = Some q \<and> q_userAddress q = user \<and> now \<le> q_expiresAt q \<and> \<not> c_paused conf \<and>
           c_minOrder conf \<le> q_usdcAmount q \<and> q_usdcAmount q \<le> c_maxOrder conf \<and>
           personIdFor env d user = Inr (op_person plan) \<and>
           op_limit plan = dailyLimitBaseUnits (rep_tier (getReputation d (op_person plan))) (Some conf) \<and>
           pickLp env d now (q_rail q) (q_fiatCurrency q) (q_usdcAmount q) (Some (op_person plan)) = Inr lm \<and>
           op_lp plan = lm \<and> op_order plan = order_data env conf now q tradeId (op_person plan) lm details"
  using assms
  by (auto simp: plan_order_def Let_def split: option.splits if_splits sum.splits)

lemma order_data_fields [simp]:
  "o_usdcAmount (order_data env conf now q t p lm ds) = q_usdcAmount q"
  "o_fiatAmount (order_data env conf now q t p lm ds) = q_fiatAmount q"
  "o_flow (order_data env conf now q t p lm ds) = q_flow q" "o_personId (order_data env conf now q t p lm ds) = p"
  "o_lpId (order_data env conf now q t p lm ds) = Some (lm_id lm)" "o_status (order_data env conf now q t p lm ds) = MATCHED"
  "o_settledAt (order_data env conf now q t p lm ds) = None" "o_createdAt (order_data env conf now q t p lm ds) = now"
  "o_userClaimedPaidAt (order_data env conf now q t p lm ds) = None" "o_userAddress (order_data env conf now q t p lm ds) = q_userAddress q"
  "o_lpWallet (order_data env conf now q t p lm ds) = Some (lm_stellarAddress lm)" "o_id (order_data env conf now q t p lm ds) = sdk_uuid env (''order:'' @ q_id q)"
  by (simp_all add: order_data_def Let_def)

text \<open>What a committed transaction did.\<close>

lemma place_tx_facts:
  assumes "place_tx env now quoteId plan ref d = (d', Inr x)"
  shows "lpExposure d (lm_id (op_lp plan)) (now div 1000) + o_usdcAmount (op_order plan) \<le> lm_staked (op_lp plan) \<and>
         used24hBaseUnits (op_person plan) now None d + o_usdcAmount (op_order plan) \<le> op_limit plan \<and>
         identityVerified env d (op_person plan) \<and> \<not> quote_spent d quoteId \<and> \<not> order_collides x d \<and>
         x = (if o_flow (op_order plan) = TOP_UP then (op_order plan)\<lparr>o_ref := Some ref\<rparr> else op_order plan) \<and>
         d' = d\<lparr>db_quotes := update_many (\<lambda>q. q_id q = quoteId \<and> quote_open q) (spend_quote now) (db_quotes d),
                db_orders := db_orders d @ [x]\<rparr>"
  using assms
  by (auto simp: place_tx_def Let_def assertIdentityVerified_def createOrderRow_def quote_spent_def order_collides_def
      split: if_splits sum.splits)

lemma place_order_commits:
  assumes "place_order env now quoteId plan meanwhile refs n k d = (d', Inr x)"
  shows "\<exists>d2 ref. place_tx env now quoteId plan ref d2 = (d', Inr x)"
  using assms
proof (induction n arbitrary: k d)
  case (Suc n)
  then show ?case
    by (auto simp: transaction_Inr split: prod.splits sum.splits if_splits)
qed simp

lemma exposure_append:
  "db_orders d' = db_orders d @ [x] \<Longrightarrow> lpExposure d' i now = lpExposure d i now + (if exposes i now x then o_usdcAmount x else 0)"
  by (simp add: lpExposure_def)

lemma used_append:
  "db_orders d' = db_orders d @ [x] \<Longrightarrow>
   used24hBaseUnits p now None d' = used24hBaseUnits p now None d + (if counts_for_volume p now None x then o_usdcAmount x else 0)"
  by (simp add: used24hBaseUnits_def)

lemma create_commits:
  assumes "createFromQuote env conf mcache now user quoteId upm tradeId meanwhile refs d = (d', Inr (x, params))"
  shows "\<exists>plan d2 d1 ref. plan_order env conf mcache now user quoteId upm tradeId d = Inr plan \<and>
           place_tx env now quoteId plan ref d2 = (d1, Inr x) \<and>
           d' = notifyOrderStatus env now (notice_of x) ''MATCHED'' False d1"
proof -
  obtain plan where p: "plan_order env conf mcache now user quoteId upm tradeId d = Inr plan"
    using assms by (auto simp: createFromQuote_def split: sum.splits)
  obtain d1 r where o: "place_order env now quoteId plan meanwhile refs
      (if o_flow (op_order plan) = TOP_UP then MAX_REF_ATTEMPTS else 1) 0 d = (d1, r)" by (metis surj_pair)
  have "r = Inr x" "d' = notifyOrderStatus env now (notice_of x) ''MATCHED'' False d1"
    using assms p o by (auto simp: createFromQuote_def Let_def split: sum.splits)
  then show ?thesis using p place_order_commits [OF o [unfolded \<open>r = Inr x\<close>]] by blast
qed


text \<open>A spent quote.\<close>

lemma place_tx_spent:
  assumes "quote_spent d quoteId"
  shows "\<exists>e. snd (place_tx env now quoteId plan ref d) = Inl e \<and> e \<noteq> P2002"
  using assms
  by (auto simp: place_tx_def Let_def assertIdentityVerified_def quote_spent_def P2002_def no_provider_def split: sum.splits)

lemma place_order_spent:
  assumes "quote_spent d quoteId" "n > 0"
  shows "\<exists>e. place_order env now quoteId plan (\<lambda>_ e. e) refs n k d = (d, Inl e)"
proof -
  obtain m where n: "n = Suc m" using assms(2) by (cases n) auto
  obtain d1 e where "place_tx env now quoteId plan (refs k) d = (d1, Inl e)" "e \<noteq> P2002"
    using place_tx_spent [OF assms(1), of env now plan "refs k"] by (metis prod.collapse)
  then have "transaction (place_tx env now quoteId plan (refs k)) d = (d, Inl e)" by (simp add: transaction_fails)
  then show ?thesis using n \<open>e \<noteq> P2002\<close> by simp
qed

text \<open>C8 (createFromQuote): a quote opens one order.  Once a request has opened an order from it, the quote is
  spent, and every other request for it fails without writing anything: one that starts afterwards,
  whoever sends it, and one that had already passed its checks and runs its transaction only now.\<close>

theorem quote_opens_one_order:
  assumes "createFromQuote env conf mcache now user quoteId upm tradeId meanwhile refs d = (d', Inr r)"
  shows "quote_spent d' quoteId \<and>
         (\<exists>e. createFromQuote env' conf' mcache' now' user' quoteId upm' tradeId' (\<lambda>_ e. e) refs' d' = (d', Inl e)) \<and>
         (n > 0 \<longrightarrow> (\<exists>e. place_order env' now' quoteId plan' (\<lambda>_ e. e) refs' n k d' = (d', Inl e)))"
proof -
  obtain x params where r: "r = (x, params)" by (cases r)
  obtain plan d2 d1 ref where c: "place_tx env now quoteId plan ref d2 = (d1, Inr x)"
      "d' = notifyOrderStatus env now (notice_of x) ''MATCHED'' False d1"
    using create_commits [OF assms [unfolded r]] by blast
  have "db_quotes d' = update_many (\<lambda>q. q_id q = quoteId \<and> quote_open q) (spend_quote now) (db_quotes d2)"
    using place_tx_facts [OF c(1)] c(2) by simp
  then have spent: "quote_spent d' quoteId" unfolding quote_spent_def using quote_latch.claimed_once by simp
  moreover have "\<exists>e. createFromQuote env' conf' mcache' now' user' quoteId upm' tradeId' (\<lambda>_ e. e) refs' d' = (d', Inl e)"
  proof (cases "plan_order env' conf' mcache' now' user' quoteId upm' tradeId' d'")
    case (Inr plan')
    have "(if o_flow (op_order plan') = TOP_UP then MAX_REF_ATTEMPTS else 1) > 0" by (simp add: MAX_REF_ATTEMPTS_def)
    from place_order_spent [OF spent this] obtain e where
      "place_order env' now' quoteId plan' (\<lambda>_ e. e) refs' (if o_flow (op_order plan') = TOP_UP then MAX_REF_ATTEMPTS else 1) 0 d' = (d', Inl e)"
      by blast
    then show ?thesis unfolding createFromQuote_def Inr sum.case Let_def by simp
  qed (simp add: createFromQuote_def)
  ultimately show ?thesis using place_order_spent by blast
qed

section \<open>Properties of cancelling\<close>

lemma cancel_row_keeps [simp]:
  "o_id (cancel_row x) = o_id x" "order_key (cancel_row x) = order_key x" "order_ok x \<Longrightarrow> order_ok (cancel_row x)"
  "o_status (cancel_row x) = CANCELLED"
  by (simp_all add: cancel_row_def order_key_def order_ok_def settled_status_def)

interpretation cancel_put: row_write o_id cancel_row
  by unfold_locales simp

lemma find_order_notify [simp]: "find_order (notifyOrderStatus env now x st pen d) i = find_order d i"
  by (rule find_order_frame) simp

lemma find_after_cancel:
  "find_order (upd_orders (update_many (pre_chain_row i) cancel_row) d) j
     = map_option (\<lambda>y. if pre_chain_row i y then cancel_row y else y) (find_order d j)"
  unfolding find_order_def using cancel_put.find_after_write by simp

text \<open>C7 (cancelOrder): an order is cancelled only while nothing of it is on chain.  A successful call comes
  from a party of the order; the chain was asked where the status called for it, answered, and showed
  no trade of the order that is ahead of it; and at the moment of the write the row was still in a
  pre-chain status, which the write changes to CANCELLED, leaving every other order alone.  A row that
  moved on in between is not cancelled.  (A trade's status on chain is one of the five the escrow has.)\<close>

theorem cancel_only_before_chain:
  assumes "cancelOrder env now i who meanwhile d0 = (d', Inr u)" "find_order d0 i = Some x" "orders_ok (meanwhile d0)"
    and "\<And>t. rpc_getTradeStatusStrict env (contract_of env x) (o_tradeId x) = Inr (Some t) \<Longrightarrow> t_status t \<in> set BOUND_ON_CHAIN"
  shows "isParty d0 x who \<and>
         (\<exists>y. find_order (meanwhile d0) i = Some y \<and> o_status y \<in> set PRE_CHAIN_STATUSES \<and> u = cancel_row y \<and> find_order d' i = Some u) \<and>
         (o_status x \<in> set REFRESH_FROM_CHAIN_STATUSES \<longrightarrow>
            (\<exists>seen. rpc_getTradeStatusStrict env (contract_of env x) (o_tradeId x) = Inr seen \<and>
               (\<forall>t. seen = Some t \<longrightarrow> \<not> (tradeBindsToOrder t x \<and> isAhead (t_status t) (o_status x))))) \<and>
         (\<forall>j. j \<noteq> i \<longrightarrow> find_order d' j = find_order (meanwhile d0) j)"
proof -
  let ?d = "meanwhile d0"
  define chain where "chain = (if o_status x \<in> set REFRESH_FROM_CHAIN_STATUSES
      then rpc_getTradeStatusStrict env (contract_of env x) (o_tradeId x) else Inr None)"
  have party: "isParty d0 x who" using assms(1,2) by (auto simp: cancelOrder_def split: if_splits)
  obtain seen where seen: "chain = Inr seen"
    using assms(1,2) party unfolding cancelOrder_def chain_def by (cases chain) (auto simp: chain_def)
  obtain d1 current where cu: "catch_up now i x seen ?d = (d1, current)" by (cases "catch_up now i x seen ?d")
  let ?d2 = "upd_orders (update_many (pre_chain_row i) cancel_row) d1"
  have ok: "current \<in> set PRE_CHAIN_STATUSES" "count_rows (pre_chain_row i) (db_orders d1) \<noteq> 0" "find_order ?d2 i = Some u"
      "d' = notifyOrderStatus env now (notice_of u) ''CANCELLED'' False ?d2"
    using assms(1) party seen cu unfolding cancelOrder_def assms(2) option.case chain_def [symmetric]
    by (auto simp: Let_def split: if_splits option.splits)
  have behind: "\<not> (tradeBindsToOrder t x \<and> isAhead (t_status t) (o_status x))" if t: "seen = Some t" for t
  proof
    assume "tradeBindsToOrder t x \<and> isAhead (t_status t) (o_status x)"
    then have "current = t_status t" using cu t by (simp add: catch_up_def)
    moreover have "rpc_getTradeStatusStrict env (contract_of env x) (o_tradeId x) = Inr (Some t)"
      using seen t by (auto simp: chain_def split: if_splits)
    ultimately show False using assms(4) [of t] ok(1) by (auto simp: status_sets)
  qed
  then have d1: "d1 = ?d" using cu by (auto simp: catch_up_def split: option.splits)
  obtain y where y: "y \<in> set (db_orders ?d)" "pre_chain_row i y" using ok(2) unfolding d1 by (auto simp: count_rows_0)
  have fy: "find_order ?d i = Some y"
    using find_row_distinct [of o_id "db_orders ?d" y] y assms(3) by (simp add: find_order_def orders_ok_def pre_chain_row_def)
  have u: "u = cancel_row y" "o_status y \<in> set PRE_CHAIN_STATUSES"
    using ok(3) fy y(2) unfolding d1 by (auto simp: find_after_cancel pre_chain_row_def)
  have "find_order d' j = find_order ?d j" if "j \<noteq> i" for j
  proof (cases "find_order ?d j")
    case (Some z)
    then have "o_id z = j" using find_order_Some by blast
    then show ?thesis using Some that unfolding ok(4) d1 by (simp add: find_after_cancel pre_chain_row_def)
  qed (simp add: ok(4) d1 find_after_cancel)
  then show ?thesis using party fy u ok(3,4) seen behind by (auto simp: chain_def split: if_splits)
qed

text \<open>
  The update by id in \<open>catch_up\<close> is not guarded by the status that was read.  When another
  writer settles the order after the chain was asked and before the update, the order is moved back
  from RELEASED to the older status the handler saw; the settlement columns stay.
\<close>

definition racing_release :: "db \<Rightarrow> db" where
  "racing_release d = upd_orders (update_many (\<lambda>y. o_id y = ''o1'')
     (\<lambda>y. y\<lparr>o_status := RELEASED, o_settledStatus := Some RELEASED, o_settledAt := Some 1700000900000\<rparr>)) d"

theorem cancel_can_move_back:
  "find_order (racing_release order_db) ''o1'' = Some (demo_order\<lparr>o_status := RELEASED, o_settledStatus := Some RELEASED, o_settledAt := Some 1700000900000\<rparr>) \<and>
   map_option o_status (find_order (fst (cancelOrder chain_env 1700001000000 ''o1'' ''GU'' racing_release order_db)) ''o1'') = Some FUNDED"
proof -
  have "tradeBindsToOrder demo_trade demo_order" using demo_trade_matches by (simp add: tradeBindsToOrder_def)
  moreover have "isParty order_db demo_order ''GU''" by (simp add: isParty_def)
  moreover have "rpc_getTradeStatusStrict chain_env c t = Inr (Some demo_trade)" for c t by (simp add: chain_env_def)
  moreover have "find_order (racing_release order_db) ''o1''
      = Some (demo_order\<lparr>o_status := RELEASED, o_settledStatus := Some RELEASED, o_settledAt := Some 1700000900000\<rparr>)"
    by (simp add: racing_release_def order_db_def find_order_def find_row_def update_many_def)
  moreover have "db_orders (racing_release order_db)
      = [demo_order\<lparr>o_status := RELEASED, o_settledStatus := Some RELEASED, o_settledAt := Some 1700000900000\<rparr>]"
    by (simp add: racing_release_def order_db_def update_many_def)
  ultimately show ?thesis using order_db_ok(2) demo_ahead
    by (simp add: cancelOrder_def REFRESH_FROM_CHAIN_STATUSES_def catch_up_def PRE_CHAIN_STATUSES_def
        find_order_def find_row_def update_many_def)
qed

section \<open>Properties of filing a dispute\<close>

lemma file_dispute_keeps [simp]:
  "o_id (file_dispute now role reason note ev x) = o_id x" "order_key (file_dispute now role reason note ev x) = order_key x"
  "order_ok (file_dispute now role reason note ev x) = order_ok x" "o_disputeBy (file_dispute now role reason note ev x) = Some role"
  by (simp_all add: file_dispute_def order_key_def order_ok_def)

interpretation filing: keyed_latch undisputed "file_dispute now role reason memo ev" o_id for now role reason memo ev
  by unfold_locales (simp_all add: undisputed_def)

lemma filing_ok_Inr:
  "filing_ok statObject orderId role cur reason note ev = Inr () \<Longrightarrow>
   undisputed cur \<and> reason \<in> set (allowedDisputeReasons (o_flow cur)) \<and> trim note \<noteq> [] \<and>
   (\<forall>url. ev = Some url \<longrightarrow> isOwnEvidencePath url orderId role (o_disputeClosedAt cur) \<and> statObject url = Inr True)"
  by (auto simp: filing_ok_def split: if_splits option.splits sum.splits bool.splits)

lemma refresh_ok: "orders_ok d \<Longrightarrow> orders_ok (fst (refreshOrderStatus env now i x d))"
  using refresh.run_ok [of d "(env, now, i, x)"] by simp

lemma raise_dispute_ok: "orders_ok d \<Longrightarrow> orders_ok (fst (buildRaiseDisputeTx env build conf now i who d))"
  using refresh_ok [of d env now i] by (auto simp: buildRaiseDisputeTx_def Let_def case_prod_unfold split: option.split)


section \<open>Examples\<close>

definition demo_quote :: quote where
  "demo_quote = \<lparr>q_id = ''q1'', q_userAddress = ''GU'', q_flow = TOP_UP, q_rail = BANK, q_usdcAmount = 100000000,
     q_fiatAmount = 165445, q_fiatCurrency = ''IDR'', q_rateSnapshot = ''16300'', q_platformFeeBps = 30, q_lpFeeBps = 120,
     q_expiresAt = 1700000300000, q_usedAt = None\<rparr>"

lemma demo_quote_simps [simp]:
  "q_id demo_quote = ''q1''" "q_userAddress demo_quote = ''GU''" "q_flow demo_quote = TOP_UP" "q_rail demo_quote = BANK"
  "q_usdcAmount demo_quote = 100000000" "q_fiatCurrency demo_quote = ''IDR''" "q_expiresAt demo_quote = 1700000300000"
  "q_usedAt demo_quote = None"
  by (simp_all add: demo_quote_def)

definition demo_kyc :: kyc_row where
  "demo_kyc = \<lparr>v_customerRef = ''GU'', v_personId = ''p1'', v_status = ACCEPTED, v_providerRef = None, v_rejectionReason = None,
     v_environment = None, v_verificationUrl = None, v_deliveredAt = Some 1, v_screenedAt = Some 1, v_verifiedAt = Some 1, v_updatedAt = 1\<rparr>"

definition quote_db :: db where
  "quote_db = empty_db\<lparr>db_quotes := [demo_quote], db_lps := [demo_lp], db_markets := [demo_market], db_kyc := [demo_kyc],
     db_persons := [\<lparr>person_id = ''p1'', person_email = None\<rparr>],
     db_links := [\<lparr>w_stellarAddress = ''GU'', w_personId = ''p1'', w_authMethod = SEP10, w_status = ACTIVE, w_provenAt = 0\<rparr>]\<rparr>"

abbreviation open_order :: "(db, order \<times> create_trade_params option) handler" where
  "open_order \<equiv> createFromQuote demo_env demo_config None 1700000000000 ''GU'' ''q1'' None ''t1'' (\<lambda>_ d. d) (\<lambda>_. ''LP-AAAA'')"

lemma quote_db_person: "personIdFor demo_env quote_db ''GU'' = Inr ''p1''" "identityVerified demo_env quote_db ''p1''"
  by (simp_all add: personIdFor_def lookupPerson_def find_link_def find_row_def find_person_def accountOf_def quote_db_def
      identityVerified_def acceptedForFunds_def demo_kyc_def)

lemma quote_db_limits:
  "rep_tier (getReputation quote_db ''p1'') = BRONZE" "used24hBaseUnits ''p1'' 1700000000000 None quote_db = 0"
  "lpExposure quote_db ''lp1'' n = 0" "dailyLimitBaseUnits BRONZE (Some demo_config) = 1000000000"
  by (simp_all add: getReputation_def quote_db_def empty_db_def count_rows_def computeTier_def TIER_LEVELS_def used24hBaseUnits_def
      lpExposure_def dailyLimitBaseUnits_def demo_config_def math_round_def USDC_BASE_UNITS_def floor_eq_iff)

lemma quote_db_pick: "pickLp demo_env quote_db 1700000000000 BANK ''IDR'' 100000000 (Some ''p1'') = Inr demo_match"
  by (simp add: quote_db_def pick_eval demo_match_def)

lemma quote_db_plan:
  "\<exists>plan. plan_order demo_env demo_config None 1700000000000 ''GU'' ''q1'' None ''t1'' quote_db = Inr plan \<and>
     op_person plan = ''p1'' \<and> op_limit plan = 1000000000 \<and> op_lp plan = demo_match \<and> o_flow (op_order plan) = TOP_UP \<and>
     o_usdcAmount (op_order plan) = 100000000"
proof -
  have q: "find_quote quote_db ''q1'' = Some demo_quote" by (simp add: find_quote_def find_row_def quote_db_def demo_quote_def)
  have e: "snd (getEnabled 1700000000000 quote_db None ''IDR'') = Inr demo_market"
    by (simp add: getEnabled_def get_market_def cached_def quote_db_def)
  have t: "trustlines_ready demo_env u r p a = Inr ()" for u r p a
    by (simp add: trustlines_ready_def first_error_def Let_def)
  show ?thesis unfolding plan_order_def q option.case
    by (simp add: quote_db_person quote_db_limits quote_db_pick e t assertIdentityVerified_def Let_def)
qed

lemma order_opened: "\<exists>d' x params. open_order quote_db = (d', Inr (x, params))"
proof -
  obtain plan where p: "plan_order demo_env demo_config None 1700000000000 ''GU'' ''q1'' None ''t1'' quote_db = Inr plan"
      "op_person plan = ''p1''" "op_limit plan = 1000000000" "op_lp plan = demo_match" "o_flow (op_order plan) = TOP_UP"
      "o_usdcAmount (op_order plan) = 100000000"
    using quote_db_plan by blast
  have "db_orders quote_db = []" "db_quotes quote_db = [demo_quote]" by (simp_all add: quote_db_def empty_db_def)
  moreover have "lm_id demo_match = ''lp1''" "lm_staked demo_match = 10000000000" by (simp_all add: demo_match_def)
  moreover have "q_id demo_quote = ''q1''" "quote_open demo_quote" by (simp_all add: demo_quote_def quote_open_def)
  ultimately have "\<exists>d1 x. place_tx demo_env 1700000000000 ''q1'' plan ''LP-AAAA'' quote_db = (d1, Inr x)"
    using p quote_db_person quote_db_limits
    by (simp add: place_tx_def Let_def assertIdentityVerified_def createOrderRow_def order_collides_def count_rows_def)
  then obtain d1 x where "place_tx demo_env 1700000000000 ''q1'' plan ''LP-AAAA'' quote_db = (d1, Inr x)" by blast
  then have "transaction (place_tx demo_env 1700000000000 ''q1'' plan ''LP-AAAA'') quote_db = (d1, Inr x)"
    by (simp only: transaction_Inr)
  then show ?thesis using p by (simp add: createFromQuote_def Let_def MAX_REF_ATTEMPTS_def eval_nat_numeral)
qed


theorem quote_opens_one_order_witness:
  "\<exists>d' r e. open_order quote_db = (d', Inr r) \<and> open_order d' = (d', Inl e)"
proof -
  obtain d' r where o: "open_order quote_db = (d', Inr r)" using order_opened by (metis surj_pair)
  then show ?thesis using quote_opens_one_order [OF o] by blast
qed

theorem cancel_only_before_chain_witness:
  "\<exists>d' u. cancelOrder demo_env 1700000000000 ''o1'' ''GU'' (\<lambda>d. d) order_db = (d', Inr u) \<and> find_order d' ''o1'' = Some u"
proof -
  have "isParty order_db demo_order ''GU''" by (simp add: isParty_def)
  then obtain d' u where o: "cancelOrder demo_env 1700000000000 ''o1'' ''GU'' (\<lambda>d. d) order_db = (d', Inr u)"
    using order_db_ok(2)
    by (simp add: cancelOrder_def catch_up_def PRE_CHAIN_STATUSES_def order_db_def count_rows_def pre_chain_row_def
        find_order_def find_row_def update_many_def)
  then show ?thesis using cancel_only_before_chain [OF o order_db_ok(2)] order_db_ok(1) by auto
qed

definition paid_db :: db where
  "paid_db = empty_db\<lparr>db_orders := [demo_order\<lparr>o_status := FIAT_PAID\<rparr>], db_lps := [demo_lp]\<rparr>"


end
