(* ===== verification/OrderView.thy ===== *)
theory OrderView
  imports OrderService
begin

text \<open>
  The reads of \<open>order/order.service.ts\<close> (\<open>getOrder\<close>, \<open>listOrders\<close>,
  \<open>listLpAssignments\<close>, \<open>getLpReputation\<close>) and \<open>order/order.serialize.ts\<close>:
  what a party is shown of an order, and when the bank details are shown.  A query whose condition can
  meet a NULL column is evaluated in the three values of SQL.  The configuration row is an argument,
  as in \<open>OrderService\<close>; the reputation cache is passed through.  The assignments of a provider
  are read one after the other, where the code reads five at a time.
\<close>

section \<open>Serialisation (order.serialize.ts)\<close>

record order_view =
  vw_id :: string
  vw_trade_id :: string
  vw_user_address :: address
  vw_lp_wallet :: "address option"
  vw_flow :: flow
  vw_rail :: rail
  vw_usdc_amount :: string
  vw_fiat_amount :: string
  vw_fiat_currency :: string
  vw_rate_snapshot :: string
  vw_platform_fee_bps :: int
  vw_lp_fee_bps :: int
  vw_status :: order_status
  vw_pay_deadline :: jsnum
  vw_confirm_deadline :: jsnum
  vw_dispute_deadline :: jsnum
  vw_refund_opens_at :: jsnum
  vw_expires_at :: ms
  vw_sign_by :: secs
  vw_created_at :: ms
  vw_ref :: "string option"
  vw_proof_url :: "string option"
  vw_proof_rrn :: "string option"
  vw_proof_amount :: "string option"
  vw_proof_paid_at :: "ms option"
  vw_settled_at :: "ms option"
  vw_settlement_tx_hash :: "string option"
  vw_dispute_by :: "disputer option"
  vw_dispute_reason :: "string option"
  vw_dispute_note :: "string option"
  vw_dispute_evidence_url :: "string option"
  vw_dispute_at :: "ms option"
  vw_resolution :: "resolution option"
  vw_resolver_disputed :: bool
  vw_on_chain_disputed_by :: "address option"
  vw_post_settle_dispute_until :: "ms option"
  vw_payment_instructions :: "string option"
  vw_payment_institution :: "string option"
  vw_payment_instructions_withheld :: bool

text \<open>\<open>Number(bigint)\<close>.\<close>

definition number_of :: "int \<Rightarrow> jsnum" where
  "number_of i = to_double (of_int i)"

definition serializeOrderBase :: "ms \<Rightarrow> order \<Rightarrow> config option \<Rightarrow> order_view" where
  "serializeOrderBase now x conf =
     \<lparr>vw_id = o_id x, vw_trade_id = o_tradeId x, vw_user_address = o_userAddress x, vw_lp_wallet = o_lpWallet x,
      vw_flow = o_flow x, vw_rail = o_rail x, vw_usdc_amount = dec_int (o_usdcAmount x),
      vw_fiat_amount = dec_int (o_fiatAmount x), vw_fiat_currency = o_fiatCurrency x,
      vw_rate_snapshot = o_rateSnapshot x, vw_platform_fee_bps = o_platformFeeBps x, vw_lp_fee_bps = o_lpFeeBps x,
      vw_status = o_status x, vw_pay_deadline = number_of (o_payDeadline x),
      vw_confirm_deadline = number_of (o_confirmDeadline x), vw_dispute_deadline = number_of (o_disputeDeadline x),
      vw_refund_opens_at = number_of (refundOpensAt x), vw_expires_at = o_expiresAt x,
      vw_sign_by = signingCutoffSecs (o_payDeadline x), vw_created_at = o_createdAt x, vw_ref = o_ref x,
      vw_proof_url = o_proofUrl x, vw_proof_rrn = o_proofRrn x, vw_proof_amount = map_option dec_int (o_proofAmount x),
      vw_proof_paid_at = o_proofPaidAt x, vw_settled_at = o_settledAt x, vw_settlement_tx_hash = o_settlementTxHash x,
      vw_dispute_by = o_disputeBy x, vw_dispute_reason = o_disputeReason x, vw_dispute_note = o_disputeNote x,
      vw_dispute_evidence_url = o_disputeEvidenceUrl x, vw_dispute_at = o_disputeAt x, vw_resolution = o_resolution x,
      vw_resolver_disputed = o_resolverDisputed x, vw_on_chain_disputed_by = o_onChainDisputedBy x,
      vw_post_settle_dispute_until = (case conf of None \<Rightarrow> None | Some c \<Rightarrow> postSettleDisputeDeadline x c now),
      vw_payment_instructions = None, vw_payment_institution = None, vw_payment_instructions_withheld = False\<rparr>"

definition getPaymentInstructions :: "order \<Rightarrow> string option" where
  "getPaymentInstructions x = (if o_flow x = TOP_UP then o_lpPaymentDetails x else o_userPaymentDetails x)"

definition getPaymentInstitution :: "order \<Rightarrow> string option" where
  "getPaymentInstitution x = (if o_flow x = TOP_UP then o_lpPaymentLabel x else None)"

section \<open>Reputation of a provider\<close>

text \<open>SQL: a comparison with NULL is unknown, and a row is selected only when its condition is true.\<close>

definition sql_eq :: "'a option \<Rightarrow> 'a \<Rightarrow> bool option" where
  "sql_eq col v = map_option (\<lambda>c. c = v) col"

fun sql_and :: "bool option \<Rightarrow> bool option \<Rightarrow> bool option" where
  "sql_and (Some False) b = Some False"
| "sql_and a (Some False) = Some False"
| "sql_and (Some True) b = b"
| "sql_and None b = None"

fun sql_or :: "bool option \<Rightarrow> bool option \<Rightarrow> bool option" where
  "sql_or (Some True) b = Some True"
| "sql_or a (Some True) = Some True"
| "sql_or (Some False) b = b"
| "sql_or None b = None"

definition sql_not :: "bool option \<Rightarrow> bool option" where
  "sql_not = map_option Not"

definition provider_lost_sql :: "order \<Rightarrow> bool option" where
  "provider_lost_sql x =
     fold sql_or (map (\<lambda>(f, r). sql_and (Some (o_flow x = f)) (sql_eq (o_resolution x) r)) PROVIDER_LOST_WHERE) (Some False)"

definition completed_where :: "string \<Rightarrow> order \<Rightarrow> bool" where
  "completed_where lpId x =
     (sql_and (sql_eq (o_lpId x) lpId) (sql_and (Some (o_status x = RELEASED)) (sql_not (provider_lost_sql x))) = Some True)"

definition refunded_where :: "string \<Rightarrow> order \<Rightarrow> bool" where
  "refunded_where lpId x = (o_lpId x = Some lpId \<and> o_status x = REFUNDED \<and> o_flow x = WITHDRAW)"

record lp_reputation =
  lr_completed_trades :: nat
  lr_completion_rate :: "jsnum option"
  lr_disputes_lost :: int
  lr_member_since :: ms

type_synonym rep_cache = "string \<Rightarrow> (lp_reputation \<times> ms) option"

definition REP_TTL_MS :: ms where "REP_TTL_MS = 60000"

definition count_reputation :: "db \<Rightarrow> string \<Rightarrow> lp \<Rightarrow> lp_reputation" where
  "count_reputation d lpId l =
     (let completed = count_rows (completed_where lpId) (db_orders d);
          refunded = count_rows (refunded_where lpId) (db_orders d);
          concluded = completed + refunded
      in \<lparr>lr_completed_trades = completed,
          lr_completion_rate = (if concluded > 0 then Some (to_double (of_nat completed / of_nat concluded)) else None),
          lr_disputes_lost = lp_disputesLost l,
          lr_member_since = (case lp_approvedAt l of Some a \<Rightarrow> a | None \<Rightarrow> lp_createdAt l)\<rparr>)"

text \<open>The result is the cached part and the provider's presence.\<close>

definition getLpReputation :: "ms \<Rightarrow> db \<Rightarrow> string \<Rightarrow> lp \<Rightarrow> rep_cache \<Rightarrow> rep_cache \<times> lp_reputation \<times> bool" where
  "getLpReputation now d lpId l cache =
     (case cache lpId of
        Some (val, stamp) \<Rightarrow>
          if now - stamp < REP_TTL_MS then (cache, val, lp_online l)
          else (cache(lpId \<mapsto> (count_reputation d lpId l, now)), count_reputation d lpId l, lp_online l)
      | None \<Rightarrow> (cache(lpId \<mapsto> (count_reputation d lpId l, now)), count_reputation d lpId l, lp_online l))"

section \<open>One order\<close>

definition FUNDED_OR_LATER :: "order_status list" where
  [status_sets]: "FUNDED_OR_LATER = [FUNDED, FIAT_PAID, RELEASED, REFUNDED, DISPUTED]"

definition reveal :: "env \<Rightarrow> db \<Rightarrow> order \<Rightarrow> bool \<Rightarrow> order_view \<Rightarrow> order_view" where
  "reveal env d x mayReveal v =
     (if mayReveal \<and> identityVerified env d (o_personId x)
      then v\<lparr>vw_payment_instructions := getPaymentInstructions x, vw_payment_institution := getPaymentInstitution x\<rparr>
      else if mayReveal then v\<lparr>vw_payment_instructions_withheld := True\<rparr> else v)"

definition may_reveal :: "db \<Rightarrow> order \<Rightarrow> address \<Rightarrow> bool \<Rightarrow> bool" where
  "may_reveal d x who isLp =
     (case order_lp d x of
        None \<Rightarrow> False
      | Some l \<Rightarrow>
          o_status x \<in> set FUNDED_OR_LATER \<and> who = getFiatPayer (o_flow x) (o_userAddress x) (lp_stellarAddress l) \<and>
          \<not> (isLp \<and> lp_status l \<noteq> LP_APPROVED))"

text \<open>The result: the view and, when the order has a provider, its reputation and presence.\<close>

type_synonym shown = "order_view \<times> (lp_reputation \<times> bool) option"

definition getOrder :: "env \<Rightarrow> config \<Rightarrow> ms \<Rightarrow> string \<Rightarrow> address \<Rightarrow> rep_cache \<Rightarrow> db \<Rightarrow> (rep_cache \<times> db) \<times> shown outcome" where
  "getOrder env conf now i who cache d =
     (case find_order d i of
        None \<Rightarrow> ((cache, d), Inl (NotFoundException ''order not found''))
      | Some x \<Rightarrow>
          (let isUser = (o_userAddress x = who);
               isLp = (map_option lp_stellarAddress (order_lp d x) = Some who)
           in if \<not> isUser \<and> \<not> isLp then ((cache, d), Inl (ForbiddenException ''not your order''))
              else (let (d1, cur) = refreshOrderStatus env now i x d;
                        v = reveal env d1 cur (may_reveal d1 cur who isLp) (serializeOrderBase now cur (Some conf))
                    in case (o_lpId cur, order_lp d1 cur) of
                         (Some lpId, Some l) \<Rightarrow>
                           (let (cache', val, onl) = getLpReputation now d1 lpId l cache
                            in ((cache', d1), Inr (v, Some (val, onl))))
                       | _ \<Rightarrow> ((cache, d1), Inr (v, None)))))"

section \<open>Lists\<close>

definition listOrders :: "config \<Rightarrow> ms \<Rightarrow> address \<Rightarrow> nat \<Rightarrow> nat \<Rightarrow> db \<Rightarrow> order_view list" where
  "listOrders conf now user tk skip d =
     map (\<lambda>x. serializeOrderBase now x (Some conf))
       (take tk (drop skip (sort_key (\<lambda>x. - o_createdAt x) (filter (\<lambda>x. o_userAddress x = user) (db_orders d)))))"

definition assigned_where :: "config \<Rightarrow> ms \<Rightarrow> string \<Rightarrow> order \<Rightarrow> bool" where
  "assigned_where conf now lpId x =
     (o_lpId x = Some lpId \<and>
      (o_status x \<in> {MATCHED, AWAITING_ONCHAIN, FUNDED, FIAT_PAID} \<or>
       (o_status x \<in> {RELEASED, REFUNDED} \<and>
        (case o_settledAt x of None \<Rightarrow> False | Some s \<Rightarrow> s > now - c_postSettleDisputeWindowSecs conf * 1000))))"

record assignment =
  asg_order :: order_view
  asg_create_trade_params :: "create_trade_params option"
  asg_require_proof :: bool

definition map_assignment :: "env \<Rightarrow> config \<Rightarrow> ms \<Rightarrow> lp \<Rightarrow> order \<Rightarrow> db \<Rightarrow> db \<times> assignment" where
  "map_assignment env conf now l x d =
     (let (d1, cur) = refreshOrderStatus env now (o_id x) x d;
          lpAddress = lp_stellarAddress l;
          may = (getFiatPayer (o_flow cur) (o_userAddress cur) lpAddress = lpAddress \<and> o_status cur \<in> set FUNDED_OR_LATER \<and>
                 lp_status (case order_lp d1 cur of Some m \<Rightarrow> m | None \<Rightarrow> l) = LP_APPROVED)
      in (d1, \<lparr>asg_order = reveal env d1 cur may (serializeOrderBase now cur (Some conf)),
               asg_create_trade_params =
                 (if o_flow cur = TOP_UP
                  then Some (buildCreateTradeParams cur (mapRoles (o_flow cur) (o_userAddress cur) lpAddress)) else None),
               asg_require_proof = c_requireProof conf\<rparr>))"

fun map_assignments :: "env \<Rightarrow> config \<Rightarrow> ms \<Rightarrow> lp \<Rightarrow> order list \<Rightarrow> db \<Rightarrow> db \<times> assignment list" where
  "map_assignments env conf now l [] d = (d, [])"
| "map_assignments env conf now l (x # xs) d =
     (let (d1, a) = map_assignment env conf now l x d; (d2, as) = map_assignments env conf now l xs d1 in (d2, a # as))"

definition listLpAssignments :: "env \<Rightarrow> config \<Rightarrow> ms \<Rightarrow> address \<Rightarrow> (db, assignment list) handler" where
  "listLpAssignments env conf now lpAddress d =
     (case find_row lp_stellarAddress lpAddress (db_lps d) of
        None \<Rightarrow> (d, Inl (NotFoundException ''LP not found''))
      | Some l \<Rightarrow>
          map_prod id Inr (map_assignments env conf now l
            (sort_key o_createdAt (filter (assigned_where conf now (lp_id l)) (db_orders d))) d))"

section \<open>Properties: who sees bank details\<close>

lemma refreshed_row:
  assumes "find_order d i = Some x" "refreshOrderStatus env now i x d = (d1, cur)"
  shows "(cur = x \<or> (\<exists>t. cur = refresh_row now t x x)) \<and> db_lps d1 = db_lps d \<and> db_kyc d1 = db_kyc d"
proof -
  have i: "o_id x = i" using find_order_Some [OF assms(1)] by simp
  have "find_order (upd_orders (update_many (\<lambda>y. o_id y = i \<and> o_status y = o_status x) (refresh_row now t x)) d) i
      = Some (refresh_row now t x x)" for t
    using assms(1) i row_write.find_after_write [of o_id "refresh_row now t x" i]
    by (simp add: find_order_def row_write_def)
  then show ?thesis using assms by (auto simp: refreshOrderStatus_def Let_def emitOrderUpdate_def split: option.splits if_splits)
qed

lemma refresh_row_parties [simp]:
  "o_lpId (refresh_row now t s x) = o_lpId x" "o_flow (refresh_row now t s x) = o_flow x"
  "o_userAddress (refresh_row now t s x) = o_userAddress x" "o_personId (refresh_row now t s x) = o_personId x"
  "o_lpPaymentDetails (refresh_row now t s x) = o_lpPaymentDetails x"
  "o_userPaymentDetails (refresh_row now t s x) = o_userPaymentDetails x"
  by (simp_all add: refresh_row_def settlementFieldsFrom_def)

lemma refreshed_parties:
  assumes "find_order d i = Some x" "refreshOrderStatus env now i x d = (d1, cur)"
  shows "order_lp d1 cur = order_lp d x" "o_flow cur = o_flow x" "o_userAddress cur = o_userAddress x"
    "identityVerified env d1 (o_personId cur) = identityVerified env d (o_personId x)"
    "getPaymentInstructions cur = getPaymentInstructions x"
proof -
  have r: "cur = x \<or> (\<exists>t. cur = refresh_row now t x x)" "db_lps d1 = db_lps d" "db_kyc d1 = db_kyc d"
    using refreshed_row [OF assms] by auto
  show "order_lp d1 cur = order_lp d x" "o_flow cur = o_flow x" "o_userAddress cur = o_userAddress x"
    "identityVerified env d1 (o_personId cur) = identityVerified env d (o_personId x)"
    "getPaymentInstructions cur = getPaymentInstructions x"
    using r by (auto simp: order_lp_def find_lp_def [abs_def] identityVerified_def getPaymentInstructions_def)
qed

lemma reveal_instructions:
  "vw_payment_instructions (reveal env d x may (serializeOrderBase now y conf)) = Some w \<longleftrightarrow>
     may \<and> identityVerified env d (o_personId x) \<and> getPaymentInstructions x = Some w"
  by (auto simp: reveal_def serializeOrderBase_def)

lemma getOrder_view:
  assumes "getOrder env conf now i who cache d = (s, Inr (v, rep))"
  obtains x d1 cur where "find_order d i = Some x" "refreshOrderStatus env now i x d = (d1, cur)"
    "o_userAddress x = who \<or> map_option lp_stellarAddress (order_lp d x) = Some who"
    "v = reveal env d1 cur (may_reveal d1 cur who (map_option lp_stellarAddress (order_lp d x) = Some who))
           (serializeOrderBase now cur (Some conf))"
  using assms by (auto simp: getOrder_def Let_def split: option.splits if_splits prod.splits)


lemma map_assignments_shown:
  "a \<in> set (snd (map_assignments env conf now l xs d)) \<Longrightarrow> \<exists>x \<in> set xs. \<exists>d0. a = snd (map_assignment env conf now l x d0)"
proof (induction xs arbitrary: d)
  case (Cons x xs)
  obtain d1 b where b: "map_assignment env conf now l x d = (d1, b)" by force
  then have "a = b \<or> a \<in> set (snd (map_assignments env conf now l xs d1))"
    using Cons.prems by (auto split: prod.splits)
  then show ?case using Cons.IH [of d1] b by (metis list.set_intros snd_conv)
qed simp

lemma assignment_details_only_to_payer:
  assumes "a = snd (map_assignment env conf now l x d)" "vw_payment_instructions (asg_order a) = Some w"
  shows "\<exists>d1 cur. refreshOrderStatus env now (o_id x) x d = (d1, cur) \<and> o_status cur \<in> set FUNDED_OR_LATER \<and>
     identityVerified env d1 (o_personId cur) \<and> getFiatPayer (o_flow cur) (o_userAddress cur) (lp_stellarAddress l) = lp_stellarAddress l"
  using assms by (auto simp: map_assignment_def Let_def reveal_instructions split: prod.splits)

definition paying_db :: db where
  "paying_db = empty_db\<lparr>db_orders := [demo_order\<lparr>o_status := FIAT_PAID\<rparr>], db_lps := [demo_lp],
     db_kyc := [\<lparr>v_customerRef = ''c'', v_personId = ''p1'', v_status = ACCEPTED, v_providerRef = Some ''r'',
       v_rejectionReason = None, v_environment = Some ''live'', v_verificationUrl = None, v_deliveredAt = Some 1,
       v_screenedAt = Some 1, v_verifiedAt = Some 1, v_updatedAt = 1\<rparr>]\<rparr>"


section \<open>Properties: completed trades\<close>

lemma provider_lost_sql_eq:
  "provider_lost_sql x = (case o_resolution x of None \<Rightarrow> None | Some r \<Rightarrow> Some (providerLostDispute (o_flow x) r))"
  by (cases "o_flow x"; cases "o_resolution x"; cases "the (o_resolution x)")
     (simp_all add: provider_lost_sql_def PROVIDER_LOST_WHERE_def sql_eq_def providerLostDispute_def)

text \<open>C24 (getLpReputation): what \<open>completed_trades\<close> counts.  The query excludes the provider's lost
  disputes by negating a condition on \<open>resolution\<close>, which is NULL unless a resolver decided;
  so it counts exactly the RELEASED orders with a verdict the provider did not lose.  An order that was
  released without any dispute is never counted, and a provider none of whose orders was disputed shows no completed trade at all.\<close>

theorem completed_trades_counts_only_verdicts:
  "lr_completed_trades (count_reputation d lpId l) =
     count_rows (\<lambda>x. o_lpId x = Some lpId \<and> o_status x = RELEASED \<and>
        (\<exists>r. o_resolution x = Some r \<and> \<not> providerLostDispute (o_flow x) r)) (db_orders d)"
proof -
  have "completed_where lpId x \<longleftrightarrow> o_lpId x = Some lpId \<and> o_status x = RELEASED \<and>
      (\<exists>r. o_resolution x = Some r \<and> \<not> providerLostDispute (o_flow x) r)" for x
    by (cases "o_lpId x"; cases "o_resolution x"; cases "o_status x = RELEASED")
       (auto simp: completed_where_def provider_lost_sql_eq sql_eq_def sql_not_def elim!: sql_and.elims)
  then have "completed_where lpId = (\<lambda>x. o_lpId x = Some lpId \<and> o_status x = RELEASED \<and>
      (\<exists>r. o_resolution x = Some r \<and> \<not> providerLostDispute (o_flow x) r))" by (intro ext) simp
  then show ?thesis by (simp add: count_reputation_def Let_def)
qed

section \<open>Lists\<close>

text \<open>A list shows the caller's own orders, without bank details.\<close>

lemma listOrders_own:
  "v \<in> set (listOrders conf now user tk skip d) \<Longrightarrow> vw_user_address v = user \<and> vw_payment_instructions v = None"
  by (auto simp: listOrders_def serializeOrderBase_def dest!: in_set_takeD in_set_dropD)

lemma listOrders_pages:
  "listOrders conf now user n k d @ listOrders conf now user m (k + n) d = listOrders conf now user (n + m) k d"
  unfolding listOrders_def map_append [symmetric] take_add drop_drop by (simp add: add.commute)

end
