(* ===== verification/OrderProof.thy ===== *)
theory OrderProof
  imports OrderView
begin

text \<open>
  \<open>order/order-proof.service.ts\<close> and \<open>order/upload.util.ts\<close>: uploading a payment proof or
  dispute evidence, and reading them back.  The object store is the set of its keys; whether a
  \<open>putObject\<close> succeeds is an argument, and what other requests do between the checks and the
  guarded write is the argument \<open>meanwhile\<close>.  A payment time arrives as the instant the
  timestamp denotes, or as an invalid date.
\<close>

section \<open>File types (upload.util.ts)\<close>

record upload =
  f_buffer :: "nat list"
  f_mimetype :: string

record sniffed_file =
  sn_mime :: string
  sn_ext :: string

definition ascii :: "string \<Rightarrow> nat list" where
  "ascii s = map of_char s"

definition MAGIC_CHECKS :: "(sniffed_file \<times> (nat list \<Rightarrow> bool)) list" where
  "MAGIC_CHECKS =
     [(\<lparr>sn_mime = ''image/jpeg'', sn_ext = ''jpg''\<rparr>, \<lambda>b. take 3 b = [0xff, 0xd8, 0xff]),
      (\<lparr>sn_mime = ''image/png'', sn_ext = ''png''\<rparr>, \<lambda>b. take 8 b = [0x89, 0x50, 0x4e, 0x47, 0x0d, 0x0a, 0x1a, 0x0a]),
      (\<lparr>sn_mime = ''image/webp'', sn_ext = ''webp''\<rparr>,
        \<lambda>b. length b \<ge> 12 \<and> take 4 b = ascii ''RIFF'' \<and> take 4 (drop 8 b) = ascii ''WEBP''),
      (\<lparr>sn_mime = ''application/pdf'', sn_ext = ''pdf''\<rparr>, \<lambda>b. take 4 b = ascii ''%PDF'')]"

definition sniffFileType :: "nat list option \<Rightarrow> sniffed_file option" where
  "sniffFileType buf =
     (case buf of
        None \<Rightarrow> None
      | Some b \<Rightarrow> if b = [] then None else map_option fst (find (\<lambda>(f, test). test b) MAGIC_CHECKS))"

definition EXT_CONTENT_TYPE :: "(string \<times> string) list" where
  "EXT_CONTENT_TYPE = [(''jpg'', ''image/jpeg''), (''png'', ''image/png''), (''webp'', ''image/webp''), (''pdf'', ''application/pdf'')]"

definition newProofKey :: "string \<Rightarrow> string \<Rightarrow> string \<Rightarrow> string" where
  "newProofKey kind uuid ext = kind @ ''/'' @ uuid @ ''.'' @ ext"

definition deterministicKey :: "string \<Rightarrow> string \<Rightarrow> string \<Rightarrow> string" where
  "deterministicKey kind key ext = kind @ ''/'' @ key @ ''.'' @ ext"

definition sniffOrThrow :: "upload option \<Rightarrow> sniffed_file outcome" where
  "sniffOrThrow f =
     (case f of
        None \<Rightarrow> Inl (BadRequestException ''a file is required'')
      | Some u \<Rightarrow>
          if f_buffer u = [] then Inl (BadRequestException ''a file is required'')
          else case sniffFileType (Some (f_buffer u)) of
                 None \<Rightarrow> Inl (BadRequestException ''unsupported or unrecognized file type (allowed: jpg, png, webp, pdf)'')
               | Some s \<Rightarrow>
                   if f_mimetype u \<noteq> sn_mime s then Inl (BadRequestException ''file content does not match its declared Content-Type'')
                   else Inr s)"

section \<open>Storing\<close>

type_synonym objects = "string set"

definition store_failed :: http_error where
  "store_failed = ServiceUnavailableException ''could not store the uploaded file, retry''"

definition sniffAndStore :: "bool \<Rightarrow> upload option \<Rightarrow> string \<Rightarrow> string \<Rightarrow> (objects, string) handler" where
  "sniffAndStore put_ok f kind uuid st =
     (case sniffOrThrow f of
        Inl e \<Rightarrow> (st, Inl e)
      | Inr s \<Rightarrow> if put_ok then (insert (newProofKey kind uuid (sn_ext s)) st, Inr (newProofKey kind uuid (sn_ext s)))
                 else (st, Inl store_failed))"

definition sniffAndStoreDeterministic :: "bool \<Rightarrow> upload option \<Rightarrow> string \<Rightarrow> (objects, string) handler" where
  "sniffAndStoreDeterministic put_ok f key st =
     (case sniffOrThrow f of
        Inl e \<Rightarrow> (st, Inl e)
      | Inr s \<Rightarrow>
          if put_ok
          then (insert (deterministicKey ''evidence'' key (sn_ext s)) st
                  - set (map (deterministicKey ''evidence'' key) (filter (\<lambda>ext. ext \<noteq> sn_ext s) (map fst EXT_CONTENT_TYPE))),
                Inr (deterministicKey ''evidence'' key (sn_ext s)))
          else (st, Inl store_failed))"

section \<open>Payment proof\<close>

text \<open>\<open>Some None\<close> is an invalid date.\<close>

record proof_meta =
  mt_rrn :: "string option"
  mt_paidAmount :: "string option"
  mt_paidAt :: "ms option option"

definition clean_rrn :: "string option \<Rightarrow> string option" where
  "clean_rrn r =
     (if truthy_str r
      then let c = map to_upper (filter (\<lambda>c. is_letter c \<or> is_digit c) (the r)) in if c = [] then None else Some c
      else None)"

definition proof_amount_ok :: "string \<Rightarrow> bool" where
  "proof_amount_ok s = (s \<noteq> [] \<and> hd s \<noteq> CHR ''0'' \<and> list_all is_digit s \<and> length s \<le> 15)"

definition read_paid_amount :: "string option \<Rightarrow> int option outcome" where
  "read_paid_amount a =
     (case a of
        None \<Rightarrow> Inr None
      | Some s \<Rightarrow> if proof_amount_ok s then Inr (Some (int (digits_val s)))
                  else Inl (BadRequestException ''paidAmount must be a positive integer (base units)''))"

definition read_paid_at :: "ms \<Rightarrow> order \<Rightarrow> ms option option \<Rightarrow> ms option outcome" where
  "read_paid_at now x a =
     (case a of
        None \<Rightarrow> Inr None
      | Some None \<Rightarrow> Inl (BadRequestException ''paidAt must be a valid timestamp'')
      | Some (Some t) \<Rightarrow>
          if t > now + 5 * 60000 then Inl (BadRequestException ''payment time cannot be in the future'')
          else if t < o_createdAt x then Inl (BadRequestException ''payment time cannot predate the order'')
          else Inr (Some t))"

definition reference_used :: http_error where
  "reference_used = ConflictException ''this payment reference has already been used for another order''"

definition rrn_clash :: "string option \<Rightarrow> order \<Rightarrow> db \<Rightarrow> bool" where
  "rrn_clash rrn x d = (rrn \<noteq> None \<and> list_ex (\<lambda>y. o_proofRrn y = rrn \<and> o_lpId y = o_lpId x \<and> o_id y \<noteq> o_id x) (db_orders d))"

definition proof_row :: "ms \<Rightarrow> string \<Rightarrow> string option \<Rightarrow> int option \<Rightarrow> ms option \<Rightarrow> order \<Rightarrow> order" where
  "proof_row now path rrn amount paidAt y =
     y\<lparr>o_proofUrl := Some path, o_proofUploadedAt := Some now, o_proofRrn := rrn, o_proofAmount := amount, o_proofPaidAt := paidAt\<rparr>"

definition proof_guard :: "string \<Rightarrow> string option \<Rightarrow> order \<Rightarrow> bool" where
  "proof_guard i prev y = (o_id y = i \<and> o_status y = FUNDED \<and> o_proofUrl y = prev)"

text \<open>The unique index on reference and provider; NULLs never collide.\<close>

definition rrn_violates :: "string \<Rightarrow> string option \<Rightarrow> string option \<Rightarrow> db \<Rightarrow> bool" where
  "rrn_violates i prev rrn d =
     (rrn \<noteq> None \<and>
      list_ex (\<lambda>y. proof_guard i prev y \<and> o_lpId y \<noteq> None \<and>
        list_ex (\<lambda>z. o_id z \<noteq> i \<and> o_proofRrn z = rrn \<and> o_lpId z = o_lpId y) (db_orders d)) (db_orders d))"

definition not_funded :: http_error where
  "not_funded = ConflictException ''order must be FUNDED to upload payment proof''"

text \<open>The guarded write and the cleaning up around it.\<close>

definition claim_proof ::
  "ms \<Rightarrow> string \<Rightarrow> string option \<Rightarrow> string \<Rightarrow> string option \<Rightarrow> int option \<Rightarrow> ms option \<Rightarrow> (objects \<times> db, order_view) handler" where
  "claim_proof now i prev path rrn amount paidAt s =
     (case s of (st, d) \<Rightarrow>
        if rrn_violates i prev rrn d then ((st - {path}, d), Inl reference_used)
        else if count_rows (proof_guard i prev) (db_orders d) = 0 then ((st - {path}, d), Inl not_funded)
        else let d1 = upd_orders (update_many (proof_guard i prev) (proof_row now path rrn amount paidAt)) d;
                 st1 = (if truthy_str prev then st - {the prev} else st)
             in case find_order d1 i of
                  None \<Rightarrow> ((st1, d1), Inl (UncaughtError ''updated order missing''))
                | Some u \<Rightarrow> ((st1, d1), Inr (serializeOrderBase now u None)))"

definition uploadProof ::
  "env \<Rightarrow> ms \<Rightarrow> (db \<Rightarrow> db) \<Rightarrow> bool \<Rightarrow> string \<Rightarrow> string \<Rightarrow> address \<Rightarrow> upload option \<Rightarrow> proof_meta \<Rightarrow> (objects \<times> db, order_view) handler" where
  "uploadProof env now meanwhile put_ok uuid i who f meta s =
     (case s of (st, d) \<Rightarrow>
        case find_order d i of
          None \<Rightarrow> (s, Inl (NotFoundException ''order not found''))
        | Some x \<Rightarrow>
          if o_flow x = TOP_UP
          then (s, Inl (BadRequestException (''payment proof upload does not apply to TOP_UP orders '' @ em_dash @ '' the user pays fiat there, not the LP'')))
          else (case requireLp d x of
            Inl e \<Rightarrow> (s, Inl e)
          | Inr l \<Rightarrow>
            if who \<noteq> lp_stellarAddress l
            then (s, Inl (ForbiddenException ''only the assigned LP may upload payment proof for this order''))
            else (let (d1, cur) = refreshOrderStatus env now i x d; rrn = clean_rrn (mt_rrn meta) in
              if o_status cur \<noteq> FUNDED then ((st, d1), Inl not_funded)
              else (case read_paid_amount (mt_paidAmount meta) of
                Inl e \<Rightarrow> ((st, d1), Inl e)
              | Inr amount \<Rightarrow>
                (case read_paid_at now x (mt_paidAt meta) of
                   Inl e \<Rightarrow> ((st, d1), Inl e)
                 | Inr paidAt \<Rightarrow>
                   if rrn_clash rrn x d1 then ((st, d1), Inl reference_used)
                   else (case sniffAndStore put_ok f ''proofs'' uuid st of
                     (st1, Inl e) \<Rightarrow> ((st1, d1), Inl e)
                   | (st1, Inr path) \<Rightarrow> claim_proof now i (o_proofUrl cur) path rrn amount paidAt (st1, meanwhile d1)))))))"

section \<open>Reading files\<close>

record file_view =
  fv_key :: string
  fv_contentType :: string
  fv_ext :: string

definition file_view_of :: "string \<Rightarrow> file_view" where
  "file_view_of key =
     (let ext = last (split_on (CHR ''.'') key)
      in \<lparr>fv_key = key,
          fv_contentType = (case map_of EXT_CONTENT_TYPE ext of Some t \<Rightarrow> t | None \<Rightarrow> ''application/octet-stream''), fv_ext = ext\<rparr>)"

definition right_quote :: string where "right_quote = [CHR 0xE2, CHR 0x80, CHR 0x99]"

definition getProofFile :: "env \<Rightarrow> db \<Rightarrow> string \<Rightarrow> address \<Rightarrow> file_view outcome" where
  "getProofFile env d i who =
     (case find_order d i of
        None \<Rightarrow> Inl (NotFoundException ''order not found'')
      | Some x \<Rightarrow>
          (let isUser = (o_userAddress x = who);
               isApprovedLp = (case order_lp d x of None \<Rightarrow> False | Some l \<Rightarrow> lp_stellarAddress l = who \<and> lp_status l = LP_APPROVED);
               isAdmin = (who \<in> set (cfg_adminAddresses env))
           in if \<not> isUser \<and> \<not> isApprovedLp \<and> \<not> isAdmin
              then Inl (ForbiddenException (''not authorized to view this order'' @ right_quote @ ''s payment proof''))
              else if \<not> truthy_str (o_proofUrl x) then Inl (NotFoundException ''no payment proof uploaded for this order'')
              else Inr (file_view_of (the (o_proofUrl x)))))"

definition getDisputeEvidenceFile :: "env \<Rightarrow> db \<Rightarrow> string \<Rightarrow> address \<Rightarrow> file_view outcome" where
  "getDisputeEvidenceFile env d i who =
     (case find_order d i of
        None \<Rightarrow> Inl (NotFoundException ''order not found'')
      | Some x \<Rightarrow>
          (let isUser = (o_userAddress x = who);
               orderIsDisputed = (o_disputeAt x \<noteq> None);
               isPartyLp = (case order_lp d x of None \<Rightarrow> False
                            | Some l \<Rightarrow> lp_stellarAddress l = who \<and> (lp_status l = LP_APPROVED \<or> orderIsDisputed));
               isAdmin = (who \<in> set (cfg_adminAddresses env))
           in if \<not> isUser \<and> \<not> isPartyLp \<and> \<not> isAdmin
              then Inl (ForbiddenException (''not authorized to view this order'' @ right_quote @ ''s dispute evidence''))
              else if \<not> truthy_str (o_disputeEvidenceUrl x)
              then Inl (NotFoundException ''no dispute evidence uploaded for this order'')
              else Inr (file_view_of (the (o_disputeEvidenceUrl x)))))"

definition uploadDisputeEvidence ::
  "env \<Rightarrow> config \<Rightarrow> ms \<Rightarrow> bool \<Rightarrow> string \<Rightarrow> address \<Rightarrow> upload option \<Rightarrow> (objects \<times> db, string) handler" where
  "uploadDisputeEvidence env conf now put_ok i who f s =
     (case s of (st, d) \<Rightarrow>
        case find_order d i of
          None \<Rightarrow> (s, Inl (NotFoundException ''order not found''))
        | Some x \<Rightarrow>
          (let isUser = (o_userAddress x = who);
               isLp = (map_option lp_stellarAddress (order_lp d x) = Some who)
           in if \<not> isUser \<and> \<not> isLp
              then (s, Inl (ForbiddenException ''only a trade party may upload dispute evidence for this order''))
              else (let (d1, cur) = refreshOrderStatus env now i x d in
                if \<not> canDispute cur conf now
                then ((st, d1), Inl (ConflictException ''dispute evidence can only be uploaded while FIAT_PAID or within the post-settlement dispute window''))
                else (case sniffAndStoreDeterministic put_ok f
                             (evidenceKeyFor i (if isUser then PUser else PLp) (o_disputeClosedAt cur)) st of
                        (st1, r) \<Rightarrow> ((st1, d1), r)))))"

section \<open>Properties: file types\<close>

lemma sniffed_ext:
  "sniffFileType b = Some s \<Longrightarrow> (sn_ext s, sn_mime s) \<in> set EXT_CONTENT_TYPE \<and> List.member EVIDENCE_EXTENSIONS (sn_ext s)"
  by (auto simp: sniffFileType_def MAGIC_CHECKS_def EXT_CONTENT_TYPE_def EVIDENCE_EXTENSIONS_def
      split: option.splits if_splits)

lemma sniffOrThrow_ok:
  assumes "sniffOrThrow f = Inr s"
  shows "List.member EVIDENCE_EXTENSIONS (sn_ext s)" "(sn_ext s, sn_mime s) \<in> set EXT_CONTENT_TYPE"
    "\<exists>u. f = Some u \<and> f_mimetype u = sn_mime s"
  using assms by (auto simp: sniffOrThrow_def dest: sniffed_ext split: option.splits if_splits)

section \<open>Properties: evidence\<close>

lemma deterministic_own:
  "List.member EVIDENCE_EXTENSIONS ext \<Longrightarrow> isOwnEvidencePath (deterministicKey ''evidence'' (evidenceKeyFor i r c) ext) i r c"
  by (simp add: isOwnEvidencePath_def deterministicKey_def Let_def)

text \<open>Uploaded evidence can be filed, by its uploader and in this
  round only.  The path an upload answers with is stored, is accepted as the uploading party's own for the
  current round of the order by the check that filing a dispute makes, and is the only object of that
  party and round in the store: an earlier upload under another file type is gone.\<close>

theorem uploaded_evidence_can_be_filed:
  assumes "uploadDisputeEvidence env conf now put_ok i who f (st, d) = ((st', d'), Inr url)"
  shows "\<exists>x cur role. find_order d i = Some x \<and> refreshOrderStatus env now i x d = (d', cur) \<and>
     canDispute cur conf now \<and>
     (role = PUser \<and> who = o_userAddress x \<or> role = PLp \<and> map_option lp_stellarAddress (order_lp d x) = Some who) \<and>
     url \<in> st' \<and> isOwnEvidencePath url i role (o_disputeClosedAt cur) \<and>
     (\<forall>ext. List.member EVIDENCE_EXTENSIONS ext \<longrightarrow>
        ''evidence/'' @ evidenceKeyFor i role (o_disputeClosedAt cur) @ ''.'' @ ext \<in> st' \<longrightarrow>
        ''evidence/'' @ evidenceKeyFor i role (o_disputeClosedAt cur) @ ''.'' @ ext = url)"
proof -
  obtain x where x: "find_order d i = Some x" using assms by (auto simp: uploadDisputeEvidence_def split: option.splits)
  obtain d1 cur where r: "refreshOrderStatus env now i x d = (d1, cur)" by force
  define role where "role = (if o_userAddress x = who then PUser else PLp)"
  define key where "key = evidenceKeyFor i role (o_disputeClosedAt cur)"
  have w: "o_userAddress x = who \<or> map_option lp_stellarAddress (order_lp d x) = Some who"
    using assms x by (auto simp: uploadDisputeEvidence_def Let_def split: if_splits)
  have c: "canDispute cur conf now" "d' = d1" "sniffAndStoreDeterministic put_ok f key st = (st', Inr url)"
    using assms x r w
    by (auto simp: uploadDisputeEvidence_def Let_def role_def key_def split: if_splits prod.splits)
  obtain s where s: "sniffOrThrow f = Inr s" using c(3) by (auto simp: sniffAndStoreDeterministic_def split: sum.splits)
  then have st': "st' = insert (deterministicKey ''evidence'' key (sn_ext s)) st
      - set (map (deterministicKey ''evidence'' key) (filter (\<lambda>ext. ext \<noteq> sn_ext s) (map fst EXT_CONTENT_TYPE)))"
    and url: "url = deterministicKey ''evidence'' key (sn_ext s)"
    using c(3) by (auto simp: sniffAndStoreDeterministic_def split: if_splits)
  have inj: "deterministicKey ''evidence'' key a = deterministicKey ''evidence'' key b \<longleftrightarrow> a = b" for a b
    by (simp add: deterministicKey_def)
  have gone: "deterministicKey ''evidence'' key ext \<notin> st'" if "List.member EVIDENCE_EXTENSIONS ext" "ext \<noteq> sn_ext s" for ext
  proof -
    have "ext \<in> set (map fst EXT_CONTENT_TYPE)"
      using that(1) by (auto simp: EVIDENCE_EXTENSIONS_def EXT_CONTENT_TYPE_def)
    then show ?thesis using that(2) unfolding st' by auto
  qed
  have "url \<in> st'" using inj by (auto simp: st' url)
  moreover have "isOwnEvidencePath url i role (o_disputeClosedAt cur)"
    using deterministic_own sniffOrThrow_ok(1) [OF s] by (simp add: url key_def)
  moreover have "ext = sn_ext s" if "List.member EVIDENCE_EXTENSIONS ext" "''evidence/'' @ key @ ''.'' @ ext \<in> st'" for ext
    using gone [OF that(1)] that(2) by (auto simp: deterministicKey_def)
  moreover have "role = PUser \<and> who = o_userAddress x \<or> role = PLp \<and> map_option lp_stellarAddress (order_lp d x) = Some who"
    using w by (auto simp: role_def)
  ultimately show ?thesis using x r c(1,2) url key_def
    by (intro exI [of _ x] exI [of _ cur] exI [of _ role]) (auto simp: deterministicKey_def)
qed

definition demo_png :: upload where
  "demo_png = \<lparr>f_buffer = [0x89, 0x50, 0x4e, 0x47, 0x0d, 0x0a, 0x1a, 0x0a, 0], f_mimetype = ''image/png''\<rparr>"

lemma demo_png_sniffed: "sniffOrThrow (Some demo_png) = Inr \<lparr>sn_mime = ''image/png'', sn_ext = ''png''\<rparr>"
  by (simp add: sniffOrThrow_def demo_png_def sniffFileType_def MAGIC_CHECKS_def)

theorem uploaded_evidence_can_be_filed_witness:
  "''evidence/o1-user.png'' \<in> fst (fst (uploadDisputeEvidence demo_env demo_config 1700000000000 True ''o1'' ''GU'' (Some demo_png) ({}, paying_db)))"
proof -
  let ?x = "demo_order\<lparr>o_status := FIAT_PAID\<rparr>"
  have f: "find_order paying_db ''o1'' = Some ?x" by (simp add: paying_db_def find_order_def find_row_def)
  have r: "refreshOrderStatus demo_env 1700000000000 ''o1'' ?x paying_db = (paying_db, ?x)"
    by (simp add: refreshOrderStatus_def)
  have "snd (uploadDisputeEvidence demo_env demo_config 1700000000000 True ''o1'' ''GU'' (Some demo_png) ({}, paying_db))
      = Inr ''evidence/o1-user.png''"
    by (simp add: uploadDisputeEvidence_def f r canDispute_def sniffAndStoreDeterministic_def demo_png_sniffed
        evidenceKeyFor_def party_name_def deterministicKey_def)
  then obtain st' d' where "uploadDisputeEvidence demo_env demo_config 1700000000000 True ''o1'' ''GU'' (Some demo_png) ({}, paying_db)
      = ((st', d'), Inr ''evidence/o1-user.png'')"
    by (metis prod.collapse)
  then show ?thesis using uploaded_evidence_can_be_filed by fastforce
qed

section \<open>Properties: payment proof\<close>

definition rrn_unique :: "db \<Rightarrow> bool" where
  "rrn_unique d = (\<forall>x \<in> set (db_orders d). \<forall>y \<in> set (db_orders d).
     o_proofRrn x \<noteq> None \<and> o_lpId x \<noteq> None \<and> o_proofRrn x = o_proofRrn y \<and> o_lpId x = o_lpId y \<longrightarrow> o_id x = o_id y)"

lemma proof_row_keeps [simp]:
  "o_id (proof_row now path rrn a p y) = o_id y" "o_lpId (proof_row now path rrn a p y) = o_lpId y"
  "o_proofRrn (proof_row now path rrn a p y) = rrn" "o_status (proof_row now path rrn a p y) = o_status y"
  "o_proofUrl (proof_row now path rrn a p y) = Some path" "order_key (proof_row now path rrn a p y) = order_key y"
  "order_ok (proof_row now path rrn a p y) = order_ok y"
  by (simp_all add: proof_row_def order_key_def order_ok_def)

interpretation proof_put: row_write o_id "proof_row now path rrn a p" for now path rrn a p
  by unfold_locales simp

lemma rrn_unique_map:
  assumes "rrn_unique d" "db_orders d' = map g (db_orders d)"
    "\<And>y. o_id (g y) = o_id y \<and> o_lpId (g y) = o_lpId y \<and> o_proofRrn (g y) = o_proofRrn y"
  shows "rrn_unique d'"
  using assms unfolding rrn_unique_def by simp

lemma rrn_unique_refresh: "rrn_unique d \<Longrightarrow> rrn_unique (fst (refreshOrderStatus env now i x d))"
proof -
  assume u: "rrn_unique d"
  have k: "o_proofRrn (refresh_row now t s y) = o_proofRrn y" for t s y
    by (simp add: refresh_row_def settlementFieldsFrom_def)
  show ?thesis using refresh_orders [of env now i x d]
  proof
    assume "db_orders (fst (refreshOrderStatus env now i x d)) = db_orders d"
    then show ?thesis using u by (simp add: rrn_unique_def)
  next
    assume "\<exists>t. rpc_getTradeStatus env (contractIdFor x (cfg_escrowContractId env)) (o_tradeId x) = Some t \<and>
        tradeBindsToOrder t x \<and> isAhead (t_status t) (o_status x) \<and> o_status x \<in> set REFRESH_FROM_CHAIN_STATUSES \<and>
        db_orders (fst (refreshOrderStatus env now i x d))
          = update_many (\<lambda>y. o_id y = i \<and> o_status y = o_status x) (refresh_row now t x) (db_orders d)"
    then obtain t where "db_orders (fst (refreshOrderStatus env now i x d))
          = update_many (\<lambda>y. o_id y = i \<and> o_status y = o_status x) (refresh_row now t x) (db_orders d)" by blast
    then show ?thesis using k
      by (intro rrn_unique_map [OF u, where g = "\<lambda>y. if o_id y = i \<and> o_status y = o_status x then refresh_row now t x y else y"])
         (auto simp: update_many_def)
  qed
qed

lemma rrn_uniqueD:
  "rrn_unique d \<Longrightarrow> x \<in> set (db_orders d) \<Longrightarrow> y \<in> set (db_orders d) \<Longrightarrow> o_proofRrn x \<noteq> None \<Longrightarrow> o_lpId x \<noteq> None \<Longrightarrow>
   o_proofRrn x = o_proofRrn y \<Longrightarrow> o_lpId x = o_lpId y \<Longrightarrow> o_id x = o_id y"
  unfolding rrn_unique_def by blast

lemma record_orders: "db_orders (upd_orders g d) = g (db_orders d)"
  by simp

lemma rrn_unique_write:
  assumes "rrn_unique d" "\<not> rrn_violates i prev rrn d"
  shows "rrn_unique (upd_orders (update_many (proof_guard i prev) (proof_row now path rrn a p)) d)"
proof -
  let ?g = "\<lambda>y. if proof_guard i prev y then proof_row now path rrn a p y else y"
  have gi: "o_id y = i" if "proof_guard i prev y" for y using that by (simp add: proof_guard_def)
  have free: "o_id z = i" if "rrn \<noteq> None" "y \<in> set (db_orders d)" "proof_guard i prev y" "o_lpId y \<noteq> None"
      "z \<in> set (db_orders d)" "o_proofRrn z = rrn" "o_lpId z = o_lpId y" for y z
  proof (rule ccontr)
    assume "o_id z \<noteq> i"
    then have "list_ex (\<lambda>z. o_id z \<noteq> i \<and> o_proofRrn z = rrn \<and> o_lpId z = o_lpId y) (db_orders d)"
      unfolding list_ex_iff using that(5-7) by blast
    then have "rrn_violates i prev rrn d"
      unfolding rrn_violates_def using that(1-4) by (auto simp only: list_ex_iff)
    then show False using assms(2) by blast
  qed
  have "o_id (?g y) = o_id (?g z)"
    if yz: "y \<in> set (db_orders d)" "z \<in> set (db_orders d)" and k: "o_proofRrn (?g y) \<noteq> None" "o_lpId (?g y) \<noteq> None"
      "o_proofRrn (?g y) = o_proofRrn (?g z)" "o_lpId (?g y) = o_lpId (?g z)" for y z
  proof (cases "proof_guard i prev y"; cases "proof_guard i prev z")
    assume "\<not> proof_guard i prev y" "\<not> proof_guard i prev z"
    then show ?thesis using rrn_uniqueD [OF assms(1) yz] k by simp
  next
    assume g: "proof_guard i prev y" "\<not> proof_guard i prev z"
    then have "o_proofRrn z = rrn" "rrn \<noteq> None" "o_lpId y \<noteq> None" "o_lpId z = o_lpId y" using k by simp_all
    from free [OF this(2) yz(1) g(1) this(3) yz(2) this(1,4)] show ?thesis using g gi [OF g(1)] by simp
  next
    assume g: "\<not> proof_guard i prev y" "proof_guard i prev z"
    then have "o_proofRrn y = rrn" "rrn \<noteq> None" "o_lpId z \<noteq> None" "o_lpId y = o_lpId z" using k by simp_all
    from free [OF this(2) yz(2) g(2) this(3) yz(1) this(1,4)] show ?thesis using g gi [OF g(2)] by simp
  qed (simp add: gi)
  then show ?thesis unfolding rrn_unique_def record_orders set_update_many ball_simps by blast
qed

text \<open>The guarded write: refused, it leaves database and store as before the upload; done, the
  row names the new object and the old one is gone.\<close>

lemma claim_proof_result:
  assumes "claim_proof now i prev path rrn a p (insert path st, d) = ((st', d'), r)" "path \<notin> st" "orders_ok d" "rrn_unique d"
  shows "rrn_unique d' \<and> (case r of
      Inl _ \<Rightarrow> st' = st \<and> d' = d
    | Inr _ \<Rightarrow> st' = (if truthy_str prev then insert path st - {the prev} else insert path st) \<and>
        (\<exists>y. find_order d i = Some y \<and> proof_guard i prev y \<and> find_order d' i = Some (proof_row now path rrn a p y)))"
proof (cases "rrn_violates i prev rrn d \<or> count_rows (proof_guard i prev) (db_orders d) = 0")
  case True
  then show ?thesis using assms by (auto simp: claim_proof_def split: if_splits)
next
  case False
  then obtain y where y: "y \<in> set (db_orders d)" "proof_guard i prev y" by (auto simp: count_rows_0)
  then have f: "find_order d i = Some y"
    using find_row_distinct [of o_id "db_orders d" y] assms(3) by (simp add: orders_ok_def find_order_def proof_guard_def)
  let ?d1 = "upd_orders (update_many (proof_guard i prev) (proof_row now path rrn a p)) d"
  have f1: "find_order ?d1 i = Some (proof_row now path rrn a p y)"
    using f y(2) by (simp add: find_order_def proof_put.find_after_write)
  have u: "rrn_unique ?d1" using rrn_unique_write [OF assms(4)] False by blast
  show ?thesis using assms(1) False f f1 y(2) u by (auto simp: claim_proof_def Let_def)
qed



end
