(* ===== verification/Rate.thy ===== *)
theory Rate
  imports Markets
begin

text \<open>
  \<open>rate/rate.service.ts\<close>: the reference price of a market, with its plausibility bounds and
  the confirmation of a sudden move, and quotes.  The process memory is a record: the configuration
  cache, the market cache and the prices waiting for a second fetch.  The price source is an
  argument: what \<open>refreshPrice\<close> gives for a currency (concurrent calls share one fetch, so
  they share the answer).
\<close>

definition QUOTE_TTL_MS :: ms where "QUOTE_TTL_MS = 300000"

record rate_memory =
  rm_config :: config_cache
  rm_markets :: market_cache
  rm_pending :: "string \<rightharpoonup> string"

type_synonym rate_state = "db \<times> rate_memory"

record price_source =
  ps_name :: string
  ps_fetch :: "string \<Rightarrow> (string \<rightharpoonup> string) outcome" \<comment> \<open>\<open>fetchPrices([fiat])\<close>\<close>

definition is_numeric_string :: "string \<Rightarrow> bool" where
  "is_numeric_string s =
     (let (whole, rest) = take_digits s
      in whole \<noteq> [] \<and>
         (case rest of [] \<Rightarrow> True
          | c # r \<Rightarrow> c = CHR ''.'' \<and> r \<noteq> [] \<and> list_all is_digit r))"

definition computeQuoteFields :: "int \<Rightarrow> string \<Rightarrow> config \<Rightarrow> flow \<Rightarrow> int outcome" where
  "computeQuoteFields usdc idrPerUsdc conf flw = quoteFiat usdc idrPerUsdc (c_spreadBps conf) (flw \<noteq> TOP_UP)"

definition deviatesTooFar :: "env \<Rightarrow> jsnum \<Rightarrow> jsnum \<Rightarrow> bool" where
  "deviatesTooFar env prev nxt =
     js_less (Fin (of_int (cfg_priceDeviationMaxBps env))) (js_mul (js_div (js_abs (js_sub nxt prev)) prev) (Fin 10000))"

definition confirmsPendingPrice :: "env \<Rightarrow> rate_memory \<Rightarrow> string \<Rightarrow> jsnum \<Rightarrow> bool" where
  "confirmsPendingPrice env mem fiat nxt =
     (case rm_pending mem fiat of None \<Rightarrow> False | Some pending \<Rightarrow> \<not> deviatesTooFar env (parse_float pending) nxt)"

definition plausible :: "string \<Rightarrow> market \<Rightarrow> bool" where
  "plausible priceStr m =
     (let v = parse_float priceStr; lo = to_number (m_priceMinPerUsdc m); hi = to_number (m_priceMaxPerUsdc m)
      in \<not> (\<not> is_finite v \<or> js_le v (Fin 0) \<or> js_less v lo \<or> js_less hi v))"

definition assertPlausible :: "string \<Rightarrow> market \<Rightarrow> string \<Rightarrow> unit outcome" where
  "assertPlausible priceStr m ctxt =
     (if \<not> plausible priceStr m
      then Inl (ServiceUnavailableException (''price out of plausible bounds ('' @ ctxt @ '')'')) else Inr ())"

definition refreshPrice :: "price_source \<Rightarrow> string \<Rightarrow> string outcome" where
  "refreshPrice src fiat =
     (case ps_fetch src fiat of
        Inl e \<Rightarrow> Inl e
      | Inr prices \<Rightarrow> if truthy_str (prices fiat) then Inr (the (prices fiat))
                      else Inl (UncaughtError (''price source missing fiat '' @ fiat)))"

definition find_price :: "db \<Rightarrow> string \<Rightarrow> price_cache option" where
  "find_price d code = find_row p_fiat code (db_prices d)"

definition store_price :: "string \<Rightarrow> string \<Rightarrow> string \<Rightarrow> ms \<Rightarrow> db \<Rightarrow> db" where
  "store_price code source price now d =
     (if find_price d code = None
      then d\<lparr>db_prices := db_prices d @ [\<lparr>p_fiat = code, p_source = source, p_pricePerUsdc = price, p_fetchedAt = now\<rparr>]\<rparr>
      else d\<lparr>db_prices := update_many (\<lambda>p. p_fiat p = code)
               (\<lambda>p. p\<lparr>p_source := source, p_pricePerUsdc := price, p_fetchedAt := now\<rparr>) (db_prices d)\<rparr>)"

definition cache_fresh :: "env \<Rightarrow> ms \<Rightarrow> price_cache \<Rightarrow> bool" where
  "cache_fresh env now c = js_less (js_div (Fin (of_int (now - p_fetchedAt c))) (Fin 1000)) (Fin (of_int (cfg_priceStaleSecs env)))"

text \<open>The part after the market was found and its manual override, if any, was not usable.\<close>

definition fetched_price :: "env \<Rightarrow> price_source \<Rightarrow> ms \<Rightarrow> market \<Rightarrow> (rate_state, string) handler" where
  "fetched_price env src now m s =
     (let (d, mem) = s; code = m_code m; cache = find_price d code in
      case cache of
        Some c \<Rightarrow>
          if cache_fresh env now c then
            (case assertPlausible (p_pricePerUsdc c) m ''cache'' of Inl e \<Rightarrow> (s, Inl e) | Inr _ \<Rightarrow> (s, Inr (p_pricePerUsdc c)))
          else
            (case refreshPrice src code of
               Inl _ \<Rightarrow> (s, Inl (ServiceUnavailableException ''price source unavailable''))
             | Inr price \<Rightarrow>
                 (case assertPlausible price m ''price source'' of
                    Inl e \<Rightarrow> (s, Inl e)
                  | Inr _ \<Rightarrow>
                      if deviatesTooFar env (parse_float (p_pricePerUsdc c)) (parse_float price) \<and>
                         \<not> confirmsPendingPrice env mem code (parse_float price)
                      then ((d, mem\<lparr>rm_pending := (rm_pending mem)(code \<mapsto> price)\<rparr>), Inl (ServiceUnavailableException ''price anomaly''))
                      else ((store_price code (ps_name src) price now d, mem\<lparr>rm_pending := (rm_pending mem)(code := None)\<rparr>), Inr price)))
      | None \<Rightarrow>
          (case refreshPrice src code of
             Inl _ \<Rightarrow> (s, Inl (ServiceUnavailableException ''price source unavailable''))
           | Inr price \<Rightarrow>
               (case assertPlausible price m ''price source'' of
                  Inl e \<Rightarrow> (s, Inl e)
                | Inr _ \<Rightarrow>
                    ((store_price code (ps_name src) price now d, mem\<lparr>rm_pending := (rm_pending mem)(code := None)\<rparr>), Inr price))))"

definition getReferencePrice :: "env \<Rightarrow> price_source \<Rightarrow> ms \<Rightarrow> string \<Rightarrow> (rate_state, string) handler" where
  "getReferencePrice env src now fiat s =
     (let (d, mem) = s in
      case normalizeFiat fiat of
        Inl e \<Rightarrow> (s, Inl e)
      | Inr code \<Rightarrow>
          (let (cache, r) = getEnabled now d (rm_markets mem) code; s1 = (d, mem\<lparr>rm_markets := cache\<rparr>) in
           case r of
             Inl e \<Rightarrow> (s1, Inl e)
           | Inr m \<Rightarrow>
               if truthy_str (m_manualRateOverride m) \<and> is_numeric_string (the (m_manualRateOverride m)) then
                 (case assertPlausible (the (m_manualRateOverride m)) m ''manual override'' of
                    Inl e \<Rightarrow> (s1, Inl e)
                  | Inr _ \<Rightarrow> (s1, Inr (the (m_manualRateOverride m))))
               else fetched_price env src now m s1))"

definition read_conf :: "env \<Rightarrow> ms \<Rightarrow> rate_state \<Rightarrow> rate_state \<times> config" where
  "read_conf env now s =
     (let (d, mem) = s; (d', cache, conf) = read_config now (cfg_platformWallet env) (rm_config mem) d
      in ((d', mem\<lparr>rm_config := cache\<rparr>), conf))"

definition getDisplayRate :: "env \<Rightarrow> price_source \<Rightarrow> ms \<Rightarrow> string \<Rightarrow> (rate_state, string) handler" where
  "getDisplayRate env src now fiat s =
     (let (s1, conf) = read_conf env now s in
      if c_paused conf then (s1, Inl (ServiceUnavailableException ''paused''))
      else case getReferencePrice env src now fiat s1 of
             (s2, Inl e) \<Rightarrow> (s2, Inl e)
           | (s2, Inr mid) \<Rightarrow> (s2, applySpreadToRate mid (c_spreadBps conf)))"

definition quote_amounts :: "flow \<Rightarrow> int option \<Rightarrow> int option \<Rightarrow> string \<Rightarrow> config \<Rightarrow> (int \<times> int) outcome" where
  "quote_amounts flw usdc fiatAmt price conf =
     (case fiatAmt of
        Some f \<Rightarrow> (case quoteUsdcForFiat f price (c_spreadBps conf) (flw \<noteq> TOP_UP) of Inl e \<Rightarrow> Inl e | Inr u \<Rightarrow> Inr (u, f))
      | None \<Rightarrow> (case computeQuoteFields (the usdc) price conf flw of Inl e \<Rightarrow> Inl e | Inr f \<Rightarrow> Inr (the usdc, f)))"

text \<open>From the price on: the amounts, the range, the person and the daily limit, the row.\<close>

definition store_quote ::
  "env \<Rightarrow> ms \<Rightarrow> address \<Rightarrow> flow \<Rightarrow> rail \<Rightarrow> int option \<Rightarrow> int option \<Rightarrow> config \<Rightarrow> market \<Rightarrow> string \<Rightarrow> (rate_state, quote) handler" where
  "store_quote env now user flw rl usdc fiatAmt conf m price s =
     (case quote_amounts flw usdc fiatAmt price conf of
        Inl e \<Rightarrow> (s, Inl e)
      | Inr (usdcAmount, fiatAmount) \<Rightarrow>
          if usdcAmount < c_minOrder conf \<or> usdcAmount > c_maxOrder conf
          then (s, Inl (BadRequestException ''amount out of range''))
          else (case personIdFor env (fst s) user of
              Inl e \<Rightarrow> (s, Inl e)
            | Inr personId \<Rightarrow>
                if used24hBaseUnits personId now None (fst s) + usdcAmount
                     > dailyLimitBaseUnits (rep_tier (getReputation (fst s) personId)) (Some conf)
                then (s, Inl (BadRequestException ''daily limit exceeded''))
                else (let q = \<lparr>q_id = sdk_uuid env (''quote:'' @ user), q_userAddress = user, q_flow = flw, q_rail = rl,
                               q_usdcAmount = usdcAmount, q_fiatAmount = fiatAmount, q_fiatCurrency = m_code m,
                               q_rateSnapshot = price, q_platformFeeBps = c_platformFeeBps conf,
                               q_lpFeeBps = c_lpFeeBps conf, q_expiresAt = now + QUOTE_TTL_MS, q_usedAt = None\<rparr>
                      in (((fst s)\<lparr>db_quotes := db_quotes (fst s) @ [q]\<rparr>, snd s), Inr q))))"

definition createQuote ::
  "env \<Rightarrow> price_source \<Rightarrow> ms \<Rightarrow> address \<Rightarrow> flow \<Rightarrow> rail \<Rightarrow> int option \<Rightarrow> int option \<Rightarrow> string \<Rightarrow> (rate_state, quote) handler" where
  "createQuote env src now user flw rl usdc fiatAmt fiat s =
     (if (usdc \<noteq> None) = (fiatAmt \<noteq> None)
      then (s, Inl (BadRequestException ''provide exactly one of usdcAmount or fiatAmount''))
      else case normalizeFiat fiat of
        Inl e \<Rightarrow> (s, Inl e)
      | Inr code \<Rightarrow>
        (let (cache, mk) = getEnabled now (fst s) (rm_markets (snd s)) code; s0 = (fst s, (snd s)\<lparr>rm_markets := cache\<rparr>) in
         case mk of
           Inl e \<Rightarrow> (s0, Inl e)
         | Inr m \<Rightarrow>
          (let (s1, conf) = read_conf env now s0 in
           if c_paused conf then (s1, Inl (ServiceUnavailableException ''paused''))
           else case getReferencePrice env src now (m_code m) s1 of
               (s2, Inl e) \<Rightarrow> (s2, Inl e)
             | (s2, Inr price) \<Rightarrow> store_quote env now user flw rl usdc fiatAmt conf m price s2)))"

section \<open>Properties\<close>

lemma assertPlausible_Inr: "assertPlausible p m c = Inr u \<longleftrightarrow> plausible p m"
  by (cases u) (simp add: assertPlausible_def)

lemma assertPlausible_Inl: "assertPlausible p m c = Inl e \<Longrightarrow> \<not> plausible p m"
  by (simp add: assertPlausible_def split: if_splits)

lemma getEnabled_Inr:
  "getEnabled now d cache code = (cache', Inr m) \<Longrightarrow>
   m \<in> set (snd (cached now d cache)) \<and> m_code m = code \<and> m_enabled m"
  by (auto simp: getEnabled_def get_market_def case_prod_unfold Let_def split: option.splits if_splits dest: find_in_set)

lemma confirms_markets:
  "confirmsPendingPrice env (mem\<lparr>rm_markets := cache\<rparr>) = confirmsPendingPrice env mem"
  by (simp add: confirmsPendingPrice_def fun_eq_iff)

text \<open>Where a price that was served came from.\<close>

lemma fetched_price_Inr:
  assumes "fetched_price env src now m (d, mem) = (s', Inr p)"
  shows "plausible p m \<and>
         (case find_price d (m_code m) of
            Some c \<Rightarrow> if cache_fresh env now c then p = p_pricePerUsdc c
                      else \<not> deviatesTooFar env (parse_float (p_pricePerUsdc c)) (parse_float p) \<or>
                           confirmsPendingPrice env mem (m_code m) (parse_float p)
          | None \<Rightarrow> True)"
  using assms
  by (auto simp: fetched_price_def Let_def assertPlausible_Inr split: option.splits sum.splits if_splits)


text \<open>The price service touches neither quotes nor orders.\<close>

lemma store_price_frame [simp]:
  "db_quotes (store_price a b c now d) = db_quotes d" "db_orders (store_price a b c now d) = db_orders d"
  by (simp_all add: store_price_def)

lemma fetched_price_frame [simp]:
  "db_quotes (fst (fst (fetched_price env src now m s))) = db_quotes (fst s)"
  "db_orders (fst (fst (fetched_price env src now m s))) = db_orders (fst s)"
  by (auto simp: fetched_price_def Let_def case_prod_unfold split: option.split sum.split)

lemma getReferencePrice_frame [simp]:
  "db_quotes (fst (fst (getReferencePrice env src now fiat s))) = db_quotes (fst s)"
  "db_orders (fst (fst (getReferencePrice env src now fiat s))) = db_orders (fst s)"
  by (auto simp: getReferencePrice_def Let_def case_prod_unfold split: sum.split)

lemma read_conf_frame [simp]:
  "db_quotes (fst (fst (read_conf env now s))) = db_quotes (fst s)"
  "db_orders (fst (fst (read_conf env now s))) = db_orders (fst s)"
  by (auto simp: read_conf_def read_config_def Let_def case_prod_unfold split: option.split)

lemma quote_amounts_usdc:
  "quote_amounts flw (Some u) None price conf = Inr (a, f) \<Longrightarrow> a = u \<and> quoteFiat u price (c_spreadBps conf) (flw \<noteq> TOP_UP) = Inr f"
  by (auto simp: quote_amounts_def computeQuoteFields_def split: sum.splits)

lemma quote_amounts_fiat:
  "quote_amounts flw None (Some f') price conf = Inr (a, f) \<Longrightarrow>
   f = f' \<and> quoteUsdcForFiat f' price (c_spreadBps conf) (flw \<noteq> TOP_UP) = Inr a"
  by (auto simp: quote_amounts_def split: sum.splits)

definition quote_rules :: "env \<Rightarrow> ms \<Rightarrow> address \<Rightarrow> flow \<Rightarrow> int option \<Rightarrow> int option \<Rightarrow> config \<Rightarrow> db \<Rightarrow> quote \<Rightarrow> bool" where
  "quote_rules env now user flw usdc fiatAmt conf d q =
     (\<not> c_paused conf \<and> c_minOrder conf \<le> q_usdcAmount q \<and> q_usdcAmount q \<le> c_maxOrder conf \<and>
      (case personIdFor env d user of
         Inl _ \<Rightarrow> False
       | Inr personId \<Rightarrow> used24hBaseUnits personId now None d + q_usdcAmount q
                         \<le> dailyLimitBaseUnits (rep_tier (getReputation d personId)) (Some conf)) \<and>
      (case (usdc, fiatAmt) of
         (Some u, None) \<Rightarrow> q_usdcAmount q = u \<and>
            quoteFiat u (q_rateSnapshot q) (c_spreadBps conf) (flw \<noteq> TOP_UP) = Inr (q_fiatAmount q)
       | (None, Some f) \<Rightarrow> q_fiatAmount q = f \<and>
            quoteUsdcForFiat f (q_rateSnapshot q) (c_spreadBps conf) (flw \<noteq> TOP_UP) = Inr (q_usdcAmount q)
       | _ \<Rightarrow> False))"

lemma quote_amounts_sides:
  assumes "quote_amounts flw usdc fiatAmt price conf = Inr (a, f)" "(usdc \<noteq> None) \<noteq> (fiatAmt \<noteq> None)"
  shows "case (usdc, fiatAmt) of
           (Some u, None) \<Rightarrow> a = u \<and> quoteFiat u price (c_spreadBps conf) (flw \<noteq> TOP_UP) = Inr f
         | (None, Some g) \<Rightarrow> f = g \<and> quoteUsdcForFiat g price (c_spreadBps conf) (flw \<noteq> TOP_UP) = Inr a
         | _ \<Rightarrow> False"
  using assms quote_amounts_usdc [of flw _ price conf a f] quote_amounts_fiat [of flw _ price conf a f]
  by (cases usdc; cases fiatAmt) auto

lemma store_quote_rules:
  assumes "store_quote env now user flw rl usdc fiatAmt conf m price s = (s', r)" "\<not> c_paused conf"
    and "(usdc \<noteq> None) \<noteq> (fiatAmt \<noteq> None)"
  shows "db_orders (fst s') = db_orders (fst s) \<and>
         (case r of
            Inl e \<Rightarrow> s' = s
          | Inr q \<Rightarrow> db_quotes (fst s') = db_quotes (fst s) @ [q] \<and> q_usedAt q = None \<and> q_expiresAt q = now + QUOTE_TTL_MS \<and>
                     q_userAddress q = user \<and> q_flow q = flw \<and> q_fiatCurrency q = m_code m \<and>
                     quote_rules env now user flw usdc fiatAmt conf (fst s) q)"
proof (cases "quote_amounts flw usdc fiatAmt price conf")
  case (Inl e)
  then show ?thesis using assms by (auto simp: store_quote_def)
next
  case (Inr p)
  obtain a f where p: "p = (a, f)" by (cases p)
  note sides = quote_amounts_sides [OF Inr [unfolded p] assms(3)]
  show ?thesis
  proof (cases "personIdFor env (fst s) user")
    case (Inl e)
    then show ?thesis using assms Inr p by (auto simp: store_quote_def split: if_splits)
  next
    case person: (Inr personId)
    then show ?thesis using assms sides Inr p
      by (auto simp: store_quote_def quote_rules_def Let_def split: if_splits)
  qed
qed

text \<open>A quote is stored only within the rules.  When the call succeeds it adds exactly the
  quote it returns, unused and valid for five minutes, for exactly one given side, whose other side
  is what the money functions compute at the recorded rate; the amount lies within the configured
  range, the service is not paused, and the amount plus the person's last 24 hours stays within the
  limit of the person's tier.  A refused call stores no quote.  Either way no order changes.\<close>

theorem createQuote_within_rules:
  assumes "createQuote env src now user flw rl usdc fiatAmt fiat s = (s', r)"
  shows "db_orders (fst s') = db_orders (fst s) \<and>
         (case r of
            Inl e \<Rightarrow> db_quotes (fst s') = db_quotes (fst s)
          | Inr q \<Rightarrow>
              db_quotes (fst s') = db_quotes (fst s) @ [q] \<and> q_usedAt q = None \<and> q_expiresAt q = now + QUOTE_TTL_MS \<and>
              q_userAddress q = user \<and> q_flow q = flw \<and> normalizeFiat fiat = Inr (q_fiatCurrency q) \<and>
              (\<exists>conf d. db_orders d = db_orders (fst s) \<and> quote_rules env now user flw usdc fiatAmt conf d q))"
proof (cases "(usdc \<noteq> None) = (fiatAmt \<noteq> None)")
  case True
  then show ?thesis using assms by (auto simp: createQuote_def)
next
  case False
  show ?thesis
  proof (cases "normalizeFiat fiat")
    case (Inl e)
    then show ?thesis using assms False by (auto simp: createQuote_def)
  next
    case (Inr code)
    obtain cache mk where g: "getEnabled now (fst s) (rm_markets (snd s)) code = (cache, mk)"
      by (cases "getEnabled now (fst s) (rm_markets (snd s)) code")
    define s0 where "s0 = (fst s, (snd s)\<lparr>rm_markets := cache\<rparr>)"
    obtain s1 conf where c: "read_conf env now s0 = (s1, conf)" by (cases "read_conf env now s0")
    have f1: "db_quotes (fst s1) = db_quotes (fst s)" "db_orders (fst s1) = db_orders (fst s)"
      using read_conf_frame [of env now s0] unfolding c by (simp_all add: s0_def)
    show ?thesis
    proof (cases mk)
      case e: (Inl e)
      then show ?thesis using assms False Inr g by (auto simp: createQuote_def)
    next
      case m: (Inr m)
      obtain s2 pr where r: "getReferencePrice env src now (m_code m) s1 = (s2, pr)"
        by (cases "getReferencePrice env src now (m_code m) s1")
      have f2: "db_quotes (fst s2) = db_quotes (fst s)" "db_orders (fst s2) = db_orders (fst s)"
        using getReferencePrice_frame [of env src now "m_code m" s1] f1 unfolding r by simp_all
      have code: "m_code m = code" using getEnabled_Inr [of now "fst s" "rm_markets (snd s)" code cache m] g m by simp
      have unf: "createQuote env src now user flw rl usdc fiatAmt fiat s =
          (if c_paused conf then (s1, Inl (ServiceUnavailableException ''paused''))
           else case pr of Inl e \<Rightarrow> (s2, Inl e)
                | Inr price \<Rightarrow> store_quote env now user flw rl usdc fiatAmt conf m price s2)"
        unfolding createQuote_def if_not_P [OF False]
        using Inr g m c r by (simp add: s0_def [symmetric] split: sum.split)
      show ?thesis
      proof (cases "c_paused conf \<or> (\<exists>e. pr = Inl e)")
        case True
        then show ?thesis using assms unf f1 f2 by (auto split: if_splits)
      next
        case ok: False
        then obtain price where "pr = Inr price" by (cases pr) auto
        with ok assms unf have "store_quote env now user flw rl usdc fiatAmt conf m price s2 = (s', r)" by simp
        from store_quote_rules [OF this] ok False f2 show ?thesis
          using code Inr by (cases r) auto
      qed
    qed
  qed
qed

section \<open>Examples\<close>

definition demo_source :: price_source where
  "demo_source = \<lparr>ps_name = ''demo'', ps_fetch = (\<lambda>_. Inr (Map.empty (''IDR'' \<mapsto> ''16300'')))\<rparr>"

definition demo_memory :: rate_memory where
  "demo_memory = \<lparr>rm_config = None, rm_markets = None, rm_pending = Map.empty\<rparr>"

definition rate_db :: db where
  "rate_db = empty_db\<lparr>db_markets := [demo_market], db_persons := [\<lparr>person_id = ''p1'', person_email = None\<rparr>],
     db_links := [\<lparr>w_stellarAddress = ''GU'', w_personId = ''p1'', w_authMethod = SEP10, w_status = ACTIVE, w_provenAt = 0\<rparr>]\<rparr>"

lemma price_16300: "parse_float ''16300'' = Fin 16300"
  by (simp add: number_eval)

lemma micro_16300: "price_micro label ''16300'' = Inr 16300000000"
  by (simp add: price_micro_def price_16300 to_double_numeral math_round_def floor_eq_iff)

lemma normalize_IDR: "normalizeFiat ''IDR'' = Inr ''IDR''"
  by (simp add: normalizeFiat_def trim_def trim_start_def is_space_def to_upper_def is_upper_def)

lemma demo_price_plausible: "plausible ''16300'' demo_market"
  by (simp add: plausible_def price_16300 demo_market_def seed_market_def seed_bounds)

lemma demo_market_found:
  "getEnabled 5 rate_db None ''IDR'' = (Some ([demo_market], 5), Inr demo_market)"
  by (simp add: getEnabled_def get_market_def cached_def rate_db_def)

lemma demo_fetched:
  "fetched_price demo_env demo_source 5 demo_market (rate_db, mem)
     = ((store_price ''IDR'' ''demo'' ''16300'' 5 rate_db, mem\<lparr>rm_pending := (rm_pending mem)(''IDR'' := None)\<rparr>), Inr ''16300'')"
  using demo_price_plausible
  by (simp add: fetched_price_def find_price_def find_row_def rate_db_def empty_db_def refreshPrice_def
      demo_source_def assertPlausible_def Let_def)

lemma demo_reference:
  "\<exists>s'. getReferencePrice demo_env demo_source 5 ''IDR'' (rate_db, demo_memory) = (s', Inr ''16300'')"
  by (simp add: getReferencePrice_def normalize_IDR demo_memory_def demo_market_found demo_fetched)


lemma demo_quote:
  "\<exists>s' q. createQuote demo_env demo_source 5 ''GU'' TOP_UP BANK (Some 100000000) None ''IDR'' (rate_db, demo_memory) = (s', Inr q)"
proof -
  have conf: "read_conf demo_env 5 (rate_db, demo_memory\<lparr>rm_markets := Some ([demo_market], 5)\<rparr>)
      = ((rate_db, demo_memory\<lparr>rm_markets := Some ([demo_market], 5), rm_config := Some (demo_config, 5)\<rparr>), demo_config)"
    by (simp add: read_conf_def read_config_def demo_memory_def rate_db_def empty_db_def)
  let ?m = "demo_memory\<lparr>rm_markets := Some ([demo_market], 5), rm_config := Some (demo_config, 5)\<rparr>"
  have found: "getEnabled 5 rate_db (Some ([demo_market], 5)) ''IDR'' = (Some ([demo_market], 5), Inr demo_market)"
    by (simp add: getEnabled_def get_market_def cached_def MARKET_TTL_MS_def)
  obtain s2 where ref: "getReferencePrice demo_env demo_source 5 ''IDR'' (rate_db, ?m) = (s2, Inr ''16300'')"
      "fst s2 = store_price ''IDR'' ''demo'' ''16300'' 5 rate_db"
    by (simp add: getReferencePrice_def normalize_IDR demo_memory_def found demo_fetched)
  have person: "personIdFor demo_env (fst s2) ''GU'' = Inr ''p1''"
    by (simp add: ref(2) store_price_def find_price_def find_row_def rate_db_def empty_db_def personIdFor_def lookupPerson_def
        find_link_def accountOf_def demo_env_def find_person_def)
  have rep: "rep_tier (getReputation (fst s2) ''p1'') = BRONZE" "used24hBaseUnits ''p1'' 5 None (fst s2) = 0"
    by (simp_all add: ref(2) store_price_def find_price_def find_row_def rate_db_def empty_db_def getReputation_def
        count_rows_def computeTier_def TIER_LEVELS_def used24hBaseUnits_def)
  have "quote_amounts TOP_UP (Some 100000000) None ''16300'' demo_config = Inr (100000000, 165445)"
    by (simp add: quote_amounts_def computeQuoteFields_def quoteFiat_def micro_16300 with_spread_def bigdiv_def demo_config_def)
  then have "\<exists>s' q. store_quote demo_env 5 ''GU'' TOP_UP BANK (Some 100000000) None demo_config demo_market ''16300'' s2 = (s', Inr q)"
    using person rep by (simp add: store_quote_def Let_def dailyLimitBaseUnits_def demo_config_def math_round_def USDC_BASE_UNITS_def floor_eq_iff)
  then show ?thesis
    using ref(1) conf by (simp add: createQuote_def normalize_IDR demo_memory_def demo_market_found demo_config_def)
qed

theorem createQuote_within_rules_witness:
  "\<exists>q conf d. quote_rules demo_env 5 ''GU'' TOP_UP (Some 100000000) None conf d q \<and> q_expiresAt q = 300005"
proof -
  obtain s' q where "createQuote demo_env demo_source 5 ''GU'' TOP_UP BANK (Some 100000000) None ''IDR'' (rate_db, demo_memory) = (s', Inr q)"
    using demo_quote by blast
  from createQuote_within_rules [OF this] show ?thesis by (auto simp: QUOTE_TTL_MS_def)
qed

end
