(* ===== verification/Sep12.thy ===== *)
theory Sep12
  imports Kyc
begin

text \<open>
  \<open>kyc/sep12.service.ts\<close> with \<open>kyc/email-address.ts\<close> and the required fields of
  \<open>kyc/kyc-provider.ts\<close>: the customer record.  Every write runs in a transaction under an
  advisory lock on the person, so a write is one step.  \<open>put\<close> calls the provider between
  its first reads and its transaction; what other requests do meanwhile is an argument.
\<close>

section \<open>Helpers\<close>

definition REQUIRED_KYC_FIELDS :: "string list" where
  "REQUIRED_KYC_FIELDS = [''first_name'', ''last_name'', ''email_address'', ''id_type'', ''id_country_code'']"

definition EMAIL_MAX_LENGTH :: nat where "EMAIL_MAX_LENGTH = 254"

definition is_control :: "char \<Rightarrow> bool" where
  "is_control c = ((of_char c :: nat) < 32 \<or> (of_char c :: nat) = 127)"

definition isStorableEmailAddress :: "string option \<Rightarrow> bool" where
  "isStorableEmailAddress value =
     (case value of None \<Rightarrow> False
      | Some s \<Rightarrow>
          (let v = trim s in
           if v = [] \<or> length v > EMAIL_MAX_LENGTH then False
           else if list_ex (\<lambda>c. is_space c \<or> is_control c) v then False
           else CHR ''@'' \<in> set (butlast (tl v))))"

definition stillInFlight :: "ms \<Rightarrow> kyc_row option \<Rightarrow> bool" where
  "stillInFlight now r =
     (case r of None \<Rightarrow> False
      | Some row \<Rightarrow> if v_status row \<noteq> PROCESSING \<or> \<not> truthy_str (v_providerRef row) then False
                    else v_updatedAt row > now - SESSION_LIFETIME_MS)"

definition needsNewSession :: "ms \<Rightarrow> kyc_row option \<Rightarrow> bool \<Rightarrow> bool" where
  "needsNewSession now r requireAml =
     ((map_option v_status r = Some PROCESSING \<and> \<not> stillInFlight now r) \<or> staleAcceptance now r requireAml)"

definition find_kyc :: "db \<Rightarrow> string \<Rightarrow> kyc_row option" where
  "find_kyc d ref = find_row v_customerRef ref (db_kyc d)"

text \<open>A refusal standing against the wallet or against its person.\<close>

definition refused :: "db \<Rightarrow> string \<Rightarrow> string \<Rightarrow> bool" where
  "refused d ref personId =
     list_ex (\<lambda>v. v_status v = REJECTED \<and> (v_customerRef v = ref \<or> v_personId v = personId)) (db_kyc d)"

definition settled_accepted :: "ms \<Rightarrow> kyc_row option \<Rightarrow> bool \<Rightarrow> bool" where
  "settled_accepted now r requireAml =
     (map_option v_status r = Some ACCEPTED \<and> \<not> staleAcceptance now r requireAml)"

definition upsert_kyc :: "string \<Rightarrow> kyc_row \<Rightarrow> (kyc_row \<Rightarrow> kyc_row) \<Rightarrow> db \<Rightarrow> db" where
  "upsert_kyc ref new upd d =
     (if find_kyc d ref = None then d\<lparr>db_kyc := db_kyc d @ [new]\<rparr>
      else d\<lparr>db_kyc := update_many (\<lambda>v. v_customerRef v = ref) upd (db_kyc d)\<rparr>)"

definition blank_kyc :: "string \<Rightarrow> string \<Rightarrow> ms \<Rightarrow> kyc_row" where
  "blank_kyc ref personId now = \<lparr>v_customerRef = ref, v_personId = personId, v_status = NEEDS_INFO, v_providerRef = None,
     v_rejectionReason = None, v_environment = None, v_verificationUrl = None, v_deliveredAt = None,
     v_screenedAt = None, v_verifiedAt = None, v_updatedAt = now\<rparr>"

section \<open>Submissions\<close>

definition identity_refused :: http_error where
  "identity_refused = ForbiddenException ''this identity was refused and cannot be resubmitted here''"

definition incomplete_row :: "string \<Rightarrow> ms \<Rightarrow> kyc_row \<Rightarrow> kyc_row" where
  "incomplete_row personId now v =
     v\<lparr>v_personId := personId, v_status := NEEDS_INFO, v_providerRef := None, v_verificationUrl := None,
       v_rejectionReason := None, v_verifiedAt := None, v_updatedAt := now\<rparr>"

definition recordIncomplete :: "env \<Rightarrow> string \<Rightarrow> string \<Rightarrow> ms \<Rightarrow> (db, string) handler" where
  "recordIncomplete env ref personId now d =
     (if refused d ref personId then (d, Inl identity_refused)
      else (let settled = find_kyc d ref in
        if settled_accepted now settled (cfg_kycRequireAml env) \<or> stillInFlight now settled then (d, Inr ref)
        else (upsert_kyc ref (blank_kyc ref personId now) (incomplete_row personId now) d, Inr ref)))"

text \<open>\<open>KycProvider.start\<close>: the answer to the opening of a session.\<close>

record kyc_decision =
  kd_status :: kyc_status
  kd_rejectionReason :: "string option"
  kd_providerRef :: "string option"
  kd_verificationUrl :: "string option"

type_synonym kyc_provider = "string \<Rightarrow> (string \<times> string) list \<Rightarrow> kyc_decision outcome"

definition started_row :: "string \<Rightarrow> kyc_decision \<Rightarrow> ms \<Rightarrow> kyc_row \<Rightarrow> kyc_row" where
  "started_row personId decision now v =
     v\<lparr>v_personId := personId, v_status := kd_status decision, v_providerRef := kd_providerRef decision,
       v_verificationUrl := kd_verificationUrl decision, v_rejectionReason := kd_rejectionReason decision,
       v_verifiedAt := (if kd_status decision = ACCEPTED then Some now else None),
       v_screenedAt := None, v_deliveredAt := None, v_environment := None, v_updatedAt := now\<rparr>"

text \<open>The transaction that stores the opened session.\<close>

definition storeSession :: "env \<Rightarrow> string \<Rightarrow> string \<Rightarrow> kyc_decision \<Rightarrow> ms \<Rightarrow> db \<Rightarrow> db" where
  "storeSession env ref personId decision now d =
     (let meanwhile = find_kyc d ref in
      if settled_accepted now meanwhile (cfg_kycRequireAml env) \<or>
         (stillInFlight now meanwhile \<and> Option.bind meanwhile v_providerRef \<noteq> kd_providerRef decision)
      then d
      else if refused d ref personId then d
      else upsert_kyc ref (started_row personId decision now (blank_kyc ref personId now))
             (started_row personId decision now) d)"

definition missing_field :: "(string \<times> string) list \<Rightarrow> bool" where
  "missing_field submitted =
     list_ex (\<lambda>f. case map_of submitted f of None \<Rightarrow> True | Some s \<Rightarrow> trim s = []) REQUIRED_KYC_FIELDS"

definition storeEmail :: "string \<Rightarrow> string option \<Rightarrow> db \<Rightarrow> db" where
  "storeEmail personId email d =
     (if isStorableEmailAddress email
      then d\<lparr>db_persons := update_many (\<lambda>p. person_id p = personId)
               (\<lambda>p. p\<lparr>person_email := map_option trim email\<rparr>) (db_persons d)\<rparr>
      else d)"

definition put :: "env \<Rightarrow> kyc_provider \<Rightarrow> bool \<Rightarrow> (db \<Rightarrow> db) \<Rightarrow> string \<Rightarrow> (string \<times> string) list \<Rightarrow> ms \<Rightarrow> (db, string) handler" where
  "put env provider isOpening meanwhile ref submitted now d =
     (case lookupPerson env d ref of
        None \<Rightarrow> (d, Inl (ForbiddenException ''this wallet is no longer permitted to register a customer''))
      | Some person \<Rightarrow>
          if refused d ref (person_id person) then (d, Inl identity_refused)
          else
            (let d1 = storeEmail (person_id person) (map_of submitted ''email_address'') d;
                 inFlight = find_kyc d1 ref
             in if settled_accepted now inFlight (cfg_kycRequireAml env) then (d1, Inr ref)
                else if stillInFlight now inFlight then (d1, Inr ref)
                else if missing_field submitted then recordIncomplete env ref (person_id person) now d1
                else if isOpening then (d1, Inr ref)
                else (case provider ref submitted of
                        Inl e \<Rightarrow> (meanwhile d1, Inl e)
                      | Inr decision \<Rightarrow>
                          (storeSession env ref (person_id person) decision now (meanwhile d1), Inr ref))))"

section \<open>Deliveries\<close>

datatype delivery_result = Recorded string | Dropped | OutOfSession | Applied | StorageRefused

definition json_string :: "json option \<Rightarrow> string option" where
  "json_string j = (case j of Some (JStr s) \<Rightarrow> Some s | _ \<Rightarrow> None)"

text \<open>A column takes a string or null; anything else makes the client refuse the write.\<close>

definition storable :: "json option \<Rightarrow> bool" where
  "storable j = (j = None \<or> j = Some JNull \<or> json_string j \<noteq> None)"

definition delivered_row :: "string \<Rightarrow> didit_conclusion \<Rightarrow> ms \<Rightarrow> kyc_row option \<Rightarrow> ms \<Rightarrow> kyc_row \<Rightarrow> kyc_row" where
  "delivered_row personId c deliveredAt standing now v =
     v\<lparr>v_personId := personId, v_status := dc_status c, v_providerRef := json_string (dc_providerRef c),
       v_environment := json_string (dc_environment c), v_rejectionReason := dc_rejectionReason c,
       v_deliveredAt := (if dc_notStarted c then Option.bind standing v_deliveredAt else Some deliveredAt),
       v_screenedAt := (if dc_screened c then Some deliveredAt else None),
       v_verifiedAt := (if dc_status c = ACCEPTED then Some deliveredAt else None), v_updatedAt := now\<rparr>"

definition writeDelivery :: "string \<Rightarrow> string \<Rightarrow> didit_conclusion \<Rightarrow> ms \<Rightarrow> kyc_row option \<Rightarrow> ms \<Rightarrow> db \<Rightarrow> db" where
  "writeDelivery ref personId c deliveredAt standing now d =
     upsert_kyc ref (delivered_row personId c deliveredAt standing now (blank_kyc ref personId now))
       (delivered_row personId c deliveredAt standing now) d"

definition applyDelivery :: "env \<Rightarrow> didit_conclusion \<Rightarrow> ms \<Rightarrow> ms \<Rightarrow> db \<Rightarrow> db \<times> delivery_result" where
  "applyDelivery env c deliveredAt now d =
     (case json_string (dc_customerRef c) of
        None \<Rightarrow> (d, Recorded ''a delivery named no customer this anchor can read'')
      | Some ref \<Rightarrow>
        if ref = [] then (d, Recorded ''a delivery named no customer this anchor can read'')
        else if dc_unrecognisedStatus c then (d, Recorded ''a delivery reported a status this anchor does not recognise'')
        else if json_string (dc_environment c) \<noteq> Some (cfg_diditEnvironment env)
          then (d, Recorded ''a delivery came from an environment this deployment is not configured for'')
        else (case lookupPerson env d ref of
          None \<Rightarrow> (d, Recorded ''a delivery named a customer with no wallet this anchor currently accepts, which is either a revoked link or a misdirected integration'')
        | Some person \<Rightarrow>
            (let refusing = (dc_status c = REJECTED);
                 elsewhere = list_ex (\<lambda>v. v_status v = REJECTED \<and> v_personId v = person_id person \<and> v_customerRef v \<noteq> ref) (db_kyc d);
                 standing = find_kyc d ref;
                 apply_it = (if storable (dc_providerRef c)
                             then (writeDelivery ref (person_id person) c deliveredAt standing now d, Applied)
                             else (d, StorageRefused))
             in if elsewhere \<and> \<not> refusing then (d, Dropped)
                else (case standing of
                   None \<Rightarrow> apply_it
                 | Some s \<Rightarrow>
                     if v_status s = REJECTED then (d, Dropped)
                     else if \<not> refusing \<and> (v_status s = ACCEPTED \<or> v_status s = PROCESSING) \<and>
                             truthy_str (v_providerRef s) \<and> map_option JStr (v_providerRef s) \<noteq> dc_providerRef c
                       then (d, OutOfSession)
                     else if \<not> refusing \<and> (case v_deliveredAt s of None \<Rightarrow> False | Some t \<Rightarrow> t > deliveredAt) then (d, Dropped)
                     else apply_it))))"

section \<open>Reading and erasure\<close>

record kyc_view =
  cv_id :: "string option"
  cv_status :: kyc_status
  cv_fields :: bool
  cv_provided :: bool
  cv_message :: "string option"

definition standingRefusal :: "env \<Rightarrow> db \<Rightarrow> string \<Rightarrow> kyc_row option" where
  "standingRefusal env d ref =
     (case lookupPerson env d ref of None \<Rightarrow> None
      | Some p \<Rightarrow> find (\<lambda>v. v_status v = REJECTED \<and> (v_customerRef v = ref \<or> v_personId v = person_id p)) (db_kyc d))"

definition refusal_view :: "string \<Rightarrow> kyc_row \<Rightarrow> kyc_view" where
  "refusal_view ref v = \<lparr>cv_id = Some ref, cv_status = REJECTED, cv_fields = False, cv_provided = False,
     cv_message = Some (case v_rejectionReason v of Some m \<Rightarrow> m | None \<Rightarrow> ''this identity was refused'')\<rparr>"

definition get_customer :: "env \<Rightarrow> db \<Rightarrow> ms \<Rightarrow> string \<Rightarrow> kyc_view" where
  "get_customer env d now ref =
     (case find_kyc d ref of
        None \<Rightarrow>
          (case standingRefusal env d ref of
             Some refusal \<Rightarrow> refusal_view ref refusal
           | None \<Rightarrow> \<lparr>cv_id = None, cv_status = NEEDS_INFO, cv_fields = True, cv_provided = False, cv_message = None\<rparr>)
      | Some row \<Rightarrow>
          if v_status row = REJECTED then refusal_view ref row
          else (case find (\<lambda>v. v_personId v = v_personId row \<and> v_status v = REJECTED) (db_kyc d) of
             Some r \<Rightarrow> refusal_view ref r
           | None \<Rightarrow>
               if v_status row = NEEDS_INFO
               then \<lparr>cv_id = Some ref, cv_status = NEEDS_INFO, cv_fields = True, cv_provided = False, cv_message = None\<rparr>
               else if needsNewSession now (Some row) (cfg_kycRequireAml env)
               then \<lparr>cv_id = Some ref, cv_status = NEEDS_INFO, cv_fields = True, cv_provided = False,
                     cv_message = Some ''this verification did not complete, so no trade can be opened yet; submit your details again and a new one will be opened''\<rparr>
               else if awaitingProvider row (cfg_kycRequireAml env)
               then \<lparr>cv_id = Some ref, cv_status = PROCESSING, cv_fields = False, cv_provided = True,
                     cv_message = Some (if cfg_kycRequireAml env
                       then ''identity checks passed, but the sanctions screening this anchor requires has not been completed, so no trade can be opened yet''
                       else ''identity checks passed, but this anchor has not yet received the verification result from its provider, so no trade can be opened yet'')\<rparr>
               else if v_status row = PROCESSING
               then \<lparr>cv_id = Some ref, cv_status = PROCESSING, cv_fields = False, cv_provided = True,
                     cv_message = Some
                       (case v_verificationUrl row of
                          Some url \<Rightarrow>
                            if take 8 url = ''https://'' \<and> popupMayOfferVendor (Some row) \<and> stillInFlight now (Some row)
                            then ''this verification is open at the provider '' @ [CHR 0xE2, CHR 0x80, CHR 0x94] @ '' complete it at '' @ url @
                                 ''; if it has expired, submit your details again after a day and a new one will be opened''
                            else ''this verification is still open at the provider; if it has expired, submit your details again after a day and a new one will be opened''
                        | None \<Rightarrow> ''this verification is still open at the provider; if it has expired, submit your details again after a day and a new one will be opened'')\<rparr>
               else \<lparr>cv_id = Some ref, cv_status = v_status row, cv_fields = False, cv_provided = True, cv_message = None\<rparr>))"

definition redact :: "ms \<Rightarrow> kyc_row \<Rightarrow> kyc_row" where
  "redact now v = v\<lparr>v_rejectionReason := None, v_screenedAt := None, v_verifiedAt := None, v_verificationUrl := None,
     v_providerRef := None, v_environment := None, v_updatedAt := now\<rparr>"

definition forget :: "env \<Rightarrow> string \<Rightarrow> ms \<Rightarrow> db \<Rightarrow> db \<times> nat" where
  "forget env ref now d =
     (let person = lookupPerson env d ref;
          mine = (\<lambda>v. v_customerRef v = ref \<or> Some (v_personId v) = map_option person_id person);
          gone = (\<lambda>v. mine v \<and> v_status v \<noteq> REJECTED);
          removed = count_rows gone (db_kyc d);
          d1 = d\<lparr>db_kyc := delete_many gone (db_kyc d)\<rparr>
      in case person of
           None \<Rightarrow> (d1, if removed > 0 then removed else if find_kyc d1 ref \<noteq> None then 1 else 0)
         | Some p \<Rightarrow>
             (let has_email = (\<lambda>q. person_id q = person_id p \<and> person_email q \<noteq> None);
                  n = count_rows has_email (db_persons d1);
                  d2 = d1\<lparr>db_persons := update_many has_email (\<lambda>q. q\<lparr>person_email := None\<rparr>) (db_persons d1)\<rparr>;
                  refs = map v_customerRef (filter (\<lambda>v. v_status v = REJECTED \<and> mine v) (db_kyc d2))
              in if refs = [] then (d2, if removed > 0 then removed else n)
                 else (d2\<lparr>db_kyc := update_many (\<lambda>v. v_customerRef v \<in> set refs) (redact now) (db_kyc d2)\<rparr>,
                       if removed > 0 then removed else n + 1)))"

section \<open>A refusal stands\<close>

definition kyc_ok :: "db \<Rightarrow> bool" where
  "kyc_ok d = distinct (map v_customerRef (db_kyc d))"

definition refusals :: "db \<Rightarrow> string set" where
  "refusals d = v_customerRef ` {v \<in> set (db_kyc d). v_status v = REJECTED}"

text \<open>What every writer of the customer table promises, whatever it is asked to write: one row per
  customer, and no refusal is lifted.\<close>

locale kyc_writer =
  fixes run :: "'a \<Rightarrow> db \<Rightarrow> db"
  assumes run_ok: "kyc_ok d \<Longrightarrow> kyc_ok (run a d)"
    and run_keeps: "kyc_ok d \<Longrightarrow> refusals d \<subseteq> refusals (run a d)"
begin

lemma fold_keeps: "kyc_ok d \<Longrightarrow> kyc_ok (fold run xs d) \<and> refusals d \<subseteq> refusals (fold run xs d)"
proof (induction xs arbitrary: d)
  case (Cons a xs)
  then show ?case using run_ok [of d a] run_keeps [of d a] Cons.IH [of "run a d"] by auto
qed simp

end

lemma find_kyc_None: "find_kyc d ref = None \<longleftrightarrow> ref \<notin> v_customerRef ` set (db_kyc d)"
  by (simp add: find_kyc_def find_row_None)

lemma refused_ref: "ref \<in> refusals d \<Longrightarrow> refused d ref personId"
  by (auto simp: refusals_def refused_def list_ex_iff)

lemma upsert_kyc_ok:
  assumes "kyc_ok d" "v_customerRef new = ref" "\<And>v. v_customerRef (upd v) = v_customerRef v"
  shows "kyc_ok (upsert_kyc ref new upd d)"
proof -
  have "map v_customerRef (update_many p upd t) = map v_customerRef t" for p t
    using assms(3) by (simp add: update_many_def)
  then show ?thesis using assms by (auto simp: kyc_ok_def upsert_kyc_def find_kyc_None)
qed

lemma upsert_kyc_keeps:
  assumes "ref \<notin> refusals d" "\<And>v. v_customerRef (upd v) = v_customerRef v"
  shows "refusals d \<subseteq> refusals (upsert_kyc ref new upd d)"
proof
  fix r assume r: "r \<in> refusals d"
  then obtain v where v: "v \<in> set (db_kyc d)" "v_status v = REJECTED" "v_customerRef v = r" by (auto simp: refusals_def)
  then have "r \<noteq> ref" using assms(1) r by auto
  with v have "v \<in> set (db_kyc (upsert_kyc ref new upd d))"
    by (auto simp: upsert_kyc_def table_simps image_iff intro!: bexI [of _ v])
  with v show "r \<in> refusals (upsert_kyc ref new upd d)" by (auto simp: refusals_def)
qed

lemma row_keys [simp]:
  "v_customerRef (incomplete_row p now v) = v_customerRef v"
  "v_customerRef (started_row p dec now v) = v_customerRef v"
  "v_customerRef (delivered_row p c t s now v) = v_customerRef v"
  "v_customerRef (redact now v) = v_customerRef v"
  "v_customerRef (blank_kyc ref p now) = ref"
  by (simp_all add: incomplete_row_def started_row_def delivered_row_def redact_def blank_kyc_def)

lemma persons_frame [simp]:
  "refusals (d\<lparr>db_persons := t\<rparr>) = refusals d" "kyc_ok (d\<lparr>db_persons := t\<rparr>) = kyc_ok d"
  by (simp_all add: refusals_def kyc_ok_def)

interpretation incomplete_writer: kyc_writer "\<lambda>(env, ref, personId, now) d. fst (recordIncomplete env ref personId now d)"
proof
  fix d and a :: "env \<times> string \<times> string \<times> ms"
  assume ok: "kyc_ok d"
  obtain env ref personId now where a: "a = (env, ref, personId, now)" by (cases a)
  show "kyc_ok ((case a of (env, ref, personId, now) \<Rightarrow> \<lambda>d. fst (recordIncomplete env ref personId now d)) d)"
    using ok by (simp add: a recordIncomplete_def Let_def upsert_kyc_ok)
  show "refusals d \<subseteq> refusals ((case a of (env, ref, personId, now) \<Rightarrow> \<lambda>d. fst (recordIncomplete env ref personId now d)) d)"
  proof (cases "refused d ref personId")
    case False
    then have "ref \<notin> refusals d" using refused_ref by blast
    then show ?thesis
      using upsert_kyc_keeps [of ref d "incomplete_row personId now" "blank_kyc ref personId now"]
      by (auto simp: a recordIncomplete_def Let_def)
  qed (simp add: a recordIncomplete_def)
qed

interpretation session_writer: kyc_writer "\<lambda>(env, ref, personId, decision, now). storeSession env ref personId decision now"
proof
  fix d and a :: "env \<times> string \<times> string \<times> kyc_decision \<times> ms"
  assume ok: "kyc_ok d"
  obtain env ref personId decision now where a: "a = (env, ref, personId, decision, now)" by (cases a)
  show "kyc_ok ((case a of (env, ref, personId, decision, now) \<Rightarrow> storeSession env ref personId decision now) d)"
    using ok by (simp add: a storeSession_def Let_def upsert_kyc_ok)
  show "refusals d \<subseteq> refusals ((case a of (env, ref, personId, decision, now) \<Rightarrow> storeSession env ref personId decision now) d)"
  proof (cases "refused d ref personId")
    case False
    then have "ref \<notin> refusals d" using refused_ref by blast
    then show ?thesis
      using upsert_kyc_keeps [of ref d "started_row personId decision now"
          "started_row personId decision now (blank_kyc ref personId now)"]
      by (auto simp: a storeSession_def Let_def)
  qed (simp add: a storeSession_def Let_def)
qed

text \<open>A delivery either changes nothing or writes one customer who does not stand refused.\<close>

lemma not_refused:
  assumes "kyc_ok d" "\<forall>s. find_kyc d ref = Some s \<longrightarrow> v_status s \<noteq> REJECTED"
  shows "ref \<notin> refusals d"
proof
  assume "ref \<in> refusals d"
  then obtain v where "v \<in> set (db_kyc d)" "v_status v = REJECTED" "v_customerRef v = ref" by (auto simp: refusals_def)
  then have "find_kyc d ref = Some v" using find_row_distinct [of v_customerRef "db_kyc d" v] assms(1)
    by (simp add: find_kyc_def kyc_ok_def)
  then show False using assms(2) \<open>v_status v = REJECTED\<close> by blast
qed

lemma applyDelivery_cases:
  assumes "kyc_ok d"
  shows "fst (applyDelivery env c deliveredAt now d) = d \<or>
   (\<exists>ref p. json_string (dc_customerRef c) = Some ref \<and> lookupPerson env d ref = Some p \<and>
      ref \<notin> refusals d \<and> (dc_status c \<noteq> REJECTED \<longrightarrow> \<not> refused d ref (person_id p)) \<and>
      fst (applyDelivery env c deliveredAt now d) = writeDelivery ref (person_id p) c deliveredAt (find_kyc d ref) now d)"
proof (cases "fst (applyDelivery env c deliveredAt now d) = d")
  case False
  then obtain ref p where rp: "json_string (dc_customerRef c) = Some ref" "lookupPerson env d ref = Some p"
    by (auto simp: applyDelivery_def split: option.splits if_splits)
  have st: "\<forall>s. find_kyc d ref = Some s \<longrightarrow> v_status s \<noteq> REJECTED"
    using False rp by (auto simp: applyDelivery_def Let_def split: option.splits if_splits)
  have el: "dc_status c \<noteq> REJECTED \<Longrightarrow>
      \<not> list_ex (\<lambda>v. v_status v = REJECTED \<and> v_personId v = person_id p \<and> v_customerRef v \<noteq> ref) (db_kyc d)"
    using False rp by (auto simp: applyDelivery_def Let_def split: option.splits if_splits)
  have w: "fst (applyDelivery env c deliveredAt now d) = writeDelivery ref (person_id p) c deliveredAt (find_kyc d ref) now d"
    using False rp by (cases "find_kyc d ref") (auto simp: applyDelivery_def Let_def split: if_splits)
  have nr: "ref \<notin> refusals d" by (rule not_refused [OF assms st])
  then have "dc_status c \<noteq> REJECTED \<longrightarrow> \<not> refused d ref (person_id p)"
    using el by (auto simp: refused_def refusals_def list_ex_iff)
  then show ?thesis using rp nr w by blast
qed simp

interpretation delivery_writer: kyc_writer "\<lambda>(env, c, deliveredAt, now) d. fst (applyDelivery env c deliveredAt now d)"
proof
  fix d and a :: "env \<times> didit_conclusion \<times> ms \<times> ms"
  assume ok: "kyc_ok d"
  obtain env c t now where a: "a = (env, c, t, now)" by (cases a)
  note c = applyDelivery_cases [OF ok, of env c t now]
  show "kyc_ok ((case a of (env, c, deliveredAt, now) \<Rightarrow> \<lambda>d. fst (applyDelivery env c deliveredAt now d)) d)"
    using c ok by (auto simp: a writeDelivery_def upsert_kyc_ok)
  show "refusals d \<subseteq> refusals ((case a of (env, c, deliveredAt, now) \<Rightarrow> \<lambda>d. fst (applyDelivery env c deliveredAt now d)) d)"
    using c
  proof
    assume "\<exists>ref p. json_string (dc_customerRef c) = Some ref \<and> lookupPerson env d ref = Some p \<and>
      ref \<notin> refusals d \<and> (dc_status c \<noteq> REJECTED \<longrightarrow> \<not> refused d ref (person_id p)) \<and>
      fst (applyDelivery env c t now d) = writeDelivery ref (person_id p) c t (find_kyc d ref) now d"
    then obtain ref and p :: person where "ref \<notin> refusals d"
      "fst (applyDelivery env c t now d) = writeDelivery ref (person_id p) c t (find_kyc d ref) now d" by blast
    then show ?thesis by (simp add: a writeDelivery_def upsert_kyc_keeps)
  qed (simp add: a)
qed

interpretation erasure: kyc_writer "\<lambda>(env, ref, now) d. fst (forget env ref now d)"
proof
  fix d and a :: "env \<times> string \<times> ms"
  assume ok: "kyc_ok d"
  obtain env ref now where a: "a = (env, ref, now)" by (cases a)
  have keys: "map v_customerRef (update_many p (redact now) t) = map v_customerRef t" for p t
    by (simp add: update_many_def)
  have del: "distinct (map v_customerRef (delete_many p (db_kyc d)))" for p
    using ok by (simp add: kyc_ok_def delete_many_def distinct_map_filter)
  show "kyc_ok ((case a of (env, ref, now) \<Rightarrow> \<lambda>d. fst (forget env ref now d)) d)"
    using del by (auto simp: a forget_def Let_def kyc_ok_def keys split: option.splits)
  show "refusals d \<subseteq> refusals ((case a of (env, ref, now) \<Rightarrow> \<lambda>d. fst (forget env ref now d)) d)"
  proof
    fix r assume "r \<in> refusals d"
    then obtain v where v: "v \<in> set (db_kyc d)" "v_status v = REJECTED" "v_customerRef v = r" by (auto simp: refusals_def)
    have "v \<in> set (db_kyc (fst (forget env ref now d))) \<or> redact now v \<in> set (db_kyc (fst (forget env ref now d)))"
      using v(1,2) by (auto simp: forget_def Let_def table_simps delete_many_def split: option.splits)
    then show "r \<in> refusals ((case a of (env, ref, now) \<Rightarrow> \<lambda>d. fst (forget env ref now d)) d)"
      using v(2,3) row_keys(4) [of now v] by (auto simp: a refusals_def redact_def image_iff)
  qed
qed

lemma storeEmail_frame [simp]:
  "refusals (storeEmail pid email d) = refusals d" "kyc_ok (storeEmail pid email d) = kyc_ok d"
  "db_kyc (storeEmail pid email d) = db_kyc d"
  by (simp_all add: storeEmail_def)

text \<open>The four states a submission can leave.\<close>

lemma put_cases:
  fixes env provider isOpening meanwhile ref submitted now d
  defines "r \<equiv> fst (put env provider isOpening meanwhile ref submitted now d)"
  shows "\<exists>pid email. r = d \<or> r = storeEmail pid email d \<or>
           r = fst (recordIncomplete env ref pid now (storeEmail pid email d)) \<or>
           r = meanwhile (storeEmail pid email d) \<or>
           (\<exists>decision. r = storeSession env ref pid decision now (meanwhile (storeEmail pid email d)))"
proof (cases "lookupPerson env d ref")
  case (Some p)
  show ?thesis
    unfolding r_def put_def Let_def Some option.case
    by (rule exI [of _ "person_id p"], rule exI [of _ "map_of submitted ''email_address''"])
       (auto split: sum.split)
qed (simp add: r_def put_def)


lemma upsert_kyc_row:
  assumes "v \<in> set (db_kyc (upsert_kyc ref new upd d))"
  shows "v \<in> set (db_kyc d) \<or> v = new \<or> (\<exists>u \<in> set (db_kyc d). v_customerRef u = ref \<and> v = upd u)"
  using assms by (auto simp: upsert_kyc_def table_simps split: if_splits)

lemma not_admitted [simp]:
  "\<not> acceptedForFunds True (incomplete_row p now u)" "\<not> acceptedForFunds True (started_row p dec now u)"
  "\<not> acceptedForFunds True (redact now u)" "\<not> acceptedForFunds True (blank_kyc ref p now)"
  by (simp_all add: acceptedForFunds_def incomplete_row_def started_row_def redact_def blank_kyc_def)

lemma delivered_admits:
  "acceptedForFunds True (delivered_row p c t s now u) \<Longrightarrow>
   dc_status c = ACCEPTED \<and> dc_screened c \<and> v_personId (delivered_row p c t s now u) = p"
  by (simp add: acceptedForFunds_def delivered_row_def split: if_splits)

lemma forget_row:
  assumes "v \<in> set (db_kyc (fst (forget env ref now d)))"
  shows "v \<in> set (db_kyc d) \<or> (\<exists>u. v = redact now u)"
  using assms by (auto simp: forget_def Let_def table_simps delete_many_def split: option.splits if_splits)

lemma delivery_row:
  assumes "kyc_ok d" "acceptedForFunds True v" "v \<in> set (db_kyc (fst (applyDelivery env c deliveredAt now d)))"
  shows "v \<in> set (db_kyc d) \<or>
         (dc_status c = ACCEPTED \<and> dc_screened c \<and> json_string (dc_customerRef c) = Some (v_customerRef v) \<and>
          \<not> refused d (v_customerRef v) (v_personId v))"
  using applyDelivery_cases [OF assms(1), of env c deliveredAt now]
proof
  assume "\<exists>ref p. json_string (dc_customerRef c) = Some ref \<and> lookupPerson env d ref = Some p \<and>
      ref \<notin> refusals d \<and> (dc_status c \<noteq> REJECTED \<longrightarrow> \<not> refused d ref (person_id p)) \<and>
      fst (applyDelivery env c deliveredAt now d) = writeDelivery ref (person_id p) c deliveredAt (find_kyc d ref) now d"
  then obtain ref and p :: person where r: "json_string (dc_customerRef c) = Some ref"
      "dc_status c \<noteq> REJECTED \<longrightarrow> \<not> refused d ref (person_id p)"
      "fst (applyDelivery env c deliveredAt now d) = writeDelivery ref (person_id p) c deliveredAt (find_kyc d ref) now d"
    by blast
  let ?row = "delivered_row (person_id p) c deliveredAt (find_kyc d ref) now"
  have "v \<in> set (db_kyc d) \<or> (\<exists>u. v = ?row u \<and> v_customerRef u = ref)"
    using upsert_kyc_row [OF assms(3) [unfolded r(3) writeDelivery_def]] row_keys(5) by blast
  then show ?thesis using r delivered_admits [of "person_id p" c deliveredAt "find_kyc d ref" now] assms(2) by auto
qed (use assms(3) in simp)


section \<open>Examples\<close>

definition kyc_db :: db where
  "kyc_db = empty_db\<lparr>db_persons := [\<lparr>person_id = ''p1'', person_email = None\<rparr>],
     db_links := [\<lparr>w_stellarAddress = ''G1'', w_personId = ''p1'', w_authMethod = SEP10, w_status = ACTIVE, w_provenAt = 0\<rparr>]\<rparr>"

definition refused_kyc :: kyc_row where
  "refused_kyc = (blank_kyc ''G1'' ''p1'' 0)\<lparr>v_status := REJECTED, v_rejectionReason := Some HIT_REFUSAL\<rparr>"


definition accepted_kyc :: kyc_row where
  "accepted_kyc = delivered_row ''p1'' (readDiditDecision (Some clean_delivery) True) 7 None 9 (blank_kyc ''G1'' ''p1'' 9)"

lemma clean_delivery_applied:
  "db_kyc (fst (applyDelivery demo_env (readDiditDecision (Some clean_delivery) True) 7 9 kyc_db)) = [accepted_kyc]"
  by (simp add: applyDelivery_def readDiditDecision_def clean_delivery_def Let_def foundHits_def screenings_def hitsPresent_def
      noScreeningDelivered_def emptyOrAbsent_def ranAndFoundNothing_def cleared_def CLEARED_SCREENING_def json_string_def
      kyc_db_def empty_db_def demo_env_def lookupPerson_def find_link_def find_row_def accountOf_def find_person_def find_kyc_def
      storable_def writeDelivery_def upsert_kyc_def accepted_kyc_def)


end
