(* ===== verification/Indexer.thy ===== *)
theory Indexer
  imports OrderTx Reputation Kyc
begin

text \<open>
  \<open>indexer/indexer.service.ts\<close>: the poll that reads the escrow's events and moves orders by
  them.  The Stellar SDK's decoding of an event's topics and value is a parameter (\<open>codec\<close>),
  as is the RPC's answer to \<open>getEvents\<close>.  An event is applied to a snapshot of its order; the
  database may have moved on before the guarded write runs, so the writing part of
  \<open>applyEvent\<close> takes the snapshot and the current database separately, and
  \<open>applyEvent\<close> itself takes what happened in between as the function \<open>meanwhile\<close>.
  Log lines are left out.
\<close>

section \<open>Events\<close>

text \<open>\<open>contractId\<close> is a string, an SDK contract object or absent.\<close>

datatype contract_field = ContractText string | ContractObject string | ContractAbsent

type_synonym scval = string

record chain_event =
  ev_id :: "string option"
  ev_topic :: "scval list option"
  ev_value :: scval
  ev_contractId :: contract_field
  ev_txHash :: "string option"

text \<open>A decoded topic is a byte array or a value of another type, here by its \<open>String()\<close>.
  The decoders answer None where the SDK throws.\<close>

datatype topic_value = TopicBytes "nat list" | TopicText string

record codec =
  sdk_topic :: "scval \<Rightarrow> topic_value option"
  sdk_native :: "scval \<Rightarrow> json option"

definition hex_digit :: "nat \<Rightarrow> char" where
  "hex_digit n = ''0123456789abcdef'' ! n"

definition hex_string :: "nat list \<Rightarrow> string" where
  "hex_string bytes = concat (map (\<lambda>b. [hex_digit (b div 16), hex_digit (b mod 16)]) bytes)"

fun topic_string :: "topic_value \<Rightarrow> string" where
  "topic_string (TopicBytes bs) = hex_string bs"
| "topic_string (TopicText s) = s"

text \<open>\<open>String(uint8array)\<close>: the bytes in decimal, joined by commas.\<close>

fun topic_name :: "topic_value \<Rightarrow> string" where
  "topic_name (TopicBytes bs) = concat (if bs = [] then [] else dec_nat (hd bs) # map (\<lambda>b. CHR '','' # dec_nat b) (tl bs))"
| "topic_name (TopicText s) = s"

definition attributeDisputer :: "address \<Rightarrow> address \<Rightarrow> address option \<Rightarrow> disputer" where
  "attributeDisputer by_addr userAddress lpWallet =
     (if by_addr = userAddress then ByUser
      else if truthy_str lpWallet \<and> lpWallet = Some by_addr then ByLp
      else ByResolver)"

definition EVENT_STATUS :: "(string \<times> order_status) list" where
  "EVENT_STATUS = [(''trade_created'', FUNDED), (''fiat_paid'', FIAT_PAID), (''released'', RELEASED),
     (''early_released'', RELEASED), (''refunded'', REFUNDED), (''disputed'', DISPUTED)]"

text \<open>The names \<open>in\<close> finds on every object literal besides its own.\<close>

definition OBJECT_PROTOTYPE :: "string list" where
  "OBJECT_PROTOTYPE = [''constructor'', ''__defineGetter__'', ''__defineSetter__'', ''hasOwnProperty'',
     ''__lookupGetter__'', ''__lookupSetter__'', ''isPrototypeOf'', ''propertyIsEnumerable'', ''toString'',
     ''valueOf'', ''__proto__'', ''toLocaleString'']"

definition POST_SETTLE_TERMINAL :: "order_status list" where
  [status_sets]: "POST_SETTLE_TERMINAL = [RELEASED, REFUNDED]"

fun STATUS_BEFORE :: "order_status \<Rightarrow> order_status list" where
  "STATUS_BEFORE FUNDED = [CREATED, MATCHED, AWAITING_ONCHAIN, EXPIRED, CANCELLED]"
| "STATUS_BEFORE FIAT_PAID = [CREATED, MATCHED, AWAITING_ONCHAIN, FUNDED, EXPIRED, CANCELLED]"
| "STATUS_BEFORE DISPUTED = [CREATED, MATCHED, AWAITING_ONCHAIN, FUNDED, FIAT_PAID, EXPIRED, CANCELLED]"
| "STATUS_BEFORE RELEASED = [CREATED, MATCHED, AWAITING_ONCHAIN, FUNDED, FIAT_PAID, DISPUTED, EXPIRED, CANCELLED]"
| "STATUS_BEFORE REFUNDED = [CREATED, MATCHED, AWAITING_ONCHAIN, FUNDED, FIAT_PAID, DISPUTED, EXPIRED, CANCELLED]"
| "STATUS_BEFORE _ = []"

definition LOOKBACK_LEDGERS :: int where "LOOKBACK_LEDGERS = 17280"

definition is_hex :: "char \<Rightarrow> bool" where
  "is_hex c = (is_digit c \<or> (97 \<le> (of_char c :: nat) \<and> (of_char c :: nat) \<le> 102) \<or> (65 \<le> (of_char c :: nat) \<and> (of_char c :: nat) \<le> 70))"

definition settlementHashOf :: "chain_event \<Rightarrow> string option" where
  "settlementHashOf ev =
     (case ev_txHash ev of
        Some h \<Rightarrow> if length h = 64 \<and> list_all is_hex h then Some (map to_lower h) else None
      | None \<Rightarrow> None)"

fun eventContractId :: "contract_field \<Rightarrow> string option" where
  "eventContractId (ContractText c) = Some c"
| "eventContractId (ContractObject c) = Some c"
| "eventContractId ContractAbsent = None"

definition contractIdsToWatch :: "env \<Rightarrow> string list" where
  "contractIdsToWatch env = rev (remdups (rev (cfg_escrowContractId env # cfg_escrowContractIdsExtra env)))"

definition disputeStampFor :: "ms \<Rightarrow> order \<Rightarrow> ms" where
  "disputeStampFor now x =
     (if o_disputeBy x \<noteq> None then (case o_disputeAt x of Some a \<Rightarrow> a | None \<Rightarrow> now) else now)"

section \<open>Writes\<close>

definition backfillSettlementHash :: "env \<Rightarrow> ms \<Rightarrow> order \<Rightarrow> order_status \<Rightarrow> string \<Rightarrow> db \<Rightarrow> db" where
  "backfillSettlementHash env now x target hash d =
     (let guard = (\<lambda>y. o_id y = o_id x \<and> o_status y = target \<and> o_settlementTxHash y = None);
          d1 = upd_orders (update_many guard (\<lambda>y. y\<lparr>o_settlementTxHash := Some hash\<rparr>)) d
      in if count_rows guard (db_orders d) > 0
         then notifyOrderStatus env now (notice_of x) (status_name target) False d1 else d1)"

definition bindTradeToOrder :: "env \<Rightarrow> string \<Rightarrow> order \<Rightarrow> bool outcome" where
  "bindTradeToOrder env contractId x =
     (case rpc_getTradeStatusStrict env contractId (o_tradeId x) of
        Inl e \<Rightarrow> Inl e
      | Inr None \<Rightarrow> Inr False
      | Inr (Some t) \<Rightarrow> Inr (verifyTradeMatchesOrder t x = []))"

text \<open>The columns a settling event writes beside the status.\<close>

definition settling_row :: "ms \<Rightarrow> trade option \<Rightarrow> order_status \<Rightarrow> string option \<Rightarrow> order \<Rightarrow> order" where
  "settling_row now onChain target hash y =
     y\<lparr>o_status := target, o_settledStatus := Some target,
       o_settledAt := Some (case onChain of Some t \<Rightarrow> if t_settledAt t > 0 then t_settledAt t * 1000 else now | None \<Rightarrow> now),
       o_postSettleDeadline := (case Option.bind onChain t_postSettleDeadline of
          Some p \<Rightarrow> if p \<noteq> 0 then Some p else o_postSettleDeadline y | None \<Rightarrow> o_postSettleDeadline y),
       o_settlementTxHash := (case hash of Some h \<Rightarrow> Some h | None \<Rightarrow> o_settlementTxHash y)\<rparr>"

definition event_row :: "ms \<Rightarrow> trade option \<Rightarrow> order_status \<Rightarrow> string option \<Rightarrow> order \<Rightarrow> order" where
  "event_row now onChain target hash y =
     (if settled_status target then settling_row now onChain target hash y else y\<lparr>o_status := target\<rparr>)"

text \<open>A \<open>trade_created\<close>, \<open>fiat_paid\<close>, \<open>released\<close>, \<open>early_released\<close> or
  \<open>refunded\<close> event.\<close>

definition applyStatusEvent :: "env \<Rightarrow> ms \<Rightarrow> string \<Rightarrow> order_status \<Rightarrow> string option \<Rightarrow> order \<Rightarrow> db \<Rightarrow> db \<times> nat" where
  "applyStatusEvent env now contractId target hash x d =
     (let settling = (target = RELEASED \<or> target = REFUNDED) in
      if settling \<and> truthy_str hash \<and> o_status x = target \<and> \<not> truthy_str (o_settlementTxHash x)
      then (backfillSettlementHash env now x target (the hash) d, 0)
      else if o_status x \<in> set (STATUS_BEFORE target) then
        (let guard = (\<lambda>y. o_id y = o_id x \<and> o_status y \<in> set (STATUS_BEFORE target));
             onChain = rpc_getTradeStatus env contractId (o_tradeId x);
             d1 = upd_orders (update_many guard (event_row now onChain target hash)) d
         in if count_rows guard (db_orders d) = 0 then
              (if \<not> settling \<or> \<not> truthy_str hash then (d1, 0)
               else case find_order d1 (o_id x) of
                      Some fresh \<Rightarrow>
                        if o_status fresh = target \<and> \<not> truthy_str (o_settlementTxHash fresh)
                        then (backfillSettlementHash env now fresh target (the hash) d1, 0) else (d1, 0)
                    | None \<Rightarrow> (d1, 0))
            else (notifyOrderStatus env now (notice_of x) (status_name target) False d1, 1))
      else (d, 0))"

definition reconcileDisputeMetadata :: "string \<Rightarrow> string option \<Rightarrow> db \<Rightarrow> db" where
  "reconcileDisputeMetadata orderId by_addr d =
     (if \<not> truthy_str by_addr then d
      else case find_order d orderId of
             None \<Rightarrow> d
           | Some fresh \<Rightarrow>
               (let actualRole = attributeDisputer (the by_addr) (o_userAddress fresh) (o_lpWallet fresh)
                in upd_orders (update_many (\<lambda>y. o_id y = orderId)
                     (\<lambda>y. y\<lparr>o_onChainDisputedBy := by_addr,
                            o_resolverDisputed := (if actualRole = ByResolver then True else o_resolverDisputed y)\<rparr>)) d))"

definition dispute_by :: "codec \<Rightarrow> chain_event \<Rightarrow> string option" where
  "dispute_by sdk ev =
     (case js_prop (sdk_native sdk (ev_value ev)) ''by'' of Some (JStr s) \<Rightarrow> Some s | _ \<Rightarrow> None)"

definition open_dispute :: "env \<Rightarrow> ms \<Rightarrow> order_status list \<Rightarrow> order \<Rightarrow> string option \<Rightarrow> db \<Rightarrow> db \<times> nat" where
  "open_dispute env now from_statuses x by_addr d =
     (let guard = (\<lambda>y. o_id y = o_id x \<and> o_status y \<in> set from_statuses);
          d1 = upd_orders (update_many guard (\<lambda>y. y\<lparr>o_status := DISPUTED, o_disputeAt := Some (disputeStampFor now x)\<rparr>)) d
      in if count_rows guard (db_orders d) = 0 then (d1, 0)
         else (notifyOrderStatus env now (notice_of x) (status_name DISPUTED) False
                 (reconcileDisputeMetadata (o_id x) by_addr d1), 1))"

definition applyDisputedEvent :: "env \<Rightarrow> codec \<Rightarrow> ms \<Rightarrow> chain_event \<Rightarrow> order \<Rightarrow> db \<Rightarrow> db \<times> nat outcome" where
  "applyDisputedEvent env sdk now ev x d =
     (let disputedBy = dispute_by sdk ev in
      if o_status x \<in> set POST_SETTLE_TERMINAL then
        (let contractId = (case eventContractId (ev_contractId ev) of Some c \<Rightarrow> c | None \<Rightarrow> cfg_escrowContractId env)
         in case rpc_getTradeStatusStrict env contractId (o_tradeId x) of
              Inl e \<Rightarrow> (d, Inl e)
            | Inr None \<Rightarrow> (d, Inr 0)
            | Inr (Some t) \<Rightarrow>
                if t_status t \<noteq> DISPUTED then (d, Inr 0)
                else map_prod id Inr (open_dispute env now [RELEASED, REFUNDED] x disputedBy d))
      else map_prod id Inr (open_dispute env now (STATUS_BEFORE DISPUTED) x disputedBy d))"

section \<open>Verdicts\<close>

definition claimEvent :: "ms \<Rightarrow> string \<Rightarrow> db \<Rightarrow> db \<times> bool" where
  "claimEvent now eventId d =
     (d\<lparr>db_events := create_skip (\<lambda>e. Some (e_id e)) \<lparr>e_id = eventId, e_createdAt = now\<rparr> (db_events d)\<rparr>,
      \<not> (\<exists>e \<in> set (db_events d). e_id e = eventId))"

definition recordAudit :: "audit \<Rightarrow> db \<Rightarrow> db" where
  "recordAudit entry d = d\<lparr>db_audits := db_audits d @ [entry]\<rparr>"

definition dispute_columns_of :: "order \<Rightarrow> dispute_columns" where
  "dispute_columns_of x = \<lparr>h_disputeBy = o_disputeBy x, h_disputeReason = o_disputeReason x, h_disputeNote = o_disputeNote x,
     h_disputeEvidenceUrl = o_disputeEvidenceUrl x, h_disputeAt = o_disputeAt x, h_onChainDisputedBy = o_onChainDisputedBy x\<rparr>"

definition round_open :: "order \<Rightarrow> bool" where
  "round_open y = (o_disputeBy y \<noteq> None \<or> o_onChainDisputedBy y \<noteq> None)"

definition close_row :: "ms \<Rightarrow> order \<Rightarrow> order" where
  "close_row now y = y\<lparr>o_disputeBy := None, o_disputeReason := None, o_disputeNote := None, o_onChainDisputedBy := None,
     o_resolverDisputed := False, o_disputeClosedAt := Some now\<rparr>"

definition closeDisputeRound :: "ms \<Rightarrow> string \<Rightarrow> string \<Rightarrow> db \<Rightarrow> db" where
  "closeDisputeRound now orderId contractId d =
     (case find_order d orderId of
        None \<Rightarrow> d
      | Some opn \<Rightarrow>
          if o_disputeBy opn = None \<and> \<not> truthy_str (o_onChainDisputedBy opn) then d
          else
            (let guard = (\<lambda>y. o_id y = orderId \<and> round_open y);
                 d1 = upd_orders (update_many guard (close_row now)) d
             in if count_rows guard (db_orders d) \<noteq> 1 then d1
                else recordAudit \<lparr>a_actorAddress = contractId, a_action = ''order.disputeRoundClosed'', a_targetType = ''Order'',
                       a_targetId = Some orderId, a_before = DisputePayload (dispute_columns_of opn), a_after = NoPayload\<rparr> d1))"


text \<open>The provider's loss.  Updating a provider that is not there throws and undoes the mark.\<close>

definition charge_provider :: "string \<Rightarrow> (db, unit) handler" where
  "charge_provider i d =
     (let fresh = (\<lambda>y. o_id y = i \<and> \<not> o_disputeLossAccrued y);
          d1 = upd_orders (update_many fresh (\<lambda>y. y\<lparr>o_disputeLossAccrued := True\<rparr>)) d
      in if count_rows fresh (db_orders d) = 0 then (d1, Inr ())
         else case Option.bind (find_order d1 i) o_lpId of
                None \<Rightarrow> (d1, Inr ())
              | Some l \<Rightarrow>
                  if l = [] then (d1, Inr ())
                  else case find_lp d1 l of
                         None \<Rightarrow> (d1, Inl (UncaughtError ''P2025''))
                       | Some _ \<Rightarrow> (d1\<lparr>db_lps := update_many (\<lambda>p. lp_id p = l)
                                      (\<lambda>p. p\<lparr>lp_disputesLost := lp_disputesLost p + 1\<rparr>) (db_lps d1)\<rparr>, Inr ()))"

definition accrueDisputeLossIfApplicable :: "order \<Rightarrow> resolution \<Rightarrow> db \<Rightarrow> db" where
  "accrueDisputeLossIfApplicable x r d =
     (if providerLostDispute (o_flow x) r then fst (transaction (charge_provider (o_id x)) d)
      else if \<not> userLostDispute (o_flow x) r then d
      else recordDisputeLost (o_userAddress x) (o_id x) d)"

text \<open>A verdict on a trade that had not settled.\<close>

definition verdict_open :: "order_status \<Rightarrow> order \<Rightarrow> bool" where
  "verdict_open target y = ((o_status y \<in> set (STATUS_BEFORE target) \<or> o_status y = target) \<and> o_resolution y = None)"

definition verdict_row :: "ms \<Rightarrow> trade option \<Rightarrow> order_status \<Rightarrow> resolution \<Rightarrow> string option \<Rightarrow> order \<Rightarrow> order" where
  "verdict_row now onChain target r hash y = (settling_row now onChain target hash y)\<lparr>o_resolution := Some r\<rparr>"

text \<open>A verdict on a dispute raised after settlement.\<close>

definition late_verdict_row :: "ms \<Rightarrow> trade \<Rightarrow> resolution \<Rightarrow> order \<Rightarrow> order" where
  "late_verdict_row now t r y =
     (settling_row now (Some t) (t_status t) None y)\<lparr>o_resolution := Some r,
        o_liabilityEstablished := (if t_liabilityEstablished t \<noteq> None \<and> t_slashDeadline t \<noteq> None
           then the (t_liabilityEstablished t) else o_liabilityEstablished y),
        o_slashDeadline := (if t_liabilityEstablished t \<noteq> None \<and> t_slashDeadline t \<noteq> None
           then t_slashDeadline t else o_slashDeadline y)\<rparr>"

text \<open>The transaction both verdicts run: claim the event, write the order, close the round.\<close>

datatype verdict_result = Replay | Written nat

definition verdict_tx :: "ms \<Rightarrow> string \<Rightarrow> string \<Rightarrow> string \<Rightarrow> (order \<Rightarrow> bool) \<Rightarrow> (order \<Rightarrow> order) \<Rightarrow> db \<Rightarrow> db \<times> verdict_result" where
  "verdict_tx now eventId i contractId guard f d =
     (let (d1, claimed) = claimEvent now eventId d in
      if \<not> claimed then (d1, Replay)
      else let sel = (\<lambda>y. o_id y = i \<and> guard y);
               n = count_rows sel (db_orders d1);
               d2 = upd_orders (update_many sel f) d1
           in (if n > 0 then closeDisputeRound now i contractId d2 else d2, Written n))"

definition conclude_verdict :: "env \<Rightarrow> ms \<Rightarrow> order \<Rightarrow> resolution \<Rightarrow> order_status \<Rightarrow> db \<times> verdict_result \<Rightarrow> db \<times> nat" where
  "conclude_verdict env now x r final res =
     (case res of
        (d, Replay) \<Rightarrow> (d, 0)
      | (d, Written n) \<Rightarrow>
          if n = 0 then (d, 0)
          else (notifyOrderStatus env now (notice_of x) (status_name final) False (accrueDisputeLossIfApplicable x r d), 1))"

text \<open>The decoded value: what was decided, and whether it was a dispute after settlement.\<close>

definition verdict_of :: "codec \<Rightarrow> chain_event \<Rightarrow> (bool \<times> bool) option" where
  "verdict_of sdk ev =
     (let val = sdk_native sdk (ev_value ev) in
      case js_prop val ''released'' of
        Some (JsonBool released) \<Rightarrow> Some (released, js_prop val ''post_settle'' = Some (JsonBool True))
      | _ \<Rightarrow> None)"

definition applyResolvedEvent :: "env \<Rightarrow> codec \<Rightarrow> ms \<Rightarrow> chain_event \<Rightarrow> order \<Rightarrow> db \<Rightarrow> db \<times> nat outcome" where
  "applyResolvedEvent env sdk now ev x d =
     (if \<not> truthy_str (ev_id ev) then (d, Inl (UncaughtError ''resolver verdict arrived without an RPC event id''))
      else let eventId = the (ev_id ev);
               contractId = (case eventContractId (ev_contractId ev) of Some c \<Rightarrow> c | None \<Rightarrow> cfg_escrowContractId env)
           in case verdict_of sdk ev of
                None \<Rightarrow> (d, Inr 0)
              | Some (released, postSettle) \<Rightarrow>
                  (let r = (if released then Released else Refunded) in
                   if \<not> postSettle then
                     (let target = (if released then RELEASED else REFUNDED);
                          onChain = rpc_getTradeStatus env contractId (o_tradeId x)
                      in map_prod id Inr (conclude_verdict env now x r target
                           (verdict_tx now eventId (o_id x) contractId (verdict_open target)
                              (verdict_row now onChain target r (settlementHashOf ev)) d)))
                   else case rpc_getTradeStatusStrict env contractId (o_tradeId x) of
                          Inl e \<Rightarrow> (d, Inl e)
                        | Inr None \<Rightarrow> (d, Inr 0)
                        | Inr (Some t) \<Rightarrow>
                            if t_status t \<notin> set POST_SETTLE_TERMINAL then (fst (claimEvent now eventId d), Inr 0)
                            else map_prod id Inr (conclude_verdict env now x r (t_status t)
                                   (verdict_tx now eventId (o_id x) contractId (\<lambda>_. True) (late_verdict_row now t r) d))))"

section \<open>One event\<close>

definition bound :: "env \<Rightarrow> string \<Rightarrow> order \<Rightarrow> bool outcome" where
  "bound env contractId x = (if notYetBoundOnChain (o_status x) then bindTradeToOrder env contractId x else Inr True)"

definition dispatch :: "env \<Rightarrow> codec \<Rightarrow> ms \<Rightarrow> string \<Rightarrow> string \<Rightarrow> chain_event \<Rightarrow> order \<Rightarrow> db \<Rightarrow> db \<times> nat outcome" where
  "dispatch env sdk now contractId name ev x d =
     (if name = ''resolved'' then applyResolvedEvent env sdk now ev x d
      else if name = ''disputed'' then applyDisputedEvent env sdk now ev x d
      else case map_of EVENT_STATUS name of
             Some target \<Rightarrow> map_prod id Inr (applyStatusEvent env now contractId target (settlementHashOf ev) x d)
           | None \<Rightarrow> (d, Inl (UncaughtError ''TypeError'')))"

text \<open>What \<open>applyEvent\<close> does once the order was read: the checks and the write.\<close>

definition apply_to :: "env \<Rightarrow> codec \<Rightarrow> ms \<Rightarrow> string \<Rightarrow> chain_event \<Rightarrow> order \<Rightarrow> db \<Rightarrow> db \<times> nat outcome" where
  "apply_to env sdk now name ev x d =
     (case eventContractId (ev_contractId ev) of
        None \<Rightarrow> (d, Inr 0)
      | Some evContractId \<Rightarrow>
          if evContractId = [] \<or> evContractId \<noteq> contractIdFor x (cfg_escrowContractId env) then (d, Inr 0)
          else case bound env evContractId x of
                 Inl e \<Rightarrow> (d, Inl e)
               | Inr False \<Rightarrow> (d, Inr 0)
               | Inr True \<Rightarrow> dispatch env sdk now evContractId name ev x d)"

definition event_names :: "codec \<Rightarrow> chain_event \<Rightarrow> (string \<times> string) option" where
  "event_names sdk ev =
     (case ev_topic ev of
        Some (t0 # t1 # _) \<Rightarrow>
          (case (sdk_topic sdk t0, sdk_topic sdk t1) of
             (Some n, Some tid) \<Rightarrow> Some (topic_name n, topic_string tid)
           | _ \<Rightarrow> None)
      | _ \<Rightarrow> None)"

definition known_event :: "string \<Rightarrow> bool" where
  "known_event name = (name \<in> fst ` set EVENT_STATUS \<or> name \<in> set OBJECT_PROTOTYPE \<or> name = ''resolved'')"

definition find_by_trade :: "db \<Rightarrow> string \<Rightarrow> order option" where
  "find_by_trade d tradeId = find_row o_tradeId tradeId (db_orders d)"

definition applyEvent :: "env \<Rightarrow> codec \<Rightarrow> ms \<Rightarrow> (db \<Rightarrow> db) \<Rightarrow> chain_event \<Rightarrow> db \<Rightarrow> db \<times> nat outcome" where
  "applyEvent env sdk now meanwhile ev d =
     (case event_names sdk ev of
        None \<Rightarrow> (d, Inr 0)
      | Some (name, tradeId) \<Rightarrow>
          if \<not> known_event name then (d, Inr 0)
          else case find_by_trade d tradeId of
                 None \<Rightarrow> (d, Inr 0)
               | Some x \<Rightarrow> apply_to env sdk now name ev x (meanwhile d))"

section \<open>The poll\<close>

datatype rpc_error = RpcError "int option" "string option"

datatype feed_from = FromCursor string | FromLedger int

record feed =
  rpc_getEvents :: "string list \<Rightarrow> feed_from \<Rightarrow> rpc_error + chain_event list \<times> string"
  rpc_latestLedger :: "rpc_error + int"

fun contains_ci :: "string \<Rightarrow> string \<Rightarrow> bool" where
  "contains_ci needle [] = (needle = [])"
| "contains_ci needle (c # s) = (map to_lower (take (length needle) (c # s)) = needle \<or> contains_ci needle s)"

fun isRetentionError :: "rpc_error \<Rightarrow> bool" where
  "isRetentionError (RpcError code message) =
     (code = Some (- 32600) \<and> (case message of Some m \<Rightarrow> contains_ci ''ledger range'' m | None \<Rightarrow> False))"

definition coldStart :: "feed \<Rightarrow> rpc_error + int" where
  "coldStart rpc = (case rpc_latestLedger rpc of Inl e \<Rightarrow> Inl e | Inr n \<Rightarrow> Inr (max 1 (n - LOOKBACK_LEDGERS)))"

definition cold_events :: "env \<Rightarrow> feed \<Rightarrow> rpc_error + chain_event list \<times> string" where
  "cold_events env rpc = (case coldStart rpc of Inl e \<Rightarrow> Inl e
     | Inr start \<Rightarrow> rpc_getEvents rpc (contractIdsToWatch env) (FromLedger start))"

definition fetch_events :: "env \<Rightarrow> feed \<Rightarrow> string option \<Rightarrow> rpc_error + chain_event list \<times> string" where
  "fetch_events env rpc cursor =
     (if truthy_str cursor then
        (case rpc_getEvents rpc (contractIdsToWatch env) (FromCursor (the cursor)) of
           Inr res \<Rightarrow> Inr res
         | Inl e \<Rightarrow> if \<not> isRetentionError e then Inl e else cold_events env rpc)
      else cold_events env rpc)"

text \<open>The loop over the events of one answer stops at the first that throws.\<close>

fun apply_all :: "(chain_event \<Rightarrow> db \<Rightarrow> db \<times> nat outcome) \<Rightarrow> chain_event list \<Rightarrow> db \<Rightarrow> db \<times> nat outcome" where
  "apply_all f [] d = (d, Inr 0)"
| "apply_all f (ev # evs) d =
     (case f ev d of
        (d1, Inl e) \<Rightarrow> (d1, Inl e)
      | (d1, Inr n) \<Rightarrow> (case apply_all f evs d1 of (d2, Inl e) \<Rightarrow> (d2, Inl e) | (d2, Inr m) \<Rightarrow> (d2, Inr (n + m))))"

text \<open>One poll.  An error of the fetch or of an event ends it with the cursor where it was.\<close>

definition index_events :: "env \<Rightarrow> codec \<Rightarrow> feed \<Rightarrow> ms \<Rightarrow> (chain_event \<Rightarrow> db \<Rightarrow> db) \<Rightarrow> db \<Rightarrow> db" where
  "index_events env sdk rpc now meanwhile d =
     (case fetch_events env rpc (db_cursor d) of
        Inl e \<Rightarrow> d
      | Inr (evs, cursor) \<Rightarrow>
          (case apply_all (\<lambda>ev. applyEvent env sdk now (meanwhile ev) ev) evs d of
             (d1, Inl e) \<Rightarrow> d1
           | (d1, Inr n) \<Rightarrow> d1\<lparr>db_cursor := Some cursor\<rparr>))"

definition poll :: "bool \<Rightarrow> env \<Rightarrow> codec \<Rightarrow> feed \<Rightarrow> ms \<Rightarrow> (chain_event \<Rightarrow> db \<Rightarrow> db) \<Rightarrow> db \<Rightarrow> db" where
  "poll running env sdk rpc now meanwhile d = (if running then d else index_events env sdk rpc now meanwhile d)"

section \<open>Properties\<close>

lemma order_key_simps [simp]:
  "order_key (settling_row now t target hash y) = order_key y"
  "order_key (event_row now t target hash y) = order_key y"
  "order_key (verdict_row now t target r hash y) = order_key y"
  "order_key (late_verdict_row now tr r y) = order_key y"
  "order_key (close_row now y) = order_key y"
  by (simp_all add: order_key_def settling_row_def event_row_def verdict_row_def late_verdict_row_def close_row_def)

lemma indexer_rows_kept:
  "row_kept y (settling_row now t target hash y)" "row_kept y (event_row now t target hash y)"
  "row_kept y (verdict_row now t target r hash y)" "row_kept y (late_verdict_row now tr r y)" "row_kept y (close_row now y)"
  by (simp_all add: row_kept_def) (simp_all add: settling_row_def event_row_def verdict_row_def late_verdict_row_def close_row_def)

lemma settling_row_ok: "order_ok y \<Longrightarrow> order_ok (settling_row now t target hash y)"
  by (simp add: order_ok_def settling_row_def)

lemma event_row_ok: "order_ok y \<Longrightarrow> order_ok (event_row now t target hash y)"
  by (auto simp: event_row_def settling_row_ok) (simp add: order_ok_def)

lemma verdict_row_ok: "order_ok y \<Longrightarrow> order_ok (verdict_row now t target r hash y)"
  using settling_row_ok [of y] by (simp add: verdict_row_def order_ok_def)

lemma late_verdict_row_ok: "order_ok y \<Longrightarrow> order_ok (late_verdict_row now tr r y)"
  using settling_row_ok [of y] by (simp add: late_verdict_row_def order_ok_def)

lemma close_row_ok: "order_ok y \<Longrightarrow> order_ok (close_row now y)"
  by (simp add: order_ok_def close_row_def)

text \<open>Every write of the indexer is a step of the order table.\<close>

lemma notify_step: "order_step d (notifyOrderStatus env now x status pen d)"
  by (rule order_step_frame) simp

lemma backfill_step: "order_step d (backfillSettlementHash env now x target hash d)"
proof -
  have "order_step d (upd_orders (update_many p (\<lambda>y. y\<lparr>o_settlementTxHash := Some hash\<rparr>)) d)" for p
    by (rule order_step_update) (simp_all add: row_kept_def order_key_def order_ok_def)
  then show ?thesis unfolding backfillSettlementHash_def Let_def
    using order_step_trans [OF _ notify_step] by (auto split: if_splits)
qed

lemma status_event_step: "order_step d (fst (applyStatusEvent env now c target hash x d))"
proof -
  have "order_step d (upd_orders (update_many p (event_row now t target hash)) d)" for p t
    by (rule order_step_update) (simp_all add: indexer_rows_kept event_row_ok)
  then show ?thesis unfolding applyStatusEvent_def Let_def
    using order_step_trans [OF _ notify_step] order_step_trans [OF _ backfill_step] backfill_step
    by (auto split: if_splits option.splits)
qed

lemma reconcile_step: "order_step d (reconcileDisputeMetadata i by_addr d)"
proof -
  have "order_step d (upd_orders (update_many p (\<lambda>y. y\<lparr>o_onChainDisputedBy := by_addr,
          o_resolverDisputed := (if r = ByResolver then True else o_resolverDisputed y)\<rparr>)) d)" for p r
    by (rule order_step_update) (simp_all add: row_kept_def order_key_def order_ok_def)
  then show ?thesis unfolding reconcileDisputeMetadata_def Let_def by (simp split: option.splits)
qed

lemma open_dispute_step: "order_step d (fst (open_dispute env now from x by_addr d))"
proof -
  have "order_step d (upd_orders (update_many p (\<lambda>y. y\<lparr>o_status := DISPUTED, o_disputeAt := Some a\<rparr>)) d)" for p a
    by (rule order_step_update) (simp_all add: row_kept_def order_key_def order_ok_def settled_status_def)
  then show ?thesis unfolding open_dispute_def Let_def
    using order_step_trans [OF order_step_trans [OF _ reconcile_step] notify_step] by auto
qed

lemma disputed_step: "order_step d (fst (applyDisputedEvent env sdk now ev x d))"
  unfolding applyDisputedEvent_def Let_def using open_dispute_step
  by (auto split: sum.splits option.splits)

lemma claimEvent_step: "order_step d (fst (claimEvent now i d))"
  by (rule order_step_frame) (simp add: claimEvent_def)

text \<open>A step followed by a write of another table.\<close>

lemma order_step_then_frame: "order_step d d1 \<Longrightarrow> db_orders d2 = db_orders d1 \<Longrightarrow> order_step d d2"
  using order_step_trans order_step_frame by blast

lemma recordAudit_orders [simp]: "db_orders (recordAudit a d) = db_orders d"
  by (simp add: recordAudit_def)

lemma close_round_step: "order_step d (closeDisputeRound now i c d)"
proof -
  have u: "order_step d (upd_orders (update_many p (close_row now)) d)" for p
    by (rule order_step_update) (simp_all add: indexer_rows_kept close_row_ok)
  have "order_step d (recordAudit a (upd_orders (update_many p (close_row now)) d))" for a p
    by (rule order_step_then_frame [OF u]) simp
  with u show ?thesis unfolding closeDisputeRound_def Let_def by (simp split: option.split)
qed

lemma accrual_step: "order_step d (upd_orders (update_many p (\<lambda>y. y\<lparr>o_disputeLossAccrued := True\<rparr>)) d)"
  by (rule order_step_update) (simp_all add: row_kept_def order_key_def order_ok_def)

lemma loss_step: "order_step d (recordDisputeLost a i d)"
proof -
  have "order_step d (upsert_profile a f n (upd_orders (update_many p (\<lambda>y. y\<lparr>o_disputeLossAccrued := True\<rparr>)) d))" for p f n
    by (rule order_step_then_frame [OF accrual_step]) simp
  then show ?thesis unfolding recordDisputeLost_def Let_def by (simp add: accrual_step)
qed

lemma charge_provider_step: "order_step d (fst (charge_provider i d))"
proof -
  have "order_step d ((upd_orders (update_many p (\<lambda>y. y\<lparr>o_disputeLossAccrued := True\<rparr>)) d)\<lparr>db_lps := t\<rparr>)" for p t
    by (rule order_step_then_frame [OF accrual_step]) simp
  then show ?thesis unfolding charge_provider_def Let_def by (simp add: accrual_step split: option.split)
qed

lemma accrue_step: "order_step d (accrueDisputeLossIfApplicable x r d)"
  unfolding accrueDisputeLossIfApplicable_def
  using fst_transaction [of "order_step d" d "charge_provider (o_id x)"] charge_provider_step [of d "o_id x"] loss_step by auto

lemma verdict_tx_step:
  assumes "\<And>y. row_kept y (f y)" "\<And>y. order_ok y \<Longrightarrow> order_ok (f y)"
  shows "order_step d (fst (verdict_tx now e i c g f d))"
proof -
  let ?d1 = "fst (claimEvent now e d)"
  have u: "order_step ?d1 (upd_orders (update_many p f) ?d1)" for p using assms by (intro order_step_update)
  note one = order_step_trans [OF claimEvent_step u]
  show ?thesis unfolding verdict_tx_def Let_def split_beta
    using claimEvent_step one order_step_trans [OF one close_round_step] by auto
qed

lemma conclude_step: "order_step d (fst res) \<Longrightarrow> order_step d (fst (conclude_verdict env now x r final res))"
  unfolding conclude_verdict_def
  using order_step_trans [OF order_step_trans [OF _ accrue_step] notify_step]
  by (cases res) (auto split: verdict_result.splits)

text \<open>The ways a verdict event can end.\<close>

lemma resolved_cases:
  fixes env sdk now ev x d
  defines "d' \<equiv> fst (applyResolvedEvent env sdk now ev x d)"
  defines "c \<equiv> (case eventContractId (ev_contractId ev) of Some c \<Rightarrow> c | None \<Rightarrow> cfg_escrowContractId env)"
  obtains (unchanged) "d' = d"
  | (claimed) "d' = fst (claimEvent now (the (ev_id ev)) d)"
  | (early) r target t where "settled_status target"
      "d' = fst (conclude_verdict env now x r target (verdict_tx now (the (ev_id ev)) (o_id x) c (verdict_open target)
              (verdict_row now t target r (settlementHashOf ev)) d))"
  | (late) r t where "rpc_getTradeStatusStrict env c (o_tradeId x) = Inr (Some t)" "settled_status (t_status t)"
      "d' = fst (conclude_verdict env now x r (t_status t) (verdict_tx now (the (ev_id ev)) (o_id x) c (\<lambda>_. True)
              (late_verdict_row now t r) d))"
proof -
  have s: "settled_status (if b then RELEASED else REFUNDED)" for b by (simp add: settled_status_def)
  show thesis
  proof (cases "truthy_str (ev_id ev)")
    case True
    show thesis
    proof (cases "verdict_of sdk ev")
      case (Some v)
      obtain released postSettle where v: "v = (released, postSettle)" by (cases v)
      show thesis
      proof (cases postSettle)
        case False
        then show thesis using Some v True s [of released] unfolding d'_def c_def
          by (intro early [of "if released then RELEASED else REFUNDED"]) (simp_all add: applyResolvedEvent_def Let_def d'_def c_def)
      next
        case post: True
        show thesis
        proof (cases "rpc_getTradeStatusStrict env c (o_tradeId x)")
          case (Inl e)
          then show thesis using Some v True post by (intro unchanged) (simp add: applyResolvedEvent_def Let_def d'_def c_def)
        next
          case (Inr seen)
          show thesis
          proof (cases "\<exists>t. seen = Some t \<and> settled_status (t_status t)")
            case settled: True
            then obtain t where t: "seen = Some t" "settled_status (t_status t)" by blast
            then have "t_status t \<in> set POST_SETTLE_TERMINAL" by (auto simp: POST_SETTLE_TERMINAL_def settled_status_def)
            then show thesis using Some v True post Inr t
              by (intro late [of t "if released then Released else Refunded"]) (simp_all add: applyResolvedEvent_def Let_def d'_def c_def)
          next
            case False
            then have "t_status t \<notin> set POST_SETTLE_TERMINAL" if "seen = Some t" for t
              using that by (auto simp: POST_SETTLE_TERMINAL_def settled_status_def)
            then show thesis using Some v True post Inr unchanged claimed
              by (cases seen) (simp_all add: applyResolvedEvent_def Let_def d'_def c_def)
          qed
        qed
      qed
    qed (use True in \<open>auto simp: applyResolvedEvent_def d'_def intro: unchanged\<close>)
  qed (auto simp: applyResolvedEvent_def d'_def intro: unchanged)
qed

lemma resolved_step: "order_step d (fst (applyResolvedEvent env sdk now ev x d))"
proof (cases rule: resolved_cases [of env sdk now ev x d])
  case (early r target t)
  then show ?thesis by (simp add: conclude_step verdict_tx_step verdict_row_ok indexer_rows_kept)
next
  case (late r t)
  then show ?thesis by (simp add: conclude_step verdict_tx_step late_verdict_row_ok indexer_rows_kept)
qed (simp_all add: claimEvent_step)

lemma dispatch_step: "order_step d (fst (dispatch env sdk now c name ev x d))"
  unfolding dispatch_def using resolved_step disputed_step status_event_step by (simp split: option.split)

lemma apply_to_step: "order_step d (fst (apply_to env sdk now name ev x d))"
  unfolding apply_to_def using dispatch_step by (auto split: option.splits sum.splits bool.splits)

interpretation indexer: order_writer "\<lambda>(env, sdk, now, name, ev, x) d. fst (apply_to env sdk now name ev x d)"
  by (rule order_writerI) (auto simp: apply_to_step split: prod.splits)

subsection \<open>A verdict is applied once\<close>

lemma upsert_profile_events [simp]: "db_events (upsert_profile a f i d) = db_events d"
  by (simp add: upsert_profile_def)

lemma recordDisputeLost_events [simp]: "db_events (recordDisputeLost a i d) = db_events d"
  by (simp add: recordDisputeLost_def Let_def)

lemma accrue_events [simp]: "db_events (accrueDisputeLossIfApplicable x r d) = db_events d"
proof -
  have "db_events (fst (charge_provider i d)) = db_events d" for i
    by (simp add: charge_provider_def Let_def split: option.split)
  then show ?thesis using fst_transaction [of "\<lambda>d'. db_events d' = db_events d" d "charge_provider (o_id x)"]
    by (simp add: accrueDisputeLossIfApplicable_def)
qed

lemma close_round_events [simp]: "db_events (closeDisputeRound now i c d) = db_events d"
  by (simp add: closeDisputeRound_def Let_def recordAudit_def split: option.split)

lemma claimEvent_claims: "i \<in> e_id ` set (db_events (fst (claimEvent now i d)))"
  by (force simp: claimEvent_def create_skip_def create_unique_def)

lemma claimEvent_again: "i \<in> e_id ` set (db_events d) \<Longrightarrow> claimEvent now i d = (d, False)"
  by (auto simp: claimEvent_def create_skip_def create_unique_def image_iff)

lemma verdict_tx_again: "e \<in> e_id ` set (db_events d) \<Longrightarrow> verdict_tx now e i c g f d = (d, Replay)"
  by (simp add: verdict_tx_def claimEvent_again)

lemma verdict_tx_claims: "e \<in> e_id ` set (db_events (fst (verdict_tx now e i c g f d)))"
  using claimEvent_claims [of e now d] by (cases "claimEvent now e d") (auto simp: verdict_tx_def Let_def)

lemma conclude_claims: "db_events (fst (conclude_verdict env now x r final res)) = db_events (fst res)"
  by (auto simp: conclude_verdict_def split: prod.split verdict_result.split)

lemma resolved_again:
  assumes "ev_id ev = Some e" "e \<in> e_id ` set (db_events d)"
  shows "fst (applyResolvedEvent env sdk now ev x d) = d"
  by (cases rule: resolved_cases [of env sdk now ev x d])
    (simp_all add: assms verdict_tx_again claimEvent_again conclude_verdict_def)

lemma resolved_claims:
  assumes "ev_id ev = Some e"
  shows "fst (applyResolvedEvent env sdk now ev x d) = d \<or> e \<in> e_id ` set (db_events (fst (applyResolvedEvent env sdk now ev x d)))"
  by (cases rule: resolved_cases [of env sdk now ev x d])
    (simp_all add: assms conclude_claims verdict_tx_claims claimEvent_claims)

lemma apply_resolved_cases:
  "fst (apply_to env sdk now ''resolved'' ev x d) = d \<or>
   fst (apply_to env sdk now ''resolved'' ev x d) = fst (applyResolvedEvent env sdk now ev x d)"
  by (simp add: apply_to_def dispatch_def split: option.split sum.split bool.split)

text \<open>C18 (applyEvent, applyResolvedEvent, claimEvent): a resolver's verdict takes effect once.  If applying the
  event changed anything, then every later delivery of it leaves the database as the other requests
  made it: in any poll, at any time, whatever the chain answers then, whatever the order's row has
  become and whatever other requests do meanwhile, as long as the record of processed events is
  kept.\<close>

theorem verdict_applied_once:
  assumes "event_names sdk ev = Some (''resolved'', tid)" "ev_id ev = Some e"
    and "fst (applyEvent env sdk now id ev d) \<noteq> d"
    and "set (db_events (fst (applyEvent env sdk now id ev d))) \<subseteq> set (db_events (meanwhile d'))"
  shows "fst (applyEvent env' sdk now' meanwhile ev d') \<in> {d', meanwhile d'}"
proof -
  have "known_event ''resolved''" by (simp add: known_event_def)
  then obtain x where x: "find_by_trade d tid = Some x"
      "fst (applyEvent env sdk now id ev d) = fst (apply_to env sdk now ''resolved'' ev x d)"
    using assms(1,3) by (auto simp: applyEvent_def split: option.splits)
  then have "fst (applyEvent env sdk now id ev d) = fst (applyResolvedEvent env sdk now ev x d)"
    using apply_resolved_cases [of env sdk now ev x d] assms(3) by auto
  then have "e \<in> e_id ` set (db_events (meanwhile d'))"
    using resolved_claims [OF assms(2), of env sdk now x d] assms(3,4) by auto
  then have "fst (apply_to env' sdk now' ''resolved'' ev y (meanwhile d')) = meanwhile d'" for y
    using apply_resolved_cases [of env' sdk now' ev y "meanwhile d'"] resolved_again [OF assms(2)] by auto
  then show ?thesis using assms(1) by (simp add: applyEvent_def split: option.split)
qed

subsection \<open>What moves an order\<close>

text \<open>Row by row, a write keeps the identifiers and changes no status but that of order \<open>i\<close>,
  and that only as \<open>P\<close> allows.\<close>

definition status_moves :: "string \<Rightarrow> (order_status \<Rightarrow> order_status \<Rightarrow> bool) \<Rightarrow> db \<Rightarrow> db \<Rightarrow> bool" where
  "status_moves i P d d' = list_all2 (\<lambda>y y'. o_id y' = o_id y \<and>
     (o_status y' = o_status y \<or> o_id y = i \<and> P (o_status y) (o_status y'))) (db_orders d) (db_orders d')"

abbreviation no_move :: "order_status \<Rightarrow> order_status \<Rightarrow> bool" where
  "no_move \<equiv> \<lambda>_ _. False"

lemma status_moves_frame: "db_orders d' = db_orders d \<Longrightarrow> status_moves i P d d'"
  by (simp add: status_moves_def list.rel_refl)

lemma status_moves_update:
  assumes "\<And>y. o_id (f y) = o_id y"
    and "\<And>y. p y \<Longrightarrow> o_status (f y) = o_status y \<or> o_id y = i \<and> P (o_status y) (o_status (f y))"
  shows "status_moves i P d (upd_orders (update_many p f) d)"
  using assms by (auto simp: status_moves_def update_many_def list_all2_map2 intro!: list.rel_refl)

lemma status_moves_then:
  assumes "status_moves i P d d1" "status_moves i no_move d1 d2"
  shows "status_moves i P d d2"
  unfolding status_moves_def
  by (rule list_all2_trans [OF _ assms(1) [unfolded status_moves_def] assms(2) [unfolded status_moves_def]]) auto

lemma status_moves_weaken: "status_moves i P d d' \<Longrightarrow> (\<And>s s'. P s s' \<Longrightarrow> Q s s') \<Longrightarrow> status_moves i Q d d'"
  unfolding status_moves_def by (erule list_all2_mono) auto

lemma status_moves_found:
  assumes "status_moves i P d d'" "find_order d j = Some y" "find_order d' j = Some y'" "o_status y' \<noteq> o_status y"
  shows "j = i \<and> P (o_status y) (o_status y')"
proof -
  have "rel_option (\<lambda>y y'. o_status y' = o_status y \<or> o_id y = i \<and> P (o_status y) (o_status y')) (find_row o_id j t) (find_row o_id j t')"
    if "list_all2 (\<lambda>y y'. o_id y' = o_id y \<and> (o_status y' = o_status y \<or> o_id y = i \<and> P (o_status y) (o_status y'))) t t'" for t t'
    using that by induction (auto simp: find_row_def)
  from this [OF assms(1) [unfolded status_moves_def]] show ?thesis
    using assms(2,3,4) find_order_Some [OF assms(2)] by (auto simp: find_order_def)
qed

lemma status_moves_other_tables [simp]:
  "status_moves i P d (notifyOrderStatus env now n m b d1) = status_moves i P d d1"
  "status_moves i P d (recordAudit a d1) = status_moves i P d d1"
  "status_moves i P d (upsert_profile u f k d1) = status_moves i P d d1"
  "status_moves i P d (d1\<lparr>db_lps := t\<rparr>) = status_moves i P d d1"
  "status_moves i P (d\<lparr>db_events := es\<rparr>) d1 = status_moves i P d d1"
  "status_moves i P d (d1\<lparr>db_events := es\<rparr>) = status_moves i P d d1"
  by (simp_all add: status_moves_def)

lemma backfill_no_move: "status_moves i P d (backfillSettlementHash env now x target hash d)"
proof -
  have "status_moves i P d (upd_orders (update_many p (\<lambda>y. y\<lparr>o_settlementTxHash := Some hash\<rparr>)) d)" for p
    by (rule status_moves_update) simp_all
  then show ?thesis unfolding backfillSettlementHash_def Let_def by simp
qed

lemma status_event_moves:
  "status_moves (o_id x) (\<lambda>s s'. s' = target \<and> s \<in> set (STATUS_BEFORE target)) d (fst (applyStatusEvent env now c target hash x d))"
proof -
  let ?P = "\<lambda>s s'. s' = target \<and> s \<in> set (STATUS_BEFORE target)"
  let ?u = "\<lambda>t. upd_orders (update_many (\<lambda>y. o_id y = o_id x \<and> o_status y \<in> set (STATUS_BEFORE target)) (event_row now t target hash)) d"
  have u: "status_moves (o_id x) ?P d (?u t)" for t
    by (rule status_moves_update) (simp_all add: event_row_def settling_row_def)
  have "status_moves (o_id x) ?P d (backfillSettlementHash env now fr target h (?u t))" for fr h t
    by (rule status_moves_then [OF u backfill_no_move])
  then show ?thesis unfolding applyStatusEvent_def Let_def
    using u backfill_no_move by (auto simp: status_moves_frame split: option.split)
qed

lemma reconcile_no_move: "status_moves i P d (reconcileDisputeMetadata j by_addr d)"
proof -
  have "status_moves i P d (upd_orders (update_many p (\<lambda>y. y\<lparr>o_onChainDisputedBy := by_addr,
          o_resolverDisputed := (if r = ByResolver then True else o_resolverDisputed y)\<rparr>)) d)" for p r
    by (rule status_moves_update) simp_all
  then show ?thesis unfolding reconcileDisputeMetadata_def Let_def by (simp add: status_moves_frame split: option.split)
qed

lemma open_dispute_moves:
  "status_moves (o_id x) (\<lambda>s s'. s' = DISPUTED \<and> s \<in> set from) d (fst (open_dispute env now from x by_addr d))"
proof -
  let ?P = "\<lambda>s s'. s' = DISPUTED \<and> s \<in> set from"
  let ?u = "upd_orders (update_many (\<lambda>y. o_id y = o_id x \<and> o_status y \<in> set from)
              (\<lambda>y. y\<lparr>o_status := DISPUTED, o_disputeAt := Some (disputeStampFor now x)\<rparr>)) d"
  have u: "status_moves (o_id x) ?P d ?u" by (rule status_moves_update) simp_all
  have "status_moves (o_id x) ?P d (reconcileDisputeMetadata j by_addr ?u)" for j
    by (rule status_moves_then [OF u reconcile_no_move])
  with u show ?thesis unfolding open_dispute_def Let_def by simp
qed

lemma close_round_no_move: "status_moves i P d (closeDisputeRound now j c d)"
proof -
  have "status_moves i P d (upd_orders (update_many p (close_row now)) d)" for p
    by (rule status_moves_update) (simp_all add: close_row_def)
  then show ?thesis unfolding closeDisputeRound_def Let_def by (simp add: status_moves_frame split: option.split)
qed

lemma accrue_no_move: "status_moves i P d (accrueDisputeLossIfApplicable x r d)"
proof -
  have u: "status_moves i P d (upd_orders (update_many p (\<lambda>y. y\<lparr>o_disputeLossAccrued := True\<rparr>)) d)" for p
    by (rule status_moves_update) simp_all
  then have "status_moves i P d (fst (charge_provider j d))" for j
    unfolding charge_provider_def Let_def by (simp split: option.split)
  then have "status_moves i P d (fst (transaction (charge_provider j) d))" for j
    using status_moves_frame [of d d] fst_transaction [of "status_moves i P d" d "charge_provider j"] by simp
  with u show ?thesis
    using status_moves_frame [of d d]
    unfolding accrueDisputeLossIfApplicable_def recordDisputeLost_def Let_def by simp
qed

lemma verdict_tx_moves:
  assumes "\<And>y. o_id (f y) = o_id y" "\<And>y. g y \<Longrightarrow> P (o_status y) (o_status (f y))"
  shows "status_moves i P d (fst (verdict_tx now e i c g f d))"
proof -
  let ?d1 = "fst (claimEvent now e d)"
  let ?u = "upd_orders (update_many (\<lambda>y. o_id y = i \<and> g y) f) ?d1"
  have u: "status_moves i P ?d1 ?u" using assms by (intro status_moves_update) auto
  have "status_moves i P ?d1 (closeDisputeRound now i c ?u)" by (rule status_moves_then [OF u close_round_no_move])
  then have "status_moves i P ?d1 (fst (verdict_tx now e i c g f d))"
    using u unfolding verdict_tx_def Let_def split_beta
    using status_moves_frame [of ?d1 ?d1] by simp
  then show ?thesis by (simp add: claimEvent_def)
qed

lemma conclude_moves: "status_moves i P d (fst res) \<Longrightarrow> status_moves i P d (fst (conclude_verdict env now x r final res))"
  unfolding conclude_verdict_def using status_moves_then [OF _ accrue_no_move]
  by (cases res) (auto split: verdict_result.split)

text \<open>The statuses a verdict may move an order between, given what the chain reports of a settled trade.\<close>

definition verdict_move :: "trade option outcome \<Rightarrow> order_status \<Rightarrow> order_status \<Rightarrow> bool" where
  "verdict_move seen s s' =
     (settled_status s' \<and> (s \<in> set (STATUS_BEFORE s') \<or> s = s' \<or> (\<exists>t. seen = Inr (Some t) \<and> s' = t_status t)))"

lemma resolved_moves:
  assumes "eventContractId (ev_contractId ev) = Some c"
  shows "status_moves (o_id x) (verdict_move (rpc_getTradeStatusStrict env c (o_tradeId x))) d
           (fst (applyResolvedEvent env sdk now ev x d))"
proof (cases rule: resolved_cases [of env sdk now ev x d])
  case (early r target t)
  have "verdict_open target y \<Longrightarrow> verdict_move seen (o_status y) target" for y seen
    using early(1) by (auto simp: verdict_open_def verdict_move_def)
  then show ?thesis using early(2) assms
    by (simp add: conclude_moves verdict_tx_moves verdict_row_def settling_row_def)
next
  case (late r t)
  then show ?thesis using assms
    by (simp add: conclude_moves verdict_tx_moves late_verdict_row_def settling_row_def verdict_move_def)
qed (simp_all add: status_moves_frame claimEvent_def)

lemma disputed_moves:
  assumes "eventContractId (ev_contractId ev) = Some c"
  shows "status_moves (o_id x) (\<lambda>s s'. s' = DISPUTED \<and> (s \<in> set (STATUS_BEFORE DISPUTED) \<or>
           (\<exists>t. rpc_getTradeStatusStrict env c (o_tradeId x) = Inr (Some t) \<and> t_status t = DISPUTED))) d
           (fst (applyDisputedEvent env sdk now ev x d))"
proof -
  define P where "P = (\<lambda>s s'. s' = DISPUTED \<and> (s \<in> set (STATUS_BEFORE DISPUTED) \<or>
           (\<exists>t. rpc_getTradeStatusStrict env c (o_tradeId x) = Inr (Some t) \<and> t_status t = DISPUTED)))"
  have a: "status_moves (o_id x) P d (fst (open_dispute env now (STATUS_BEFORE DISPUTED) x by_addr d))" for by_addr
    by (rule status_moves_weaken [OF open_dispute_moves]) (auto simp: P_def)
  have b: "status_moves (o_id x) P d (fst (open_dispute env now from x by_addr d))"
    if "rpc_getTradeStatusStrict env c (o_tradeId x) = Inr (Some t)" "t_status t = DISPUTED" for t by_addr "from"
    by (rule status_moves_weaken [OF open_dispute_moves]) (use that in \<open>simp add: P_def\<close>)
  show ?thesis unfolding applyDisputedEvent_def Let_def assms P_def [symmetric]
    using a by (simp add: b status_moves_frame split: sum.split option.split)
qed

text \<open>Past the guards: the event came from the order's contract, and its trade is the order's.\<close>

lemma apply_to_guards:
  assumes "fst (apply_to env sdk now name ev x d) \<noteq> d"
  obtains c where "eventContractId (ev_contractId ev) = Some c" "c = contractIdFor x (cfg_escrowContractId env)"
    "bound env c x = Inr True" "fst (apply_to env sdk now name ev x d) = fst (dispatch env sdk now c name ev x d)"
  using assms that by (auto simp: apply_to_def split: option.splits if_splits sum.splits bool.splits)

lemma bound_trade:
  assumes "bound env c x = Inr True" "notYetBoundOnChain (o_status x)"
  shows "\<exists>t. rpc_getTradeStatusStrict env c (o_tradeId x) = Inr (Some t) \<and> verifyTradeMatchesOrder t x = []"
  using assms by (auto simp: bound_def bindTradeToOrder_def split: sum.splits option.splits)

text \<open>The moves an event of a given name may make, given the chain's answer for the trade.\<close>

definition event_move :: "string \<Rightarrow> trade option outcome \<Rightarrow> order_status \<Rightarrow> order_status \<Rightarrow> bool" where
  "event_move name seen =
     (if name = ''resolved'' then verdict_move seen
      else if name = ''disputed'' then
        (\<lambda>s s'. s' = DISPUTED \<and> (s \<in> set (STATUS_BEFORE DISPUTED) \<or> (\<exists>t. seen = Inr (Some t) \<and> t_status t = DISPUTED)))
      else (\<lambda>s s'. map_of EVENT_STATUS name = Some s' \<and> s \<in> set (STATUS_BEFORE s')))"

lemma dispatch_moves:
  assumes c: "eventContractId (ev_contractId ev) = Some c"
  shows "status_moves (o_id x) (event_move name (rpc_getTradeStatusStrict env c (o_tradeId x))) d
           (fst (dispatch env sdk now c name ev x d))"
proof -
  consider "name = ''resolved''" | "name = ''disputed''" | "name \<noteq> ''resolved''" "name \<noteq> ''disputed''" by blast
  then show ?thesis
  proof cases
    case 1
    then show ?thesis using resolved_moves [OF c, of x env d sdk now] by (simp add: event_move_def dispatch_def)
  next
    case 2
    then show ?thesis using disputed_moves [OF c, of x env d sdk now] by (simp add: event_move_def dispatch_def)
  next
    case 3
    have "status_moves (o_id x) (event_move name seen) d (fst (applyStatusEvent env now c target h x d))"
      if "map_of EVENT_STATUS name = Some target" for seen h target
      by (rule status_moves_weaken [OF status_event_moves]) (use 3 that in \<open>simp add: event_move_def\<close>)
    then show ?thesis using 3 by (simp add: dispatch_def status_moves_frame split: option.split)
  qed
qed

lemma apply_to_moves:
  "status_moves (o_id x) (event_move name (rpc_getTradeStatusStrict env (contractIdFor x (cfg_escrowContractId env)) (o_tradeId x)))
     d (fst (apply_to env sdk now name ev x d))"
proof (cases "fst (apply_to env sdk now name ev x d) = d")
  case False
  then show ?thesis using dispatch_moves by (elim apply_to_guards) auto
qed (simp add: status_moves_frame)

text \<open>C19 (applyEvent, bindTradeToOrder, STATUS_BEFORE, applyDisputedEvent, applyResolvedEvent): an event moves an
  order only on the evidence of that order's own trade.  If the status of an order changed while an
  event was applied, then it is the order the event's trade id names, the event came from that order's
  contract, the trade on chain equals the order in every compared field unless the order was bound
  already, and the move is one the event's name stands for.  In particular an order that is released
  or refunded leaves that status only for a dispute that the chain confirms, or by a resolver's verdict
  for the settlement the chain reports.\<close>

theorem events_move_orders_safely:
  assumes "event_names sdk ev = Some (name, tid)" "find_by_trade d tid = Some x"
    and "find_order (meanwhile d) j = Some y" "find_order (fst (applyEvent env sdk now meanwhile ev d)) j = Some y'"
    and "known_event name" "o_status y' \<noteq> o_status y"
    and "seen = rpc_getTradeStatusStrict env (contractIdFor x (cfg_escrowContractId env)) (o_tradeId x)"
  shows "j = o_id x \<and> eventContractId (ev_contractId ev) = Some (contractIdFor x (cfg_escrowContractId env)) \<and>
         (notYetBoundOnChain (o_status x) \<longrightarrow> (\<exists>t. seen = Inr (Some t) \<and> verifyTradeMatchesOrder t x = [])) \<and>
         event_move name seen (o_status y) (o_status y') \<and>
         (settled_status (o_status y) \<longrightarrow>
            (\<exists>t. seen = Inr (Some t) \<and> t_status t = o_status y' \<and>
                 (name = ''disputed'' \<and> o_status y' = DISPUTED \<or> name = ''resolved'' \<and> settled_status (o_status y'))))"
proof -
  let ?d' = "fst (apply_to env sdk now name ev x (meanwhile d))"
  have e: "fst (applyEvent env sdk now meanwhile ev d) = ?d'" using assms(1,2,5) by (simp add: applyEvent_def)
  then have "?d' \<noteq> meanwhile d" using assms(3,4,6) by auto
  then obtain c where c: "eventContractId (ev_contractId ev) = Some c" "c = contractIdFor x (cfg_escrowContractId env)"
    "bound env c x = Inr True"
    by (rule apply_to_guards)
  have m: "j = o_id x" "event_move name seen (o_status y) (o_status y')"
    using status_moves_found [OF apply_to_moves assms(3) assms(4) [unfolded e] assms(6)] assms(7) by auto
  have "\<exists>t. seen = Inr (Some t) \<and> t_status t = o_status y' \<and>
          (name = ''disputed'' \<and> o_status y' = DISPUTED \<or> name = ''resolved'' \<and> settled_status (o_status y'))"
    if "settled_status (o_status y)"
  proof -
    have "o_status y \<notin> set (STATUS_BEFORE s)" for s using that by (cases s) (auto simp: settled_status_def)
    then show ?thesis using m(2) assms(6) that
      by (auto simp: event_move_def verdict_move_def settled_status_def simp del: STATUS_BEFORE.simps split: if_splits)
  qed
  then show ?thesis using m c bound_trade [OF c(3)] assms(7) by auto
qed

section \<open>Examples\<close>

definition demo_codec :: codec where
  "demo_codec = \<lparr>sdk_topic = (\<lambda>s. Some (TopicText s)), sdk_native = (\<lambda>_. Some (JObj [(''released'', JsonBool True)]))\<rparr>"

definition demo_event :: "string \<Rightarrow> chain_event" where
  "demo_event name = \<lparr>ev_id = Some ''e1'', ev_topic = Some [name, ''t1''], ev_value = ''v'',
     ev_contractId = ContractText ''CE'', ev_txHash = None\<rparr>"

definition disputed_row :: order where
  "disputed_row = demo_order\<lparr>o_status := DISPUTED\<rparr>"

definition verdict_db :: db where
  "verdict_db = empty_db\<lparr>db_orders := [disputed_row], db_lps := [demo_lp]\<rparr>"

lemma demo_event_names: "event_names demo_codec (demo_event name) = Some (name, ''t1'')"
  by (simp add: event_names_def demo_codec_def demo_event_def)

lemma demo_event_simps [simp]:
  "ev_id (demo_event name) = Some ''e1''" "ev_contractId (demo_event name) = ContractText ''CE''"
  "settlementHashOf (demo_event name) = None"
  by (simp_all add: demo_event_def settlementHashOf_def)

lemma demo_verdict: "verdict_of demo_codec (demo_event name) = Some (True, False)"
  by (simp add: verdict_of_def demo_codec_def)

lemma disputed_row_bound: "bound env c disputed_row = Inr True"
  by (simp add: bound_def disputed_row_def notYetBoundOnChain_def BOUND_ON_CHAIN_def)

lemma verdict_db_first:
  "fst (applyEvent demo_env demo_codec 5 id (demo_event ''resolved'') verdict_db)
     = fst (applyResolvedEvent demo_env demo_codec 5 (demo_event ''resolved'') disputed_row verdict_db)"
proof -
  have "find_by_trade verdict_db ''t1'' = Some disputed_row"
    by (simp add: verdict_db_def find_by_trade_def find_row_def disputed_row_def)
  moreover have "contractIdFor disputed_row (cfg_escrowContractId demo_env) = ''CE''"
    by (simp add: contractIdFor_def disputed_row_def)
  ultimately show ?thesis
    by (simp add: applyEvent_def demo_event_names known_event_def apply_to_def disputed_row_bound dispatch_def)
qed

lemma verdict_db_changes: "fst (applyEvent demo_env demo_codec 5 id (demo_event ''resolved'') verdict_db) \<noteq> verdict_db"
proof
  assume same: "fst (applyEvent demo_env demo_codec 5 id (demo_event ''resolved'') verdict_db) = verdict_db"
  have "''e1'' \<in> e_id ` set (db_events (fst (applyResolvedEvent demo_env demo_codec 5 (demo_event ''resolved'') disputed_row verdict_db)))"
    by (simp add: applyResolvedEvent_def Let_def demo_verdict conclude_claims verdict_tx_claims)
  then show False using same by (simp add: verdict_db_first) (simp add: verdict_db_def empty_db_def)
qed

theorem verdict_applied_once_witness:
  "fst (applyEvent demo_env demo_codec 9 id (demo_event ''resolved'')
          (fst (applyEvent demo_env demo_codec 5 id (demo_event ''resolved'') verdict_db)))
     = fst (applyEvent demo_env demo_codec 5 id (demo_event ''resolved'') verdict_db)"
  using verdict_applied_once [OF demo_event_names demo_event_simps(1) verdict_db_changes, of id
      "fst (applyEvent demo_env demo_codec 5 id (demo_event ''resolved'') verdict_db)" demo_env 9] by simp

text \<open>The order is funded by its \<open>trade_created\<close> event.\<close>

lemma order_db_funded:
  "find_order (fst (applyEvent chain_env demo_codec 5 id (demo_event ''trade_created'') order_db)) ''o1''
     = Some (demo_order\<lparr>o_status := FUNDED\<rparr>)"
proof -
  have "find_by_trade order_db ''t1'' = Some demo_order" by (simp add: order_db_def find_by_trade_def find_row_def)
  moreover have "contractIdFor demo_order c = ''CE''" for c by (simp add: contractIdFor_def)
  moreover have "bound chain_env ''CE'' demo_order = Inr True"
    by (simp add: bound_def bindTradeToOrder_def chain_env_def demo_trade_matches)
  moreover have "find_order (fst (applyStatusEvent chain_env 5 ''CE'' FUNDED None demo_order order_db)) ''o1'' = Some (demo_order\<lparr>o_status := FUNDED\<rparr>)"
    by (simp add: applyStatusEvent_def Let_def order_db_def update_many_def count_rows_def find_order_def find_row_def event_row_def settled_status_def)
  ultimately show ?thesis
    by (simp add: applyEvent_def demo_event_names known_event_def apply_to_def dispatch_def EVENT_STATUS_def)
qed

theorem events_move_orders_safely_witness:
  "event_move ''trade_created'' (Inr (Some demo_trade)) MATCHED FUNDED \<and> verifyTradeMatchesOrder demo_trade demo_order = []"
proof -
  have "rpc_getTradeStatusStrict chain_env c t = Inr (Some demo_trade)" for c t by (simp add: chain_env_def)
  moreover have "find_by_trade order_db ''t1'' = Some demo_order" by (simp add: order_db_def find_by_trade_def find_row_def)
  moreover have "known_event ''trade_created''" by (simp add: known_event_def EVENT_STATUS_def)
  ultimately show ?thesis
    using events_move_orders_safely [OF demo_event_names, of order_db demo_order id "''o1''" demo_order chain_env 5
        "''trade_created''" "demo_order\<lparr>o_status := FUNDED\<rparr>" "Inr (Some demo_trade)"]
      order_db_funded order_db_ok(2) by (simp add: notYetBoundOnChain_def BOUND_ON_CHAIN_def)
qed

end
