(* ===== verification/Alerts.thy ===== *)
theory Alerts
  imports Notify
begin

text \<open>
  \<open>monitoring/alerts.service.ts\<close>: raising alerts without repeating or losing them.  An alert
  is queued when it is new, when what it says changed, or when its reminder is due; one that does not
  fit the message is not recorded and is raised again; one that is no longer observed is cleared after
  a while, unless its family could not be scanned completely.  Texts are UTF-8; the budget counts
  UTF-16 units, as \<open>String.length\<close> does.
\<close>

section \<open>Length of a string\<close>

definition utf16_units :: "char \<Rightarrow> nat" where
  "utf16_units c =
     (let b = of_char c :: nat in if 128 \<le> b \<and> b < 192 then 0 else if 240 \<le> b then 2 else 1)"

definition js_length :: "string \<Rightarrow> nat" where
  "js_length s = sum_list (map utf16_units s)"

text \<open>\<open>slice(0, n)\<close>; a character of two units that straddles the cut is left out whole.\<close>

fun js_slice :: "nat \<Rightarrow> string \<Rightarrow> string" where
  "js_slice n [] = []"
| "js_slice n (c # s) = (if utf16_units c \<le> n then c # js_slice (n - utf16_units c) s else [])"

section \<open>Alerts\<close>

definition ALERT_OUTBOX_KIND :: string where "ALERT_OUTBOX_KIND = ''ops_alert''"
definition REMINDER_INTERVAL_MS :: ms where "REMINDER_INTERVAL_MS = 6 * 60 * 60 * 1000"
definition URGENT_REMINDER_INTERVAL_MS :: ms where "URGENT_REMINDER_INTERVAL_MS = 15 * 60 * 1000"
definition CLEAR_AFTER_MS :: ms where "CLEAR_AFTER_MS = 3 * URGENT_REMINDER_INTERVAL_MS"
definition ALERT_TEXT_BUDGET :: nat where "ALERT_TEXT_BUDGET = 1800"

datatype urgency = Routine | Urgent

record alert =
  al_key :: string
  al_fingerprint :: string
  al_urgency :: urgency
  al_text :: string

definition familyOf :: "string \<Rightarrow> string" where
  "familyOf key = hd (split_on (CHR '':'') key)"

text \<open>The sort is stable: the urgent ones first, each group in its own order.\<close>

definition byUrgencyFirst :: "alert list \<Rightarrow> alert list" where
  "byUrgencyFirst alerts = filter (\<lambda>a. al_urgency a = Urgent) alerts @ filter (\<lambda>a. al_urgency a \<noteq> Urgent) alerts"

definition cost :: "alert \<Rightarrow> nat" where
  "cost a = js_length (al_text a) + 3"

fun fill :: "nat \<Rightarrow> nat \<Rightarrow> alert list \<Rightarrow> alert list" where
  "fill budget used [] = []"
| "fill budget used (a # as) = (if used + cost a > budget then [] else a # fill budget (used + cost a) as)"

definition fitToBudget :: "alert list \<Rightarrow> nat \<Rightarrow> alert list \<times> nat" where
  "fitToBudget alerts budget =
     (let ordered = byUrgencyFirst alerts;
          included = fill budget 0 ordered;
          included' = (if included = [] \<and> ordered \<noteq> [] then [hd ordered] else included)
      in (included', length alerts - length included'))"

definition middle_dot :: string where "middle_dot = '' '' @ [CHR 0xC2, CHR 0xB7] @ '' ''"

fun join_with :: "string \<Rightarrow> string list \<Rightarrow> string" where
  "join_with sep [] = []"
| "join_with sep [s] = s"
| "join_with sep (s # t # r) = s @ sep @ join_with sep (t # r)"

definition summarise :: "alert list \<Rightarrow> nat \<Rightarrow> string" where
  "summarise alerts budget =
     (let fitting = map al_text (fill budget 0 (byUrgencyFirst alerts));
          shown = (if fitting = [] \<and> alerts \<noteq> [] then [js_slice budget (al_text (hd alerts))] else fitting);
          omitted = length alerts - length shown;
          body = join_with middle_dot shown
      in if omitted > 0 then body @ middle_dot @ ''and '' @ dec_nat omitted @ '' more not listed'' else body)"

definition siren :: string where "siren = [CHR 0xF0, CHR 0x9F, CHR 0x9A, CHR 0xA8]"
definition warning_sign :: string where "warning_sign = [CHR 0xE2, CHR 0x9A, CHR 0xA0, CHR 0xEF, CHR 0xB8, CHR 0x8F]"
definition check_mark :: string where "check_mark = [CHR 0xE2, CHR 0x9C, CHR 0x85]"

definition sent_text :: "alert list \<Rightarrow> string" where
  "sent_text sent =
     (if \<exists>a \<in> set sent. al_urgency a = Urgent then siren else warning_sign) @ '' lolipay coordinator: '' @
     summarise sent ALERT_TEXT_BUDGET"

definition cleared_text :: "string list \<Rightarrow> string" where
  "cleared_text cleared =
     check_mark @ '' lolipay coordinator: '' @
     summarise (map (\<lambda>k. \<lparr>al_key = k, al_fingerprint = k, al_urgency = Routine, al_text = k\<rparr>) cleared) ALERT_TEXT_BUDGET @
     '' '' @ em_dash @ '' cleared''"

definition publish :: "env \<Rightarrow> alert list \<Rightarrow> string list \<Rightarrow> ms \<Rightarrow> string option \<Rightarrow> db \<Rightarrow> db" where
  "publish env sent cleared now dedupeKey d =
     (if \<not> truthy_str (cfg_alertWebhookUrl env) then d
      else let d1 = (if sent \<noteq> [] then enqueue env ALERT_OUTBOX_KIND (AlertPayload (sent_text sent) (iso_string now)) dedupeKey now d else d)
           in if cleared \<noteq> []
              then enqueue env ALERT_OUTBOX_KIND (AlertPayload (cleared_text cleared) (iso_string now))
                     (if truthy_str dedupeKey then Some (the dedupeKey @ '':cleared'') else None) now d1
              else d1)"

section \<open>Raising\<close>

definition due_alert :: "ms \<Rightarrow> alert_state option \<Rightarrow> alert \<Rightarrow> bool" where
  "due_alert now seen a =
     (case seen of
        None \<Rightarrow> True
      | Some k \<Rightarrow> as_fingerprint k \<noteq> al_fingerprint a \<or>
          now - as_lastSentAt k \<ge> (if al_urgency a = Urgent then URGENT_REMINDER_INTERVAL_MS else REMINDER_INTERVAL_MS))"

definition state_row :: "alert_state list \<Rightarrow> ms \<Rightarrow> alert \<Rightarrow> alert_state" where
  "state_row byKey now a =
     (let prior = find_row as_key (al_key a) byKey;
          continued = (case prior of Some p \<Rightarrow> if as_fingerprint p = al_fingerprint a then Some p else None | None \<Rightarrow> None)
      in \<lparr>as_key = al_key a, as_fingerprint = al_fingerprint a,
          as_firstSeenAt = (case continued of Some p \<Rightarrow> as_firstSeenAt p | None \<Rightarrow> now), as_lastSentAt = now,
          as_sendCount = (case continued of Some p \<Rightarrow> as_sendCount p | None \<Rightarrow> 0) + 1\<rparr>)"

text \<open>\<open>createMany\<close> without \<open>skipDuplicates\<close>: one violation undoes the transaction.\<close>

fun create_all :: "('r \<Rightarrow> 'k) \<Rightarrow> 'r list \<Rightarrow> 'r list \<Rightarrow> 'r list option" where
  "create_all key [] t = Some t"
| "create_all key (r # rs) t = (case create_unique (\<lambda>x. Some (key x)) r t of None \<Rightarrow> None | Some t' \<Rightarrow> create_all key rs t')"

definition commit :: "env \<Rightarrow> alert list \<Rightarrow> string list \<Rightarrow> alert_state list \<Rightarrow> ms \<Rightarrow> db \<Rightarrow> db" where
  "commit env sent cleared byKey now d =
     (if sent = [] \<and> cleared = [] then d
      else if \<not> truthy_str (cfg_alertWebhookUrl env) then d
      else case create_all as_key (map (state_row byKey now) sent)
                  (delete_many (\<lambda>k. as_key k \<in> al_key ` set sent) (db_alerts d)) of
             None \<Rightarrow> d
           | Some rows \<Rightarrow>
               publish env sent cleared now None
                 (d\<lparr>db_alerts := delete_many (\<lambda>k. as_key k \<in> set cleared) rows\<rparr>))"

definition blindDedupeKey :: "(string \<Rightarrow> string) \<Rightarrow> alert list \<Rightarrow> ms \<Rightarrow> string" where
  "blindDedupeKey sha256 alerts now =
     ALERT_OUTBOX_KIND @ '':blind:'' @ dec_int (now div REMINDER_INTERVAL_MS) @ '':'' @
     take 32 (sha256 (join_with ''|'' (sort (map (\<lambda>a. al_key a @ ''='' @ al_fingerprint a) alerts))))"

definition to_send :: "alert_state list \<Rightarrow> ms \<Rightarrow> alert list \<Rightarrow> alert list" where
  "to_send owned now mine = filter (\<lambda>a. due_alert now (find_row as_key (al_key a) owned) a) mine"

definition to_clear :: "alert_state list \<Rightarrow> ms \<Rightarrow> alert list \<Rightarrow> string set \<Rightarrow> string list" where
  "to_clear owned now mine incomplete =
     filter (\<lambda>key. familyOf key \<notin> incomplete)
       (map as_key (filter (\<lambda>k. now - as_lastSentAt k \<ge> CLEAR_AFTER_MS)
          (filter (\<lambda>k. as_key k \<notin> al_key ` set mine) owned)))"

text \<open>\<open>known\<close> is the result of reading the alert table; \<open>d\<close> the database the
  transaction runs on, which may be a later one.\<close>

definition raise_alerts ::
  "env \<Rightarrow> (string \<Rightarrow> string) \<Rightarrow> alert_state list outcome \<Rightarrow> string list \<Rightarrow> alert list \<Rightarrow> string set \<Rightarrow> ms \<Rightarrow> db
     \<Rightarrow> db \<times> alert list \<times> string list" where
  "raise_alerts env sha256 known scope alerts incomplete now d =
     (let mine = filter (\<lambda>a. familyOf (al_key a) \<in> set scope) alerts in
      case known of
        Inl e \<Rightarrow> (publish env mine [] now (Some (blindDedupeKey sha256 mine now)) d, mine, [])
      | Inr rows \<Rightarrow>
          (let owned = filter (\<lambda>k. familyOf (as_key k) \<in> set scope) rows;
               sent = to_send owned now mine;
               cleared = to_clear owned now mine incomplete;
               included = fst (fitToBudget sent ALERT_TEXT_BUDGET)
           in (commit env included cleared owned now d, included, cleared)))"

section \<open>Properties\<close>

lemma find_row_filter:
  "(\<And>r. key r = k \<Longrightarrow> p r) \<Longrightarrow> find_row key k (filter p t) = find_row key k t"
  unfolding find_row_def by (induction t) auto

lemma create_all_fresh:
  assumes "distinct (map key rs)" "key ` set rs \<inter> key ` set t = {}"
  shows "create_all key rs t = Some (t @ rs)"
  using assms
proof (induction rs arbitrary: t)
  case (Cons r rs)
  then have "key r \<notin> key ` set t" by auto
  then have "create_unique (\<lambda>x. Some (key x)) r t = Some (t @ [r])" by (simp add: create_unique_def image_iff) metis
  moreover have "create_all key rs (t @ [r]) = Some ((t @ [r]) @ rs)"
    using Cons.prems by (intro Cons.IH) auto
  ultimately show ?case by simp
qed simp

lemma set_byUrgencyFirst [simp]: "set (byUrgencyFirst as) = set as"
  by (auto simp: byUrgencyFirst_def)

lemma distinct_byUrgencyFirst: "distinct (map al_key as) \<Longrightarrow> distinct (map al_key (byUrgencyFirst as))"
proof -
  assume d: "distinct (map al_key as)"
  have "inj_on al_key (set as)" "distinct as" using d by (auto simp: distinct_map)
  then show ?thesis by (auto simp: byUrgencyFirst_def distinct_map inj_on_def)
qed

lemma fill_prefix: "\<exists>rest. as = fill b u as @ rest"
  by (induction as arbitrary: u) auto

lemma fit_prefix: "\<exists>rest. byUrgencyFirst as = fst (fitToBudget as b) @ rest"
proof (cases "fill b 0 (byUrgencyFirst as) = [] \<and> byUrgencyFirst as \<noteq> []")
  case True
  then show ?thesis by (cases "byUrgencyFirst as") (simp_all add: fitToBudget_def Let_def)
next
  case False
  then have "fst (fitToBudget as b) = fill b 0 (byUrgencyFirst as)" by (simp add: fitToBudget_def Let_def)
  then show ?thesis using fill_prefix by metis
qed

lemma fit_nonempty: "as \<noteq> [] \<Longrightarrow> fst (fitToBudget as b) \<noteq> []"
proof -
  assume "as \<noteq> []"
  then have ne: "byUrgencyFirst as \<noteq> []" using set_byUrgencyFirst [of as] by (metis set_empty2)
  show ?thesis
  proof (cases "fill b 0 (byUrgencyFirst as)")
    case Nil
    then show ?thesis using ne unfolding fitToBudget_def Let_def fst_conv by simp
  next
    case (Cons x xs)
    then show ?thesis unfolding fitToBudget_def Let_def fst_conv by simp
  qed
qed

lemma fit_urgent:
  assumes "a \<in> set as" "al_urgency a = Urgent"
  shows "al_urgency (hd (fst (fitToBudget as b))) = Urgent"
proof -
  obtain rest where r: "byUrgencyFirst as = fst (fitToBudget as b) @ rest" using fit_prefix by blast
  have "as \<noteq> []" using assms(1) by (cases as) simp_all
  then have ne: "fst (fitToBudget as b) \<noteq> []" by (rule fit_nonempty)
  have f: "filter (\<lambda>a. al_urgency a = Urgent) as \<noteq> []" using assms by (auto simp: filter_empty_conv)
  then have "hd (byUrgencyFirst as) \<in> set (filter (\<lambda>a. al_urgency a = Urgent) as)"
    using hd_in_set [OF f] by (simp add: byUrgencyFirst_def)
  moreover have "hd (byUrgencyFirst as) = hd (fst (fitToBudget as b))" using r ne by simp
  ultimately show ?thesis by simp
qed

lemma publish_alerts [simp]: "db_alerts (publish env sent cleared now k d) = db_alerts d"
  by (simp add: publish_def Let_def enqueue_def)

lemma state_row_key [simp]: "as_key (state_row b now a) = al_key a" "as_fingerprint (state_row b now a) = al_fingerprint a"
  "as_lastSentAt (state_row b now a) = now"
  by (simp_all add: state_row_def Let_def)

text \<open>The alert table after a commit.\<close>

lemma commit_alerts:
  assumes "truthy_str (cfg_alertWebhookUrl env)" "distinct (map al_key sent)"
  shows "db_alerts (commit env sent cleared b now d) =
     delete_many (\<lambda>k. as_key k \<in> set cleared)
       (delete_many (\<lambda>k. as_key k \<in> al_key ` set sent) (db_alerts d) @ map (state_row b now) sent)"
proof -
  let ?t = "delete_many (\<lambda>k. as_key k \<in> al_key ` set sent) (db_alerts d)"
  have "create_all as_key (map (state_row b now) sent) ?t = Some (?t @ map (state_row b now) sent)"
    using assms(2) by (intro create_all_fresh) (auto simp: o_def delete_many_def image_iff)
  then show ?thesis using assms(1) by (simp add: commit_def delete_many_def)
qed

lemma find_row_delete:
  "k \<notin> ks \<Longrightarrow> find_row key k (delete_many (\<lambda>r. key r \<in> ks) t) = find_row key k t"
  unfolding delete_many_def by (rule find_row_filter) simp

lemma find_row_deleted: "k \<in> ks \<Longrightarrow> find_row key k (delete_many (\<lambda>r. key r \<in> ks) t) = None"
  by (auto simp: find_row_None delete_many_def)

lemma find_row_map_state:
  assumes "distinct (map al_key sent)"
  shows "find_row as_key k (map (state_row b now) sent) = map_option (state_row b now) (find_row al_key k sent)"
  unfolding find_row_def by (induction sent) auto

text \<open>The state of one key after a commit.\<close>

lemma commit_state:
  assumes "truthy_str (cfg_alertWebhookUrl env)" "distinct (map al_key sent)" "k \<notin> set cleared"
  shows "find_row as_key k (db_alerts (commit env sent cleared b now d)) =
     (case find_row al_key k sent of Some a \<Rightarrow> Some (state_row b now a) | None \<Rightarrow> find_row as_key k (db_alerts d))"
proof -
  have del: "find_row as_key k (delete_many (\<lambda>r. as_key r \<in> al_key ` set sent) (db_alerts d))
      = (if find_row al_key k sent = None then find_row as_key k (db_alerts d) else None)"
    by (cases "k \<in> al_key ` set sent") (auto simp: find_row_None find_row_delete find_row_deleted)
  show ?thesis unfolding commit_alerts [OF assms(1,2)] find_row_delete [OF assms(3)] find_row_append del
      find_row_map_state [OF assms(2)]
    by (auto split: option.split)
qed

lemma to_clearD:
  assumes "key \<in> set (to_clear owned now mine incomplete)"
  shows "key \<notin> al_key ` set mine \<and> familyOf key \<notin> incomplete \<and>
    (\<exists>k \<in> set owned. as_key k = key \<and> now - as_lastSentAt k \<ge> CLEAR_AFTER_MS)"
proof -
  obtain k where "k \<in> set owned" "as_key k = key" "as_key k \<notin> al_key ` set mine"
      "now - as_lastSentAt k \<ge> CLEAR_AFTER_MS" "familyOf key \<notin> incomplete"
    using assms unfolding to_clear_def set_filter set_map by fast
  then show ?thesis by blast
qed

text \<open>No alert is lost.  Take the alerts of one round, with distinct keys, and one of
  them that is due (new, changed, or its reminder time has come).  Either it is queued now and its row
  says so, or its row is left as it was, so that at every later round it is due still.  A round with
  anything due always queues something, and an urgent alert first if there is one.  A key
  is dropped from the table only if it was not observed this round, its family was scanned completely and
  it had been quiet for three urgent reminders.\<close>

theorem alerts_not_lost:
  assumes "truthy_str (cfg_alertWebhookUrl env)" "distinct (map al_key alerts)"
    and "raise_alerts env sha256 (Inr (db_alerts d)) scope alerts incomplete now d = (d', included, cleared)"
    and "a \<in> set alerts" "familyOf (al_key a) \<in> set scope" "due_alert now (find_row as_key (al_key a) (db_alerts d)) a"
  shows "included \<noteq> [] \<and> (al_urgency a = Urgent \<longrightarrow> al_urgency (hd included) = Urgent) \<and>
         (if a \<in> set included
          then \<exists>k. find_row as_key (al_key a) (db_alerts d') = Some k \<and> as_lastSentAt k = now \<and> as_fingerprint k = al_fingerprint a
          else find_row as_key (al_key a) (db_alerts d') = find_row as_key (al_key a) (db_alerts d) \<and>
               (\<forall>later \<ge> now. due_alert later (find_row as_key (al_key a) (db_alerts d')) a)) \<and>
         (\<forall>key \<in> set cleared. key \<notin> al_key ` set alerts \<and> familyOf key \<notin> incomplete \<and>
            (\<exists>k \<in> set (db_alerts d). as_key k = key \<and> now - as_lastSentAt k \<ge> CLEAR_AFTER_MS))"
proof -
  define mine where "mine = filter (\<lambda>a. familyOf (al_key a) \<in> set scope) alerts"
  define owned where "owned = filter (\<lambda>k. familyOf (as_key k) \<in> set scope) (db_alerts d)"
  define sent where "sent = to_send owned now mine"
  have r: "included = fst (fitToBudget sent ALERT_TEXT_BUDGET)" "cleared = to_clear owned now mine incomplete"
      "d' = commit env included cleared owned now d"
    using assms(3) by (auto simp: raise_alerts_def Let_def mine_def owned_def sent_def)
  have a: "a \<in> set mine" using assms(4,5) by (simp add: mine_def)
  have "find_row as_key (al_key a) owned = find_row as_key (al_key a) (db_alerts d)"
    unfolding owned_def using assms(5) by (intro find_row_filter) simp
  then have s: "a \<in> set sent" using a assms(6) by (simp add: sent_def to_send_def)
  obtain rest where rest: "byUrgencyFirst sent = included @ rest" using fit_prefix r(1) by blast
  have dm: "distinct (map al_key sent)" using assms(2) by (simp add: sent_def to_send_def mine_def distinct_map_filter)
  then have di: "distinct (map al_key included)" using distinct_byUrgencyFirst [OF dm] rest by simp
  have sub: "set included \<subseteq> set sent" using rest set_byUrgencyFirst [of sent] by auto
  have nc: "al_key a \<notin> set cleared" using to_clearD [of "al_key a" owned now mine incomplete] a unfolding r(2) by blast
  note st = commit_state [OF assms(1) di nc, of owned now d]
  have "if a \<in> set included
     then \<exists>k. find_row as_key (al_key a) (db_alerts d') = Some k \<and> as_lastSentAt k = now \<and> as_fingerprint k = al_fingerprint a
     else find_row as_key (al_key a) (db_alerts d') = find_row as_key (al_key a) (db_alerts d) \<and>
          (\<forall>later \<ge> now. due_alert later (find_row as_key (al_key a) (db_alerts d')) a)"
  proof (cases "a \<in> set included")
    case True
    then have "find_row al_key (al_key a) included = Some a" by (rule find_row_distinct [OF di])
    then show ?thesis using st True by (simp add: r(3))
  next
    case False
    have "al_key a \<notin> al_key ` set included"
      using False s sub dm by (auto simp: distinct_map inj_on_def)
    then have same: "find_row as_key (al_key a) (db_alerts d') = find_row as_key (al_key a) (db_alerts d)"
      using st by (simp add: r(3) find_row_None [THEN iffD2])
    have "due_alert later (find_row as_key (al_key a) (db_alerts d')) a" if "now \<le> later" for later
      using assms(6) that unfolding same by (auto simp: due_alert_def split: option.splits if_splits)
    then show ?thesis using same False by simp
  qed
  moreover have "included \<noteq> []" unfolding r(1) using s by (intro fit_nonempty) (cases sent, simp_all)
  moreover have "al_urgency a = Urgent \<longrightarrow> al_urgency (hd included) = Urgent" using fit_urgent [OF s] r(1) by simp
  moreover have "key \<notin> al_key ` set alerts \<and> familyOf key \<notin> incomplete \<and>
      (\<exists>k \<in> set (db_alerts d). as_key k = key \<and> now - as_lastSentAt k \<ge> CLEAR_AFTER_MS)" if "key \<in> set cleared" for key
  proof -
    note c = to_clearD [OF that [unfolded r(2)]]
    then have "familyOf key \<in> set scope" by (auto simp: owned_def)
    then have "key \<notin> al_key ` set alerts" using c by (auto simp: mine_def)
    then show ?thesis using c by (auto simp: owned_def)
  qed
  ultimately show ?thesis by blast
qed

definition demo_alert :: alert where
  "demo_alert = \<lparr>al_key = ''f:1'', al_fingerprint = ''x'', al_urgency = Urgent, al_text = ''t''\<rparr>"

theorem alerts_not_lost_witness:
  "fst (snd (raise_alerts demo_env id (Inr (db_alerts empty_db)) [''f''] [demo_alert] {} 5 empty_db)) \<noteq> []"
proof -
  have *: "truthy_str (cfg_alertWebhookUrl demo_env)" "familyOf (al_key demo_alert) \<in> set [''f'']"
    "due_alert 5 (find_row as_key (al_key demo_alert) (db_alerts empty_db)) demo_alert"
    by (simp_all add: demo_env_def demo_alert_def familyOf_def empty_db_def find_row_def due_alert_def)
  obtain d' inc cl where r: "raise_alerts demo_env id (Inr (db_alerts empty_db)) [''f''] [demo_alert] {} 5 empty_db = (d', inc, cl)"
    by (metis prod_cases3)
  show ?thesis using alerts_not_lost [OF *(1) _ r _ *(2,3)] r by simp
qed

end
