(* ===== verification/Maintenance.thy ===== *)
theory Maintenance
  imports OrderStatus Alerts "HOL-Library.Product_Lexorder"
begin

text \<open>
  \<open>maintenance/maintenance.service.ts\<close>: the timed sweeps that expire orders nobody funded,
  prune old rows, submit refunds that are due and recover escrows whose order was cancelled or expired.
  The refund signer is a parameter: its answer to a submission and the read of the chain after it.  A
  sweep that submits returns its submissions beside the database.  What other requests do while a sweep
  waits for the chain is the argument \<open>meanwhile\<close> of the expiry sweep.  A query without
  \<open>orderBy\<close> yields the rows in table order.  Log lines are left out.
\<close>

section \<open>Constants and the refundable pool\<close>

definition STALE_ORDER_SWEEP_GRACE_MS :: ms where "STALE_ORDER_SWEEP_GRACE_MS = 60000"
definition AUTO_REFUND_BATCH_SIZE :: nat where "AUTO_REFUND_BATCH_SIZE = 20"
definition ORPHAN_LOOKBACK_MS :: ms where "ORPHAN_LOOKBACK_MS = 45 * 24 * 60 * 60 * 1000"
definition INDEXED_EVENT_RETENTION_MS :: ms where "INDEXED_EVENT_RETENTION_MS = 7 * 24 * 60 * 60 * 1000"
definition EXPIRE_TAKE :: nat where "EXPIRE_TAKE = 200"

definition past_refund :: "secs \<Rightarrow> order \<Rightarrow> bool" where
  "past_refund nowSecs x =
     (o_confirmDeadline x < nowSecs \<or> (o_flow x = TOP_UP \<and> o_payDeadline x < nowSecs - ATTEST_GRACE_SECS))"

definition refundablePoolWhere :: "ms \<Rightarrow> secs \<Rightarrow> order \<Rightarrow> bool" where
  "refundablePoolWhere now nowSecs x =
     (o_status x \<in> {CANCELLED, EXPIRED} \<and> o_settlementTxHash x = None \<and> o_settledAt x = None \<and>
      o_createdAt x > now - ORPHAN_LOOKBACK_MS \<and> past_refund nowSecs x)"

section \<open>One run at a time (once)\<close>

text \<open>The sweeps that are running and the set \<open>inFlight\<close>.  A tick either starts its sweep or is
  skipped; a sweep that returns or throws leaves the set.\<close>

record ticks =
  inFlight :: "string set"
  running :: "string list"

definition once_begin :: "string \<Rightarrow> ticks \<Rightarrow> ticks" where
  "once_begin name s =
     (if name \<in> inFlight s then s else s\<lparr>inFlight := insert name (inFlight s), running := name # running s\<rparr>)"

definition once_end :: "string \<Rightarrow> ticks \<Rightarrow> ticks" where
  "once_end name s = s\<lparr>inFlight := inFlight s - {name}, running := remove1 name (running s)\<rparr>"

inductive tick_step :: "ticks \<Rightarrow> ticks \<Rightarrow> bool" where
  tick: "tick_step s (once_begin name s)"
| finish: "name \<in> set (running s) \<Longrightarrow> tick_step s (once_end name s)"

inductive reachable_ticks :: "ticks \<Rightarrow> bool" where
  start: "reachable_ticks \<lparr>inFlight = {}, running = []\<rparr>"
| step: "reachable_ticks s \<Longrightarrow> tick_step s s' \<Longrightarrow> reachable_ticks s'"

section \<open>Expiring stale orders\<close>

definition PRE_CHAIN :: "order_status list" where
  [status_sets]: "PRE_CHAIN = [CREATED, MATCHED, AWAITING_ONCHAIN]"

definition stale :: "ms \<Rightarrow> ms \<Rightarrow> order \<Rightarrow> bool" where
  "stale now ledgerSeenAt x =
     (o_status x \<in> set PRE_CHAIN \<and> o_expiresAt x < min now ledgerSeenAt - STALE_ORDER_SWEEP_GRACE_MS)"

text \<open>The read of the chain: None to leave the order alone, else what was read.\<close>

definition expire_read :: "env \<Rightarrow> order \<Rightarrow> trade option option" where
  "expire_read env x =
     (case rpc_getTradeStatusStrict env (contractIdFor x (cfg_escrowContractId env)) (o_tradeId x) of
        Inl _ \<Rightarrow> None
      | Inr None \<Rightarrow> Some None
      | Inr (Some t) \<Rightarrow> if verifyTradeMatchesOrder t x = [] then None else Some (Some t))"

definition absent_provider :: "order \<Rightarrow> lp \<Rightarrow> bool" where
  "absent_provider x l =
     (Some (lp_id l) = o_lpId x \<and> lp_online l \<and>
      (case lp_lastHeartbeatAt l of None \<Rightarrow> True | Some h \<Rightarrow> h < o_createdAt x) \<and> lp_alertEmail l \<noteq> None)"

definition penalise :: "order \<Rightarrow> db \<Rightarrow> db \<times> bool" where
  "penalise x d =
     (d\<lparr>db_lps := update_many (absent_provider x) (\<lambda>l. l\<lparr>lp_online := False\<rparr>) (db_lps d)\<rparr>,
      count_rows (absent_provider x) (db_lps d) > 0)"

definition expire_write :: "env \<Rightarrow> ms \<Rightarrow> trade option \<Rightarrow> order \<Rightarrow> db \<Rightarrow> db" where
  "expire_write env now onChain x d =
     (let guard = (\<lambda>y. o_id y = o_id x \<and> o_status y \<in> set PRE_CHAIN);
          d1 = upd_orders (update_many guard (\<lambda>y. y\<lparr>o_status := EXPIRED\<rparr>)) d
      in if count_rows guard (db_orders d) = 0 then d1
         else let (d2, lpPenalized) =
                    (if onChain = None \<and> o_flow x = TOP_UP \<and> o_lpId x \<noteq> None then penalise x d1 else (d1, False))
              in notifyOrderStatus env now ((notice_of x)\<lparr>no_settledAt := None\<rparr>) ''MATCHED_EXPIRED'' lpPenalized d2)"

definition expire_one :: "env \<Rightarrow> ms \<Rightarrow> (order \<Rightarrow> db \<Rightarrow> db) \<Rightarrow> order \<Rightarrow> db \<Rightarrow> db" where
  "expire_one env now meanwhile x d =
     (case expire_read env x of
        None \<Rightarrow> meanwhile x d
      | Some onChain \<Rightarrow> expire_write env now onChain x (meanwhile x d))"

definition expireStaleOrders :: "env \<Rightarrow> ms \<Rightarrow> (order \<Rightarrow> db \<Rightarrow> db) \<Rightarrow> db \<Rightarrow> db" where
  "expireStaleOrders env now meanwhile d =
     (case rpc_latestLedgerCloseTime env of
        Inl _ \<Rightarrow> d
      | Inr seen \<Rightarrow> fold (expire_one env now meanwhile) (take EXPIRE_TAKE (filter (stale now seen) (db_orders d))) d)"

text \<open>No other request in between.\<close>

definition alone :: "order \<Rightarrow> db \<Rightarrow> db" where
  "alone x d = d"

section \<open>Pruning\<close>

definition pruneOldQuotes :: "ms \<Rightarrow> db \<Rightarrow> db" where
  "pruneOldQuotes now d =
     fst (prune now
       (d\<lparr>db_quotes := delete_many (\<lambda>q. q_expiresAt q < now - 60 * 60 * 1000) (db_quotes d),
          db_challenges := delete_many (\<lambda>k. k_expiresAt k < now) (db_challenges d),
          db_consumed := delete_many (\<lambda>c. cc_expiresAt c < now) (db_consumed d),
          db_events := delete_many (\<lambda>e. e_createdAt e < now - INDEXED_EVENT_RETENTION_MS) (db_events d)\<rparr>))"

section \<open>Refunds\<close>

text \<open>The refund signer: a submission of \<open>refund\<close> for a contract and a trade answers with the
  transaction's status and hash, or throws; the read after it sees the chain as it is then.\<close>

record refunder =
  rf_submit :: "string \<Rightarrow> string \<Rightarrow> (string \<times> string) outcome"
  rf_after :: "string \<Rightarrow> string \<Rightarrow> trade option outcome"

type_synonym submissions = "(string \<times> string) list"

definition auto_refund_on :: "env \<Rightarrow> db \<Rightarrow> bool" where
  "auto_refund_on env d =
     ((case db_config d of None \<Rightarrow> False | Some c \<Rightarrow> c_autoRefund c) \<and> refund_signer env \<noteq> None)"

definition refund_target :: "env \<Rightarrow> order \<Rightarrow> string \<times> string" where
  "refund_target env x = (contractIdFor x (cfg_escrowContractId env), o_tradeId x)"

definition funded_on_chain :: "env \<Rightarrow> order \<Rightarrow> bool" where
  "funded_on_chain env x =
     (case rpc_getTradeStatusStrict env (fst (refund_target env x)) (snd (refund_target env x)) of
        Inr (Some t) \<Rightarrow> t_status t = FUNDED
      | _ \<Rightarrow> False)"

definition refunded_row :: "ms \<Rightarrow> string \<Rightarrow> trade option outcome \<Rightarrow> order \<Rightarrow> order" where
  "refunded_row now hash after y =
     (let z = y\<lparr>o_status := REFUNDED, o_settledStatus := Some REFUNDED, o_settledAt := Some now, o_settlementTxHash := Some hash\<rparr>
      in case after of Inr (Some t) \<Rightarrow> settlementFieldsFrom now t z | _ \<Rightarrow> z)"

definition refund_write :: "env \<Rightarrow> ms \<Rightarrow> string \<Rightarrow> trade option outcome \<Rightarrow> order \<Rightarrow> db \<Rightarrow> db" where
  "refund_write env now hash after x d =
     (let guard = (\<lambda>y. o_id y = o_id x \<and> o_status y = FUNDED);
          d1 = upd_orders (update_many guard (refunded_row now hash after)) d
      in if count_rows guard (db_orders d) = 0 then d1
         else case find_order d1 (o_id x) of
                None \<Rightarrow> d1
              | Some fresh \<Rightarrow> notifyOrderStatus env now (notice_of fresh) ''REFUNDED'' False d1)"

definition auto_refund_one :: "env \<Rightarrow> refunder \<Rightarrow> ms \<Rightarrow> order \<Rightarrow> db \<times> submissions \<Rightarrow> db \<times> submissions" where
  "auto_refund_one env rf now x s =
     (case s of (d, subs) \<Rightarrow>
        if \<not> funded_on_chain env x then (d, subs)
        else let (c, t) = refund_target env x in
             (case rf_submit rf c t of
                Inl _ \<Rightarrow> (d, subs @ [(c, t)])
              | Inr (status, hash) \<Rightarrow>
                  if status \<noteq> ''SUCCESS'' then (d, subs @ [(c, t)])
                  else (refund_write env now hash (rf_after rf c t) x d, subs @ [(c, t)])))"

definition auto_refund_candidates :: "ms \<Rightarrow> db \<Rightarrow> order list" where
  "auto_refund_candidates now d =
     take AUTO_REFUND_BATCH_SIZE (filter (\<lambda>x. o_status x = FUNDED \<and> past_refund (now div 1000) x) (db_orders d))"

definition autoRefundExpired :: "env \<Rightarrow> refunder \<Rightarrow> ms \<Rightarrow> db \<Rightarrow> db \<times> submissions" where
  "autoRefundExpired env rf now d =
     (if \<not> auto_refund_on env d then (d, [])
      else if \<not> truthy_str (refund_signer env) then (d, [])
      else fold (auto_refund_one env rf now) (auto_refund_candidates now d) (d, []))"

section \<open>Orphaned escrows\<close>

type_synonym cursor = "(ms \<times> string) option"

definition past_cursor :: "cursor \<Rightarrow> order \<Rightarrow> bool" where
  "past_cursor after x =
     (case after of None \<Rightarrow> True
      | Some (c, i) \<Rightarrow> o_createdAt x > c \<or> (o_createdAt x = c \<and> o_id x > i))"

text \<open>\<open>orderBy: [createdAt asc, id asc]\<close>, as the lexicographic order of the pair.\<close>

definition age_key :: "order \<Rightarrow> ms \<times> string" where
  "age_key x = (o_createdAt x, o_id x)"

definition by_age :: "order list \<Rightarrow> order list" where
  "by_age xs = sort_key age_key xs"

definition orphan_candidates :: "ms \<Rightarrow> cursor \<Rightarrow> db \<Rightarrow> order list" where
  "orphan_candidates now after d =
     take AUTO_REFUND_BATCH_SIZE
       (by_age (filter (\<lambda>x. refundablePoolWhere now (now div 1000) x \<and> past_cursor after x) (db_orders d)))"

definition next_cursor :: "order list \<Rightarrow> cursor" where
  "next_cursor batch =
     (if length batch = AUTO_REFUND_BATCH_SIZE then Some (o_createdAt (last batch), o_id (last batch)) else None)"

definition recovered_row :: "ms \<Rightarrow> string \<Rightarrow> string \<Rightarrow> db \<Rightarrow> db" where
  "recovered_row now i hash d =
     upd_orders (update_many (\<lambda>y. o_id y = i \<and> o_settledAt y = None) (\<lambda>y. y\<lparr>o_settledAt := Some now\<rparr>))
       (upd_orders (update_many (\<lambda>y. o_id y = i \<and> o_settlementTxHash y = None) (\<lambda>y. y\<lparr>o_settlementTxHash := Some hash\<rparr>)) d)"

definition reconcile_one :: "env \<Rightarrow> refunder \<Rightarrow> ms \<Rightarrow> order \<Rightarrow> db \<times> submissions \<Rightarrow> db \<times> submissions" where
  "reconcile_one env rf now x s =
     (case s of (d, subs) \<Rightarrow>
        if refundOpensAt x \<ge> now div 1000 then (d, subs)
        else if \<not> funded_on_chain env x then (d, subs)
        else let (c, t) = refund_target env x in
             (case rf_submit rf c t of
                Inl _ \<Rightarrow> (d, subs @ [(c, t)])
              | Inr (status, hash) \<Rightarrow>
                  if status \<noteq> ''SUCCESS'' then (d, subs @ [(c, t)])
                  else (recovered_row now (o_id x) hash d, subs @ [(c, t)])))"

definition reconcileOrphanedEscrows :: "env \<Rightarrow> refunder \<Rightarrow> ms \<Rightarrow> cursor \<Rightarrow> db \<Rightarrow> cursor \<times> db \<times> submissions" where
  "reconcileOrphanedEscrows env rf now after d =
     (if \<not> auto_refund_on env d then (after, d, [])
      else let batch = orphan_candidates now after d
           in (next_cursor batch, fold (reconcile_one env rf now) batch (d, [])))"

section \<open>Properties: one run at a time\<close>

inductive_cases tick_stepE: "tick_step s s'"

lemma tick_keeps:
  assumes "tick_step s s'" "distinct (running s)" "set (running s) = inFlight s"
  shows "distinct (running s') \<and> set (running s') = inFlight s'"
  using assms by (auto elim!: tick_stepE simp: once_begin_def once_end_def set_remove1_eq)

text \<open>No sweep runs twice at the same time.\<close>

lemma once_exclusive: "reachable_ticks s \<Longrightarrow> distinct (running s) \<and> set (running s) = inFlight s"
proof (induction rule: reachable_ticks.induct)
  case (step s s')
  then show ?case using tick_keeps by blast
qed simp

section \<open>Properties: expiry\<close>

definition free_on_chain :: "env \<Rightarrow> order \<Rightarrow> bool" where
  "free_on_chain env x =
     (case rpc_getTradeStatusStrict env (contractIdFor x (cfg_escrowContractId env)) (o_tradeId x) of
        Inl _ \<Rightarrow> False | Inr r \<Rightarrow> (\<forall>t. r = Some t \<longrightarrow> verifyTradeMatchesOrder t x \<noteq> []))"

lemma free_on_chain_read: "free_on_chain env x \<longleftrightarrow> expire_read env x \<noteq> None"
  by (auto simp: free_on_chain_def expire_read_def split: sum.splits option.splits)

lemma free_on_chain_cases:
  "free_on_chain env x =
     (case rpc_getTradeStatusStrict env (contractIdFor x (cfg_escrowContractId env)) (o_tradeId x) of
        Inl _ \<Rightarrow> False | Inr None \<Rightarrow> True | Inr (Some t) \<Rightarrow> verifyTradeMatchesOrder t x \<noteq> [])"
  by (simp add: free_on_chain_def split: sum.split option.split)

lemma penalise_orders [simp]: "db_orders (fst (penalise x d)) = db_orders d"
  by (simp add: penalise_def)

lemma expire_write_orders:
  "db_orders (expire_write env now onChain x d) =
     update_many (\<lambda>y. o_id y = o_id x \<and> o_status y \<in> set PRE_CHAIN) (\<lambda>y. y\<lparr>o_status := EXPIRED\<rparr>) (db_orders d)"
  by (auto simp: expire_write_def Let_def penalise_def split: prod.splits)

interpretation expire_put: row_write o_id "\<lambda>y. y\<lparr>o_status := EXPIRED\<rparr>"
  by unfold_locales simp

lemma expire_write_step: "order_step d (expire_write env now onChain x d)"
proof -
  have "order_step d (upd_orders (update_many (\<lambda>y. o_id y = o_id x \<and> o_status y \<in> set PRE_CHAIN)
      (\<lambda>y. y\<lparr>o_status := EXPIRED\<rparr>)) d)"
    by (rule order_step_update) (simp_all add: row_kept_def order_key_def order_ok_def settled_status_def)
  then show ?thesis by (rule order_step_trans) (rule order_step_frame, simp add: expire_write_orders)
qed

lemma expire_one_step: "(\<And>x d. order_step d (meanwhile x d)) \<Longrightarrow> order_step d (expire_one env now meanwhile x d)"
  unfolding expire_one_def using order_step_trans [OF _ expire_write_step] by (auto split: option.split)

lemma alone_step: "order_step d (alone x d)"
  by (simp add: alone_def)

lemma expire_fold_step: "order_step d (fold (expire_one env now alone) xs d)"
proof (induction xs arbitrary: d)
  case (Cons x xs)
  show ?case using order_step_trans [OF expire_one_step [OF alone_step] Cons.IH] by simp
qed simp

interpretation expiry: order_writer "\<lambda>(env, now). expireStaleOrders env now alone"
  by (rule order_writerI) (auto simp: expireStaleOrders_def expire_fold_step split: sum.splits)

lemma find_after_expire:
  "find_order (expire_one env now alone x d) i =
     map_option (\<lambda>y. if o_id y = o_id x \<and> free_on_chain env x \<and> o_status y \<in> set PRE_CHAIN then y\<lparr>o_status := EXPIRED\<rparr> else y)
       (find_order d i)"
proof (cases "expire_read env x")
  case None
  then show ?thesis by (simp add: expire_one_def alone_def free_on_chain_read option.map_ident)
next
  case (Some c)
  then show ?thesis
    by (simp add: expire_one_def alone_def find_order_def expire_write_orders expire_put.find_after_write free_on_chain_read)
qed

lemma guarded_twice:
  assumes "\<And>y. \<not> q (f y)"
  shows "map_option (\<lambda>y. if a y \<and> q y then f y else y) (map_option (\<lambda>y. if b y \<and> q y then f y else y) r)
    = map_option (\<lambda>y. if (b y \<or> a y) \<and> q y then f y else y) r"
  by (cases r) (auto simp: assms)

lemma list_ex_keyed:
  assumes "distinct (map k t)" "x \<in> set t"
  shows "list_ex (\<lambda>y. k x = k y \<and> P y) (filter Q t) \<longleftrightarrow> Q x \<and> P x"
proof -
  have "y = x" if "y \<in> set t" "k x = k y" for y
    using assms that by (auto simp: distinct_map inj_on_def)
  then show ?thesis using assms(2) by (auto simp: list_ex_iff)
qed

lemma find_after_expire_fold:
  "find_order (fold (expire_one env now alone) xs d) i =
     map_option (\<lambda>y. if list_ex (\<lambda>x. o_id y = o_id x \<and> free_on_chain env x) xs \<and> o_status y \<in> set PRE_CHAIN
                      then y\<lparr>o_status := EXPIRED\<rparr> else y) (find_order d i)"
proof (induction xs arbitrary: d)
  case Nil
  then show ?case by (simp add: option.map_ident)
next
  case (Cons x xs)
  have "o_status (y\<lparr>o_status := EXPIRED\<rparr>) \<notin> set PRE_CHAIN" for y :: order by (simp add: status_sets)
  note tw = guarded_twice [where f = "\<lambda>y. y\<lparr>o_status := EXPIRED\<rparr>" and q = "\<lambda>y. o_status y \<in> set PRE_CHAIN", OF this]
  show ?case unfolding fold_Cons o_apply Cons.IH find_after_expire conj_assoc [symmetric] tw list_ex_Cons_iff ..
qed

text \<open>The expiry sweep expires exactly the orders nobody funded.  When the ledger can be read
  and at most 200 orders are stale, an order becomes EXPIRED if and only if it is still before the chain,
  its expiry is more than a minute behind both the clock and the last ledger seen, and the chain was read and
  holds no trade that is this order's; every other order keeps its row.  A trade that matches
  the order, or a read that fails, always saves it.\<close>

theorem expiry_spares_live_trades:
  assumes "orders_ok d" "rpc_latestLedgerCloseTime env = Inr seen" "find_order d i = Some x"
    and "length (filter (stale now seen) (db_orders d)) \<le> 200"
  shows "find_order (expireStaleOrders env now alone d) i =
     Some (if o_status x \<in> {CREATED, MATCHED, AWAITING_ONCHAIN} \<and> o_expiresAt x < min now seen - 60000 \<and>
              (case rpc_getTradeStatusStrict env (contractIdFor x (cfg_escrowContractId env)) (o_tradeId x) of
                 Inl _ \<Rightarrow> False | Inr None \<Rightarrow> True | Inr (Some t) \<Rightarrow> verifyTradeMatchesOrder t x \<noteq> [])
           then x\<lparr>o_status := EXPIRED\<rparr> else x)"
proof -
  let ?xs = "filter (stale now seen) (db_orders d)"
  have "take EXPIRE_TAKE ?xs = ?xs" using assms(4) by (simp add: EXPIRE_TAKE_def)
  then have run: "expireStaleOrders env now alone d = fold (expire_one env now alone) ?xs d"
    using assms(2) by (simp add: expireStaleOrders_def)
  have x: "x \<in> set (db_orders d)" "o_id x = i" using find_order_Some [OF assms(3)] by auto
  have "list_ex (\<lambda>y. o_id x = o_id y \<and> free_on_chain env y) ?xs \<longleftrightarrow> stale now seen x \<and> free_on_chain env x"
    using assms(1) x(1) by (intro list_ex_keyed) (auto simp: orders_ok_def)
  then have "(list_ex (\<lambda>y. o_id x = o_id y \<and> free_on_chain env y) ?xs \<and> o_status x \<in> set PRE_CHAIN) \<longleftrightarrow>
      (o_status x \<in> {CREATED, MATCHED, AWAITING_ONCHAIN} \<and> o_expiresAt x < min now seen - 60000 \<and> free_on_chain env x)"
    unfolding stale_def PRE_CHAIN_def STALE_ORDER_SWEEP_GRACE_MS_def list.set by blast
  then show ?thesis unfolding run find_after_expire_fold assms(3) option.map free_on_chain_cases by (simp only:)
qed

theorem expiry_spares_live_trades_witness:
  "find_order (expireStaleOrders demo_env 1800000000000 alone (empty_db\<lparr>db_orders := [demo_order]\<rparr>)) ''o1''
     = Some (demo_order\<lparr>o_status := EXPIRED\<rparr>)"
proof -
  let ?d = "empty_db\<lparr>db_orders := [demo_order]\<rparr>"
  have "orders_ok ?d" "rpc_latestLedgerCloseTime demo_env = Inr 1800000000000" "find_order ?d ''o1'' = Some demo_order"
    by (simp_all add: orders_ok_def order_ok_def settled_status_def demo_env_def find_order_def find_row_def)
  moreover have "length (filter (stale 1800000000000 1800000000000) (db_orders ?d)) \<le> 200" by simp
  ultimately show ?thesis using expiry_spares_live_trades [of ?d demo_env 1800000000000 "''o1''" demo_order 1800000000000]
    by simp
qed

section \<open>Properties: refunds\<close>

lemma refunded_row_keeps [simp]:
  "order_key (refunded_row now hash after y) = order_key y" "o_status (refunded_row now hash after y) = REFUNDED"
  "o_flow (refunded_row now hash after y) = o_flow y" "o_userClaimedPaidAt (refunded_row now hash after y) = o_userClaimedPaidAt y"
  "o_settledStatus (refunded_row now hash after y) \<noteq> None"
  by (auto simp: refunded_row_def Let_def order_key_def settlementFieldsFrom_def split: sum.splits option.splits)

lemma refund_write_orders:
  "db_orders (refund_write env now hash after x d) =
     update_many (\<lambda>y. o_id y = o_id x \<and> o_status y = FUNDED) (refunded_row now hash after) (db_orders d)"
  by (simp add: refund_write_def Let_def split: option.split)

lemma refund_write_step: "order_step d (refund_write env now hash after x d)"
proof -
  have "order_step d (upd_orders (update_many (\<lambda>y. o_id y = o_id x \<and> o_status y = FUNDED) (refunded_row now hash after)) d)"
    by (rule order_step_update) (simp_all add: row_kept_def order_ok_def)
  then show ?thesis by (rule order_step_trans) (rule order_step_frame, simp add: refund_write_orders)
qed

lemma recovered_row_step: "order_step d (recovered_row now i hash d)"
proof -
  let ?d1 = "upd_orders (update_many (\<lambda>y. o_id y = i \<and> o_settlementTxHash y = None) (\<lambda>y. y\<lparr>o_settlementTxHash := Some hash\<rparr>)) d"
  have "order_step d ?d1" by (rule order_step_update) (simp_all add: row_kept_def order_key_def order_ok_def)
  moreover have "order_step ?d1 (recovered_row now i hash d)"
    unfolding recovered_row_def by (rule order_step_update) (simp_all add: row_kept_def order_key_def order_ok_def)
  ultimately show ?thesis by (rule order_step_trans)
qed

text \<open>What both sweeps do with one order: at most one submission, and only when the chain says FUNDED.\<close>

lemma auto_refund_one_sound:
  "order_step d (fst (auto_refund_one env rf now x (d, subs))) \<and>
   (snd (auto_refund_one env rf now x (d, subs)) = subs \<or>
    funded_on_chain env x \<and> snd (auto_refund_one env rf now x (d, subs)) = subs @ [refund_target env x])"
  using refund_write_step by (auto simp: auto_refund_one_def split: sum.splits prod.splits)

lemma reconcile_one_sound:
  "order_step d (fst (reconcile_one env rf now x (d, subs))) \<and>
   (snd (reconcile_one env rf now x (d, subs)) = subs \<or>
    funded_on_chain env x \<and> refundOpensAt x < now div 1000 \<and>
    snd (reconcile_one env rf now x (d, subs)) = subs @ [refund_target env x])"
  using recovered_row_step by (auto simp: reconcile_one_def split: sum.splits prod.splits)

text \<open>The interface of a submitting sweep's step, and its fold over a batch.\<close>

locale submitter =
  fixes act :: "order \<Rightarrow> db \<times> submissions \<Rightarrow> db \<times> submissions"
    and target :: "order \<Rightarrow> string \<times> string" and may :: "order \<Rightarrow> bool"
  assumes act_step: "order_step d (fst (act x (d, subs)))"
    and act_subs: "snd (act x (d, subs)) = subs \<or> may x \<and> snd (act x (d, subs)) = subs @ [target x]"
begin

lemma fold_step: "order_step d (fst (fold act xs (d, subs)))"
proof (induction xs arbitrary: d subs)
  case (Cons x xs)
  obtain d' subs' where a: "act x (d, subs) = (d', subs')" by force
  then have "order_step d d'" using act_step [of d x subs] by simp
  then show ?case using order_step_trans [OF _ Cons.IH [of d' subs']] a by simp
qed simp

lemma fold_subs: "set (snd (fold act xs (d, subs))) \<subseteq> set subs \<union> target ` {x \<in> set xs. may x}"
proof (induction xs arbitrary: d subs)
  case (Cons x xs)
  obtain d' subs' where a: "act x (d, subs) = (d', subs')" by force
  then have "set subs' \<subseteq> set subs \<union> (if may x then {target x} else {})" using act_subs [of x d subs] by auto
  then show ?case using Cons.IH [of d' subs'] a by (auto split: if_splits)
qed simp

lemma fold_length: "length (snd (fold act xs (d, subs))) \<le> length subs + length xs"
proof (induction xs arbitrary: d subs)
  case (Cons x xs)
  obtain d' subs' where a: "act x (d, subs) = (d', subs')" by force
  then have "length subs' \<le> Suc (length subs)" using act_subs [of x d subs] by auto
  then show ?case using Cons.IH [of d' subs'] a by simp
qed simp

end

interpretation auto_sub: submitter "auto_refund_one env rf now" "refund_target env" "funded_on_chain env" for env rf now
  by unfold_locales (use auto_refund_one_sound in blast)+

interpretation orphan_sub: submitter "reconcile_one env rf now" "refund_target env"
  "\<lambda>x. funded_on_chain env x \<and> refundOpensAt x < now div 1000" for env rf now
  by unfold_locales (use reconcile_one_sound in blast)+

interpretation auto_refund: order_writer "\<lambda>(env, rf, now) d. fst (autoRefundExpired env rf now d)"
  by (rule order_writerI) (simp add: autoRefundExpired_def auto_sub.fold_step split: prod.split)

interpretation reconcile: order_writer "\<lambda>(env, rf, now, after) d. fst (snd (reconcileOrphanedEscrows env rf now after d))"
  by (rule order_writerI) (simp add: reconcileOrphanedEscrows_def Let_def orphan_sub.fold_step split: prod.split)

lemma past_refund_exact: "past_refund n x \<longleftrightarrow> refundOpensAt x < n"
  by (simp add: past_refund_def refund_query_exact)

lemma auto_candidates_due:
  assumes "x \<in> set (auto_refund_candidates now d)"
  shows "x \<in> set (db_orders d)" "o_status x = FUNDED" "refundOpensAt x < now div 1000"
  using in_set_takeD [OF assms [unfolded auto_refund_candidates_def]] by (simp_all add: past_refund_exact)

lemma set_by_age [simp]: "set (by_age xs) = set xs"
  by (simp add: by_age_def)

lemma orphan_candidates_pool:
  assumes "x \<in> set (orphan_candidates now after d)"
  shows "x \<in> set (db_orders d)" "refundablePoolWhere now (now div 1000) x"
  using in_set_takeD [OF assms [unfolded orphan_candidates_def]] by simp_all

text \<open>C20 (autoRefundExpired, reconcileOrphanedEscrows, refundablePoolWhere): a refund is submitted only where
  the escrow would accept one.  Every submission of either sweep names the contract and the trade of an order
  of the database whose refund instant has passed and whose trade the chain just reported as FUNDED;
  the order is FUNDED, or it is CANCELLED or EXPIRED with no settlement recorded and is at most 45 days old.
  Nothing at all is submitted while the switch is off or no signer is configured, and one run
  submits at most twenty refunds.\<close>

theorem refunds_only_when_open:
  assumes "(c, t) \<in> set (snd (autoRefundExpired env rf now d)) \<union> set (snd (snd (reconcileOrphanedEscrows env rf now after d)))"
  shows "auto_refund_on env d \<and>
     (\<exists>x \<in> set (db_orders d). c = contractIdFor x (cfg_escrowContractId env) \<and> t = o_tradeId x \<and>
        refundOpensAt x < now div 1000 \<and>
        (\<exists>tr. rpc_getTradeStatusStrict env c t = Inr (Some tr) \<and> t_status tr = FUNDED) \<and>
        (o_status x = FUNDED \<or>
         o_status x \<in> {CANCELLED, EXPIRED} \<and> o_settlementTxHash x = None \<and> o_settledAt x = None \<and>
         o_createdAt x > now - 3888000000)) \<and>
     length (snd (autoRefundExpired env rf now d)) \<le> 20 \<and>
     length (snd (snd (reconcileOrphanedEscrows env rf now after d))) \<le> 20"
proof -
  have lens: "length (snd (autoRefundExpired env rf now d)) \<le> 20 \<and>
      length (snd (snd (reconcileOrphanedEscrows env rf now after d))) \<le> 20"
    using auto_sub.fold_length [of env rf now "auto_refund_candidates now d" d "[]"]
      orphan_sub.fold_length [of env rf now "orphan_candidates now after d" d "[]"]
    by (simp add: autoRefundExpired_def reconcileOrphanedEscrows_def Let_def auto_refund_candidates_def
        orphan_candidates_def AUTO_REFUND_BATCH_SIZE_def)
  have on: "auto_refund_on env d"
    using assms by (auto simp: autoRefundExpired_def reconcileOrphanedEscrows_def Let_def split: if_splits)
  have "\<exists>x. (c, t) = refund_target env x \<and> funded_on_chain env x \<and>
      (x \<in> set (auto_refund_candidates now d) \<or> x \<in> set (orphan_candidates now after d))"
    using assms auto_sub.fold_subs [of env rf now "auto_refund_candidates now d" d "[]"]
      orphan_sub.fold_subs [of env rf now "orphan_candidates now after d" d "[]"]
    by (auto simp: autoRefundExpired_def reconcileOrphanedEscrows_def Let_def split: if_splits)
  then obtain x where x: "(c, t) = refund_target env x" "funded_on_chain env x"
      "x \<in> set (auto_refund_candidates now d) \<or> x \<in> set (orphan_candidates now after d)" by blast
  have chain: "\<exists>tr. rpc_getTradeStatusStrict env c t = Inr (Some tr) \<and> t_status tr = FUNDED"
    using x(1,2) by (auto simp: funded_on_chain_def refund_target_def split: sum.splits option.splits)
  have "x \<in> set (db_orders d) \<and> refundOpensAt x < now div 1000 \<and>
      (o_status x = FUNDED \<or> o_status x \<in> {CANCELLED, EXPIRED} \<and> o_settlementTxHash x = None \<and> o_settledAt x = None \<and>
         o_createdAt x > now - 3888000000)"
    using x(3) auto_candidates_due [of x now d] orphan_candidates_pool [of x now after d]
    by (auto simp: refundablePoolWhere_def past_refund_exact ORPHAN_LOOKBACK_MS_def)
  then show ?thesis using on chain lens x(1) by (auto simp: refund_target_def)
qed

theorem refunds_only_when_open_witness:
  "(''CE'', ''t1'') \<in> set (snd (autoRefundExpired chain_env \<lparr>rf_submit = (\<lambda>_ _. Inr (''SUCCESS'', ''h'')), rf_after = (\<lambda>_ _. Inr None)\<rparr>
      1800000000000 (empty_db\<lparr>db_config := Some (demo_config\<lparr>c_autoRefund := True\<rparr>), db_orders := [demo_order\<lparr>o_status := FUNDED\<rparr>]\<rparr>))) \<and>
   refundOpensAt demo_order < 1800000000"
proof -
  let ?rf = "\<lparr>rf_submit = (\<lambda>_ _. Inr (''SUCCESS'', ''h'')), rf_after = (\<lambda>_ _. Inr None)\<rparr>"
  let ?x = "demo_order\<lparr>o_status := FUNDED\<rparr>"
  let ?d = "empty_db\<lparr>db_config := Some (demo_config\<lparr>c_autoRefund := True\<rparr>), db_orders := [?x]\<rparr>"
  have on: "auto_refund_on chain_env ?d" by (simp add: auto_refund_on_def chain_env_def)
  have c: "auto_refund_candidates 1800000000000 ?d = [?x]"
    by (simp add: auto_refund_candidates_def past_refund_def AUTO_REFUND_BATCH_SIZE_def)
  have t: "refund_target chain_env ?x = (''CE'', ''t1'')" "funded_on_chain chain_env ?x"
    by (simp_all add: refund_target_def contractIdFor_def funded_on_chain_def chain_env_def demo_trade_def)
  have signer: "truthy_str (refund_signer chain_env)" by (simp add: chain_env_def)
  have s: "(''CE'', ''t1'') \<in> set (snd (autoRefundExpired chain_env ?rf 1800000000000 ?d))"
    using on signer by (simp add: autoRefundExpired_def c auto_refund_one_def t)
  then show ?thesis
    using refunds_only_when_open [of "''CE''" "''t1''" chain_env ?rf 1800000000000 ?d None]
    by (auto simp: refundOpensAt_def ATTEST_GRACE_SECS_def)
qed

section \<open>Properties: the walk over the pool\<close>

definition pool_at :: "ms \<Rightarrow> db \<Rightarrow> order list" where
  "pool_at now d = filter (refundablePoolWhere now (now div 1000)) (db_orders d)"

text \<open>The cursor after \<open>k\<close> passes, the \<open>k\<close>-th at \<open>nows k\<close> on the database \<open>ds k\<close>.\<close>

primrec cursor_after :: "env \<Rightarrow> refunder \<Rightarrow> (nat \<Rightarrow> ms) \<Rightarrow> (nat \<Rightarrow> db) \<Rightarrow> cursor \<Rightarrow> nat \<Rightarrow> cursor" where
  "cursor_after env rf nows ds after 0 = after"
| "cursor_after env rf nows ds after (Suc k) =
     fst (reconcileOrphanedEscrows env rf (nows k) (cursor_after env rf nows ds after k) (ds k))"

lemma past_cursor_key: "past_cursor (Some c) = (\<lambda>x. c < age_key x)"
  by (rule ext, cases c) (auto simp: past_cursor_def age_key_def less_prod_def)

lemma candidates_filter:
  "orphan_candidates now after d = take 20 (filter (past_cursor after) (by_age (pool_at now d)))"
  by (simp add: orphan_candidates_def by_age_def pool_at_def filter_sort AUTO_REFUND_BATCH_SIZE_def conj_commute)

lemma filter_after_key:
  fixes k :: "'a \<Rightarrow> 'b::linorder"
  assumes "sorted (map k s)"
  shows "\<exists>m \<le> length s. filter (\<lambda>x. c < k x) s = drop m s"
  using assms
proof (induction s)
  case (Cons x s)
  then obtain m where m: "m \<le> length s" "filter (\<lambda>x. c < k x) s = drop m s" by auto
  show ?case
  proof (cases "c < k x")
    case True
    then have "\<forall>y \<in> set s. c < k y" using Cons.prems by auto
    then show ?thesis using True by (intro exI [of _ 0]) simp
  next
    case False
    then show ?thesis using m by (intro exI [of _ "Suc m"]) simp
  qed
qed simp

lemma filter_after_nth:
  fixes k :: "'a \<Rightarrow> 'b::linorder"
  assumes "sorted (map k s)" "distinct (map k s)" "j < length s"
  shows "filter (\<lambda>x. k (s ! j) < k x) s = drop (Suc j) s"
  using assms
proof (induction s arbitrary: j)
  case (Cons x s)
  show ?case
  proof (cases j)
    case 0
    have "k x < k y" if "y \<in> set s" for y
      using Cons.prems that by (auto simp: order_less_le)
    then show ?thesis using 0 by (simp add: filter_id_conv)
  next
    case (Suc i)
    then have "\<not> k (s ! i) < k x" using Cons.prems by (auto simp: not_less)
    then show ?thesis using Suc Cons by simp
  qed
qed simp

text \<open>A pass moves the position by twenty, or back to the start.\<close>

definition walk_pos :: "nat \<Rightarrow> nat \<Rightarrow> nat" where
  "walk_pos n m = (if m + 20 \<le> n then m + 20 else 0)"

lemma next_cursor_pos:
  assumes "sorted (map age_key s)" "distinct (map age_key s)" "m \<le> length s"
  shows "filter (past_cursor (next_cursor (take 20 (drop m s)))) s = drop (walk_pos (length s) m) s"
proof (cases "m + 20 \<le> length s")
  case True
  let ?b = "take 20 (drop m s)"
  have "?b \<noteq> []" using True by auto
  then have "last ?b = s ! (m + 19)" using True by (simp add: last_conv_nth)
  moreover have "length ?b = AUTO_REFUND_BATCH_SIZE" using True by (simp add: AUTO_REFUND_BATCH_SIZE_def)
  ultimately have "next_cursor ?b = Some (age_key (s ! (m + 19)))" by (simp add: next_cursor_def age_key_def)
  then show ?thesis using filter_after_nth [OF assms(1,2), of "m + 19"] True
    by (simp add: past_cursor_key walk_pos_def add.commute)
next
  case False
  then have "next_cursor (take 20 (drop m s)) = None" by (simp add: next_cursor_def AUTO_REFUND_BATCH_SIZE_def)
  then show ?thesis using False by (simp add: past_cursor_def walk_pos_def)
qed

lemma walk_pos_steps: "m + 20 * k \<le> n \<Longrightarrow> (walk_pos n ^^ k) m = m + 20 * k"
  by (induction k) (simp_all add: walk_pos_def)

lemma div20: "20 * (q div 20) \<le> q" "q < 20 * (q div 20) + 20" for q :: nat
  by simp presburger

lemma div20_add: "a + b < n \<Longrightarrow> a div 20 + b div 20 < (n + 19) div 20" for n :: nat
proof -
  assume "a + b < n"
  then have "(a + b) div 20 \<le> (n - 1) div 20" by (intro div_le_mono) simp
  moreover have "a div 20 + b div 20 \<le> (a + b) div 20" by (simp add: div_add1_eq [of a b])
  moreover have "(n - 1 + 20) div 20 = Suc ((n - 1) div 20)" by simp
  ultimately show ?thesis using \<open>a + b < n\<close> by (simp add: add.commute [of n])
qed

lemma walk_pos_wrap:
  assumes "m \<le> n"
  shows "(walk_pos n ^^ Suc ((n - m) div 20)) m = 0"
proof -
  have "m + 20 * ((n - m) div 20) \<le> n" "\<not> m + 20 * ((n - m) div 20) + 20 \<le> n" using div20 [of "n - m"] assms by simp_all
  then show ?thesis using walk_pos_steps [of m "(n - m) div 20" n] by (simp add: walk_pos_def)
qed

lemma walk_pos_covers:
  assumes "m \<le> n" "j < n"
  shows "\<exists>k \<le> (n + 19) div 20. (walk_pos n ^^ k) m \<le> j \<and> j < (walk_pos n ^^ k) m + 20"
proof (cases "m \<le> j")
  case True
  let ?k = "(j - m) div 20"
  have "m + 20 * ?k \<le> j" "j < m + 20 * ?k + 20" using div20 [of "j - m"] True by simp_all
  moreover have "?k \<le> (n + 19) div 20" using div20_add [of "j - m" 0 n] assms by simp
  ultimately show ?thesis using walk_pos_steps [of m ?k n] assms by (intro exI [of _ ?k]) simp
next
  case False
  let ?a = "Suc ((n - m) div 20)" and ?b = "j div 20"
  note b = div20 [of j]
  have "(walk_pos n ^^ (?b + ?a)) m = (walk_pos n ^^ ?b) 0"
    using walk_pos_wrap [OF assms(1)] by (simp only: funpow_add o_apply)
  then have "(walk_pos n ^^ (?b + ?a)) m = 20 * ?b" using walk_pos_steps [of 0 ?b n] b assms by simp
  moreover have "?b + ?a \<le> (n + 19) div 20" using div20_add [of "n - m" j n] False assms by simp
  ultimately show ?thesis using b by (intro exI [of _ "?b + ?a"]) simp
qed

text \<open>C21 (reconcileOrphanedEscrows, next_cursor): the walk over the pool of cancelled and expired orders reaches
  every one of them.  As long as the pool's rows stay as they are, whatever else happens in the database
  and wherever the cursor stands, an order of the pool is in the batch of one of the next
  \<open>ceil(n / 20) + 1\<close> passes, \<open>n\<close> the size of the pool.  That is the
  allowance, before its cap, after which the divergence alert calls a funded orphan missed.\<close>

theorem walk_reaches_every_orphan:
  assumes "\<And>k. pool_at (nows k) (ds k) = P \<and> auto_refund_on env (ds k)" "distinct (map o_id P)" "x \<in> set P"
  shows "\<exists>k \<le> (length P + 19) div 20. x \<in> set (orphan_candidates (nows k) (cursor_after env rf nows ds after k) (ds k))"
proof -
  define s where "s = by_age P"
  have so: "sorted (map age_key s)" by (simp add: s_def by_age_def)
  have "distinct (map age_key P)" using assms(2) by (auto simp: distinct_map inj_on_def age_key_def)
  then have di: "distinct (map age_key s)" by (simp add: s_def by_age_def distinct_map)
  have len: "length s = length P" by (simp add: s_def by_age_def)
  have batch: "orphan_candidates (nows k) c (ds k) = take 20 (filter (past_cursor c) s)" for k c
    using assms(1) [of k] by (simp add: candidates_filter s_def)
  obtain m where m: "m \<le> length s" "filter (past_cursor after) s = drop m s"
  proof (cases after)
    case None
    then show ?thesis using that [of 0] by (simp add: past_cursor_def)
  next
    case (Some c)
    obtain m where "m \<le> length s" "filter (\<lambda>x. c < age_key x) s = drop m s" using filter_after_key [OF so, of c] by blast
    then show ?thesis using that [of m] Some by (simp add: past_cursor_key)
  qed
  have pos: "(walk_pos (length s) ^^ k) m \<le> length s \<and>
      filter (past_cursor (cursor_after env rf nows ds after k)) s = drop ((walk_pos (length s) ^^ k) m) s" for k
  proof (induction k)
    case (Suc k)
    then show ?case using next_cursor_pos [OF so di, of "(walk_pos (length s) ^^ k) m"] assms(1) [of k]
      by (simp add: reconcileOrphanedEscrows_def Let_def batch) (simp add: walk_pos_def)
  qed (use m in simp)
  have "x \<in> set s" using assms(3) by (simp add: s_def)
  then obtain j where j: "j < length s" "s ! j = x" by (meson in_set_conv_nth)
  obtain k where k: "k \<le> (length s + 19) div 20" "(walk_pos (length s) ^^ k) m \<le> j" "j < (walk_pos (length s) ^^ k) m + 20"
    using walk_pos_covers [OF m(1) j(1)] by blast
  have "x \<in> set (take 20 (drop ((walk_pos (length s) ^^ k) m) s))"
    using k j by (auto simp: in_set_conv_nth intro!: exI [of _ "j - (walk_pos (length s) ^^ k) m"])
  then show ?thesis using k(1) pos [of k] len by (auto simp: batch)
qed

theorem walk_reaches_every_orphan_witness:
  "\<exists>k \<le> 1. demo_order\<lparr>o_status := CANCELLED\<rparr> \<in> set (orphan_candidates 1700100000000
     (cursor_after demo_env \<lparr>rf_submit = (\<lambda>_ _. Inr (''FAILED'', ''h'')), rf_after = (\<lambda>_ _. Inr None)\<rparr> (\<lambda>_. 1700100000000)
        (\<lambda>_. empty_db\<lparr>db_config := Some (demo_config\<lparr>c_autoRefund := True\<rparr>), db_orders := [demo_order\<lparr>o_status := CANCELLED\<rparr>]\<rparr>)
        (Some (1700100000000, ''z'')) k)
     (empty_db\<lparr>db_config := Some (demo_config\<lparr>c_autoRefund := True\<rparr>), db_orders := [demo_order\<lparr>o_status := CANCELLED\<rparr>]\<rparr>))"
proof -
  let ?x = "demo_order\<lparr>o_status := CANCELLED\<rparr>"
  let ?d = "empty_db\<lparr>db_config := Some (demo_config\<lparr>c_autoRefund := True\<rparr>), db_orders := [?x]\<rparr>"
  have "pool_at 1700100000000 ?d = [?x] \<and> auto_refund_on demo_env ?d"
    by (simp add: pool_at_def refundablePoolWhere_def past_refund_def ORPHAN_LOOKBACK_MS_def auto_refund_on_def)
  then show ?thesis
    using walk_reaches_every_orphan [of "\<lambda>_. 1700100000000" "\<lambda>_. ?d" "[?x]" demo_env ?x
        "\<lparr>rf_submit = (\<lambda>_ _. Inr (''FAILED'', ''h'')), rf_after = (\<lambda>_ _. Inr None)\<rparr>" "Some (1700100000000, ''z'')"] by simp
qed

end
