(* ===== verification/Divergence.thy ===== *)
theory Divergence
  imports Maintenance
begin

text \<open>
  The two watches of \<open>maintenance/maintenance.service.ts\<close>: cancelled or expired orders whose
  escrow is not empty (\<open>alertOnEscrowDivergence\<close>) and a configuration row that no longer agrees
  with the contract (\<open>alertOnEscrowConfigDrift\<close>), with
  \<open>config/platform-wallet-remedy.ts\<close>.  Each database read of a watch may fail on its own: the
  record \<open>reads\<close> says which do.
\<close>

definition DIVERGENCE_SCAN_LIMIT :: nat where "DIVERGENCE_SCAN_LIMIT = 500"
definition RECONCILER_PERIOD_SECS :: secs where "RECONCILER_PERIOD_SECS = 600"
definition MAX_WALK_PERIODS :: int where "MAX_WALK_PERIODS = 12"

record reads =
  rd_config :: "http_error option"
  rd_orders :: "http_error option"
  rd_count :: "http_error option"
  rd_alerts :: "http_error option"

definition answer :: "http_error option \<Rightarrow> 'a \<Rightarrow> 'a outcome" where
  "answer failed a = (case failed of Some e \<Rightarrow> Inl e | None \<Rightarrow> Inr a)"

fun errMsg :: "http_error \<Rightarrow> string" where
  "errMsg (BadRequestException m) = m"
| "errMsg (UnauthorizedException m) = m"
| "errMsg (ForbiddenException m) = m"
| "errMsg (NotFoundException m) = m"
| "errMsg (ConflictException m) = m"
| "errMsg (ServiceUnavailableException m) = m"
| "errMsg (BadGatewayException m) = m"
| "errMsg (InternalServerErrorException m) = m"
| "errMsg (HttpException s m) = m"
| "errMsg (RangeError m) = m"
| "errMsg (UncaughtError m) = m"

section \<open>Divergence\<close>

definition FAMILY_DIVERGENCE :: string where "FAMILY_DIVERGENCE = ''escrow_divergence''"

definition urgent_alert :: "string \<Rightarrow> string \<Rightarrow> string \<Rightarrow> alert" where
  "urgent_alert key print text = \<lparr>al_key = key, al_fingerprint = print, al_urgency = Urgent, al_text = text\<rparr>"

definition divergence_key :: "order \<Rightarrow> string" where
  "divergence_key x = ''escrow_divergence:'' @ o_id x"

definition order_words :: "order \<Rightarrow> order_status \<Rightarrow> string" where
  "order_words x onChain =
     ''order '' @ o_id x @ '' (trade '' @ o_tradeId x @ '') is '' @ status_name (o_status x) @ '' off chain but '' @ status_name onChain @ '' on chain''"

datatype tag = ConfigUnknown | Off | NoSigner | Old | Missed | Reconciler

fun tag_name :: "tag \<Rightarrow> string" where
  "tag_name ConfigUnknown = ''config-unknown''"
| "tag_name Off = ''off''"
| "tag_name NoSigner = ''no-signer''"
| "tag_name Old = ''old''"
| "tag_name Missed = ''missed''"
| "tag_name Reconciler = ''reconciler''"

fun tag_why :: "int \<Rightarrow> tag \<Rightarrow> string" where
  "tag_why w ConfigUnknown = ''the Config row could not be read, so whether the reconciler will act is unknown''"
| "tag_why w Off = ''Config.autoRefund is off''"
| "tag_why w NoSigner = ''no refund signer is configured''"
| "tag_why w Old = ''it is older than the reconciler lookback, so nothing automatic will ever see it''"
| "tag_why w Missed = ''the refund instant passed more than '' @ dec_int w @ '' reconciler periods ago, more than this alert allows for a walk of the pool, and the escrow is still funded, so the reconciler did not act''"
| "tag_why w Reconciler = ''the refund reconciler will return it on its next pass''"

definition funded_tag :: "env \<Rightarrow> bool \<Rightarrow> bool \<Rightarrow> ms \<Rightarrow> int \<Rightarrow> order \<Rightarrow> tag" where
  "funded_tag env configReadable autoRefund now walkPeriods x =
     (if \<not> configReadable then ConfigUnknown
      else if \<not> autoRefund then Off
      else if refund_signer env = None then NoSigner
      else if \<not> o_createdAt x > now - ORPHAN_LOOKBACK_MS then Old
      else if now div 1000 > refundOpensAt x + walkPeriods * RECONCILER_PERIOD_SECS then Missed
      else Reconciler)"

text \<open>\<open>toISOString\<close> throws for an instant no \<open>Date\<close> can hold.\<close>

definition MAX_DATE_MS :: ms where "MAX_DATE_MS = 8640000000000000"

definition funded_alert :: "env \<Rightarrow> bool \<Rightarrow> bool \<Rightarrow> ms \<Rightarrow> int \<Rightarrow> order \<Rightarrow> alert outcome" where
  "funded_alert env configReadable autoRefund now walkPeriods x =
     (let refundAt = refundOpensAt x; tag = funded_tag env configReadable autoRefund now walkPeriods x
      in if \<bar>refundAt * 1000\<bar> > MAX_DATE_MS then Inl (RangeError ''Invalid time value'')
         else Inr \<lparr>al_key = divergence_key x, al_fingerprint = ''FUNDED:'' @ tag_name tag,
                   al_urgency = (if tag = Reconciler then Routine else Urgent),
                   al_text = order_words x FUNDED @ '': '' @ tag_why walkPeriods tag @
                     ''; refund() is permissionless once the refund instant has passed (opens at '' @ iso_string (refundAt * 1000) @
                     '') and returns the USDC to the usdc_provider, '' @ (if o_flow x = WITHDRAW then ''the user'' else ''the provider'')\<rparr>)"

definition undescribed_alert :: "order \<Rightarrow> order_status \<Rightarrow> http_error \<Rightarrow> alert" where
  "undescribed_alert x onChain e =
     urgent_alert (divergence_key x) (status_name onChain @ '':undescribed'')
       (order_words x onChain @ '' and its alert could not be composed: '' @ errMsg e)"

text \<open>One candidate: the alerts it gives, and whether its read failed.\<close>

definition divergence_of :: "env \<Rightarrow> bool \<Rightarrow> bool \<Rightarrow> ms \<Rightarrow> int \<Rightarrow> order \<Rightarrow> alert list \<times> bool" where
  "divergence_of env configReadable autoRefund now walkPeriods x =
     (case rpc_getTradeStatusStrict env (contractIdFor x (cfg_escrowContractId env)) (o_tradeId x) of
        Inl _ \<Rightarrow> ([], True)
      | Inr None \<Rightarrow> ([], False)
      | Inr (Some t) \<Rightarrow>
          if t_status t = REFUNDED then ([], False)
          else if t_status t = FUNDED
          then ([case funded_alert env configReadable autoRefund now walkPeriods x of
                   Inr a \<Rightarrow> a | Inl e \<Rightarrow> undescribed_alert x FUNDED e], False)
          else ([urgent_alert (divergence_key x) (status_name (t_status t))
                   (order_words x (t_status t) @ '' '' @ em_dash @ '' a human must look at this'')], False))"

definition scan_order :: "order list \<Rightarrow> order list" where
  "scan_order xs = take DIVERGENCE_SCAN_LIMIT (rev (sort_key age_key (filter (\<lambda>x. o_status x \<in> {CANCELLED, EXPIRED}) xs)))"

definition overflow_alert :: alert where
  "overflow_alert = urgent_alert ''escrow_divergence:overflow'' ''at-limit''
     (''at least '' @ dec_nat DIVERGENCE_SCAN_LIMIT @ '' cancelled or expired orders were found by the divergence scan, which is truncated there, and nothing in this family will be reported as cleared until it is not'')"

definition unsized_alert :: "http_error \<Rightarrow> alert" where
  "unsized_alert e = urgent_alert ''escrow_divergence:pool-unsized'' ''pool-unsized''
     (''the reconciler pool could not be counted, so the allowance before a funded orphan is called missed is a guess from the scan width: '' @ errMsg e)"

definition walk_periods :: "nat \<Rightarrow> int" where
  "walk_periods poolSize = min ((int poolSize + 19) div 20 + 1) MAX_WALK_PERIODS"

text \<open>What the scan finds, and whether it was incomplete.\<close>

definition divergence_scan :: "env \<Rightarrow> reads \<Rightarrow> ms \<Rightarrow> db \<Rightarrow> alert list \<times> bool" where
  "divergence_scan env rd now d =
     (let configReadable = (rd_config rd = None);
          autoRefund = (configReadable \<and> (case db_config d of None \<Rightarrow> False | Some c \<Rightarrow> c_autoRefund c));
          candidates = scan_order (db_orders d);
          truncated = (length candidates \<ge> DIVERGENCE_SCAN_LIMIT);
          sized = (configReadable \<and> autoRefund \<and> refund_signer env \<noteq> None);
          (poolSize, unsized) =
            (if sized
             then case answer (rd_count rd) (count_rows (refundablePoolWhere now (now div 1000)) (db_orders d)) of
                    Inl e \<Rightarrow> (length candidates, [unsized_alert e]) | Inr n \<Rightarrow> (n, [])
             else (length candidates, []));
          per = map (divergence_of env configReadable autoRefund now (walk_periods poolSize)) candidates
      in ((if truncated then [overflow_alert] else []) @ unsized @ concat (map fst per),
          truncated \<or> unsized \<noteq> [] \<or> list_ex snd per))"

definition alertOnEscrowDivergence :: "env \<Rightarrow> (string \<Rightarrow> string) \<Rightarrow> reads \<Rightarrow> ms \<Rightarrow> db \<Rightarrow> db \<times> alert list \<times> string list" where
  "alertOnEscrowDivergence env sha rd now d =
     (let known = answer (rd_alerts rd) (db_alerts d) in
      case rd_orders rd of
        Some e \<Rightarrow>
          raise_alerts env sha known [FAMILY_DIVERGENCE]
            [urgent_alert ''escrow_divergence:unreadable'' ''unreadable''
               (''cancelled and expired orders could not be compared with the escrow because the order query failed: '' @ errMsg e)]
            {FAMILY_DIVERGENCE} now d
      | None \<Rightarrow>
          (let (found, incomplete) = divergence_scan env rd now d
           in raise_alerts env sha known [FAMILY_DIVERGENCE] found (if incomplete then {FAMILY_DIVERGENCE} else {}) now d))"

section \<open>Configuration drift\<close>

definition platformWalletRemedy :: "string \<Rightarrow> string" where
  "platformWalletRemedy chainWallet =
     (if take 1 chainWallet = ''G'' then ''until the row is patched to match''
      else ''and the row cannot be patched to match, because the admin API accepts only G addresses, so this deployment needs a contract whose platform wallet is a G address'')"

definition FAMILY_DRIFT :: string where "FAMILY_DRIFT = ''escrow_config_drift''"

definition fee_drift :: "config \<Rightarrow> int \<Rightarrow> alert list" where
  "fee_drift row fee =
     (if c_platformFeeBps row \<noteq> fee
      then [urgent_alert ''escrow_config_drift:platformFeeBps'' (dec_int (c_platformFeeBps row) @ '':'' @ dec_int fee)
              (''Config.platformFeeBps ('' @ dec_int (c_platformFeeBps row) @ '') differs from the escrow contract default_platform_fee_bps ('' @
               dec_int fee @ ''); create_trade refuses every funding until the row is patched to match'')]
      else [])"

definition wallet_drift :: "config \<Rightarrow> address \<Rightarrow> alert list" where
  "wallet_drift row wallet =
     (if c_platformWallet row \<noteq> wallet
      then [urgent_alert ''escrow_config_drift:platformWallet'' (c_platformWallet row @ '':'' @ wallet)
              (''Config.platformWallet ('' @ c_platformWallet row @ '') differs from the escrow contract default_platform_wallet ('' @
               wallet @ ''), which the contract will not let anyone change; create_trade refuses every funding '' @ platformWalletRemedy wallet)]
      else [])"

definition drift_read :: "env \<Rightarrow> reads \<Rightarrow> db \<Rightarrow> (config \<times> int \<times> address) outcome" where
  "drift_read env rd d =
     (case answer (rd_config rd) (db_config d) of
        Inl e \<Rightarrow> Inl e
      | Inr None \<Rightarrow> Inl (UncaughtError ''the Config row is missing'')
      | Inr (Some row) \<Rightarrow> map_sum id (Pair row) (rpc_readEscrowPlatformDefaults env (cfg_escrowContractId env)))"

definition drift_alerts :: "env \<Rightarrow> reads \<Rightarrow> db \<Rightarrow> alert list \<times> bool" where
  "drift_alerts env rd d =
     (case drift_read env rd d of
        Inr (row, fee, wallet) \<Rightarrow> (fee_drift row fee @ wallet_drift row wallet, False)
      | Inl e \<Rightarrow>
          ([urgent_alert ''escrow_config_drift:unreadable'' ''unreadable''
              (''Config.platformFeeBps and platformWallet are unchecked against the escrow contract because the comparison could not run: '' @ errMsg e)],
           True))"

definition alertOnEscrowConfigDrift :: "env \<Rightarrow> (string \<Rightarrow> string) \<Rightarrow> reads \<Rightarrow> ms \<Rightarrow> db \<Rightarrow> db \<times> alert list \<times> string list" where
  "alertOnEscrowConfigDrift env sha rd now d =
     (let (found, incomplete) = drift_alerts env rd d
      in raise_alerts env sha (answer (rd_alerts rd) (db_alerts d)) [FAMILY_DRIFT] found
           (if incomplete then {FAMILY_DRIFT} else {}) now d)"

section \<open>Properties\<close>

lemma divergence_of_cases:
  "(\<forall>a \<in> set (fst (divergence_of env cr ar now w x)). al_key a = divergence_key x) \<and>
   (fst (divergence_of env cr ar now w x) \<noteq> [] \<longleftrightarrow>
      (\<exists>t. rpc_getTradeStatusStrict env (contractIdFor x (cfg_escrowContractId env)) (o_tradeId x) = Inr (Some t) \<and> t_status t \<noteq> REFUNDED)) \<and>
   (snd (divergence_of env cr ar now w x) \<longleftrightarrow>
      (\<exists>e. rpc_getTradeStatusStrict env (contractIdFor x (cfg_escrowContractId env)) (o_tradeId x) = Inl e))"
  by (simp add: divergence_of_def undescribed_alert_def urgent_alert_def funded_alert_def Let_def
      split: sum.split option.split)

text \<open>A routine alert is given only while the reconciler can and will still act.\<close>

lemma routine_only_while_reconciling:
  assumes "a \<in> set (fst (divergence_of env cr ar now w x))" "al_urgency a = Routine"
  shows "cr \<and> ar \<and> refund_signer env \<noteq> None \<and> o_createdAt x > now - ORPHAN_LOOKBACK_MS \<and>
         now div 1000 \<le> refundOpensAt x + w * RECONCILER_PERIOD_SECS \<and>
         (\<exists>t. rpc_getTradeStatusStrict env (contractIdFor x (cfg_escrowContractId env)) (o_tradeId x) = Inr (Some t) \<and> t_status t = FUNDED)"
  using assms
  by (auto simp: divergence_of_def undescribed_alert_def urgent_alert_def funded_alert_def Let_def funded_tag_def
      split: sum.splits option.splits if_splits)

definition scanned :: "db \<Rightarrow> order list" where
  "scanned d = filter (\<lambda>x. o_status x \<in> {CANCELLED, EXPIRED}) (db_orders d)"

lemma scan_order_all: "length (scanned d) \<le> 500 \<Longrightarrow> set (scan_order (db_orders d)) = set (scanned d)"
  by (simp add: scan_order_def scanned_def DIVERGENCE_SCAN_LIMIT_def)

lemma scan_order_sub: "x \<in> set (scan_order (db_orders d)) \<Longrightarrow> x \<in> set (scanned d)"
  by (auto simp: scan_order_def scanned_def dest: in_set_takeD)

lemma length_scan_order: "length (scan_order (db_orders d)) = min 500 (length (scanned d))"
  by (simp add: scan_order_def scanned_def DIVERGENCE_SCAN_LIMIT_def min.commute)

text \<open>The parts of the scan, with the pool size it used.\<close>

lemma divergence_scan_parts:
  obtains ar n unsized where
    "fst (divergence_scan env rd now d) =
       (if length (scanned d) \<ge> 500 then [overflow_alert] else []) @ unsized @
       concat (map (\<lambda>x. fst (divergence_of env (rd_config rd = None) ar now (walk_periods n) x)) (scan_order (db_orders d)))"
    "snd (divergence_scan env rd now d) \<longleftrightarrow>
       length (scanned d) \<ge> 500 \<or> unsized \<noteq> [] \<or>
       (\<exists>x \<in> set (scan_order (db_orders d)). snd (divergence_of env (rd_config rd = None) ar now (walk_periods n) x))"
    "ar \<longleftrightarrow> rd_config rd = None \<and> (\<exists>c. db_config d = Some c \<and> c_autoRefund c)"
proof -
  let ?ar = "rd_config rd = None \<and> (case db_config d of None \<Rightarrow> False | Some c \<Rightarrow> c_autoRefund c)"
  have l: "length (scan_order (db_orders d)) \<ge> DIVERGENCE_SCAN_LIMIT \<longleftrightarrow> length (scanned d) \<ge> 500"
    by (auto simp: length_scan_order DIVERGENCE_SCAN_LIMIT_def)
  show ?thesis
    by (rule that [of
        "if ?ar \<and> refund_signer env \<noteq> None
         then case answer (rd_count rd) (count_rows (refundablePoolWhere now (now div 1000)) (db_orders d)) of Inl e \<Rightarrow> [unsized_alert e] | Inr n \<Rightarrow> []
         else []" ?ar
        "if ?ar \<and> refund_signer env \<noteq> None
         then case answer (rd_count rd) (count_rows (refundablePoolWhere now (now div 1000)) (db_orders d)) of
                Inl e \<Rightarrow> length (scan_order (db_orders d)) | Inr n \<Rightarrow> n
         else length (scan_order (db_orders d))"])
      (auto simp: divergence_scan_def Let_def l list_ex_iff o_def split: prod.splits sum.splits option.splits)
qed

lemma nothing_cleared_when_incomplete:
  "snd (snd (raise_alerts env sha known [f] alerts {f} now d)) = []"
proof -
  have False if "key \<in> set (to_clear (filter (\<lambda>k. familyOf (as_key k) \<in> set [f]) rows) now mine {f})" for key rows mine
    using to_clearD [OF that] by auto
  then have "to_clear (filter (\<lambda>k. familyOf (as_key k) \<in> set [f]) rows) now mine {f} = []" for rows mine
    by (metis list.set_intros(1) neq_Nil_conv)
  then show ?thesis by (simp add: raise_alerts_def Let_def split: sum.split)
qed


definition reads_ok :: reads where
  "reads_ok = \<lparr>rd_config = None, rd_orders = None, rd_count = None, rd_alerts = None\<rparr>"


text \<open>The drift watch is silent exactly when row and contract were both read and agree.\<close>

lemma drift_silent_iff:
  "fst (drift_alerts env rd d) = [] \<longleftrightarrow>
     (\<exists>row. rd_config rd = None \<and> db_config d = Some row \<and>
        rpc_readEscrowPlatformDefaults env (cfg_escrowContractId env) = Inr (c_platformFeeBps row, c_platformWallet row))"
  by (cases "rpc_readEscrowPlatformDefaults env (cfg_escrowContractId env)")
     (auto simp: drift_alerts_def drift_read_def answer_def fee_drift_def wallet_drift_def split: option.splits if_splits)

end
