(* ===== verification/Provider.thy ===== *)
theory Provider
  imports OrderService
begin

text \<open>
  \<open>lp/lp.service.ts\<close>: a provider's application, presence, payment methods, stake transactions
  and earnings.  Building a staking transaction is a call of the chain reader and a parameter here.  An
  \<open>update\<close> of a row that is not there throws P2025.
\<close>

section \<open>Payment destinations\<close>

definition METHOD_TOO_SHORT :: string where
  "METHOD_TOO_SHORT = ''Those payment details are too short for anyone to pay into. Enter the full destination and the name it belongs to.''"

definition PAYMENT_METHOD_MESSAGES :: "destination_problem \<Rightarrow> string" where
  "PAYMENT_METHOD_MESSAGES p =
     (case p of
        Missing \<Rightarrow> METHOD_TOO_SHORT
      | TooLong \<Rightarrow> ''Those payment details are too long. Keep it to 500 characters or fewer.''
      | BadChars \<Rightarrow> ''Those payment details contain characters this anchor cannot pass on to a depositor. Type the destination in by hand rather than pasting it.''
      | SecretKey \<Rightarrow> ''That looks like a Stellar secret key, and this field needs a payment destination. If it is your secret key and not a public address, it is no longer safe to use ''
                     @ em_dash @ '' move your funds to a new wallet.''
      | TooShort \<Rightarrow> METHOD_TOO_SHORT)"

definition requirePaymentDestination :: "string \<Rightarrow> string outcome" where
  "requirePaymentDestination raw =
     (case checkPaymentDestination (Some raw) of
        Inr v \<Rightarrow> Inr v | Inl p \<Rightarrow> Inl (BadRequestException (PAYMENT_METHOD_MESSAGES p)))"

section \<open>Application and presence\<close>

definition personIdForWallet :: "db \<Rightarrow> address \<Rightarrow> string option" where
  "personIdForWallet d a =
     (case find_row w_stellarAddress a (db_links d) of
        None \<Rightarrow> None | Some w \<Rightarrow> if w_status w = ACTIVE then Some (w_personId w) else None)"

definition find_provider :: "db \<Rightarrow> address \<Rightarrow> lp option" where
  "find_provider d a = find_row lp_stellarAddress a (db_lps d)"

definition P2025 :: http_error where "P2025 = UncaughtError ''P2025''"

abbreviation upd_lps :: "(lp list \<Rightarrow> lp list) \<Rightarrow> db \<Rightarrow> db" where
  "upd_lps f d \<equiv> d\<lparr>db_lps := f (db_lps d)\<rparr>"

definition update_provider :: "address \<Rightarrow> (lp \<Rightarrow> lp) \<Rightarrow> (db, unit) handler" where
  "update_provider a f d =
     (if find_provider d a = None then (d, Inl P2025)
      else (upd_lps (update_many (\<lambda>l. lp_stellarAddress l = a) f) d, Inr ()))"

definition reapplied :: "string \<Rightarrow> string \<Rightarrow> string option \<Rightarrow> lp \<Rightarrow> lp" where
  "reapplied contact proof personId l =
     l\<lparr>lp_contact := contact, lp_liquidityProof := proof, lp_status := LP_PENDING, lp_approvedAt := None,
       lp_personId := (case personId of None \<Rightarrow> lp_personId l | p \<Rightarrow> p)\<rparr>"

definition new_provider :: "env \<Rightarrow> ms \<Rightarrow> address \<Rightarrow> string \<Rightarrow> string \<Rightarrow> string option \<Rightarrow> lp" where
  "new_provider env now a contact proof personId =
     \<lparr>lp_id = sdk_uuid env (''lp:'' @ a), lp_stellarAddress = a, lp_status = LP_PENDING, lp_disputesLost = 0,
      lp_contact = contact, lp_liquidityProof = proof, lp_approvalNote = None, lp_online = False,
      lp_lastHeartbeatAt = None, lp_paymentMethods = [], lp_createdAt = now, lp_approvedAt = None,
      lp_personId = personId, lp_alertEmail = None\<rparr>"

definition apply_lp :: "env \<Rightarrow> ms \<Rightarrow> address \<Rightarrow> string \<Rightarrow> string \<Rightarrow> (db, unit) handler" where
  "apply_lp env now a contact proof d =
     (if (\<exists>l. find_provider d a = Some l \<and> (lp_status l = LP_SUSPENDED \<or> lp_status l = LP_REVOKED))
      then (d, Inl (ConflictException ''This wallet is not eligible to apply. Contact support if you believe this is a mistake.''))
      else case rpc_hasUsdcTrustline env a of
             Inl e \<Rightarrow> (d, Inl e)
           | Inr False \<Rightarrow> (d, Inl (BadRequestException (''Add a USDC trustline to your wallet before applying as an LP '' @ em_dash @ '' you need it to receive USDC.'')))
           | Inr True \<Rightarrow>
               (let personId = personIdForWallet d a in
                if find_provider d a \<noteq> None then update_provider a (reapplied contact proof personId) d
                else (upd_lps (\<lambda>t. t @ [new_provider env now a contact proof personId]) d, Inr ())))"

record me_view =
  me_lp :: lp
  me_matchable :: bool
  me_reachable :: bool

definition me :: "db \<Rightarrow> address \<Rightarrow> me_view option" where
  "me d a =
     map_option (\<lambda>l. \<lparr>me_lp = l\<lparr>lp_alertEmail := None\<rparr>,
        me_matchable = (count_rows (\<lambda>m. matchableLpWhere m \<and> lp_id m = lp_id l) (db_lps d) > 0),
        me_reachable = (lp_alertEmail l \<noteq> None)\<rparr>) (find_provider d a)"

definition heartbeat :: "ms \<Rightarrow> address \<Rightarrow> (db, unit) handler" where
  "heartbeat now a = update_provider a (\<lambda>l. l\<lparr>lp_lastHeartbeatAt := Some now\<rparr>)"

definition setAvailability :: "address \<Rightarrow> bool \<Rightarrow> (db, unit) handler" where
  "setAvailability a available = update_provider a (\<lambda>l. l\<lparr>lp_online := available\<rparr>)"

definition setAlertEmail :: "address \<Rightarrow> string option \<Rightarrow> (db, unit) handler" where
  "setAlertEmail a email = update_provider a (\<lambda>l. l\<lparr>lp_alertEmail := email\<rparr>)"

section \<open>Payment methods\<close>

definition addPaymentMethod :: "env \<Rightarrow> string \<Rightarrow> address \<Rightarrow> rail \<Rightarrow> string \<Rightarrow> string \<Rightarrow> (db, payment_method) handler" where
  "addPaymentMethod env uuid a rl label details d =
     (case find_provider d a of
        None \<Rightarrow> (d, Inl (NotFoundException ''LP not found''))
      | Some l \<Rightarrow>
          (case requirePaymentDestination details of
             Inl e \<Rightarrow> (d, Inl e)
           | Inr v \<Rightarrow>
               (let m = \<lparr>pm_id = uuid, pm_rail = rl, pm_label = label, pm_details = v, pm_currency = ''IDR'', pm_active = True\<rparr>
                in (upd_lps (update_many (\<lambda>x. lp_id x = lp_id l) (\<lambda>x. x\<lparr>lp_paymentMethods := lp_paymentMethods x @ [m]\<rparr>)) d, Inr m))))"

record method_patch =
  pp_rail :: "rail option"
  pp_label :: "string option"
  pp_details :: "string option"
  pp_active :: "bool option"

definition own_method :: "db \<Rightarrow> address \<Rightarrow> string \<Rightarrow> payment_method option" where
  "own_method d a i =
     find_row pm_id i (concat (map lp_paymentMethods (filter (\<lambda>l. lp_stellarAddress l = a) (db_lps d))))"

definition method_missing :: http_error where
  "method_missing = NotFoundException ''Payment method not found''"

definition patched_method :: "method_patch \<Rightarrow> string option \<Rightarrow> payment_method \<Rightarrow> payment_method" where
  "patched_method p details m =
     m\<lparr>pm_rail := (case pp_rail p of None \<Rightarrow> pm_rail m | Some r \<Rightarrow> r),
       pm_label := (case pp_label p of None \<Rightarrow> pm_label m | Some v \<Rightarrow> v),
       pm_details := (case details of None \<Rightarrow> pm_details m | Some v \<Rightarrow> v),
       pm_active := (case pp_active p of None \<Rightarrow> pm_active m | Some b \<Rightarrow> b)\<rparr>"

text \<open>The methods of every provider are one table, keyed by the method's id.\<close>

definition upd_methods :: "(payment_method list \<Rightarrow> payment_method list) \<Rightarrow> db \<Rightarrow> db" where
  "upd_methods f d = upd_lps (map (\<lambda>l. l\<lparr>lp_paymentMethods := f (lp_paymentMethods l)\<rparr>)) d"

definition updatePaymentMethod :: "address \<Rightarrow> string \<Rightarrow> method_patch \<Rightarrow> (db, unit) handler" where
  "updatePaymentMethod a i p d =
     (if own_method d a i = None then (d, Inl method_missing)
      else case (case pp_details p of None \<Rightarrow> Inr None | Some s \<Rightarrow> map_sum id Some (requirePaymentDestination s)) of
             Inl e \<Rightarrow> (d, Inl e)
           | Inr details \<Rightarrow> (upd_methods (update_many (\<lambda>m. pm_id m = i) (patched_method p details)) d, Inr ()))"

definition deletePaymentMethod :: "address \<Rightarrow> string \<Rightarrow> (db, unit) handler" where
  "deletePaymentMethod a i d =
     (if own_method d a i = None then (d, Inl method_missing)
      else (upd_methods (delete_many (\<lambda>m. pm_id m = i)) d, Inr ()))"

section \<open>Staking\<close>

definition assertIsAProvider :: "db \<Rightarrow> address \<Rightarrow> unit outcome" where
  "assertIsAProvider d a =
     (if find_provider d a = None then Inl (ForbiddenException ''this wallet is not a registered provider'') else Inr ())"

text \<open>The three staking builders and the stake read differ only in the call they wrap.\<close>

definition staking_call :: "'a outcome \<Rightarrow> db \<Rightarrow> address \<Rightarrow> 'a outcome" where
  "staking_call call d a =
     (case assertIsAProvider d a of
        Inl e \<Rightarrow> Inl e
      | Inr _ \<Rightarrow> (case call of Inr r \<Rightarrow> Inr r | Inl _ \<Rightarrow> Inl (ServiceUnavailableException ''Stellar RPC unavailable, retry later'')))"

definition buildStakeTx :: "(address \<Rightarrow> string \<Rightarrow> 'x outcome) \<Rightarrow> db \<Rightarrow> address \<Rightarrow> string \<Rightarrow> 'x outcome" where
  "buildStakeTx rpc d a amount = staking_call (rpc a amount) d a"

definition buildRequestUnstakeTx :: "(address \<Rightarrow> string \<Rightarrow> 'x outcome) \<Rightarrow> db \<Rightarrow> address \<Rightarrow> string \<Rightarrow> 'x outcome" where
  "buildRequestUnstakeTx rpc d a amount = staking_call (rpc a amount) d a"

definition buildClaimUnstakeTx :: "(address \<Rightarrow> 'x outcome) \<Rightarrow> db \<Rightarrow> address \<Rightarrow> 'x outcome" where
  "buildClaimUnstakeTx rpc d a = staking_call (rpc a) d a"

definition getStakeInfo :: "env \<Rightarrow> db \<Rightarrow> address \<Rightarrow> stake_info outcome" where
  "getStakeInfo env d a = staking_call (rpc_getStakeInfo env a) d a"

section \<open>Earnings\<close>

definition DAY :: ms where "DAY = 24 * 60 * 60 * 1000"

definition startOfUtcDay :: "ms \<Rightarrow> ms" where
  "startOfUtcDay t = (t div DAY) * DAY"

definition utcDateStr :: "ms \<Rightarrow> string" where
  "utcDateStr t = take 10 (iso_string t)"

record day_bar =
  bar_date :: string
  bar_volumeUsdc :: jsnum
  bar_earnedUsdc :: jsnum

record earnings =
  ea_todayTrades :: nat
  ea_todayEarnedUsdc :: jsnum
  ea_todayVolumeUsdc :: jsnum
  ea_weekBars :: "day_bar list"
  ea_allTimeTrades :: nat
  ea_allTimeEarnedUsdc :: jsnum

definition released_of :: "db \<Rightarrow> string \<Rightarrow> order list" where
  "released_of d lpId = filter (\<lambda>x. o_lpId x = Some lpId \<and> o_status x = RELEASED) (db_orders d)"

definition settled_since :: "ms \<Rightarrow> order \<Rightarrow> bool" where
  "settled_since t x = (case o_settledAt x of None \<Rightarrow> False | Some s \<Rightarrow> t \<le> s)"

definition settled_on :: "ms \<Rightarrow> order \<Rightarrow> bool" where
  "settled_on day x = (case o_settledAt x of None \<Rightarrow> False | Some s \<Rightarrow> startOfUtcDay s = day)"

text \<open>SQL's \<open>("usdcAmount" * "lpFeeBps") / 10000\<close> truncates.\<close>

definition sql_earned :: "order \<Rightarrow> int" where
  "sql_earned x = bigdiv (o_usdcAmount x * o_lpFeeBps x) 10000"

definition week_bar :: "order list \<Rightarrow> ms \<Rightarrow> day_bar" where
  "week_bar rows day =
     (let hit = filter (settled_on day) rows in
      \<lparr>bar_date = utcDateStr day,
       bar_volumeUsdc = (if hit = [] then Fin 0 else baseUnitsToUsdc (sum_list (map o_usdcAmount hit))),
       bar_earnedUsdc = (if hit = [] then Fin 0 else baseUnitsToUsdc (sum_list (map sql_earned hit)))\<rparr>)"

definition getEarnings :: "ms \<Rightarrow> db \<Rightarrow> address \<Rightarrow> earnings outcome" where
  "getEarnings now d a =
     (case find_provider d a of
        None \<Rightarrow> Inl (NotFoundException ''LP not found'')
      | Some l \<Rightarrow>
          (let todayStart = startOfUtcDay now;
               rows = released_of d (lp_id l);
               today = filter (settled_since todayStart) rows;
               week = filter (settled_since (todayStart - 6 * DAY)) rows
           in Inr \<lparr>ea_todayTrades = length today,
                   ea_todayEarnedUsdc = baseUnitsToUsdc (sum_list (map (\<lambda>x. applyBps (o_usdcAmount x) (o_lpFeeBps x)) today)),
                   ea_todayVolumeUsdc = baseUnitsToUsdc (sum_list (map o_usdcAmount today)),
                   ea_weekBars = map (\<lambda>i. week_bar week (todayStart - int i * DAY)) (rev [0..<7]),
                   ea_allTimeTrades = length rows,
                   ea_allTimeEarnedUsdc = baseUnitsToUsdc (sum_list (map sql_earned rows))\<rparr>))"

section \<open>Requests of a provider\<close>

datatype provider_request =
    Apply string string
  | Heartbeat
  | SetAvailability bool
  | SetAlertEmail "string option"
  | AddMethod string rail string string
  | UpdateMethod string method_patch
  | DeleteMethod string

fun serve :: "env \<Rightarrow> ms \<Rightarrow> address \<Rightarrow> provider_request \<Rightarrow> db \<Rightarrow> db" where
  "serve env now a (Apply contact proof) d = fst (apply_lp env now a contact proof d)"
| "serve env now a Heartbeat d = fst (heartbeat now a d)"
| "serve env now a (SetAvailability b) d = fst (setAvailability a b d)"
| "serve env now a (SetAlertEmail e) d = fst (setAlertEmail a e d)"
| "serve env now a (AddMethod uuid rl label details) d = fst (addPaymentMethod env uuid a rl label details d)"
| "serve env now a (UpdateMethod i p) d = fst (updatePaymentMethod a i p d)"
| "serve env now a (DeleteMethod i) d = fst (deletePaymentMethod a i d)"

definition destination_safe :: "string \<Rightarrow> bool" where
  "destination_safe s =
     (length s \<le> 500 \<and> \<not> list_ex is_control_char s \<and> \<not> has_secret_shape s \<and>
      6 \<le> length (filter (\<lambda>c. is_letter c \<or> is_digit c) s))"

definition provider_ok :: "lp \<Rightarrow> bool" where
  "provider_ok l = list_all (\<lambda>m. destination_safe (pm_details m)) (lp_paymentMethods l)"

definition providers_ok :: "db \<Rightarrow> bool" where
  "providers_ok d = (distinct (map lp_stellarAddress (db_lps d)) \<and> list_all provider_ok (db_lps d))"

lemma requirePaymentDestination_safe: "requirePaymentDestination s = Inr v \<Longrightarrow> destination_safe v"
  by (auto simp: requirePaymentDestination_def checkPaymentDestination_def destination_safe_def Let_def
      PAYMENT_DESTINATION_MAX_LEN_def PAYMENT_DESTINATION_MIN_WORD_CHARS_def split: if_splits sum.splits)

text \<open>What a provider's own request may do to a row.\<close>

definition own_move :: "lp \<Rightarrow> lp \<Rightarrow> bool" where
  "own_move l l' = (lp_id l' = lp_id l \<and> lp_stellarAddress l' = lp_stellarAddress l \<and> lp_disputesLost l' = lp_disputesLost l \<and>
     (lp_status l' = lp_status l \<or> (lp_status l' = LP_PENDING \<and> lp_status l \<notin> {LP_SUSPENDED, LP_REVOKED})) \<and>
     (provider_ok l \<longrightarrow> provider_ok l'))"

lemma own_move_refl [simp]: "own_move l l"
  by (simp add: own_move_def)

lemma own_move_trans: "own_move l l' \<Longrightarrow> own_move l' l'' \<Longrightarrow> own_move l l''"
  by (auto simp: own_move_def)

lemma own_move_simps [simp]:
  "own_move l (l\<lparr>lp_lastHeartbeatAt := h\<rparr>)" "own_move l (l\<lparr>lp_online := b\<rparr>)" "own_move l (l\<lparr>lp_alertEmail := e\<rparr>)"
  by (simp_all add: own_move_def provider_ok_def)

lemma own_move_methods:
  "(list_all (\<lambda>m. destination_safe (pm_details m)) (lp_paymentMethods l) \<Longrightarrow> list_all (\<lambda>m. destination_safe (pm_details m)) ms)
   \<Longrightarrow> own_move l (l\<lparr>lp_paymentMethods := ms\<rparr>)"
  by (simp add: own_move_def provider_ok_def)

definition providers_step :: "db \<Rightarrow> db \<Rightarrow> bool" where
  "providers_step d d' = (\<exists>g extra. db_lps d' = map g (db_lps d) @ extra \<and> (\<forall>l \<in> set (db_lps d). own_move l (g l)) \<and>
     (\<forall>l \<in> set extra. lp_status l = LP_PENDING \<and> lp_paymentMethods l = [] \<and> lp_stellarAddress l \<notin> lp_stellarAddress ` set (db_lps d)) \<and>
     length extra \<le> 1)"

lemma providers_step_refl [simp]: "providers_step d d"
  unfolding providers_step_def by (intro exI [of _ id] exI [of _ "[]"]) simp

lemma providers_step_map:
  assumes "db_lps d' = map g (db_lps d)" "\<And>l. l \<in> set (db_lps d) \<Longrightarrow> own_move l (g l)"
  shows "providers_step d d'"
  unfolding providers_step_def using assms by (intro exI [of _ g] exI [of _ "[]"]) simp

lemma update_provider_step:
  assumes "\<And>l. l \<in> set (db_lps d) \<Longrightarrow> lp_stellarAddress l = a \<Longrightarrow> own_move l (f l)"
  shows "providers_step d (fst (update_provider a f d))"
  using assms by (auto simp: update_provider_def update_many_def
      intro!: providers_step_map [where g = "\<lambda>l. if lp_stellarAddress l = a then f l else l"])

lemma apply_step:
  assumes "providers_ok d"
  shows "providers_step d (fst (apply_lp env now a contact proof d))"
proof -
  have d: "distinct (map lp_stellarAddress (db_lps d))" using assms by (simp add: providers_ok_def)
  have re: "providers_step d (fst (update_provider a (reapplied contact proof p) d))"
    if "\<not> (\<exists>l. find_provider d a = Some l \<and> (lp_status l = LP_SUSPENDED \<or> lp_status l = LP_REVOKED))" for p
  proof (rule update_provider_step)
    fix l assume "l \<in> set (db_lps d)" "lp_stellarAddress l = a"
    then have "find_provider d a = Some l" using find_row_distinct [OF d, of l] by (simp add: find_provider_def)
    then have "lp_status l \<notin> {LP_SUSPENDED, LP_REVOKED}" using that by auto
    then show "own_move l (reapplied contact proof p l)" by (simp add: own_move_def reapplied_def provider_ok_def)
  qed
  have new: "providers_step d (upd_lps (\<lambda>t. t @ [new_provider env now a contact proof p]) d)" if "find_provider d a = None" for p
    unfolding providers_step_def using that
    by (intro exI [of _ id] exI [of _ "[new_provider env now a contact proof p]"])
       (simp add: new_provider_def find_provider_def find_row_None)
  show ?thesis using re new by (auto simp: apply_lp_def Let_def split: sum.splits bool.splits)
qed

lemma methods_step:
  assumes "\<And>ms. list_all (\<lambda>m. destination_safe (pm_details m)) ms \<Longrightarrow> list_all (\<lambda>m. destination_safe (pm_details m)) (f ms)"
  shows "providers_step d (upd_methods f d)"
  using assms by (intro providers_step_map [where g = "\<lambda>l. l\<lparr>lp_paymentMethods := f (lp_paymentMethods l)\<rparr>"])
    (auto simp: upd_methods_def intro: own_move_methods)

lemma appended_step:
  assumes "destination_safe (pm_details m)"
  shows "providers_step d (upd_lps (update_many q (\<lambda>x. x\<lparr>lp_paymentMethods := lp_paymentMethods x @ [m]\<rparr>)) d)"
proof (rule providers_step_map [where g = "\<lambda>x. if q x then x\<lparr>lp_paymentMethods := lp_paymentMethods x @ [m]\<rparr> else x"])
  fix l show "own_move l (if q l then l\<lparr>lp_paymentMethods := lp_paymentMethods l @ [m]\<rparr> else l)"
    using assms own_move_methods [of l "lp_paymentMethods l @ [m]"] by simp
qed (simp add: update_many_def)

lemma add_method_step: "providers_step d (fst (addPaymentMethod env uuid a rl label details d))"
proof (cases "find_provider d a")
  case (Some l)
  show ?thesis
  proof (cases "requirePaymentDestination details")
    case (Inr v)
    then show ?thesis using Some requirePaymentDestination_safe [OF Inr] by (simp add: addPaymentMethod_def Let_def appended_step)
  qed (simp add: addPaymentMethod_def Some)
qed (simp add: addPaymentMethod_def)

lemma patched_step:
  assumes "\<And>v. details = Some v \<Longrightarrow> destination_safe v"
  shows "providers_step d (upd_methods (update_many (\<lambda>m. pm_id m = i) (patched_method p details)) d)"
proof (rule methods_step)
  fix ms :: "payment_method list" assume "list_all (\<lambda>m. destination_safe (pm_details m)) ms"
  then show "list_all (\<lambda>m. destination_safe (pm_details m)) (update_many (\<lambda>m. pm_id m = i) (patched_method p details) ms)"
    using assms by (intro list_all_update_many) (auto simp: patched_method_def split: option.split)
qed

lemma update_method_step: "providers_step d (fst (updatePaymentMethod a i p d))"
proof (cases "own_method d a i = None")
  case False
  show ?thesis
  proof (cases "pp_details p")
    case None
    then show ?thesis using False patched_step [of None d i p] by (simp add: updatePaymentMethod_def)
  next
    case (Some s)
    show ?thesis
    proof (cases "requirePaymentDestination s")
      case (Inr v)
      then show ?thesis using False Some requirePaymentDestination_safe [OF Inr] patched_step [of "Some v" d i p]
        by (simp add: updatePaymentMethod_def)
    qed (simp add: updatePaymentMethod_def False Some)
  qed
qed (simp add: updatePaymentMethod_def)

lemma serve_step: "providers_ok d \<Longrightarrow> providers_step d (serve env now a req d)"
proof (cases req)
  case (DeleteMethod i)
  then show ?thesis
    by (auto simp: deletePaymentMethod_def delete_many_def list_all_iff intro!: methods_step)
qed (auto simp: apply_step add_method_step update_method_step heartbeat_def setAvailability_def setAlertEmail_def
      intro!: update_provider_step)

lemma image_disjoint: "(\<And>x. x \<in> B \<Longrightarrow> f x \<notin> f ` A) \<Longrightarrow> f ` A \<inter> f ` B = {}"
  unfolding disjoint_iff by blast

lemma step_providers_ok:
  assumes "providers_ok d" "providers_step d d'"
  shows "providers_ok d'"
proof -
  obtain g extra where s: "db_lps d' = map g (db_lps d) @ extra" "\<forall>l \<in> set (db_lps d). own_move l (g l)" "length extra \<le> 1"
      "\<forall>l \<in> set extra. lp_status l = LP_PENDING \<and> lp_paymentMethods l = [] \<and> lp_stellarAddress l \<notin> lp_stellarAddress ` set (db_lps d)"
    using assms(2) unfolding providers_step_def by blast
  have a: "map lp_stellarAddress (map g (db_lps d)) = map lp_stellarAddress (db_lps d)"
    using s(2) by (auto simp: own_move_def)
  have disj: "lp_stellarAddress ` set (db_lps d) \<inter> lp_stellarAddress ` set extra = {}"
    by (rule image_disjoint) (use s(4) in simp)
  have "distinct (map lp_stellarAddress extra)" using s(3) by (cases extra) auto
  moreover have "distinct (map lp_stellarAddress (map g (db_lps d)))" unfolding a using assms(1) by (simp add: providers_ok_def)
  moreover have "set (map lp_stellarAddress (map g (db_lps d))) \<inter> set (map lp_stellarAddress extra) = {}"
    unfolding a using disj by simp
  ultimately have "distinct (map lp_stellarAddress (db_lps d'))" unfolding s(1) map_append distinct_append by blast
  moreover have "list_all provider_ok (db_lps d')"
    using assms(1) s(1,2,4) by (auto simp: providers_ok_def list_all_iff own_move_def provider_ok_def)
  ultimately show ?thesis by (simp add: providers_ok_def)
qed

lemma find_map_append:
  assumes "find_row lp_id i t = Some l" "\<forall>x \<in> set t. lp_id (g x) = lp_id x"
  shows "find_row lp_id i (map g t @ extra) = Some (g l)"
  using assms unfolding find_row_def by (induction t) auto

lemma step_find:
  assumes "providers_step d d'" "find_lp d i = Some l"
  shows "\<exists>l'. find_lp d' i = Some l' \<and> own_move l l'"
proof -
  obtain g extra where s: "db_lps d' = map g (db_lps d) @ extra" "\<forall>l \<in> set (db_lps d). own_move l (g l)"
    using assms(1) unfolding providers_step_def by blast
  have "l \<in> set (db_lps d)" using find_row_Some [OF assms(2) [unfolded find_lp_def]] by simp
  moreover have "\<forall>x \<in> set (db_lps d). lp_id (g x) = lp_id x" using s(2) by (simp add: own_move_def)
  then have "find_lp d' i = Some (g l)"
    using find_map_append [OF assms(2) [unfolded find_lp_def]] by (simp add: find_lp_def s(1))
  ultimately show ?thesis using s(2) by blast
qed

text \<open>A sequence of requests, each by a provider and at an instant.\<close>

definition serve_all :: "env \<Rightarrow> (ms \<times> address \<times> provider_request) list \<Rightarrow> db \<Rightarrow> db" where
  "serve_all env reqs d = fold (\<lambda>(now, a, req). serve env now a req) reqs d"

lemma serve_all_moves:
  assumes "providers_ok d" "find_lp d i = Some l"
  shows "providers_ok (serve_all env reqs d) \<and> (\<exists>l'. find_lp (serve_all env reqs d) i = Some l' \<and> own_move l l')"
  using assms
proof (induction reqs arbitrary: d l)
  case (Cons r reqs)
  obtain now a req where r: "r = (now, a, req)" by (cases r)
  note st = serve_step [OF Cons.prems(1), of env now a req]
  obtain l1 where l1: "find_lp (serve env now a req d) i = Some l1" "own_move l l1" using step_find [OF st Cons.prems(2)] by blast
  from Cons.IH [OF step_providers_ok [OF Cons.prems(1) st] l1(1)] show ?case
    using own_move_trans [OF l1(2)] by (auto simp: serve_all_def r)
qed (simp add: serve_all_def)

text \<open>A provider cannot
  lift its own standing.  After any sequence of requests by any providers, a provider that
  was SUSPENDED or REVOKED still is, none is APPROVED that was not before, no record of lost disputes
  has changed; and every stored payment destination is short enough, free of control
  characters, has at least six letters or digits and contains nothing of the shape of a Stellar secret key.\<close>

theorem providers_cannot_lift_standing:
  assumes "providers_ok d" "find_lp d i = Some l"
  shows "\<exists>l'. find_lp (serve_all env reqs d) i = Some l' \<and>
     (lp_status l \<in> {LP_SUSPENDED, LP_REVOKED} \<longrightarrow> lp_status l' = lp_status l) \<and>
     (lp_status l' = LP_APPROVED \<longrightarrow> lp_status l = LP_APPROVED) \<and> lp_disputesLost l' = lp_disputesLost l \<and>
     (\<forall>m \<in> set (lp_paymentMethods l'). length (pm_details m) \<le> 500 \<and> \<not> list_ex is_control_char (pm_details m) \<and>
        \<not> has_secret_shape (pm_details m) \<and> 6 \<le> length (filter (\<lambda>c. is_letter c \<or> is_digit c) (pm_details m)))"
proof -
  obtain l' where l': "providers_ok (serve_all env reqs d)" "find_lp (serve_all env reqs d) i = Some l'" "own_move l l'"
    using serve_all_moves [OF assms] by blast
  have "provider_ok l'" using l'(1) find_row_Some [OF l'(2) [unfolded find_lp_def]] by (simp add: providers_ok_def list_all_iff)
  then show ?thesis using l'(2,3) by (auto simp: own_move_def provider_ok_def list_all_iff destination_safe_def)
qed

definition bank_method :: payment_method where
  "bank_method = demo_method\<lparr>pm_details := ''BCA 1234567 Budi''\<rparr>"

theorem providers_cannot_lift_standing_witness:
  "\<exists>l'. find_lp (serve_all demo_env [(1, ''GL'', Apply ''c'' ''p''), (2, ''GL'', SetAvailability True)]
      (empty_db\<lparr>db_lps := [demo_lp\<lparr>lp_status := LP_SUSPENDED, lp_paymentMethods := [bank_method]\<rparr>]\<rparr>)) ''lp1'' = Some l' \<and>
    lp_status l' = LP_SUSPENDED"
proof -
  let ?l = "demo_lp\<lparr>lp_status := LP_SUSPENDED, lp_paymentMethods := [bank_method]\<rparr>"
  let ?d = "empty_db\<lparr>db_lps := [?l]\<rparr>"
  have "destination_safe (pm_details bank_method)"
    by (simp add: destination_safe_def bank_method_def is_control_char_def is_letter_def is_digit_def)
  then have "providers_ok ?d" "find_lp ?d ''lp1'' = Some ?l"
    by (simp_all add: providers_ok_def provider_ok_def find_lp_def find_row_def demo_lp_def)
  from providers_cannot_lift_standing [OF this, where env = demo_env and
      reqs = "[(1, ''GL'', Apply ''c'' ''p''), (2, ''GL'', SetAvailability True)]"]
  show ?thesis by auto
qed

section \<open>Earnings\<close>

text \<open>The figures of today, summed over rows, are those of the last bar, summed by the database.\<close>

lemma today_is_last_bar:
  assumes "\<And>x s. x \<in> set rows \<Longrightarrow> o_settledAt x = Some s \<Longrightarrow> startOfUtcDay s \<le> startOfUtcDay now"
  shows "filter (settled_on (startOfUtcDay now)) rows = filter (settled_since (startOfUtcDay now)) rows"
proof (rule filter_cong [OF refl])
  fix x assume x: "x \<in> set rows"
  have "startOfUtcDay s = startOfUtcDay now \<longleftrightarrow> startOfUtcDay now \<le> s" if "o_settledAt x = Some s" for s
  proof -
    have "s div DAY \<le> now div DAY" using assms [OF x that] by (simp add: startOfUtcDay_def DAY_def)
    moreover have "now div DAY \<le> s div DAY \<longleftrightarrow> now div DAY * DAY \<le> s" by (rule int_le_div_iff) (simp add: DAY_def)
    ultimately show ?thesis by (auto simp: startOfUtcDay_def DAY_def)
  qed
  then show "settled_on (startOfUtcDay now) x = settled_since (startOfUtcDay now) x"
    by (auto simp: settled_on_def settled_since_def split: option.split)
qed

end
