(* ===== verification/Admin.thy ===== *)
theory Admin
  imports Indexer Provider
begin

text \<open>
  \<open>admin/admin.service.ts\<close> without the attestations: registering providers, their standing, the
  configuration, the markets, the order list, the risk view of an order and the metrics.  Transactions run
  at read committed: what other requests write between two statements of one is an argument
  (\<open>meanwhile\<close>), and a transaction that throws leaves only that.  The validation of the request
  bodies (\<open>dto/\<close>) is done before a handler is called; a field that is present is not null.
\<close>

section \<open>Providers\<close>

record lp_view =
  lv_lp :: lp \<comment> \<open>its \<open>alertEmail\<close> left out\<close>
  lv_reachable :: bool

definition withReachable :: "lp \<Rightarrow> lp_view" where
  "withReachable l = \<lparr>lv_lp = l\<lparr>lp_alertEmail := None\<rparr>, lv_reachable = (lp_alertEmail l \<noteq> None)\<rparr>"

definition list_providers :: "db \<Rightarrow> lp_status option \<Rightarrow> lp_view list" where
  "list_providers d status =
     map withReachable (filter (\<lambda>l. case status of None \<Rightarrow> True | Some s \<Rightarrow> lp_status l = s) (db_lps d))"

record register_dto =
  rd_stellarAddress :: address
  rd_contact :: string
  rd_liquidityProof :: "string option"
  rd_approve :: bool

definition already_registered :: http_error where
  "already_registered = ConflictException ''An LP with this wallet address already exists''"

definition registered :: "env \<Rightarrow> ms \<Rightarrow> register_dto \<Rightarrow> string option \<Rightarrow> lp" where
  "registered env now dto personId =
     (let proof = trim (case rd_liquidityProof dto of Some p \<Rightarrow> p | None \<Rightarrow> []) in
      \<lparr>lp_id = sdk_uuid env (''lp:'' @ rd_stellarAddress dto), lp_stellarAddress = rd_stellarAddress dto,
       lp_status = (if rd_approve dto then LP_APPROVED else LP_PENDING), lp_disputesLost = 0, lp_contact = rd_contact dto,
       lp_liquidityProof = (if proof = [] then ''Registered by admin'' else proof), lp_approvalNote = Some ''Registered by admin'',
       lp_online = False, lp_lastHeartbeatAt = None, lp_paymentMethods = [], lp_createdAt = now,
       lp_approvedAt = (if rd_approve dto then Some now else None), lp_personId = personId, lp_alertEmail = None\<rparr>)"

definition register_tx :: "address \<Rightarrow> lp \<Rightarrow> (db, lp_view) handler" where
  "register_tx actor l d =
     (case create_unique (\<lambda>x. Some (lp_stellarAddress x)) l (db_lps d) of
        None \<Rightarrow> (d, Inl already_registered)
      | Some t \<Rightarrow>
          (recordAudit \<lparr>a_actorAddress = actor, a_action = ''lp.register'', a_targetType = ''Lp'', a_targetId = Some (lp_id l),
             a_before = NoPayload, a_after = RegisteredPayload (lp_status l) (lp_stellarAddress l)\<rparr> (d\<lparr>db_lps := t\<rparr>),
           Inr (withReachable l)))"

definition register :: "env \<Rightarrow> ms \<Rightarrow> register_dto \<Rightarrow> address \<Rightarrow> (db \<Rightarrow> db) \<Rightarrow> (db, lp_view) handler" where
  "register env now dto actor meanwhile d =
     (if \<not> sdk_isValidEd25519PublicKey env (rd_stellarAddress dto)
      then (d, Inl (BadRequestException (''Invalid Stellar address (bad checksum) '' @ em_dash @ '' double-check the wallet key.'')))
      else if find_provider d (rd_stellarAddress dto) \<noteq> None then (d, Inl already_registered)
      else case rpc_hasUsdcTrustline env (rd_stellarAddress dto) of
             Inl e \<Rightarrow> (d, Inl e)
           | Inr False \<Rightarrow> (d, Inl (BadRequestException (''This wallet has no trustline for '' @ cfg_usdcAssetCode env @ '' (issuer '' @
                 cfg_usdcAssetIssuer env @ ''), so it can't receive USDC. Ask the LP to add that exact trustline first.'')))
           | Inr True \<Rightarrow> transaction (register_tx actor (registered env now dto (personIdForWallet d (rd_stellarAddress dto)))) (meanwhile d))"

section \<open>Standing\<close>

text \<open>The new values come from the row as it was read.\<close>

definition decided :: "lp_status \<Rightarrow> string option \<Rightarrow> ms \<Rightarrow> lp \<Rightarrow> lp \<Rightarrow> lp" where
  "decided status memo now l x =
     x\<lparr>lp_status := status, lp_approvalNote := (case memo of Some n \<Rightarrow> Some n | None \<Rightarrow> lp_approvalNote l),
       lp_approvedAt := (if status = LP_APPROVED \<and> lp_status l \<noteq> LP_APPROVED then Some now else lp_approvedAt l)\<rparr>"

text \<open>The condition of the guarded update: the row is as it was read.\<close>

definition as_read :: "lp \<Rightarrow> lp \<Rightarrow> bool" where
  "as_read l r = (lp_id r = lp_id l \<and> lp_status r = lp_status l \<and> lp_approvalNote r = lp_approvalNote l \<and>
                  lp_liquidityProof r = lp_liquidityProof l \<and> lp_contact r = lp_contact l)"

definition stood_on :: "string \<Rightarrow> order \<Rightarrow> bool" where
  "stood_on lpId x = (o_lpId x = Some lpId \<and> o_status x \<in> set PRE_CHAIN_STATUSES)"

definition standing_down :: "lp_status \<Rightarrow> bool" where
  "standing_down status = (status = LP_SUSPENDED \<or> status = LP_REVOKED)"

definition reachable_orders :: "string \<Rightarrow> lp_status \<Rightarrow> db \<Rightarrow> order list" where
  "reachable_orders i status d = (if standing_down status then filter (stood_on i) (db_orders d) else [])"

definition cancel_among :: "order list \<Rightarrow> order \<Rightarrow> bool" where
  "cancel_among xs x = (o_id x \<in> o_id ` set xs \<and> o_status x \<in> set PRE_CHAIN_STATUSES)"

definition standing_audit :: "address \<Rightarrow> string \<Rightarrow> lp \<Rightarrow> lp \<Rightarrow> order list \<Rightarrow> audit" where
  "standing_audit actor i l updated cancelled =
     \<lparr>a_actorAddress = actor, a_action = ''lp.setStatus'', a_targetType = ''Lp'', a_targetId = Some i,
      a_before = StandingPayload (lp_status l) (lp_approvalNote l) None,
      a_after = StandingPayload (lp_status updated) (lp_approvalNote updated) (Some (map o_id cancelled))\<rparr>"

definition status_changed :: http_error where
  "status_changed = ConflictException (''the provider's status changed while you were deciding '' @ em_dash @ '' reload and decide again'')"

definition order_moved_on :: http_error where
  "order_moved_on = ConflictException (''one of this provider's orders moved on while you were deciding '' @ em_dash @ '' reload and decide again'')"

text \<open>\<open>first\<close> is written by others between the read of the provider and its update,
  \<open>second\<close> between the read of the orders and theirs.\<close>

definition setStatus_tx ::
  "string \<Rightarrow> lp_status \<Rightarrow> string option \<Rightarrow> address \<Rightarrow> ms \<Rightarrow> (db \<Rightarrow> db) \<Rightarrow> (db \<Rightarrow> db) \<Rightarrow> (db, lp \<times> order list) handler" where
  "setStatus_tx i status memo actor now first second d =
     (case find_lp d i of
        None \<Rightarrow> (d, Inl (NotFoundException ''Not Found''))
      | Some l \<Rightarrow>
          if lp_status l = status \<and> (memo = None \<or> memo = lp_approvalNote l) then (d, Inr (l, []))
          else (case find_lp (first d) i of
                  None \<Rightarrow> (first d, Inl status_changed)
                | Some r \<Rightarrow>
                    if \<not> as_read l r then (first d, Inl status_changed)
                    else (let d2 = upd_lps (update_many (\<lambda>x. lp_id x = i) (decided status memo now l)) (first d);
                              reachable = reachable_orders i status d2;
                              d3 = second d2;
                              d4 = (if reachable = [] then d3 else upd_orders (update_many (cancel_among reachable) cancel_row) d3);
                              updated = decided status memo now l r
                          in if reachable \<noteq> [] \<and> count_rows (cancel_among reachable) (db_orders d3) \<noteq> length reachable
                             then (d4, Inl order_moved_on)
                             else (recordAudit (standing_audit actor i l updated reachable) d4, Inr (updated, reachable)))))"

definition notify_cancelled :: "env \<Rightarrow> ms \<Rightarrow> order list \<Rightarrow> db \<Rightarrow> db" where
  "notify_cancelled env now = fold (\<lambda>x. notifyOrderStatus env now (notice_of x) ''CANCELLED'' False)"

text \<open>A transaction that throws leaves what the others wrote.\<close>

definition setStatus ::
  "env \<Rightarrow> string \<Rightarrow> lp_status \<Rightarrow> string option \<Rightarrow> address \<Rightarrow> ms \<Rightarrow> (db \<Rightarrow> db) \<Rightarrow> (db \<Rightarrow> db) \<Rightarrow> (db, lp_view) handler" where
  "setStatus env i status memo actor now first second d =
     (case setStatus_tx i status memo actor now first second d of
        (d', Inl e) \<Rightarrow> (second (first d), Inl e)
      | (d', Inr (l, cancelled)) \<Rightarrow> (notify_cancelled env now cancelled d', Inr (withReachable l)))"

definition list_orders :: "db \<Rightarrow> order_status option \<Rightarrow> nat \<Rightarrow> nat \<Rightarrow> order list" where
  "list_orders d status tk sk =
     take tk (drop sk (sort_key (\<lambda>x. - o_createdAt x)
       (filter (\<lambda>x. case status of None \<Rightarrow> True | Some s \<Rightarrow> o_status x = s) (db_orders d))))"

section \<open>Configuration\<close>

record config_patch =
  cp_spreadBps :: "int option"
  cp_platformFeeBps :: "int option"
  cp_lpFeeBps :: "int option"
  cp_platformWallet :: "address option"
  cp_paused :: "bool option"
  cp_requireProof :: "bool option"
  cp_autoRefund :: "bool option"
  cp_dailyLimitByTier :: "(string \<times> rat) list option"
  cp_postSettleDisputeWindowSecs :: "int option"
  cp_payWindowSecs :: "int option"
  cp_confirmWindowSecs :: "int option"
  cp_disputeWindowSecs :: "int option"
  cp_minOrder :: "int option"
  cp_maxOrder :: "int option"

text \<open>What the handler throws, by the prefix of its message and the values in it.\<close>

datatype config_error =
    ESCROW_CONFIG_UNREADABLE http_error
  | PLATFORM_WALLET_DIVERGES_FROM_CHAIN address
  | COOLDOWN_UNREADABLE
  | BPS_OVERFLOW
  | WINDOW_BOUNDS_INVALID window_refusal
  | SPREAD_TOO_NARROW int
  | PLATFORM_FEE_EXCEEDS_SPREAD int int
  | PLATFORM_FEE_DIVERGES_FROM_CHAIN int int
  | ORDER_BOUNDS_INVALID
  | DAILY_LIMIT_BELOW_MIN_ORDER "(tier \<times> int) list" int
  | CONFIG_WRITE_CONFLICT

definition or_else :: "'a option \<Rightarrow> 'a \<Rightarrow> 'a" where
  "or_else p c = (case p of Some v \<Rightarrow> v | None \<Rightarrow> c)"

definition current_or :: "(config \<Rightarrow> 'a) \<Rightarrow> config option \<Rightarrow> 'a \<Rightarrow> 'a" where
  "current_or f current z = (case current of Some c \<Rightarrow> f c | None \<Rightarrow> z)"

definition next_limits :: "config_patch \<Rightarrow> (string \<times> rat) list option \<Rightarrow> (string \<times> rat) list option" where
  "next_limits p current = (case cp_dailyLimitByTier p of Some v \<Rightarrow> Some v | None \<Rightarrow> current)"

definition patch_config :: "config_patch \<Rightarrow> ms \<Rightarrow> config \<Rightarrow> config" where
  "patch_config p now c =
     c\<lparr>c_spreadBps := or_else (cp_spreadBps p) (c_spreadBps c), c_platformFeeBps := or_else (cp_platformFeeBps p) (c_platformFeeBps c),
       c_lpFeeBps := or_else (cp_lpFeeBps p) (c_lpFeeBps c), c_platformWallet := or_else (cp_platformWallet p) (c_platformWallet c),
       c_minOrder := or_else (cp_minOrder p) (c_minOrder c), c_maxOrder := or_else (cp_maxOrder p) (c_maxOrder c),
       c_payWindowSecs := or_else (cp_payWindowSecs p) (c_payWindowSecs c),
       c_confirmWindowSecs := or_else (cp_confirmWindowSecs p) (c_confirmWindowSecs c),
       c_disputeWindowSecs := or_else (cp_disputeWindowSecs p) (c_disputeWindowSecs c),
       c_paused := or_else (cp_paused p) (c_paused c), c_requireProof := or_else (cp_requireProof p) (c_requireProof c),
       c_autoRefund := or_else (cp_autoRefund p) (c_autoRefund c),
       c_dailyLimitByTier := next_limits p (c_dailyLimitByTier c),
       c_postSettleDisputeWindowSecs := or_else (cp_postSettleDisputeWindowSecs p) (c_postSettleDisputeWindowSecs c),
       c_updatedAt := now\<rparr>"

text \<open>The reads of the chain before the transaction: the fee and the cooldown to hold the patch against.\<close>

definition chain_facts :: "env \<Rightarrow> config_patch \<Rightarrow> config_error + (int option \<times> int option)" where
  "chain_facts env p =
     (let fee = (if cp_platformWallet p \<noteq> None \<or> cp_platformFeeBps p \<noteq> None
                 then (case rpc_readEscrowPlatformDefaults env (cfg_escrowContractId env) of
                         Inl e \<Rightarrow> Inl (ESCROW_CONFIG_UNREADABLE e)
                       | Inr (chainFee, chainWallet) \<Rightarrow>
                           if cp_platformWallet p \<noteq> None \<and> cp_platformWallet p \<noteq> Some chainWallet
                           then Inl (PLATFORM_WALLET_DIVERGES_FROM_CHAIN chainWallet)
                           else Inr (if cp_platformFeeBps p \<noteq> None then Some chainFee else None))
                 else Inr None)
      in case fee of
           Inl e \<Rightarrow> Inl e
         | Inr f \<Rightarrow>
             if cp_payWindowSecs p \<noteq> None \<or> cp_confirmWindowSecs p \<noteq> None
             then (case rpc_stakingCooldownSecs env of Inl _ \<Rightarrow> Inl COOLDOWN_UNREADABLE | Inr c \<Rightarrow> Inr (f, Some c))
             else Inr (f, None))"

definition tiers_below :: "(string \<times> rat) list option \<Rightarrow> int \<Rightarrow> (tier \<times> int) list" where
  "tiers_below limits lowest =
     filter (\<lambda>(t, base). base < lowest)
       (map (\<lambda>t. (t, dailyLimitBaseUnits t (Some ((default_config [] 0)\<lparr>c_dailyLimitByTier := limits\<rparr>)))) TIER_LEVELS)"

definition config_checks :: "env \<Rightarrow> config_patch \<Rightarrow> int option \<Rightarrow> int option \<Rightarrow> config option \<Rightarrow> config_error option" where
  "config_checks env p chainFee cooldown current =
     (let platformFee = or_else (cp_platformFeeBps p) (current_or c_platformFeeBps current 0);
          lpFee = or_else (cp_lpFeeBps p) (current_or c_lpFeeBps current 0);
          spread = or_else (cp_spreadBps p) (current_or c_spreadBps current 0);
          windowProblem = windowsFitTheContract (or_else (cp_payWindowSecs p) (current_or c_payWindowSecs current 0))
            (or_else (cp_confirmWindowSecs p) (current_or c_confirmWindowSecs current 0))
            (or_else (cp_disputeWindowSecs p) (current_or c_disputeWindowSecs current 0)) cooldown;
          nextMin = or_else (cp_minOrder p) (current_or c_minOrder current 0);
          nextMax = or_else (cp_maxOrder p) (current_or c_maxOrder current 0);
          limits = next_limits p (current_or c_dailyLimitByTier current None);
          below = tiers_below limits nextMin
      in if platformFee + lpFee \<ge> 10000 then Some BPS_OVERFLOW
         else if windowProblem \<noteq> None then map_option WINDOW_BOUNDS_INVALID windowProblem
         else if cp_spreadBps p \<noteq> None \<and> \<not> spreadCoversPriceDeviation spread (cfg_priceDeviationMaxBps env)
         then Some (SPREAD_TOO_NARROW spread)
         else if (cp_platformFeeBps p \<noteq> None \<or> cp_spreadBps p \<noteq> None) \<and>
                 \<not> platformFeeFitsSpread platformFee spread (cfg_priceDeviationMaxBps env)
         then Some (PLATFORM_FEE_EXCEEDS_SPREAD platformFee spread)
         else if chainFee \<noteq> None \<and> cp_platformFeeBps p \<noteq> chainFee
         then Some (PLATFORM_FEE_DIVERGES_FROM_CHAIN platformFee (the chainFee))
         else if \<not> nextMin < nextMax then Some ORDER_BOUNDS_INVALID
         else if (cp_minOrder p \<noteq> None \<or> cp_dailyLimitByTier p \<noteq> None) \<and> below \<noteq> []
         then Some (DAILY_LIMIT_BELOW_MIN_ORDER below nextMin)
         else None)"

definition updateConfigTransactional ::
  "env \<Rightarrow> config_patch \<Rightarrow> address \<Rightarrow> ms \<Rightarrow> (db \<Rightarrow> db) \<Rightarrow> config_cache \<Rightarrow> db \<Rightarrow> db \<times> config_cache \<times> (config_error + config)" where
  "updateConfigTransactional env p actor now meanwhile cache d =
     (case chain_facts env p of
        Inl e \<Rightarrow> (d, cache, Inl e)
      | Inr (chainFee, cooldown) \<Rightarrow>
          (case config_checks env p chainFee cooldown (db_config d) of
             Some e \<Rightarrow> (meanwhile d, cache, Inl e)
           | None \<Rightarrow>
               (let d1 = meanwhile d in
                case db_config d1 of
                  None \<Rightarrow> (d1, cache, Inl CONFIG_WRITE_CONFLICT)
                | Some row \<Rightarrow>
                    if (case db_config d of None \<Rightarrow> False | Some c \<Rightarrow> c_updatedAt row \<noteq> c_updatedAt c)
                    then (d1, cache, Inl CONFIG_WRITE_CONFLICT)
                    else (let c = patch_config p now row in
                          (recordAudit \<lparr>a_actorAddress = actor, a_action = ''config.update'', a_targetType = ''Config'', a_targetId = Some ''1'',
                             a_before = ConfigPayload (db_config d), a_after = ConfigPayload (Some c)\<rparr> (d1\<lparr>db_config := Some c\<rparr>),
                           invalidate cache, Inr c)))))"

definition updateMarket :: "string \<Rightarrow> market_patch \<Rightarrow> address \<Rightarrow> ms \<Rightarrow> market_cache \<Rightarrow> (db, market \<times> market_cache) handler" where
  "updateMarket code patch actor now cache d =
     (let (cache1, before) = get_market now d cache code in
      case update_market code patch cache1 d of
        (d1, Inl e) \<Rightarrow> (d1, Inl e)
      | (d1, Inr (updated, cache2)) \<Rightarrow>
          (recordAudit \<lparr>a_actorAddress = actor, a_action = ''market.update'', a_targetType = ''Market'', a_targetId = Some code,
             a_before = MarketPayload before, a_after = MarketPayload (Some updated)\<rparr> d1, Inr (updated, cache2)))"

section \<open>Risk of an order\<close>

definition THIRTY_DAYS_MS :: ms where "THIRTY_DAYS_MS = 30 * 24 * 60 * 60 * 1000"

record lp_completion =
  lc_completed_trades :: nat
  lc_completion_rate :: "jsnum option"
  lc_member_since :: string
  lc_online :: bool

record order_risk =
  ri_walletAgeDays :: "int option"
  ri_userDisputeVelocity30d :: nat
  ri_lpDisputeVelocity30d :: nat
  ri_orderUsdc :: jsnum
  ri_tier :: tier
  ri_dailyLimitUsdc :: jsnum
  ri_ratio :: "jsnum option"
  ri_lpCompletion :: "lp_completion option"

definition disputed_since :: "ms \<Rightarrow> order \<Rightarrow> bool" where
  "disputed_since t x = (case o_disputeAt x of None \<Rightarrow> False | Some a \<Rightarrow> t \<le> a)"

definition computeLpCompletion :: "db \<Rightarrow> string \<Rightarrow> lp \<Rightarrow> lp_completion" where
  "computeLpCompletion d lpId l =
     (let completed = count_rows (\<lambda>x. o_lpId x = Some lpId \<and> o_status x = RELEASED) (db_orders d);
          refunded = count_rows (\<lambda>x. o_lpId x = Some lpId \<and> o_status x = REFUNDED \<and> o_flow x = WITHDRAW) (db_orders d);
          concluded = completed + refunded
      in \<lparr>lc_completed_trades = completed,
          lc_completion_rate = (if concluded > 0 then Some (js_div (Fin (of_nat completed)) (Fin (of_nat concluded))) else None),
          lc_member_since = iso_string (case lp_approvedAt l of Some a \<Rightarrow> a | None \<Rightarrow> lp_createdAt l), lc_online = lp_online l\<rparr>)"

definition getOrderRisk :: "env \<Rightarrow> ms \<Rightarrow> db \<Rightarrow> string \<Rightarrow> order_risk outcome" where
  "getOrderRisk env now d i =
     (case find_order d i of
        None \<Rightarrow> Inl (NotFoundException ''Not Found'')
      | Some x \<Rightarrow>
          (let since = now - THIRTY_DAYS_MS;
               t = rep_tier (getReputation d (o_personId x));
               orderUsdc = baseUnitsToUsdc (o_usdcAmount x);
               dailyLimitUsdc = baseUnitsToUsdc (dailyLimitBaseUnits t (db_config d))
           in Inr \<lparr>ri_walletAgeDays = map_option (\<lambda>first. (now - first) div DAY_MS) (rpc_getAccountFirstTxAt env (o_userAddress x)),
                   ri_userDisputeVelocity30d = count_rows (\<lambda>y. o_userAddress y = o_userAddress x \<and> disputed_since since y) (db_orders d),
                   ri_lpDisputeVelocity30d = (if truthy_str (o_lpId x)
                      then count_rows (\<lambda>y. o_lpId y = o_lpId x \<and> disputed_since since y) (db_orders d) else 0),
                   ri_orderUsdc = orderUsdc, ri_tier = t, ri_dailyLimitUsdc = dailyLimitUsdc,
                   ri_ratio = (if js_less (Fin 0) dailyLimitUsdc then Some (js_div orderUsdc dailyLimitUsdc) else None),
                   ri_lpCompletion = (if truthy_str (o_lpId x)
                      then map_option (computeLpCompletion d (the (o_lpId x))) (order_lp d x) else None)\<rparr>))"

section \<open>Metrics\<close>

definition METRICS_RANGE_MS :: "string \<Rightarrow> ms option" where
  "METRICS_RANGE_MS = map_of [(''24h'', DAY_MS), (''7d'', 7 * DAY_MS), (''30d'', 30 * DAY_MS)]"

record metrics =
  me_volumeUsdc :: jsnum
  me_feesUsdc :: jsnum
  me_avgSettleSecs :: "jsnum option"
  me_openDisputes :: nat
  me_ordersCount :: nat
  me_dailyBars :: "(string \<times> jsnum) list"
  me_flowMix :: "(flow \<times> nat \<times> jsnum) list"
  me_topLps :: "(string \<times> address option \<times> jsnum \<times> nat) list"

text \<open>\<open>groupBy\<close>: the keys in some order, each with its rows.\<close>

definition group_by :: "('r \<Rightarrow> 'k) \<Rightarrow> 'r list \<Rightarrow> ('k \<times> 'r list) list" where
  "group_by f rows = map (\<lambda>k. (k, filter (\<lambda>r. f r = k) rows)) (remdups (map f rows))"

definition volume :: "order list \<Rightarrow> int" where
  "volume rows = sum_list (map o_usdcAmount rows)"

definition settled_ms :: "order \<Rightarrow> ms" where
  "settled_ms x = the (o_settledAt x)"

definition avg_settle :: "order list \<Rightarrow> jsnum option" where
  "avg_settle rows =
     (if rows = [] then None
      else Some (to_double (of_int (sum_list (map (\<lambda>x. settled_ms x - o_createdAt x) rows)) / 1000 / of_nat (length rows))))"

definition top_lps :: "order list \<Rightarrow> (string \<times> order list) list" where
  "top_lps rows =
     take 5 (sort_key (\<lambda>(i, rs). - volume rs) (group_by (\<lambda>x. the (o_lpId x)) (filter (\<lambda>x. o_lpId x \<noteq> None) rows)))"

definition getMetricsOverview :: "ms \<Rightarrow> db \<Rightarrow> string \<Rightarrow> metrics outcome" where
  "getMetricsOverview now d rng =
     (case METRICS_RANGE_MS rng of
        None \<Rightarrow> Inl (BadRequestException ''range must be one of: 24h, 7d, 30d'')
      | Some len \<Rightarrow>
          (let rows = filter (\<lambda>x. o_status x = RELEASED \<and> settled_since (now - len) x) (db_orders d)
           in Inr \<lparr>me_volumeUsdc = baseUnitsToUsdc (volume rows),
                   me_feesUsdc = baseUnitsToUsdc (sum_list (map (\<lambda>x. applyBps (o_usdcAmount x) (o_platformFeeBps x) +
                                    applyBps (o_usdcAmount x) (o_lpFeeBps x)) rows)),
                   me_avgSettleSecs = avg_settle rows,
                   me_openDisputes = count_rows (\<lambda>x. o_status x = DISPUTED) (db_orders d),
                   me_ordersCount = length rows,
                   me_dailyBars = map (\<lambda>(day, rs). (utcDateStr day, baseUnitsToUsdc (volume rs)))
                      (sort_key fst (group_by (\<lambda>x. startOfUtcDay (settled_ms x)) rows)),
                   me_flowMix = map (\<lambda>(f, rs). (f, length rs, baseUnitsToUsdc (volume rs))) (group_by o_flow rows),
                   me_topLps = map (\<lambda>(i, rs). (i, map_option lp_stellarAddress (find_lp d i), baseUnitsToUsdc (volume rs), length rs)) (top_lps rows)\<rparr>))"

section \<open>The standing of a provider\<close>

lemma notify_cancelled_orders [simp]:
  "db_orders (notify_cancelled env now xs d) = db_orders d" "db_lps (notify_cancelled env now xs d) = db_lps d"
  "db_audits (notify_cancelled env now xs d) = db_audits d"
  unfolding notify_cancelled_def by (induction xs arbitrary: d) simp_all

lemma update_many_none: "(\<And>r. \<not> p r) \<Longrightarrow> update_many p f t = t"
  by (simp add: update_many_def)

lemma cancel_among_Nil [simp]: "\<not> cancel_among [] x"
  by (simp add: cancel_among_def)

text \<open>A decision that commits either found nothing to do or wrote the provider as read, the
  orders it had read and the audit entry.\<close>

lemma setStatus_commits:
  fixes i status memo actor now first second d
  defines "d2 \<equiv> \<lambda>l. upd_lps (update_many (\<lambda>x. lp_id x = i) (decided status memo now l)) (first d)"
  assumes "setStatus_tx i status memo actor now first second d = (d', Inr (u, cancelled))"
  shows "(d' = d \<and> find_lp d i = Some u \<and> lp_status u = status \<and> cancelled = []) \<or>
    (\<exists>l r. find_lp d i = Some l \<and> find_lp (first d) i = Some r \<and> as_read l r \<and> u = decided status memo now l r \<and>
       cancelled = reachable_orders i status (first d) \<and>
       count_rows (cancel_among cancelled) (db_orders (second (d2 l))) = length cancelled \<and>
       d' = recordAudit (standing_audit actor i l u cancelled)
              (upd_orders (update_many (cancel_among cancelled) cancel_row) (second (d2 l))))"
proof (cases "find_lp d i")
  case None
  then show ?thesis using assms(2) by (simp add: setStatus_tx_def)
next
  case (Some l)
  show ?thesis
  proof (cases "lp_status l = status \<and> (memo = None \<or> memo = lp_approvalNote l)")
    case True
    then show ?thesis using assms(2) Some by (simp add: setStatus_tx_def)
  next
    case changed: False
    have tx: "setStatus_tx i status memo actor now first second d =
      (case find_lp (first d) i of
                  None \<Rightarrow> (first d, Inl status_changed)
                | Some r \<Rightarrow>
                    if \<not> as_read l r then (first d, Inl status_changed)
                    else (let reachable = reachable_orders i status (d2 l); d3 = second (d2 l);
                              d4 = (if reachable = [] then d3 else upd_orders (update_many (cancel_among reachable) cancel_row) d3);
                              updated = decided status memo now l r
                          in if reachable \<noteq> [] \<and> count_rows (cancel_among reachable) (db_orders d3) \<noteq> length reachable
                             then (d4, Inl order_moved_on)
                             else (recordAudit (standing_audit actor i l updated reachable) d4, Inr (updated, reachable))))"
      unfolding setStatus_tx_def Some option.case if_not_P [OF changed] d2_def Let_def ..
    have re: "reachable_orders i status (d2 l) = reachable_orders i status (first d)"
      by (simp add: reachable_orders_def d2_def)
    show ?thesis
    proof (cases "find_lp (first d) i")
      case None
      then show ?thesis using assms(2) by (simp add: tx)
    next
      case r: (Some r)
      have ok: "as_read l r" using assms(2) by (simp add: tx r split: if_splits)
      show ?thesis
      proof (cases "reachable_orders i status (first d) = []")
        case True
        then have "d' = recordAudit (standing_audit actor i l u cancelled) (second (d2 l)) \<and> u = decided status memo now l r \<and> cancelled = []"
          using assms(2) ok by (auto simp: tx r re Let_def)
        then show ?thesis using Some r ok True by (auto simp: update_many_none count_rows_def)
      next
        case False
        then show ?thesis using assms(2) Some r ok by (auto simp: tx re Let_def split: if_splits)
      qed
    qed
  qed
qed

lemma counted_ids_all_hit:
  assumes "distinct (map key t)" "distinct (map key c)" "count_rows (\<lambda>x. key x \<in> key ` set c \<and> P x) t = length c"
    and "x \<in> set t" "key x \<in> key ` set c"
  shows "P x"
proof -
  let ?hit = "filter (\<lambda>x. key x \<in> key ` set c \<and> P x) t"
  have d: "distinct (map key ?hit)" using assms(1) by (simp add: distinct_map_filter)
  have "card (key ` set ?hit) = card (key ` set c)"
    using distinct_card [OF d] distinct_card [OF assms(2)] assms(3) by (simp add: count_rows_def)
  moreover have "key ` set ?hit \<subseteq> key ` set c" by auto
  ultimately have "key ` set ?hit = key ` set c" by (intro card_subset_eq) auto
  with assms(5) have "key x \<in> key ` set ?hit" by simp
  then obtain y where y: "y \<in> set ?hit" "key x = key y" by (rule imageE)
  then have "y = x" using assms(1,4) by (auto simp: distinct_map inj_on_def)
  then show ?thesis using y(1) by auto
qed

lemma reachable_ids: "distinct (map o_id (db_orders d)) \<Longrightarrow> distinct (map o_id (reachable_orders i status d))"
  by (simp add: reachable_orders_def distinct_map_filter)

lemma cancel_all_hit:
  assumes "distinct (map o_id t)" "distinct (map o_id c)" "count_rows (cancel_among c) t = length c"
  shows "update_many (cancel_among c) cancel_row t = map (\<lambda>x. if o_id x \<in> o_id ` set c then cancel_row x else x) t \<and>
    (\<forall>x \<in> set t. o_id x \<in> o_id ` set c \<longrightarrow> o_status x \<in> set PRE_CHAIN_STATUSES)"
proof -
  have "o_status x \<in> set PRE_CHAIN_STATUSES" if "x \<in> set t" "o_id x \<in> o_id ` set c" for x
    using counted_ids_all_hit [OF assms(1,2) assms(3) [unfolded cancel_among_def [abs_def]] that] .
  then show ?thesis by (auto simp: update_many_def cancel_among_def)
qed

lemma decided_simps [simp]: "lp_id (decided status memo now l x) = lp_id x" "lp_status (decided status memo now l x) = status"
  by (simp_all add: decided_def)

interpretation decision: row_write lp_id "decided status memo now l" for status memo now l
  by unfold_locales simp


definition standing_db :: db where
  "standing_db = empty_db\<lparr>db_lps := [demo_lp], db_orders := [demo_order, demo_order\<lparr>o_id := ''o2'', o_status := FUNDED\<rparr>]\<rparr>"

lemma standing_db_simps [simp]:
  "db_orders standing_db = [demo_order, demo_order\<lparr>o_id := ''o2'', o_status := FUNDED\<rparr>]" "db_lps standing_db = [demo_lp]"
  by (simp_all add: standing_db_def)


section \<open>The configuration\<close>

definition config_ok :: "env \<Rightarrow> config \<Rightarrow> bool" where
  "config_ok env c =
     (c_platformFeeBps c + c_lpFeeBps c < 10000 \<and>
      windowsFitTheContract (c_payWindowSecs c) (c_confirmWindowSecs c) (c_disputeWindowSecs c) None = None \<and>
      cfg_priceDeviationMaxBps env < c_spreadBps c \<and> c_platformFeeBps c + cfg_priceDeviationMaxBps env < c_spreadBps c \<and>
      c_minOrder c < c_maxOrder c \<and>
      list_all (\<lambda>t. c_minOrder c \<le> dailyLimitBaseUnits t (Some c)) TIER_LEVELS)"

lemma or_else_simps [simp]: "or_else (Some v) c = v" "or_else None c = c"
  by (simp_all add: or_else_def)

lemma windows_without_cooldown:
  "windowsFitTheContract a b c k = None \<Longrightarrow> windowsFitTheContract a b c None = None"
  by (auto simp: windowsFitTheContract_def Let_def split: if_splits)

lemma tiers_below_Nil:
  "c_dailyLimitByTier c = limits \<Longrightarrow>
   tiers_below limits m = [] \<longleftrightarrow> list_all (\<lambda>t. m \<le> dailyLimitBaseUnits t (Some c)) TIER_LEVELS"
  by (auto simp: tiers_below_def filter_empty_conv list_all_iff dailyLimitBaseUnits_def Let_def not_less)

lemma patch_config_simps [simp]:
  "c_platformFeeBps (patch_config p now c) = or_else (cp_platformFeeBps p) (c_platformFeeBps c)"
  "c_lpFeeBps (patch_config p now c) = or_else (cp_lpFeeBps p) (c_lpFeeBps c)"
  "c_spreadBps (patch_config p now c) = or_else (cp_spreadBps p) (c_spreadBps c)"
  "c_minOrder (patch_config p now c) = or_else (cp_minOrder p) (c_minOrder c)"
  "c_maxOrder (patch_config p now c) = or_else (cp_maxOrder p) (c_maxOrder c)"
  "c_payWindowSecs (patch_config p now c) = or_else (cp_payWindowSecs p) (c_payWindowSecs c)"
  "c_confirmWindowSecs (patch_config p now c) = or_else (cp_confirmWindowSecs p) (c_confirmWindowSecs c)"
  "c_disputeWindowSecs (patch_config p now c) = or_else (cp_disputeWindowSecs p) (c_disputeWindowSecs c)"
  "c_platformWallet (patch_config p now c) = or_else (cp_platformWallet p) (c_platformWallet c)"
  "c_dailyLimitByTier (patch_config p now c) = next_limits p (c_dailyLimitByTier c)"
  by (simp_all add: patch_config_def)

text \<open>The checks accept exactly what keeps the rules.\<close>

lemma checks_keep_rules:
  assumes "config_checks env p fee cooldown (Some c) = None" "config_ok env c"
  shows "config_ok env (patch_config p now c) \<and>
     windowsFitTheContract (c_payWindowSecs (patch_config p now c)) (c_confirmWindowSecs (patch_config p now c))
       (c_disputeWindowSecs (patch_config p now c)) cooldown = None \<and>
     (fee \<noteq> None \<longrightarrow> cp_platformFeeBps p = fee)"
proof -
  let ?c = "patch_config p now c"
  let ?lim = "next_limits p (c_dailyLimitByTier c)"
  have k: "c_platformFeeBps ?c + c_lpFeeBps ?c < 10000"
      "windowsFitTheContract (c_payWindowSecs ?c) (c_confirmWindowSecs ?c) (c_disputeWindowSecs ?c) cooldown = None"
      "cp_spreadBps p = None \<or> cfg_priceDeviationMaxBps env < c_spreadBps ?c"
      "cp_platformFeeBps p = None \<and> cp_spreadBps p = None \<or> c_platformFeeBps ?c + cfg_priceDeviationMaxBps env < c_spreadBps ?c"
      "fee = None \<or> cp_platformFeeBps p = fee" "c_minOrder ?c < c_maxOrder ?c"
      "cp_minOrder p = None \<and> cp_dailyLimitByTier p = None \<or> tiers_below ?lim (c_minOrder ?c) = []"
    using assms(1) by (auto simp: config_checks_def current_or_def Let_def spreadCoversPriceDeviation_def platformFeeFitsSpread_def split: if_splits)
  have "list_all (\<lambda>t. c_minOrder ?c \<le> dailyLimitBaseUnits t (Some ?c)) TIER_LEVELS"
  proof (cases "cp_minOrder p = None \<and> cp_dailyLimitByTier p = None")
    case True
    then show ?thesis using assms(2) by (auto simp: config_ok_def list_all_iff dailyLimitBaseUnits_def next_limits_def)
  next
    case False
    then have "tiers_below ?lim (c_minOrder ?c) = []" using k(7) by blast
    then show ?thesis using tiers_below_Nil [of ?c ?lim] by simp
  qed
  moreover have "cfg_priceDeviationMaxBps env < c_spreadBps ?c" using k(3) assms(2) by (cases "cp_spreadBps p") (auto simp: config_ok_def)
  moreover have "c_platformFeeBps ?c + cfg_priceDeviationMaxBps env < c_spreadBps ?c"
    using k(4) assms(2) by (cases "cp_spreadBps p"; cases "cp_platformFeeBps p") (auto simp: config_ok_def)
  ultimately show ?thesis using k windows_without_cooldown [OF k(2)] by (auto simp: config_ok_def)
qed

lemma chain_facts_hold:
  assumes "chain_facts env p = Inr (fee, cooldown)"
  shows "(cp_platformFeeBps p \<noteq> None \<longrightarrow> (\<exists>f w. rpc_readEscrowPlatformDefaults env (cfg_escrowContractId env) = Inr (f, w) \<and> fee = Some f)) \<and>
     (\<forall>v. cp_platformWallet p = Some v \<longrightarrow> (\<exists>f. rpc_readEscrowPlatformDefaults env (cfg_escrowContractId env) = Inr (f, v))) \<and>
     (cp_payWindowSecs p \<noteq> None \<or> cp_confirmWindowSecs p \<noteq> None \<longrightarrow> (\<exists>k. rpc_stakingCooldownSecs env = Inr k \<and> cooldown = Some k))"
  using assms by (auto simp: chain_facts_def Let_def split: sum.splits prod.splits if_splits)

text \<open>C28 (updateConfigTransactional, config_checks, chain_facts): no change of the configuration breaks its rules.  If the configuration kept them (fees
  below 100 percent, windows the contract accepts, a spread above the accepted price deviation and above it plus
  the platform fee, minimum below maximum order, every tier's daily limit at least the minimum order), a
  change that commits keeps them too, is the patch applied to the row it was checked
  against, agrees with the chain in the platform fee and wallet it sets, leaves the staking cooldown long enough
  for the windows it sets and empties the cache; a change that is refused writes nothing.  Other requests
  may write in between; two versions of the row with the same \<open>updatedAt\<close> are the same.\<close>

theorem config_rules_kept:
  fixes env p actor now meanwhile cache d
  defines "r \<equiv> updateConfigTransactional env p actor now meanwhile cache d"
  assumes "db_config d = Some c0" "config_ok env c0"
    and "\<And>row. db_config (meanwhile d) = Some row \<Longrightarrow> c_updatedAt row = c_updatedAt c0 \<Longrightarrow> row = c0"
  shows "case snd (snd r) of
      Inl e \<Rightarrow> fst r \<in> {d, meanwhile d} \<and> fst (snd r) = cache
    | Inr c \<Rightarrow> c = patch_config p now c0 \<and> db_config (fst r) = Some c \<and> config_ok env c \<and> fst (snd r) = None \<and>
        (cp_platformFeeBps p \<noteq> None \<longrightarrow> (\<exists>w. rpc_readEscrowPlatformDefaults env (cfg_escrowContractId env) = Inr (c_platformFeeBps c, w))) \<and>
        (cp_platformWallet p \<noteq> None \<longrightarrow> (\<exists>f. rpc_readEscrowPlatformDefaults env (cfg_escrowContractId env) = Inr (f, c_platformWallet c))) \<and>
        (cp_payWindowSecs p \<noteq> None \<or> cp_confirmWindowSecs p \<noteq> None \<longrightarrow>
           (\<exists>k. rpc_stakingCooldownSecs env = Inr k \<and> cooldownFloorSecs (c_payWindowSecs c) (c_confirmWindowSecs c) \<le> k))"
proof (cases "chain_facts env p")
  case (Inl e)
  then show ?thesis by (simp add: r_def updateConfigTransactional_def)
next
  case (Inr q)
  obtain fee cooldown where q: "q = (fee, cooldown)" by (cases q)
  note facts = chain_facts_hold [OF Inr [unfolded q]]
  show ?thesis
  proof (cases "config_checks env p fee cooldown (Some c0)")
    case (Some e)
    then show ?thesis by (simp add: r_def updateConfigTransactional_def Inr q assms(2))
  next
    case None
    note rules = checks_keep_rules [OF None assms(3), of now]
    show ?thesis
    proof (cases "\<exists>row. db_config (meanwhile d) = Some row \<and> c_updatedAt row = c_updatedAt c0")
      case False
      then show ?thesis
        by (auto simp: r_def updateConfigTransactional_def Inr q assms(2) None Let_def split: option.splits)
    next
      case True
      then have "db_config (meanwhile d) = Some c0" using assms(4) by blast
      then have r: "snd (snd r) = Inr (patch_config p now c0)" "fst (snd r) = None" "db_config (fst r) = Some (patch_config p now c0)"
        by (simp_all add: r_def updateConfigTransactional_def Inr q assms(2) None Let_def recordAudit_def invalidate_def)
      have "cooldownFloorSecs (c_payWindowSecs (patch_config p now c0)) (c_confirmWindowSecs (patch_config p now c0)) \<le> k" if "cooldown = Some k" for k
        using rules that by (auto simp: windowsFitTheContract_def Let_def split: if_splits)
      then show ?thesis using r rules facts by (auto split: option.splits)
    qed
  qed
qed

definition no_patch :: config_patch where
  "no_patch = \<lparr>cp_spreadBps = None, cp_platformFeeBps = None, cp_lpFeeBps = None, cp_platformWallet = None, cp_paused = None,
     cp_requireProof = None, cp_autoRefund = None, cp_dailyLimitByTier = None, cp_postSettleDisputeWindowSecs = None,
     cp_payWindowSecs = None, cp_confirmWindowSecs = None, cp_disputeWindowSecs = None, cp_minOrder = None, cp_maxOrder = None\<rparr>"

abbreviation narrower :: config_patch where
  "narrower \<equiv> no_patch\<lparr>cp_platformFeeBps := Some 30, cp_payWindowSecs := Some 3600\<rparr>"

lemma demo_config_ok: "config_ok demo_env demo_config"
proof -
  have "dailyLimitBaseUnits t (Some demo_config) = math_round (DEFAULT_DAILY_LIMIT_USDC t) * USDC_BASE_UNITS" for t
    by (simp add: dailyLimitBaseUnits_def)
  then have "list_all (\<lambda>t. 50000000 \<le> dailyLimitBaseUnits t (Some demo_config)) TIER_LEVELS"
    by (simp add: TIER_LEVELS_def math_round_def USDC_BASE_UNITS_def)
  then show ?thesis
    by (simp add: config_ok_def demo_config_def demo_env_def windowsFitTheContract_def MIN_USABLE_PAY_WINDOW_SECS_def
        MIN_PAY_WINDOW_SECS_def MAX_PAY_WINDOW_SECS_def MAX_TOTAL_WINDOW_SECS_def)
qed

theorem config_rules_kept_witness:
  "case snd (snd (updateConfigTransactional demo_env narrower ''GA'' 9 id None empty_db)) of
     Inl e \<Rightarrow> False | Inr c \<Rightarrow> c_payWindowSecs c = 3600 \<and> config_ok demo_env c"
proof -
  have e: "db_config empty_db = Some demo_config" by (simp add: empty_db_def)
  have f: "chain_facts demo_env narrower = Inr (Some 30, Some 2592000)"
    by (simp add: chain_facts_def no_patch_def demo_env_def)
  have "config_checks demo_env narrower (Some 30) (Some 2592000) (Some demo_config) = None"
    by (simp add: config_checks_def no_patch_def current_or_def demo_config_def demo_env_def windowsFitTheContract_def
        MIN_USABLE_PAY_WINDOW_SECS_def MIN_PAY_WINDOW_SECS_def MAX_PAY_WINDOW_SECS_def MAX_TOTAL_WINDOW_SECS_def
        cooldownFloorSecs_def LONGEST_TAIL_PAST_SETTLEMENT_SECS_def MAX_DISPUTE_WINDOW_SECS_def SLASH_CEILING_PAST_POST_SETTLE_SECS_def
        RESOLVER_WINDOW_SECS_def POST_VERDICT_GRACE_SECS_def platformFeeFitsSpread_def)
  then have "\<exists>c. snd (snd (updateConfigTransactional demo_env narrower ''GA'' 9 id None empty_db)) = Inr c"
    by (simp add: updateConfigTransactional_def f e Let_def)
  then show ?thesis
    using config_rules_kept [OF e demo_config_ok, of id narrower "''GA''" 9 None] by (auto simp: e no_patch_def)
qed

section \<open>The figures\<close>

lemma sum_by_key:
  fixes h :: "'r \<Rightarrow> int"
  assumes "finite K" "f ` set rows \<subseteq> K"
  shows "(\<Sum>k \<in> K. sum_list (map h (filter (\<lambda>r. f r = k) rows))) = sum_list (map h rows)"
  using assms(2)
proof (induction rows)
  case (Cons r rows)
  have "(\<Sum>k \<in> K. sum_list (map h (filter (\<lambda>r. f r = k) (r # rows))))
      = (\<Sum>k \<in> K. (if k = f r then h r else 0) + sum_list (map h (filter (\<lambda>r. f r = k) rows)))"
    by (intro sum.cong) auto
  also have "\<dots> = h r + (\<Sum>k \<in> K. sum_list (map h (filter (\<lambda>r. f r = k) rows)))"
    using assms(1) Cons.prems by (simp add: sum.distrib sum.delta)
  finally show ?case using Cons by simp
qed simp

lemma group_by_sums:
  fixes h :: "'r \<Rightarrow> int"
  shows "sum_list (map (\<lambda>(k, rs). sum_list (map h rs)) (group_by f rows)) = sum_list (map h rows)"
proof -
  have "sum_list (map (\<lambda>(k, rs). sum_list (map h rs)) (group_by f rows))
      = (\<Sum>k \<in> f ` set rows. sum_list (map h (filter (\<lambda>r. f r = k) rows)))"
    by (simp add: group_by_def comp_def sum_list_distinct_conv_sum_set)
  then show ?thesis using sum_by_key [of "f ` set rows" f rows h] by simp
qed

text \<open>The mix by flow adds up to the number of orders, and the days to the volume.\<close>

lemma flow_mix_adds_up:
  "getMetricsOverview now d rng = Inr m \<Longrightarrow> sum_list (map (\<lambda>(f, n, v). int n) (me_flowMix m)) = int (me_ordersCount m)"
proof -
  assume "getMetricsOverview now d rng = Inr m"
  then obtain rows where "me_flowMix m = map (\<lambda>(f, rs). (f, length rs, baseUnitsToUsdc (volume rs))) (group_by o_flow rows)" "me_ordersCount m = length rows"
    by (auto simp: getMetricsOverview_def Let_def split: option.splits)
  moreover have "sum_list (map (\<lambda>(k, rs). int (length rs)) (group_by o_flow rows)) = int (length rows)"
    using group_by_sums [of "\<lambda>_. 1" o_flow rows] by (simp add: sum_list_triv)
  ultimately show ?thesis by (simp add: comp_def case_prod_unfold)
qed

end
