(* ===== verification/ChainRead.thy ===== *)
theory ChainRead
  imports Indexer Provider
begin

text \<open>
  \<open>stellar/stellar-read.service.ts\<close>: retries, the reads of the contracts with their caches and
  the decoding of what they answer, and the builders of the contract calls.  The RPC node and
  Horizon are the parameter \<open>node\<close>: the \<open>n\<close>-th attempt of a request has an answer or
  throws an error with a text.  A transaction is what the SDK's builder is told to put into it.
\<close>

section \<open>Retries\<close>

datatype 'a reply = Throws string | Answers 'a

definition NOT_FOUND_PATTERNS :: "string list" where
  "NOT_FOUND_PATTERNS = [''not found'', ''key not found'', ''missingvalue'']"

definition isNotFound :: "string \<Rightarrow> bool" where
  "isNotFound msg = list_ex (\<lambda>p. contains_ci p msg) NOT_FOUND_PATTERNS"

definition RPC_RETRY_ATTEMPTS :: nat where "RPC_RETRY_ATTEMPTS = 3"

definition RETRYABLE_ERROR_SUBSTRINGS :: "string list" where
  "RETRYABLE_ERROR_SUBSTRINGS =
     [''timed out'', ''timeout'', ''network'', ''fetch failed'', ''econnreset'', ''econnrefused'', ''enotfound'', ''etimedout'',
      ''could not load source account'', ''could not load account'']"

definition is_word_char :: "char \<Rightarrow> bool" where
  "is_word_char c = (is_letter c \<or> is_digit c \<or> c = CHR ''_'')"

text \<open>\<open>\b(429|500|502|503|504)\b\<close>; the flag says whether the character before is a word character.\<close>

fun has_retryable_status :: "bool \<Rightarrow> string \<Rightarrow> bool" where
  "has_retryable_status w [] = False"
| "has_retryable_status w (c # s) =
     ((\<not> w \<and> take 3 (c # s) \<in> {''429'', ''500'', ''502'', ''503'', ''504''} \<and> \<not> list_ex is_word_char (take 1 (drop 3 (c # s)))) \<or>
      has_retryable_status (is_word_char c) s)"

definition isRetryableRpcError :: "string \<Rightarrow> string \<Rightarrow> bool" where
  "isRetryableRpcError msg label =
     (if label = ''getAccount'' then True
      else if isNotFound msg then False
      else list_ex (\<lambda>p. contains_ci p msg) RETRYABLE_ERROR_SUBSTRINGS \<or> has_retryable_status False msg)"

text \<open>\<open>withRpcTimeout\<close> turns an answer that takes too long into the error \<open>label timed out\<close>; the
  reply of an attempt is what is seen after it.  \<open>retry_from n\<close> makes attempt \<open>n\<close> and at most
  \<open>left\<close> more; the result says how many were made.\<close>

fun retry_from :: "nat \<Rightarrow> nat \<Rightarrow> (nat \<Rightarrow> 'a reply) \<Rightarrow> string \<Rightarrow> nat \<times> 'a reply" where
  "retry_from n 0 f label = (n, f n)"
| "retry_from n (Suc left) f label =
     (case f n of
        Answers a \<Rightarrow> (n, Answers a)
      | Throws e \<Rightarrow> if \<not> isRetryableRpcError e label then (n, Throws e) else retry_from (Suc n) left f label)"

definition withRpcRetry :: "(nat \<Rightarrow> 'a reply) \<Rightarrow> string \<Rightarrow> 'a reply" where
  "withRpcRetry f label = snd (retry_from 1 (RPC_RETRY_ATTEMPTS - 1) f label)"

section \<open>Values of the chain\<close>

text \<open>What \<open>scValToNative\<close> yields; \<open>NOther s\<close> is another object that prints as \<open>s\<close>.\<close>

datatype native = NUndefined | NNull | NBig int | NNum jsnum | NStr string | NBool bool | NObj "(string \<times> native) list" | NOther string

fun truthy :: "native \<Rightarrow> bool" where
  "truthy NUndefined = False"
| "truthy NNull = False"
| "truthy (NBig n) = (n \<noteq> 0)"
| "truthy (NNum x) = (x \<noteq> NaN \<and> x \<noteq> Fin 0)"
| "truthy (NStr s) = (s \<noteq> [])"
| "truthy (NBool b) = b"
| "truthy (NObj m) = True"
| "truthy (NOther s) = True"

text \<open>A member; reading one of \<open>undefined\<close> or \<open>null\<close> throws, and \<open>?.\<close> answers \<open>undefined\<close>.\<close>

fun member_of :: "native \<Rightarrow> string \<Rightarrow> native" where
  "member_of (NObj m) k = (case map_of m k of Some v \<Rightarrow> v | None \<Rightarrow> NUndefined)"
| "member_of _ k = NUndefined"

fun number_of_native :: "native \<Rightarrow> jsnum" where
  "number_of_native NUndefined = NaN"
| "number_of_native NNull = Fin 0"
| "number_of_native (NBig n) = to_double (of_int n)"
| "number_of_native (NNum x) = x"
| "number_of_native (NStr s) = to_number s"
| "number_of_native (NBool b) = Fin (if b then 1 else 0)"
| "number_of_native (NObj m) = NaN"
| "number_of_native (NOther s) = to_number s"

definition signed_digits :: "string \<Rightarrow> int option" where
  "signed_digits s =
     (case s of
        CHR ''-'' # r \<Rightarrow> if r \<noteq> [] \<and> list_all is_digit r then Some (- int (digits_val r)) else None
      | _ \<Rightarrow> if s \<noteq> [] \<and> list_all is_digit s then Some (int (digits_val s)) else None)"

fun asBigInt :: "native \<Rightarrow> jsval" where
  "asBigInt (NBig n) = JBigInt n"
| "asBigInt (NNum (Fin x)) = (if is_integer x \<and> \<bar>x\<bar> \<le> of_int MAX_SAFE_INTEGER then JBigInt \<lfloor>x\<rfloor> else JUndefined)"
| "asBigInt (NStr s) = (case signed_digits s of Some n \<Rightarrow> JBigInt n | None \<Rightarrow> JUndefined)"
| "asBigInt _ = JUndefined"

fun asNumber :: "native \<Rightarrow> jsval" where
  "asNumber (NNum (Fin x)) = (if is_integer x then JNumber (Fin x) else JUndefined)"
| "asNumber (NBig n) = (if \<bar>n\<bar> \<le> MAX_SAFE_INTEGER then JNumber (Fin (of_int n)) else JUndefined)"
| "asNumber _ = JUndefined"

definition is_stellar_address :: "string \<Rightarrow> bool" where
  "is_stellar_address s =
     (length s = 56 \<and> hd s \<in> {CHR ''G'', CHR ''C'', CHR ''M''} \<and>
      list_all (\<lambda>c. is_upper c \<or> (50 \<le> (of_char c :: nat) \<and> (of_char c :: nat) \<le> 55)) (tl s))"

fun asString :: "native \<Rightarrow> jsval" where
  "asString (NStr s) = (if s \<noteq> [] then JString s else JUndefined)"
| "asString (NOther s) = (if is_stellar_address s then JString s else JUndefined)"
| "asString _ = JUndefined"

text \<open>\<open>BigInt(v)\<close>: throws on what is no integer.\<close>

fun to_bigint :: "native \<Rightarrow> int reply" where
  "to_bigint (NBig n) = Answers n"
| "to_bigint (NNum (Fin x)) = (if is_integer x then Answers \<lfloor>x\<rfloor> else Throws ''RangeError'')"
| "to_bigint (NNum _) = Throws ''RangeError''"
| "to_bigint (NStr s) = (if trim s = [] then Answers 0 else case signed_digits (trim s) of Some n \<Rightarrow> Answers n | None \<Rightarrow> Throws ''SyntaxError'')"
| "to_bigint (NBool b) = Answers (if b then 1 else 0)"
| "to_bigint _ = Throws ''TypeError''"

section \<open>Transactions\<close>

text \<open>Arguments of a contract call.  Bytes are the values of \<open>Buffer.from(hex, 'hex')\<close>, which stops at the first
  pair that is not hexadecimal.\<close>

datatype scval = ScBytes "nat list" | ScAddress address | ScI128 int | ScU64 int | ScU32 int | ScSymbol string

definition hex_value :: "char \<Rightarrow> nat option" where
  "hex_value c =
     (let n = of_char c in
      if 48 \<le> n \<and> n \<le> 57 then Some (n - 48)
      else if 97 \<le> n \<and> n \<le> 102 then Some (n - 87)
      else if 65 \<le> n \<and> n \<le> 70 then Some (n - 55) else None)"

definition hex_digit :: "nat \<Rightarrow> char" where
  "hex_digit n = ''0123456789abcdef'' ! n"

fun bytes_of_hex :: "string \<Rightarrow> nat list" where
  "bytes_of_hex (a # b # s) = (case (hex_value a, hex_value b) of (Some x, Some y) \<Rightarrow> (16 * x + y) # bytes_of_hex s | _ \<Rightarrow> [])"
| "bytes_of_hex _ = []"

definition hex_of_bytes :: "nat list \<Rightarrow> string" where
  "hex_of_bytes bs = concat (map (\<lambda>b. [hex_digit (b div 16), hex_digit (b mod 16)]) bs)"

record contract_call =
  cc_contract :: string
  cc_function :: string
  cc_args :: "scval list"

text \<open>A host function, with the authorisation entries of the operation: the one for the source account of
  this very call, or another.\<close>

datatype host_function = InvokeContract contract_call | OtherHostFunction
datatype auth_entry = SourceAccountFor contract_call | OtherAuth string
datatype operation = InvokeHostFunction host_function "auth_entry list" | OtherOperation string

record transaction_envelope =
  te_source :: address
  te_fee :: jsnum
  te_operations :: "operation list"
  te_maxTime :: secs

definition BASE_FEE :: jsnum where "BASE_FEE = Fin 100"

section \<open>The node\<close>

datatype horizon_reply = HThrows | HAnswers int native \<comment> \<open>status and JSON body\<close>

record node =
  nd_getAccount :: "address \<Rightarrow> nat \<Rightarrow> unit reply"
  nd_prepare :: "transaction_envelope \<Rightarrow> nat \<Rightarrow> transaction_envelope reply"
  nd_simulate :: "contract_call \<Rightarrow> nat \<Rightarrow> native option reply" \<comment> \<open>None: a simulation without a result\<close>
  nd_latestLedger :: "nat \<Rightarrow> native reply"
  nd_account :: "address \<Rightarrow> horizon_reply"
  nd_firstTx :: "address \<Rightarrow> horizon_reply"
  nd_readKey :: address
  nd_isAddress :: "string \<Rightarrow> bool"

section \<open>Reads\<close>

definition simulateCall :: "node \<Rightarrow> contract_call \<Rightarrow> native reply" where
  "simulateCall nd c =
     (case withRpcRetry (nd_getAccount nd (nd_readKey nd)) ''getAccount'' of
        Throws _ \<Rightarrow> Throws ''simulateCall: could not load source account for simulation. Set STELLAR_READ_KEY to a funded testnet public key.''
      | Answers _ \<Rightarrow>
          withRpcRetry (\<lambda>n. case nd_simulate nd c n of
             Throws e \<Rightarrow> Throws e
           | Answers None \<Rightarrow> Throws (''simulateCall: no result for '' @ cc_function c)
           | Answers (Some v) \<Rightarrow> Answers v) ''simulateTransaction'')"

definition get_config_call :: "string \<Rightarrow> contract_call" where
  "get_config_call c = \<lparr>cc_contract = c, cc_function = ''get_config'', cc_args = []\<rparr>"

definition get_trade_call :: "string \<Rightarrow> string \<Rightarrow> contract_call" where
  "get_trade_call c tradeIdHex = \<lparr>cc_contract = c, cc_function = ''get_trade'', cc_args = [ScBytes (bytes_of_hex tradeIdHex)]\<rparr>"

definition staking_read :: "env \<Rightarrow> string \<Rightarrow> scval list \<Rightarrow> contract_call" where
  "staking_read env fn args = \<lparr>cc_contract = cfg_stakingContractId env, cc_function = fn, cc_args = args\<rparr>"

definition STATUS_MAP :: "order_status list" where
  "STATUS_MAP = [FUNDED, FIAT_PAID, RELEASED, REFUNDED, DISPUTED]"

fun isEscrowTradeNotFoundError :: "string \<Rightarrow> bool" where
  "isEscrowTradeNotFoundError [] = False"
| "isEscrowTradeNotFoundError (c # s) = (match_here (c # s) = Some ''5'' \<or> isEscrowTradeNotFoundError s)"

fun js_int_option :: "jsval \<Rightarrow> int option" where
  "js_int_option (JBigInt n) = Some n"
| "js_int_option _ = None"

fun status_index :: "jsnum \<Rightarrow> nat option" where
  "status_index (Fin x) = (if is_integer x \<and> 0 \<le> x \<and> x < of_nat (length STATUS_MAP) then Some (nat \<lfloor>x\<rfloor>) else None)"
| "status_index _ = None"

fun settled_secs :: "jsnum \<Rightarrow> secs" where
  "settled_secs (Fin x) = (if 0 < x then \<lfloor>x\<rfloor> else 0)"
| "settled_secs _ = 0"

definition nullish_or :: "native \<Rightarrow> native \<Rightarrow> native" where
  "nullish_or v z = (if v = NUndefined \<or> v = NNull then z else v)"

definition decode_trade :: "native \<Rightarrow> trade option" where
  "decode_trade ret =
     (if \<not> truthy ret then None
      else map_option (\<lambda>i. \<lparr>t_status = STATUS_MAP ! i,
          t_settledAt = settled_secs (number_of_native (nullish_or (member_of ret ''settled_at'') (NNum (Fin 0)))),
          t_usdcAmount = asBigInt (member_of ret ''usdc_amount''), t_fiatAmount = asBigInt (member_of ret ''fiat_amount''),
          t_fiatCurrency = asString (member_of ret ''fiat_currency''), t_flow = asNumber (member_of ret ''flow''),
          t_usdcProvider = asString (member_of ret ''usdc_provider''), t_usdcRecipient = asString (member_of ret ''usdc_recipient''),
          t_confirmer = asString (member_of ret ''confirmer''), t_platformWallet = asString (member_of ret ''platform_wallet''),
          t_lpWallet = asString (member_of ret ''lp_wallet''), t_platformFeeBps = asNumber (member_of ret ''platform_fee_bps''),
          t_lpFeeBps = asNumber (member_of ret ''lp_fee_bps''), t_payDeadline = asBigInt (member_of ret ''pay_deadline''),
          t_confirmDeadline = asBigInt (member_of ret ''confirm_deadline''), t_disputeDeadline = asBigInt (member_of ret ''dispute_deadline''),
          t_postSettleDeadline = js_int_option (asBigInt (member_of ret ''post_settle_deadline'')),
          t_slashDeadline = js_int_option (asBigInt (member_of ret ''slash_deadline'')),
          t_liabilityEstablished = (case member_of ret ''liability_established'' of NBool b \<Rightarrow> Some b | _ \<Rightarrow> None)\<rparr>)
        (status_index (number_of_native (member_of ret ''status''))))"

definition decodeTradeStatus :: "node \<Rightarrow> string \<Rightarrow> string \<Rightarrow> trade option reply" where
  "decodeTradeStatus nd c tradeIdHex =
     (case simulateCall nd (get_trade_call c tradeIdHex) of
        Throws e \<Rightarrow> if isNotFound e \<or> isEscrowTradeNotFoundError e then Answers None else Throws e
      | Answers ret \<Rightarrow> Answers (decode_trade ret))"

definition getTradeStatusStrict :: "node \<Rightarrow> string \<Rightarrow> string \<Rightarrow> trade option reply" where
  "getTradeStatusStrict nd c tradeIdHex = decodeTradeStatus nd c tradeIdHex"

section \<open>Caches\<close>

text \<open>A JavaScript \<open>Map\<close>: its entries in order of insertion; setting a key that is there keeps its place.\<close>

type_synonym ('k, 'v) jsmap = "('k \<times> 'v) list"

fun map_set :: "'k \<Rightarrow> 'v \<Rightarrow> ('k, 'v) jsmap \<Rightarrow> ('k, 'v) jsmap" where
  "map_set k v [] = [(k, v)]"
| "map_set k v ((j, u) # m) = (if j = k then (j, v) # m else (j, u) # map_set k v m)"

type_synonym status_cache = "(string, trade option \<times> ms) jsmap"

definition STATUS_CACHE_TTL_MS :: ms where "STATUS_CACHE_TTL_MS = 4000"

definition status_key :: "string \<Rightarrow> string \<Rightarrow> string" where
  "status_key c tradeIdHex = c @ '':'' @ tradeIdHex"

definition fresh_at :: "ms \<Rightarrow> ms \<Rightarrow> ('v \<times> ms) option \<Rightarrow> bool" where
  "fresh_at ttl now hit = (case hit of None \<Rightarrow> False | Some (v, stamp) \<Rightarrow> now - stamp < ttl)"

definition sweep_cache :: "ms \<Rightarrow> status_cache \<Rightarrow> status_cache" where
  "sweep_cache now m = (if length m > 500 then filter (\<lambda>(k, v, stamp). now - stamp < STATUS_CACHE_TTL_MS) m else m)"

definition getTradeStatus :: "node \<Rightarrow> ms \<Rightarrow> string \<Rightarrow> string \<Rightarrow> status_cache \<Rightarrow> status_cache \<times> trade option" where
  "getTradeStatus nd now c tradeIdHex cache =
     (let key = status_key c tradeIdHex; hit = map_of cache key in
      if fresh_at STATUS_CACHE_TTL_MS now hit then (cache, fst (the hit))
      else (let val = (case decodeTradeStatus nd c tradeIdHex of Answers t \<Rightarrow> t | Throws _ \<Rightarrow> None)
            in (sweep_cache now (map_set key (val, now) cache), val)))"

definition evictTradeStatus :: "string \<Rightarrow> string \<Rightarrow> status_cache \<Rightarrow> status_cache" where
  "evictTradeStatus c tradeIdHex cache = filter (\<lambda>(k, e). k \<noteq> status_key c tradeIdHex) cache"

section \<open>Horizon\<close>

definition TRUSTLINE_TTL_MS :: ms where "TRUSTLINE_TTL_MS = 5 * 60000"

fun elements :: "native \<Rightarrow> native list" where
  "elements (NObj m) = map snd m"
| "elements _ = []"

definition is_usdc_balance :: "env \<Rightarrow> native \<Rightarrow> bool" where
  "is_usdc_balance env b =
     (member_of b ''asset_code'' = NStr (cfg_usdcAssetCode env) \<and> member_of b ''asset_issuer'' = NStr (cfg_usdcAssetIssuer env))"

definition trustline_unknown :: http_error where
  "trustline_unknown = ServiceUnavailableException (''cannot verify the USDC trustline right now '' @ em_dash @ '' please retry in a moment'')"

definition http_ok :: "int \<Rightarrow> bool" where
  "http_ok status = (200 \<le> status \<and> status \<le> 299)"

definition hasUsdcTrustline :: "env \<Rightarrow> node \<Rightarrow> ms \<Rightarrow> address \<Rightarrow> (string, bool \<times> ms) jsmap \<Rightarrow> (string, bool \<times> ms) jsmap \<times> bool outcome" where
  "hasUsdcTrustline env nd now a cache =
     (let hit = map_of cache a in
      if fresh_at TRUSTLINE_TTL_MS now hit then (cache, Inr (fst (the hit)))
      else case nd_account nd a of
             HThrows \<Rightarrow> (cache, Inl trustline_unknown)
           | HAnswers status body \<Rightarrow>
               if status = 404 then (cache, Inr False)
               else if http_ok status
               then (let has = list_ex (is_usdc_balance env) (elements (member_of body ''balances''))
                     in (if has then map_set a (has, now) cache else cache, Inr has))
               else (cache, Inl trustline_unknown))"

definition WALLET_AGE_TTL_MS :: ms where "WALLET_AGE_TTL_MS = 5 * 60000"

definition first_created :: "native \<Rightarrow> string option" where
  "first_created body =
     (case elements (member_of (member_of body ''_embedded'') ''records'') of
        [] \<Rightarrow> None
      | r # _ \<Rightarrow> (case member_of r ''created_at'' of NStr t \<Rightarrow> Some t | _ \<Rightarrow> None))"

definition getAccountFirstTxAt :: "node \<Rightarrow> ms \<Rightarrow> address \<Rightarrow> (string, string option \<times> ms) jsmap \<Rightarrow> (string, string option \<times> ms) jsmap \<times> string option" where
  "getAccountFirstTxAt nd now a cache =
     (let hit = map_of cache a in
      if fresh_at WALLET_AGE_TTL_MS now hit then (cache, fst (the hit))
      else case nd_firstTx nd a of
             HThrows \<Rightarrow> (cache, None)
           | HAnswers status body \<Rightarrow>
               if status = 404 then (map_set a (None, now) cache, None)
               else if http_ok status then (map_set a (first_created body, now) cache, first_created body)
               else (cache, None))"

section \<open>Contract configuration\<close>

definition isEligible :: "env \<Rightarrow> node \<Rightarrow> address \<Rightarrow> bool reply" where
  "isEligible env nd a =
     (case simulateCall nd (staking_read env ''is_eligible'' [ScAddress a]) of Throws e \<Rightarrow> Throws e | Answers v \<Rightarrow> Answers (truthy v))"

definition bigint_member :: "native \<Rightarrow> string \<Rightarrow> int reply" where
  "bigint_member v k = (if v = NUndefined \<or> v = NNull then Throws ''TypeError'' else to_bigint (member_of v k))"

definition stakingCooldownSecs :: "env \<Rightarrow> node \<Rightarrow> int reply" where
  "stakingCooldownSecs env nd =
     (case simulateCall nd (staking_read env ''get_config'' []) of Throws e \<Rightarrow> Throws e | Answers v \<Rightarrow> bigint_member v ''cooldown_secs'')"

definition getSlashedSoFar :: "env \<Rightarrow> node \<Rightarrow> string \<Rightarrow> int reply" where
  "getSlashedSoFar env nd tradeIdHex =
     (case simulateCall nd (staking_read env ''slashed'' [ScBytes (bytes_of_hex tradeIdHex)]) of
        Throws e \<Rightarrow> Throws e | Answers v \<Rightarrow> to_bigint (nullish_or v (NNum (Fin 0))))"

record stake_view =
  sv_staked :: string
  sv_unbonding :: string
  sv_unbond_available_at :: int
  sv_min_stake :: string
  sv_eligible :: bool

definition read_stake_info :: "env \<Rightarrow> node \<Rightarrow> address \<Rightarrow> stake_view reply" where
  "read_stake_info env nd a =
     (case (simulateCall nd (staking_read env ''get_stake'' [ScAddress a]), simulateCall nd (staking_read env ''get_config'' []),
            simulateCall nd (staking_read env ''is_eligible'' [ScAddress a])) of
        (Answers stakeRaw, Answers configRaw, Answers eligibleRaw) \<Rightarrow>
          (case (bigint_member stakeRaw ''staked'', bigint_member stakeRaw ''unbonding'', bigint_member stakeRaw ''unbond_available_at'',
                 bigint_member configRaw ''min_stake'') of
             (Answers st, Answers un, Answers at_secs, Answers mn) \<Rightarrow>
               Answers \<lparr>sv_staked = dec_int st, sv_unbonding = dec_int un, sv_unbond_available_at = at_secs,
                        sv_min_stake = dec_int mn, sv_eligible = truthy eligibleRaw\<rparr>
           | _ \<Rightarrow> Throws ''TypeError'')
      | _ \<Rightarrow> Throws ''simulateCall'')"

definition latestLedgerCloseTime :: "node \<Rightarrow> ms reply" where
  "latestLedgerCloseTime nd =
     (case withRpcRetry (nd_latestLedger nd) ''getLatestLedger'' of
        Throws e \<Rightarrow> Throws e
      | Answers latest \<Rightarrow>
          (case number_of_native (member_of latest ''closeTime'') of
             Fin x \<Rightarrow> if 0 < x then Answers \<lfloor>x * 1000\<rfloor> else Throws ''getLatestLedger answered without a readable closeTime''
           | _ \<Rightarrow> Throws ''getLatestLedger answered without a readable closeTime''))"

text \<open>The members of the escrow's configuration; \<open>cfg?.x\<close> of a missing answer is \<open>undefined\<close>.\<close>

definition readEscrowResolver :: "node \<Rightarrow> string \<Rightarrow> string reply" where
  "readEscrowResolver nd c =
     (case simulateCall nd (get_config_call c) of
        Throws e \<Rightarrow> Throws e
      | Answers cfg \<Rightarrow> (case member_of cfg ''resolver'' of
          NStr r \<Rightarrow> if r \<noteq> [] then Answers r else Throws (''readEscrowResolver: '' @ c @ '' returned no resolver'')
        | _ \<Rightarrow> Throws (''readEscrowResolver: '' @ c @ '' returned no resolver'')))"

definition readDisputeSigners :: "node \<Rightarrow> string \<Rightarrow> (string \<times> string) reply" where
  "readDisputeSigners nd c =
     (case simulateCall nd (get_config_call c) of
        Throws e \<Rightarrow> Throws e
      | Answers cfg \<Rightarrow> (case (member_of cfg ''resolver'', member_of cfg ''admin'') of
          (NStr r, NStr a) \<Rightarrow> if is_stellar_address r \<and> is_stellar_address a then Answers (r, a)
             else Throws (''readDisputeSigners: '' @ c @ '' returned no readable resolver and admin'')
        | _ \<Rightarrow> Throws (''readDisputeSigners: '' @ c @ '' returned no readable resolver and admin'')))"

definition readEscrowPlatformDefaults :: "node \<Rightarrow> string \<Rightarrow> (int \<times> address) reply" where
  "readEscrowPlatformDefaults nd c =
     (case simulateCall nd (get_config_call c) of
        Throws e \<Rightarrow> Throws e
      | Answers cfg \<Rightarrow>
          (case asNumber (member_of cfg ''default_platform_fee_bps'') of
             JNumber (Fin x) \<Rightarrow>
               if x < 0 then Throws (''readEscrowPlatformDefaults: '' @ c @ '' returned no readable default_platform_fee_bps'')
               else (case member_of cfg ''default_platform_wallet'' of
                       NStr w \<Rightarrow> if is_stellar_address w then Answers (\<lfloor>x\<rfloor>, w)
                          else Throws (''readEscrowPlatformDefaults: '' @ c @ '' returned no readable default_platform_wallet'')
                     | _ \<Rightarrow> Throws (''readEscrowPlatformDefaults: '' @ c @ '' returned no readable default_platform_wallet''))
           | _ \<Rightarrow> Throws (''readEscrowPlatformDefaults: '' @ c @ '' returned no readable default_platform_fee_bps'')))"

definition readEscrowFiatAttestor :: "node \<Rightarrow> string \<Rightarrow> string reply" where
  "readEscrowFiatAttestor nd c =
     (case simulateCall nd (get_config_call c) of
        Throws e \<Rightarrow> Throws e
      | Answers cfg \<Rightarrow> (case member_of cfg ''fiat_attestor'' of
          NStr a \<Rightarrow> if a \<noteq> [] then Answers a else Throws (''readEscrowFiatAttestor: '' @ c @ '' returned no fiat_attestor'')
        | _ \<Rightarrow> Throws (''readEscrowFiatAttestor: '' @ c @ '' returned no fiat_attestor'')))"

section \<open>Builders\<close>

definition TX_TIMEOUT_SECS :: secs where "TX_TIMEOUT_SECS = 300"

definition timeout_at :: "ms \<Rightarrow> secs" where
  "timeout_at now = now div 1000 + TX_TIMEOUT_SECS"

text \<open>\<open>setTimebounds(0, Math.max(1, Math.min(now + 300, notAfter)))\<close>\<close>

definition bounded_until :: "ms \<Rightarrow> secs \<Rightarrow> secs" where
  "bounded_until now notAfter = max 1 (min (now div 1000 + 300) notAfter)"

fun arg_addresses :: "scval list \<Rightarrow> address list" where
  "arg_addresses [] = []"
| "arg_addresses (ScAddress a # r) = a # arg_addresses r"
| "arg_addresses (_ # r) = arg_addresses r"

definition unsigned_tx :: "address \<Rightarrow> contract_call \<Rightarrow> secs \<Rightarrow> transaction_envelope" where
  "unsigned_tx source c maxTime =
     \<lparr>te_source = source, te_fee = BASE_FEE, te_operations = [InvokeHostFunction (InvokeContract c) []], te_maxTime = maxTime\<rparr>"

text \<open>The steps every builder takes: load the source account, make the call (an \<open>Address\<close> of a string that
  is none throws), have it prepared.\<close>

definition prepare_call :: "node \<Rightarrow> string \<Rightarrow> address \<Rightarrow> contract_call \<Rightarrow> secs \<Rightarrow> transaction_envelope reply" where
  "prepare_call nd name source c maxTime =
     (case withRpcRetry (nd_getAccount nd source) ''getAccount'' of
        Throws _ \<Rightarrow> Throws (name @ '': could not load account '' @ source @ '' from Stellar RPC'')
      | Answers _ \<Rightarrow>
          (case find (\<lambda>a. \<not> nd_isAddress nd a) (arg_addresses (cc_args c)) of
             Some a \<Rightarrow> Throws (''Unsupported address type: '' @ a)
           | None \<Rightarrow>
               (case withRpcRetry (nd_prepare nd (unsigned_tx source c maxTime)) ''prepareTransaction'' of
                  Throws msg \<Rightarrow> Throws (name @ '': prepareTransaction failed: '' @ msg)
                | Answers tx \<Rightarrow> Answers tx)))"

definition mark_fiat_paid_call :: "string \<Rightarrow> string \<Rightarrow> address \<Rightarrow> contract_call" where
  "mark_fiat_paid_call c tradeIdHex a =
     \<lparr>cc_contract = c, cc_function = ''mark_fiat_paid'', cc_args = [ScBytes (bytes_of_hex tradeIdHex), ScAddress a]\<rparr>"

definition rpc_buildMarkFiatPaidTx :: "node \<Rightarrow> ms \<Rightarrow> string \<Rightarrow> address \<Rightarrow> string \<Rightarrow> secs \<Rightarrow> transaction_envelope reply" where
  "rpc_buildMarkFiatPaidTx nd now c userAddress tradeIdHex notAfterSecs =
     prepare_call nd ''buildMarkFiatPaidTx'' userAddress (mark_fiat_paid_call c tradeIdHex userAddress) (bounded_until now notAfterSecs)"

definition create_trade_call :: "trade_params \<Rightarrow> contract_call" where
  "create_trade_call p =
     \<lparr>cc_contract = tp_contractId p, cc_function = ''create_trade'',
      cc_args = [ScBytes (bytes_of_hex (tp_tradeId p)), ScAddress (usdcProvider (tp_roles p)), ScAddress (usdcRecipient (tp_roles p)),
        ScAddress (confirmer (tp_roles p)), ScI128 (tp_usdcAmount p), ScI128 (tp_fiatAmount p), ScSymbol (tp_fiatCurrency p),
        ScU32 (FLOW_DISCRIMINANT (tp_flow p)), ScU32 (tp_platformFeeBps p), ScU32 (tp_lpFeeBps p), ScAddress (tp_platformWallet p),
        ScAddress (tp_lpWallet p), ScU64 (tp_payDeadline p), ScU64 (tp_confirmDeadline p), ScU64 (tp_disputeDeadline p)]\<rparr>"

definition rpc_buildCreateTradeTx :: "node \<Rightarrow> ms \<Rightarrow> trade_params \<Rightarrow> transaction_envelope reply" where
  "rpc_buildCreateTradeTx nd now p =
     prepare_call nd ''buildCreateTradeTx'' (usdcProvider (tp_roles p)) (create_trade_call p)
       (bounded_until now (signingDeadlineSecs (tp_payDeadline p)))"

definition rpc_buildConfirmReleaseTx :: "node \<Rightarrow> ms \<Rightarrow> string \<Rightarrow> address \<Rightarrow> string \<Rightarrow> transaction_envelope reply" where
  "rpc_buildConfirmReleaseTx nd now c confirmerAddress tradeIdHex =
     prepare_call nd ''buildConfirmReleaseTx'' confirmerAddress
       \<lparr>cc_contract = c, cc_function = ''confirm_and_release'', cc_args = [ScBytes (bytes_of_hex tradeIdHex)]\<rparr> (timeout_at now)"

definition rpc_buildRaiseDisputeTx :: "node \<Rightarrow> ms \<Rightarrow> string \<Rightarrow> address \<Rightarrow> string \<Rightarrow> transaction_envelope reply" where
  "rpc_buildRaiseDisputeTx nd now c byAddress tradeIdHex =
     prepare_call nd ''buildRaiseDisputeTx'' byAddress
       \<lparr>cc_contract = c, cc_function = ''raise_dispute'', cc_args = [ScBytes (bytes_of_hex tradeIdHex), ScAddress byAddress]\<rparr> (timeout_at now)"

definition rpc_buildResolveTx :: "node \<Rightarrow> ms \<Rightarrow> string \<Rightarrow> address \<Rightarrow> string \<Rightarrow> verdict \<Rightarrow> transaction_envelope reply" where
  "rpc_buildResolveTx nd now c callerAddress tradeIdHex v =
     prepare_call nd ''buildResolveTx'' callerAddress
       \<lparr>cc_contract = c, cc_function = ''resolve'',
        cc_args = [ScBytes (bytes_of_hex tradeIdHex), ScU32 (if v = Release then 0 else 1), ScAddress callerAddress]\<rparr> (timeout_at now)"

definition rpc_buildSlashTx :: "env \<Rightarrow> node \<Rightarrow> ms \<Rightarrow> address \<Rightarrow> address \<Rightarrow> string \<Rightarrow> int \<Rightarrow> transaction_envelope reply" where
  "rpc_buildSlashTx env nd now callerAddress lpAddress tradeIdHex amount =
     prepare_call nd ''buildSlashTx'' callerAddress
       (staking_read env ''slash'' [ScAddress lpAddress, ScBytes (bytes_of_hex tradeIdHex), ScI128 amount, ScAddress callerAddress]) (timeout_at now)"

definition refund_call :: "string \<Rightarrow> string \<Rightarrow> contract_call" where
  "refund_call c tradeIdHex = \<lparr>cc_contract = c, cc_function = ''refund'', cc_args = [ScBytes (bytes_of_hex tradeIdHex)]\<rparr>"

definition rpc_buildRefundTx :: "node \<Rightarrow> ms \<Rightarrow> string \<Rightarrow> string \<Rightarrow> address \<Rightarrow> transaction_envelope reply" where
  "rpc_buildRefundTx nd now c tradeIdHex sourceAddr =
     prepare_call nd ''buildRefundTx'' sourceAddr (refund_call c tradeIdHex) (timeout_at now)"

definition rpc_buildStakeTx :: "env \<Rightarrow> node \<Rightarrow> ms \<Rightarrow> address \<Rightarrow> int \<Rightarrow> transaction_envelope reply" where
  "rpc_buildStakeTx env nd now lpAddress amount =
     prepare_call nd ''buildStakeTx'' lpAddress (staking_read env ''stake'' [ScAddress lpAddress, ScI128 amount]) (timeout_at now)"

definition rpc_buildRequestUnstakeTx :: "env \<Rightarrow> node \<Rightarrow> ms \<Rightarrow> address \<Rightarrow> int \<Rightarrow> transaction_envelope reply" where
  "rpc_buildRequestUnstakeTx env nd now lpAddress amount =
     prepare_call nd ''buildRequestUnstakeTx'' lpAddress (staking_read env ''request_unstake'' [ScAddress lpAddress, ScI128 amount]) (timeout_at now)"

definition rpc_buildClaimUnstakeTx :: "env \<Rightarrow> node \<Rightarrow> ms \<Rightarrow> address \<Rightarrow> transaction_envelope reply" where
  "rpc_buildClaimUnstakeTx env nd now lpAddress =
     prepare_call nd ''buildClaimUnstakeTx'' lpAddress (staking_read env ''claim_unstake'' [ScAddress lpAddress]) (timeout_at now)"

text \<open>The builder the handlers of \<open>order-tx.service.ts\<close> are given, on this node.\<close>

fun build_call :: "env \<Rightarrow> node \<Rightarrow> ms \<Rightarrow> chain_call \<Rightarrow> transaction_envelope reply" where
  "build_call env nd now (MarkFiatPaid c a t notAfter) = rpc_buildMarkFiatPaidTx nd now c a t notAfter"
| "build_call env nd now (CreateTrade p) = rpc_buildCreateTradeTx nd now p"
| "build_call env nd now (ConfirmRelease c a t) = rpc_buildConfirmReleaseTx nd now c a t"
| "build_call env nd now (RaiseDispute c a t) = rpc_buildRaiseDisputeTx nd now c a t"
| "build_call env nd now (Resolve c a t v) = rpc_buildResolveTx nd now c a t v"
| "build_call env nd now (Slash a l t n) = rpc_buildSlashTx env nd now a l t n"

definition node_builder :: "(transaction_envelope \<Rightarrow> string) \<Rightarrow> env \<Rightarrow> node \<Rightarrow> ms \<Rightarrow> builder" where
  "node_builder toXdr env nd now c = (case build_call env nd now c of Throws e \<Rightarrow> Inl e | Answers tx \<Rightarrow> Inr (toXdr tx))"

section \<open>Retries end\<close>

lemma retry_from_result:
  fixes f :: "nat \<Rightarrow> 'a reply" and n left :: nat and label :: string
  defines "r \<equiv> retry_from n left f label"
  shows "n \<le> fst r \<and> fst r \<le> n + left \<and> snd r = f (fst r) \<and>
    (\<forall>k. n \<le> k \<and> k < fst r \<longrightarrow> (\<exists>e. f k = Throws e \<and> isRetryableRpcError e label)) \<and>
    (\<forall>e. snd r = Throws e \<longrightarrow> fst r = n + left \<or> \<not> isRetryableRpcError e label)"
  unfolding r_def
proof (induction left arbitrary: n)
  case (Suc left)
  show ?case
  proof (cases "f n")
    case (Answers a)
    then show ?thesis by auto
  next
    case (Throws e)
    show ?thesis
    proof (cases "isRetryableRpcError e label")
      case False
      then show ?thesis using Throws by auto
    next
      case True
      let ?r = "retry_from (Suc n) left f label"
      have "\<exists>e. f k = Throws e \<and> isRetryableRpcError e label" if "n \<le> k" "k < fst ?r" for k
        using Suc [of "Suc n"] that Throws True by (cases "k = n") auto
      then show ?thesis using Suc [of "Suc n"] Throws True by auto
    qed
  qed
qed auto

text \<open>A request to the chain is made at most three times and its outcome is that of the last attempt.  It is
  repeated only after an error that may pass, so the first answer is the one returned; and if it fails in the end,
  then with an error that will not pass or after the third attempt.\<close>

theorem retry_outcome:
  fixes f :: "nat \<Rightarrow> 'a reply"
  shows "\<exists>n \<in> {1, 2, 3}. withRpcRetry f label = f n \<and>
     (\<forall>k \<in> {1..<n}. \<exists>e. f k = Throws e \<and> isRetryableRpcError e label) \<and>
     (\<forall>e. f n = Throws e \<longrightarrow> n = 3 \<or> \<not> isRetryableRpcError e label)"
  using retry_from_result [of 1 2 f label]
  by (intro bexI [of _ "fst (retry_from 1 2 f label)"]) (auto simp: withRpcRetry_def RPC_RETRY_ATTEMPTS_def numeral_eq_Suc)

section \<open>A trade reads back as it was created\<close>

text \<open>What the escrow answers for a trade created by the call and not touched since: its arguments.\<close>

definition stored_trade :: "trade_params \<Rightarrow> native" where
  "stored_trade p = NObj
     [(''status'', NNum (Fin 0)), (''settled_at'', NBig 0), (''usdc_amount'', NBig (tp_usdcAmount p)), (''fiat_amount'', NBig (tp_fiatAmount p)),
      (''fiat_currency'', NStr (tp_fiatCurrency p)), (''flow'', NNum (Fin (of_int (FLOW_DISCRIMINANT (tp_flow p))))),
      (''usdc_provider'', NStr (usdcProvider (tp_roles p))), (''usdc_recipient'', NStr (usdcRecipient (tp_roles p))),
      (''confirmer'', NStr (confirmer (tp_roles p))), (''platform_wallet'', NStr (tp_platformWallet p)), (''lp_wallet'', NStr (tp_lpWallet p)),
      (''platform_fee_bps'', NNum (Fin (of_int (tp_platformFeeBps p)))), (''lp_fee_bps'', NNum (Fin (of_int (tp_lpFeeBps p)))),
      (''pay_deadline'', NBig (tp_payDeadline p)), (''confirm_deadline'', NBig (tp_confirmDeadline p)),
      (''dispute_deadline'', NBig (tp_disputeDeadline p))]"

lemma decode_stored:
  assumes "tp_fiatCurrency p \<noteq> []" "usdcProvider (tp_roles p) \<noteq> []" "usdcRecipient (tp_roles p) \<noteq> []" "confirmer (tp_roles p) \<noteq> []"
    "tp_platformWallet p \<noteq> []" "tp_lpWallet p \<noteq> []"
  shows "decode_trade (stored_trade p) = Some (recorded_trade p)"
  using assms by (simp add: decode_trade_def stored_trade_def recorded_trade_def STATUS_MAP_def is_integer_def nullish_or_def to_double_def)

text \<open>C32 (decodeTradeStatus, decode_trade, verifyTradeMatchesOrder): a trade opened with the parameters of its order reads back as that order's trade.  When the
  escrow answers with the arguments it was created with, at the first attempt, the reader
  returns a FUNDED trade that matches the order in every field the coordinator compares.\<close>

theorem created_trade_reads_back:
  assumes "nd_getAccount nd (nd_readKey nd) 1 = Answers ()"
    and "nd_simulate nd (get_trade_call c (o_tradeId x)) 1 = Answers (Some (stored_trade (create_params env r l x)))"
    and "o_lpWallet x = Some (lp_stellarAddress l)" "lp_stellarAddress l \<noteq> []" "o_userAddress x \<noteq> []"
    and "o_fiatCurrency x \<noteq> []" "o_platformWallet x \<noteq> []" "r = mapRoles (o_flow x) (o_userAddress x) (lp_stellarAddress l)"
  shows "\<exists>t. getTradeStatusStrict nd c (o_tradeId x) = Answers (Some t) \<and> t_status t = FUNDED \<and> verifyTradeMatchesOrder t x = []"
proof -
  have s: "simulateCall nd (get_trade_call c (o_tradeId x)) = Answers (stored_trade (create_params env r l x))"
    using assms(1,2) by (simp add: simulateCall_def withRpcRetry_def RPC_RETRY_ATTEMPTS_def numeral_eq_Suc)
  have "decode_trade (stored_trade (create_params env r l x)) = Some (recorded_trade (create_params env r l x))"
    using assms(3-8) by (intro decode_stored) (auto simp: create_params_def mapRoles_def)
  then have "getTradeStatusStrict nd c (o_tradeId x) = Answers (Some (recorded_trade (create_params env r l x)))"
    by (simp add: getTradeStatusStrict_def decodeTradeStatus_def s)
  moreover have "t_status (recorded_trade (create_params env r l x)) = FUNDED" by (simp add: recorded_trade_def)
  ultimately show ?thesis using recorded_trade_matches [OF assms(3-8)] by simp
qed

definition read_node :: node where
  "read_node = \<lparr>nd_getAccount = (\<lambda>_ _. Answers ()), nd_prepare = (\<lambda>tx _. Answers tx),
     nd_simulate = (\<lambda>_ _. Answers (Some (stored_trade (create_params demo_env (mapRoles TOP_UP ''GU'' ''GL'') demo_lp demo_order)))),
     nd_latestLedger = (\<lambda>_. Answers (NObj [(''closeTime'', NNum (Fin 1700000000))])), nd_account = (\<lambda>_. HThrows), nd_firstTx = (\<lambda>_. HThrows),
     nd_readKey = ''GR'', nd_isAddress = (\<lambda>_. True)\<rparr>"

theorem retry_outcome_witness:
  "withRpcRetry (\<lambda>n. if n < 3 then Throws ''fetch failed'' else Answers (7 :: int)) ''getLatestLedger'' = Answers 7"
proof -
  have e: "isRetryableRpcError ''fetch failed'' ''getLatestLedger''"
    by (simp add: isRetryableRpcError_def isNotFound_def NOT_FOUND_PATTERNS_def RETRYABLE_ERROR_SUBSTRINGS_def to_lower_def)
  show ?thesis
    using retry_outcome [of "\<lambda>n. if n < 3 then Throws ''fetch failed'' else Answers (7 :: int)" "''getLatestLedger''"] e by auto
qed

theorem created_trade_reads_back_witness:
  "\<exists>t. getTradeStatusStrict read_node ''CE'' ''t1'' = Answers (Some t) \<and> verifyTradeMatchesOrder t demo_order = []"
proof -
  have o: "o_fiatCurrency demo_order \<noteq> []" "o_platformWallet demo_order \<noteq> []" "lp_stellarAddress demo_lp \<noteq> []" "o_userAddress demo_order \<noteq> []"
    "o_lpWallet demo_order = Some (lp_stellarAddress demo_lp)" "mapRoles TOP_UP ''GU'' ''GL'' = mapRoles (o_flow demo_order) (o_userAddress demo_order) (lp_stellarAddress demo_lp)"
    by (simp_all add: demo_order_def)
  have n: "nd_getAccount read_node (nd_readKey read_node) 1 = Answers ()"
    "nd_simulate read_node (get_trade_call ''CE'' (o_tradeId demo_order)) 1
       = Answers (Some (stored_trade (create_params demo_env (mapRoles TOP_UP ''GU'' ''GL'') demo_lp demo_order)))"
    by (simp_all add: read_node_def)
  have t: "o_tradeId demo_order = ''t1''" by simp
  from created_trade_reads_back [OF n o(5,3,4,1,2,6)] show ?thesis unfolding t by blast
qed

section \<open>Cached answers are recent\<close>

lemma map_of_map_set: "map_of (map_set k v m) j = (if j = k then Some v else map_of m j)"
  by (induction k v m rule: map_set.induct) auto

lemma map_set_keys: "map fst (map_set k v m) = map fst m @ (if k \<in> fst ` set m then [] else [k])"
  by (induction k v m rule: map_set.induct) auto

lemma set_map_set: "set (map_set k v m) \<subseteq> insert (k, v) (set m)"
  by (induction k v m rule: map_set.induct) auto

text \<open>Every entry was decoded by a lookup at the instant it carries; \<open>h\<close> are the lookups so far.\<close>

type_synonym lookup = "node \<times> ms \<times> string \<times> string"

definition lookup_answer :: "lookup \<Rightarrow> trade option" where
  "lookup_answer q = (case q of (nd, now, c, t) \<Rightarrow> case decodeTradeStatus nd c t of Answers v \<Rightarrow> v | Throws _ \<Rightarrow> None)"

definition made_at :: "lookup \<Rightarrow> ms" where "made_at q = fst (snd q)"

definition lookup_key :: "lookup \<Rightarrow> string" where
  "lookup_key q = (case q of (nd, now, c, t) \<Rightarrow> status_key c t)"

definition cache_sound :: "lookup list \<Rightarrow> status_cache \<Rightarrow> bool" where
  "cache_sound h m =
     list_all (\<lambda>(k, v, stamp). list_ex (\<lambda>q. lookup_key q = k \<and> made_at q = stamp \<and> lookup_answer q = v) h) m"

fun lookups :: "lookup list \<Rightarrow> status_cache \<Rightarrow> status_cache \<times> trade option list" where
  "lookups [] m = (m, [])"
| "lookups ((nd, now, c, t) # qs) m =
     (let (m1, v) = getTradeStatus nd now c t m; (m2, vs) = lookups qs m1 in (m2, v # vs))"

lemma cache_sound_more: "cache_sound h m \<Longrightarrow> set h \<subseteq> set h' \<Longrightarrow> cache_sound h' m"
  unfolding cache_sound_def list_all_iff list_ex_iff by fastforce

lemma map_of_sound:
  assumes "cache_sound h m" "map_of m k = Some (v, stamp)"
  shows "\<exists>q \<in> set h. lookup_key q = k \<and> made_at q = stamp \<and> lookup_answer q = v"
  using assms map_of_SomeD [OF assms(2)] unfolding cache_sound_def list_all_iff list_ex_iff by fastforce

lemma lookup_step:
  assumes "cache_sound h m" "getTradeStatus nd now c t m = (m1, v)"
  shows "cache_sound ((nd, now, c, t) # h) m1 \<and>
     (\<exists>q \<in> set ((nd, now, c, t) # h). lookup_key q = status_key c t \<and> now - made_at q < STATUS_CACHE_TTL_MS \<and> lookup_answer q = v)"
proof (cases "fresh_at STATUS_CACHE_TTL_MS now (map_of m (status_key c t))")
  case True
  then obtain u stamp where hit: "map_of m (status_key c t) = Some (u, stamp)" "now - stamp < STATUS_CACHE_TTL_MS"
    by (auto simp: fresh_at_def split: option.splits)
  then have "m1 = m" "v = u" using assms(2) True by (simp_all add: getTradeStatus_def Let_def)
  then show ?thesis using map_of_sound [OF assms(1) hit(1)] hit(2) cache_sound_more [OF assms(1), of "(nd, now, c, t) # h"]
    by (simp add: subset_insertI) blast
next
  case False
  let ?q = "(nd, now, c, t)"
  have v: "v = lookup_answer ?q" and m1: "m1 = sweep_cache now (map_set (status_key c t) (v, now) m)"
    using assms(2) False by (auto simp: getTradeStatus_def Let_def lookup_answer_def)
  have "cache_sound (?q # h) (map_set (status_key c t) (v, now) m)"
    using cache_sound_more [OF assms(1), of "?q # h"] set_map_set [of "status_key c t" "(v, now)" m] v
    unfolding cache_sound_def list_all_iff list_ex_iff by (fastforce simp: lookup_key_def made_at_def)
  then have "cache_sound (?q # h) m1"
    unfolding m1 sweep_cache_def cache_sound_def list_all_iff by auto
  moreover have "lookup_key ?q = status_key c t" "now - made_at ?q < STATUS_CACHE_TTL_MS"
    by (simp_all add: lookup_key_def made_at_def STATUS_CACHE_TTL_MS_def)
  ultimately show ?thesis using v by auto
qed

lemma lookups_sound:
  assumes "cache_sound h m"
  shows "length (snd (lookups qs m)) = length qs \<and>
     (\<forall>i < length qs. \<exists>q \<in> set h \<union> set (take (Suc i) qs). lookup_key q = lookup_key (qs ! i) \<and>
        made_at (qs ! i) - made_at q < STATUS_CACHE_TTL_MS \<and> lookup_answer q = snd (lookups qs m) ! i)"
  using assms
proof (induction qs arbitrary: h m)
  case (Cons p qs)
  obtain nd now c t where p: "p = (nd, now, c, t)" by (cases p)
  obtain m1 v where g: "getTradeStatus nd now c t m = (m1, v)" by (cases "getTradeStatus nd now c t m")
  note st = lookup_step [OF Cons.prems g]
  note IH = Cons.IH [OF conjunct1 [OF st]]
  have r: "snd (lookups (p # qs) m) = v # snd (lookups qs m1)" by (simp add: p g Let_def case_prod_unfold)
  have "\<exists>q \<in> set h \<union> set (take (Suc i) (p # qs)). lookup_key q = lookup_key ((p # qs) ! i) \<and>
        made_at ((p # qs) ! i) - made_at q < STATUS_CACHE_TTL_MS \<and> lookup_answer q = (v # snd (lookups qs m1)) ! i"
    if "i < length (p # qs)" for i
  proof (cases i)
    case 0
    then show ?thesis using conjunct2 [OF st] by (simp add: p lookup_key_def made_at_def)
  next
    case (Suc j)
    then have "j < length qs" using that by simp
    then obtain q where "q \<in> set (p # h) \<union> set (take (Suc j) qs)" "lookup_key q = lookup_key (qs ! j)"
        "made_at (qs ! j) - made_at q < STATUS_CACHE_TTL_MS" "lookup_answer q = snd (lookups qs m1) ! j"
      using conjunct2 [OF IH] unfolding p by meson
    then show ?thesis using Suc by (intro bexI [of _ q]) auto
  qed
  then show ?case using IH unfolding r by simp
qed simp

text \<open>An answer from the cache is less than four seconds old and about the trade that was asked for.  In any sequence
  of reads, by nodes that answer differently over time, each result is what decoding that same contract's and trade's status gave
  at a read made no earlier than four seconds before (the read itself, or one before it).\<close>

theorem cached_status_is_recent:
  assumes "i < length qs" "qs ! i = (nd, now, c, t)" "\<forall>q \<in> set qs. CHR '':'' \<notin> set (fst (snd (snd q)))"
  shows "\<exists>nd' now'. (nd', now', c, t) \<in> set (take (Suc i) qs) \<and> now - now' < STATUS_CACHE_TTL_MS \<and>
     snd (lookups qs []) ! i = (case decodeTradeStatus nd' c t of Answers v \<Rightarrow> v | Throws _ \<Rightarrow> None)"
proof -
  have "cache_sound [] []" by (simp add: cache_sound_def)
  from lookups_sound [OF this, of qs] assms(1) obtain q where q: "q \<in> set (take (Suc i) qs)" "lookup_key q = lookup_key (qs ! i)"
      "made_at (qs ! i) - made_at q < STATUS_CACHE_TTL_MS" "lookup_answer q = snd (lookups qs []) ! i" by auto
  obtain nd' now' c' t' where p: "q = (nd', now', c', t')" by (cases q)
  have "CHR '':'' \<notin> set c" "CHR '':'' \<notin> set c'"
    using assms(3) in_set_takeD [OF q(1)] nth_mem [OF assms(1)] by (auto simp: assms(2) p)
  then have "c' = c \<and> t' = t"
    using q(2) token_append_eq [of "CHR '':''" c' c t' t] by (simp add: lookup_key_def p assms(2) status_key_def)
  then have "(nd', now', c, t) \<in> set (take (Suc i) qs)" "now - now' < STATUS_CACHE_TTL_MS"
      "snd (lookups qs []) ! i = (case decodeTradeStatus nd' c t of Answers v \<Rightarrow> v | Throws _ \<Rightarrow> None)"
    using q by (simp_all add: p assms(2) made_at_def lookup_answer_def)
  then show ?thesis by blast
qed

definition dead_node :: node where
  "dead_node = read_node\<lparr>nd_getAccount := \<lambda>_ _. Throws ''down''\<rparr>"

theorem cached_status_is_recent_witness:
  "\<exists>nd'. nd' \<in> {read_node, dead_node} \<and>
     snd (lookups [(read_node, 0, ''CE'', ''t1''), (dead_node, 3000, ''CE'', ''t1'')] []) ! 1
       = (case decodeTradeStatus nd' ''CE'' ''t1'' of Answers v \<Rightarrow> v | Throws _ \<Rightarrow> None)"
  using cached_status_is_recent [of 1 "[(read_node, 0, ''CE'', ''t1''), (dead_node, 3000, ''CE'', ''t1'')]" dead_node 3000 "''CE''" "''t1''"]
  by (fastforce simp: take_Suc_Cons)

end
