(* ===== verification/Attest.thy ===== *)
theory Attest
  imports OrderView Indexer Maintenance Provider
begin

text \<open>
  Confirming that the rupiah of a top-up arrived: \<open>stellar/attestor.service.ts\<close>
  (\<open>attest\<close>), the attestation handlers of \<open>admin/admin.service.ts\<close>
  (\<open>attestFiatPaid\<close>, \<open>receiptToSign\<close>, \<open>confirmReceiptAsProvider\<close>) and
  \<open>admin/provider-receipt-message.ts\<close>.  Building, signing and sending the transaction is the
  parameter \<open>submit\<close>; the state keeps, beside the database, the contracts whose attestor was
  confirmed and the transactions handed to \<open>submit\<close>.  Whether an audit row can be written is
  an argument, as is what other requests do while the transaction is on its way (\<open>meanwhile\<close>).
\<close>

section \<open>The attestor (attestor.service.ts)\<close>

type_synonym sending = "string \<times> string \<times> secs"
type_synonym submit = "string \<Rightarrow> string \<Rightarrow> secs \<Rightarrow> (string \<times> string) outcome"

record attest_state =
  at_db :: db
  at_confirmed :: "string set"
  at_sent :: "sending list"

definition assertIsTheChainsAttestor :: "env \<Rightarrow> string \<Rightarrow> address \<Rightarrow> (attest_state, unit) handler" where
  "assertIsTheChainsAttestor env contractId held s =
     (if contractId \<in> at_confirmed s then (s, Inr ())
      else case rpc_readEscrowFiatAttestor env contractId of
             Inl e \<Rightarrow> (s, Inl e)
           | Inr onChain \<Rightarrow>
               if onChain \<noteq> held
               then (s, Inl (UncaughtError (''AttestorService: this key is not the attestor '' @ contractId @ '' names '' @ em_dash @
                      '' it names '' @ onChain @ '', and that is immutable'')))
               else (s\<lparr>at_confirmed := insert contractId (at_confirmed s)\<rparr>, Inr ()))"

text \<open>\<open>turn\<close> is the instant at which the earlier submissions are done.\<close>

definition submitInTurn :: "submit \<Rightarrow> ms \<Rightarrow> string \<Rightarrow> string \<Rightarrow> secs \<Rightarrow> (attest_state, string \<times> string) handler" where
  "submitInTurn submit turn contractId tradeId notAfter s =
     (if turn div 1000 > notAfter
      then (s, Inl (ConflictException ''The time to confirm this payment has passed, so it can no longer be confirmed, and nothing was sent to the network.''))
      else (s\<lparr>at_sent := at_sent s @ [(contractId, tradeId, notAfter)]\<rparr>, submit contractId tradeId notAfter))"

definition attest :: "env \<Rightarrow> submit \<Rightarrow> ms \<Rightarrow> string \<Rightarrow> string \<Rightarrow> secs \<Rightarrow> (attest_state, string \<times> string) handler" where
  "attest env submit turn contractId tradeId notAfter s =
     (case attestor_key env of
        None \<Rightarrow> (s, Inl (ServiceUnavailableException ''this anchor cannot attest deposits right now: no attestor key is configured''))
      | Some key \<Rightarrow>
          if contractId \<notin> set (cfg_escrowContractId env # cfg_escrowContractIdsExtra env)
          then (s, Inl (UncaughtError (''AttestorService: '' @ contractId @ '' is not an escrow this anchor recognises, so nothing it says about itself can be trusted'')))
          else (case assertIsTheChainsAttestor env contractId key s of
                  (s1, Inl e) \<Rightarrow> (s1, Inl e)
                | (s1, Inr _) \<Rightarrow> submitInTurn submit turn contractId tradeId notAfter s1))"

section \<open>Attesting an order\<close>

fun http_status :: "http_error \<Rightarrow> int option" where
  "http_status (BadRequestException m) = Some 400"
| "http_status (UnauthorizedException m) = Some 401"
| "http_status (ForbiddenException m) = Some 403"
| "http_status (NotFoundException m) = Some 404"
| "http_status (ConflictException m) = Some 409"
| "http_status (ServiceUnavailableException m) = Some 503"
| "http_status (BadGatewayException m) = Some 502"
| "http_status (InternalServerErrorException m) = Some 500"
| "http_status (HttpException s m) = Some s"
| "http_status (RangeError m) = None"
| "http_status (UncaughtError m) = None"

fun error_message :: "http_error \<Rightarrow> string" where
  "error_message (BadRequestException m) = m"
| "error_message (UnauthorizedException m) = m"
| "error_message (ForbiddenException m) = m"
| "error_message (NotFoundException m) = m"
| "error_message (ConflictException m) = m"
| "error_message (ServiceUnavailableException m) = m"
| "error_message (BadGatewayException m) = m"
| "error_message (InternalServerErrorException m) = m"
| "error_message (HttpException s m) = m"
| "error_message (RangeError m) = m"
| "error_message (UncaughtError m) = m"

record attest_result =
  ar_orderId :: string
  ar_submission :: "(string \<times> string) option" \<comment> \<open>None: it was already recorded on chain\<close>

definition with_db :: "(db \<Rightarrow> db) \<Rightarrow> attest_state \<Rightarrow> attest_state" where
  "with_db f s = s\<lparr>at_db := f (at_db s)\<rparr>"

definition audit_of :: "address \<Rightarrow> string \<Rightarrow> order \<Rightarrow> string \<Rightarrow> audit_payload \<Rightarrow> audit" where
  "audit_of actor action x contractId after =
     \<lparr>a_actorAddress = actor, a_action = action, a_targetType = ''Order'', a_targetId = Some (o_id x),
      a_before = TradePayload (o_status x) contractId (o_tradeId x), a_after = after\<rparr>"

definition try_audit :: "bool \<Rightarrow> audit \<Rightarrow> db \<Rightarrow> db" where
  "try_audit audit_ok entry d = (if audit_ok then recordAudit entry d else d)"

text \<open>What the caller is told when nothing was submitted.\<close>

definition not_submitted :: "bool \<Rightarrow> http_error \<Rightarrow> http_error" where
  "not_submitted recorded e =
     (if http_status e \<noteq> None then e
      else InternalServerErrorException
        ((if recorded then ''this attestation was not submitted, and the attempt is recorded: ''
          else ''this attestation was not submitted, and the attempt could not be recorded either: '') @ error_message e))"

definition attested_write :: "env \<Rightarrow> ms \<Rightarrow> order \<Rightarrow> db \<Rightarrow> db" where
  "attested_write env now x d =
     (let guard = (\<lambda>y. o_id y = o_id x \<and> o_status y = FUNDED);
          d1 = upd_orders (update_many guard (\<lambda>y. y\<lparr>o_status := FIAT_PAID\<rparr>)) d
      in if count_rows guard (db_orders d) > 0 then notifyOrderStatus env now (notice_of x) ''FIAT_PAID'' False d1 else d1)"

definition attestFiatPaidOnce ::
  "env \<Rightarrow> submit \<Rightarrow> ms \<Rightarrow> ms \<Rightarrow> bool \<Rightarrow> (db \<Rightarrow> db) \<Rightarrow> string \<Rightarrow> address \<Rightarrow> evidence \<Rightarrow> (attest_state, attest_result) handler" where
  "attestFiatPaidOnce env submit now turn audit_ok meanwhile i actor ev s =
     (case find_order (at_db s) i of
        None \<Rightarrow> (s, Inl (NotFoundException ''no such order''))
      | Some x \<Rightarrow>
          if o_flow x \<noteq> TOP_UP
          then (s, Inl (BadRequestException (''only a top-up is attested by this anchor '' @ em_dash @
                 '' on any other flow the fiat is sent by the provider, who marks it themselves'')))
          else if o_status x \<noteq> FUNDED
          then (s, Inl (ConflictException (''this order is '' @ status_name (o_status x) @ ''; only a FUNDED top-up can be attested'')))
          else (let contractId = contractIdFor x (cfg_escrowContractId env);
                    entry = (\<lambda>sub hash err. audit_of actor ''order.attestFiatPaid'' x contractId (AttestPayload ev sub hash err))
                in case attest env submit turn contractId (o_tradeId x) (refundOpensAt x) s of
                     (s1, Inl e) \<Rightarrow>
                       (with_db (try_audit audit_ok (entry ''NOT_SUBMITTED'' None (Some (error_message e))) \<circ> meanwhile) s1,
                        Inl (not_submitted audit_ok e))
                   | (s1, Inr (status, hash)) \<Rightarrow>
                       (let s2 = with_db (try_audit audit_ok (entry status (Some hash) None) \<circ> meanwhile) s1 in
                        if status \<noteq> ''SUCCESS''
                        then (s2, Inl (BadGatewayException (''the chain refused this attestation ('' @ status @ '', tx '' @ hash @ '') '' @ em_dash @
                               '' the deposit is still FUNDED'')))
                        else (with_db (attested_write env now x) s2, Inr \<lparr>ar_orderId = o_id x, ar_submission = Some (status, hash)\<rparr>))))"

text \<open>\<open>whileAttesting\<close>: \<open>attesting\<close> are the orders whose attestation is in flight.\<close>

definition whileAttesting :: "string set \<Rightarrow> string \<Rightarrow> (attest_state, 'a) handler \<Rightarrow> (attest_state, 'a) handler" where
  "whileAttesting attesting i work s =
     (if i \<in> attesting then (s, Inl (ConflictException ''an attestation for this order is already in flight'')) else work s)"

definition attestFiatPaid ::
  "env \<Rightarrow> submit \<Rightarrow> ms \<Rightarrow> ms \<Rightarrow> bool \<Rightarrow> (db \<Rightarrow> db) \<Rightarrow> string set \<Rightarrow> string \<Rightarrow> address \<Rightarrow> string \<Rightarrow> (attest_state, attest_result) handler" where
  "attestFiatPaid env submit now turn audit_ok meanwhile attesting i actor note =
     whileAttesting attesting i (attestFiatPaidOnce env submit now turn audit_ok meanwhile i actor (AdminNote note))"

section \<open>The provider's receipt\<close>

definition PROVIDER_SERVER_ERROR :: string where
  "PROVIDER_SERVER_ERROR = ''Confirming this payment ran into an error. Try again: a payment is never recorded on chain twice, so if the first attempt did go through, the release continues from there.''"

definition STATEMENT :: string where
  "STATEMENT = ''I confirm I received the full payment for this order, and I authorize lolipay to mark this order as paid on chain.''"

definition printable_token :: "string \<Rightarrow> bool" where
  "printable_token s = (s \<noteq> [] \<and> list_all (\<lambda>c. is_letter c \<or> is_digit c \<or> c = CHR ''-'') s)"

definition receipt_text :: "string \<Rightarrow> string \<Rightarrow> int \<Rightarrow> string \<Rightarrow> string \<Rightarrow> int \<Rightarrow> string" where
  "receipt_text i trade amount currency reference at_secs =
     ''lolipay-confirm-receipt:v1 '' @ STATEMENT @ '' order='' @ i @ '' trade='' @ trade @ '' amount='' @ dec_int amount @
     '' currency='' @ currency @ '' reference='' @ reference @ '' at='' @ dec_int at_secs"

definition providerReceiptMessage :: "order \<Rightarrow> int \<Rightarrow> string outcome" where
  "providerReceiptMessage x at_secs =
     (let reference = (case o_ref x of Some r \<Rightarrow> r | None \<Rightarrow> ''-'') in
      if \<not> list_all printable_token [o_id x, o_tradeId x, o_fiatCurrency x, reference]
      then Inl (InternalServerErrorException PROVIDER_SERVER_ERROR)
      else Inr (receipt_text (o_id x) (o_tradeId x) (o_fiatAmount x) (o_fiatCurrency x) reference at_secs))"

definition NOT_FOUND :: string where "NOT_FOUND = ''This order was not found.''"

definition WINDOW_CLOSED :: string where
  "WINDOW_CLOSED = ''The time to confirm this payment has passed, so it can no longer be confirmed, and the USDC can be returned to you.''"

definition WINDOW_CLOSED_WHILE_HANDLING :: string where
  "WINDOW_CLOSED_WHILE_HANDLING = ''This attempt sent nothing to the network, and the time to confirm this payment ran out while lolipay was handling it. If this order is already marked as paid on chain, the USDC can only be released to the buyer, or settled through a dispute. Wait a moment, then refresh the order to see where it stands.''"

definition windowClosed :: "ms \<Rightarrow> order \<Rightarrow> bool" where
  "windowClosed now x = (now div 1000 > refundOpensAt x)"

definition providerReceiptOrder :: "db \<Rightarrow> string \<Rightarrow> address \<Rightarrow> order outcome" where
  "providerReceiptOrder d i who =
     (case find_order d i of
        None \<Rightarrow> Inl (NotFoundException NOT_FOUND)
      | Some x \<Rightarrow>
          if map_option lp_stellarAddress (order_lp d x) \<noteq> Some who
          then Inl (ForbiddenException ''Only the provider assigned to this order can confirm its payment.'')
          else Inr x)"

definition forProvider :: "'s \<times> 'a outcome \<Rightarrow> 's \<times> 'a outcome" where
  "forProvider r =
     (case r of
        (s, Inl e) \<Rightarrow> (s, Inl (if http_status e \<noteq> None then e else InternalServerErrorException PROVIDER_SERVER_ERROR))
      | (s, Inr a) \<Rightarrow> (s, Inr a))"

definition receiptToSign :: "ms \<Rightarrow> db \<Rightarrow> string \<Rightarrow> address \<Rightarrow> db \<times> (string \<times> int) outcome" where
  "receiptToSign now d i who =
     forProvider (d, case providerReceiptOrder d i who of
        Inl e \<Rightarrow> Inl e
      | Inr x \<Rightarrow> map_sum id (\<lambda>m. (m, now div 1000)) (providerReceiptMessage x (now div 1000)))"

definition asProviderRefusal :: "ms \<Rightarrow> order \<Rightarrow> db \<Rightarrow> http_error \<Rightarrow> http_error" where
  "asProviderRefusal now x d e =
     (case http_status e of
        None \<Rightarrow> e
      | Some status \<Rightarrow>
          if status = 400 then BadRequestException ''Only a deposit's payment can be confirmed this way. On a withdrawal, the provider sends the rupiah and marks it paid from their own wallet.''
          else if status = 404 then NotFoundException NOT_FOUND
          else if status = 409
          then (if windowClosed now x then ConflictException WINDOW_CLOSED_WHILE_HANDLING
                else ConflictException (''This order is '' @
                  status_name (case find_order d (o_id x) of Some r \<Rightarrow> o_status r | None \<Rightarrow> o_status x) @
                  '' in lolipay's records, and only a FUNDED deposit can be confirmed as paid. Refresh it: the records can lag behind the network.''))
          else HttpException (max status 500) PROVIDER_SERVER_ERROR)"

definition confirmOnChain ::
  "env \<Rightarrow> submit \<Rightarrow> ms \<Rightarrow> ms \<Rightarrow> bool \<Rightarrow> (db \<Rightarrow> db) \<Rightarrow> order \<Rightarrow> address \<Rightarrow> evidence \<Rightarrow> (attest_state, attest_result) handler" where
  "confirmOnChain env submit now turn audit_ok meanwhile x who receipt s =
     (let contractId = contractIdFor x (cfg_escrowContractId env) in
      case rpc_getTradeStatusStrict env contractId (o_tradeId x) of
        Inl _ \<Rightarrow> (s, Inl (ConflictException ''The network could not be reached to check this order, so the payment was not recorded. Try again in a moment.''))
      | Inr None \<Rightarrow> (s, Inl (ConflictException ''This order's escrow was not found on the network, so the payment was not recorded.''))
      | Inr (Some t) \<Rightarrow>
          if t_usdcProvider t \<noteq> JString who
          then (s, Inl (ForbiddenException ''The escrow for this order was not funded from your wallet, so you cannot confirm its payment.''))
          else if t_status t = FIAT_PAID
          then (with_db (try_audit audit_ok (audit_of who ''order.providerConfirmedReceipt'' x contractId (ReceiptPayload receipt))) s,
                Inr \<lparr>ar_orderId = o_id x, ar_submission = None\<rparr>)
          else if t_status t \<noteq> FUNDED
          then (s, Inl (ConflictException (''On the network this order is already '' @ status_name (t_status t) @ '', so there is nothing to confirm. Refresh the order.'')))
          else if windowClosed now x then (s, Inl (ConflictException WINDOW_CLOSED))
          else (case attestFiatPaidOnce env submit now turn audit_ok meanwhile (o_id x) who receipt s of
                  (s1, Inl e) \<Rightarrow> (s1, Inl (asProviderRefusal turn x (at_db s1) e))
                | (s1, Inr r) \<Rightarrow> (s1, Inr r)))"

definition receipt_nonce :: "string \<Rightarrow> int \<Rightarrow> string" where
  "receipt_nonce i at_secs = ''confirm-receipt:'' @ i @ '':'' @ dec_int at_secs"

definition ellipsis :: string where "ellipsis = [CHR 0xE2, CHR 0x80, CHR 0xA6]"

definition confirmReceiptAsProvider ::
  "env \<Rightarrow> submit \<Rightarrow> ms \<Rightarrow> ms \<Rightarrow> bool \<Rightarrow> (db \<Rightarrow> db) \<Rightarrow> string set \<Rightarrow> string \<Rightarrow> address \<Rightarrow> int \<Rightarrow> string \<Rightarrow> (attest_state, attest_result) handler" where
  "confirmReceiptAsProvider env submit now turn audit_ok meanwhile attesting i who at_secs signature s =
     forProvider
       (case providerReceiptOrder (at_db s) i who of
          Inl e \<Rightarrow> (s, Inl e)
        | Inr x \<Rightarrow>
            if \<not> (at_secs \<ge> now div 1000 - cfg_challengeTtl env \<and> at_secs \<le> now div 1000)
            then (s, Inl (ForbiddenException ''Your signed statement reached lolipay outside the time allowed for it, so nothing was recorded. Try again, and approve the new request in your wallet straight away.''))
            else (case providerReceiptMessage x at_secs of
              Inl e \<Rightarrow> (s, Inl e)
            | Inr message \<Rightarrow>
              if \<not> sdk_verifySep53 env who message signature
              then (s, Inl (ForbiddenException (''This signed statement could not be verified as signed by '' @ take 4 who @ ellipsis @ drop (length who - 4) who @
                     '', the account you are logged in with, so nothing was recorded. Make sure your wallet is using that account, then try again.'')))
              else (case consume (receipt_nonce (o_id x) at_secs) ((at_secs + cfg_challengeTtl env + 1) * 1000) (at_db s) of
                 (d1, False) \<Rightarrow> (s\<lparr>at_db := d1\<rparr>, Inl (ForbiddenException ''This signed statement was already used once, so this attempt recorded nothing. Try again to sign a new one.''))
               | (d1, True) \<Rightarrow>
                   if i \<in> attesting
                   then (s\<lparr>at_db := d1\<rparr>, Inl (ConflictException ''This order is already being confirmed. Wait a moment, then refresh it.''))
                   else confirmOnChain env submit now turn audit_ok meanwhile x who (SignedReceipt message signature now) (s\<lparr>at_db := d1\<rparr>))))"

section \<open>What is sent to the network\<close>

text \<open>When the attestor may be asked to attest \<open>x\<close>, the transactions sent so far set aside.\<close>

definition attestable :: "env \<Rightarrow> ms \<Rightarrow> attest_state \<Rightarrow> order \<Rightarrow> bool" where
  "attestable env turn s x =
     (o_flow x = TOP_UP \<and> o_status x = FUNDED \<and> turn div 1000 \<le> refundOpensAt x \<and>
      contractIdFor x (cfg_escrowContractId env) \<in> set (cfg_escrowContractId env # cfg_escrowContractIdsExtra env) \<and>
      (\<exists>key. attestor_key env = Some key \<and>
         (contractIdFor x (cfg_escrowContractId env) \<in> at_confirmed s \<or>
          rpc_readEscrowFiatAttestor env (contractIdFor x (cfg_escrowContractId env)) = Inr key)))"

definition attestation_of :: "env \<Rightarrow> order \<Rightarrow> sending" where
  "attestation_of env x = (contractIdFor x (cfg_escrowContractId env), o_tradeId x, refundOpensAt x)"

lemma with_db_simps [simp]:
  "at_sent (with_db f s) = at_sent s" "at_confirmed (with_db f s) = at_confirmed s" "at_db (with_db f s) = f (at_db s)"
  by (simp_all add: with_db_def)

lemma audit_of_simps [simp]:
  "a_actorAddress (audit_of actor action x c p) = actor" "a_targetId (audit_of actor action x c p) = Some (o_id x)"
  "a_action (audit_of actor action x c p) = action"
  by (simp_all add: audit_of_def)

lemma chains_attestor_db: "assertIsTheChainsAttestor env c key s = (s1, res) \<Longrightarrow> at_db s1 = at_db s"
  by (auto simp: assertIsTheChainsAttestor_def split: if_splits sum.splits)

lemma attest_db [simp]: "at_db (fst (attest env submit turn c t n s)) = at_db s"
  by (auto simp: attest_def submitInTurn_def dest: chains_attestor_db split: option.split prod.split sum.split)

lemma attest_sends:
  assumes "at_sent (fst (attest env submit turn c t n s)) \<noteq> at_sent s"
  shows "at_sent (fst (attest env submit turn c t n s)) = at_sent s @ [(c, t, n)] \<and> turn div 1000 \<le> n \<and>
     snd (attest env submit turn c t n s) = submit c t n \<and>
     c \<in> set (cfg_escrowContractId env # cfg_escrowContractIdsExtra env) \<and>
     (\<exists>key. attestor_key env = Some key \<and> (c \<in> at_confirmed s \<or> rpc_readEscrowFiatAttestor env c = Inr key))"
  using assms by (auto simp: attest_def assertIsTheChainsAttestor_def submitInTurn_def split: option.splits sum.splits if_splits)

lemma attest_unsent:
  "at_sent (fst (attest env submit turn c t n s)) = at_sent s \<Longrightarrow> \<exists>e. snd (attest env submit turn c t n s) = Inl e"
  by (auto simp: attest_def assertIsTheChainsAttestor_def submitInTurn_def split: option.splits sum.splits if_splits)

text \<open>The three ways an attestation of an order ends: refused before anything is read, refused by
  the attestor or the chain, or successful.\<close>

lemma attest_once_cases:
  fixes env submit now turn ok meanwhile i actor ev s
  defines "r \<equiv> attestFiatPaidOnce env submit now turn ok meanwhile i actor ev s"
  obtains (refused) e where "r = (s, Inl e)"
  | (tried) x e a where "find_order (at_db s) i = Some x" "o_flow x = TOP_UP" "o_status x = FUNDED"
      "fst r = with_db (try_audit ok a \<circ> meanwhile) (fst (attest env submit turn (contractIdFor x (cfg_escrowContractId env)) (o_tradeId x) (refundOpensAt x) s))"
      "snd r = Inl e" "a_actorAddress a = actor" "a_targetId a = Some (o_id x)" "a_action a = ''order.attestFiatPaid''"
  | (attested) x a hash where "find_order (at_db s) i = Some x" "o_flow x = TOP_UP" "o_status x = FUNDED"
      "fst r = with_db (attested_write env now x \<circ> try_audit ok a \<circ> meanwhile)
         (fst (attest env submit turn (contractIdFor x (cfg_escrowContractId env)) (o_tradeId x) (refundOpensAt x) s))"
      "snd (attest env submit turn (contractIdFor x (cfg_escrowContractId env)) (o_tradeId x) (refundOpensAt x) s) = Inr (''SUCCESS'', hash)"
      "snd r = Inr \<lparr>ar_orderId = o_id x, ar_submission = Some (''SUCCESS'', hash)\<rparr>"
      "a_actorAddress a = actor" "a_targetId a = Some (o_id x)" "a_action a = ''order.attestFiatPaid''"
proof (cases "find_order (at_db s) i")
  case None
  then show thesis using refused by (simp add: r_def attestFiatPaidOnce_def)
next
  case (Some x)
  let ?c = "contractIdFor x (cfg_escrowContractId env)"
  show thesis
  proof (cases "o_flow x = TOP_UP \<and> o_status x = FUNDED")
    case False
    then have "\<exists>e. r = (s, Inl e)" using Some by (cases "o_flow x = TOP_UP") (simp_all add: r_def attestFiatPaidOnce_def)
    then show thesis using refused by blast
  next
    case True
    obtain s1 o1 where a: "attest env submit turn ?c (o_tradeId x) (refundOpensAt x) s = (s1, o1)" by (cases "attest env submit turn ?c (o_tradeId x) (refundOpensAt x) s")
    show thesis
    proof (cases o1)
      case (Inl e)
      show thesis
        by (rule tried [OF Some, where a = "audit_of actor ''order.attestFiatPaid'' x ?c (AttestPayload ev ''NOT_SUBMITTED'' None (Some (error_message e)))"])
          (use True Some a Inl in \<open>simp_all add: r_def attestFiatPaidOnce_def Let_def\<close>)
    next
      case (Inr p)
      obtain status hash where p: "p = (status, hash)" by (cases p)
      show thesis
      proof (cases "status = ''SUCCESS''")
        case True': True
        show thesis
          by (rule attested [OF Some, where a = "audit_of actor ''order.attestFiatPaid'' x ?c (AttestPayload ev status (Some hash) None)"])
            (use True True' Some a Inr p in \<open>simp_all add: r_def attestFiatPaidOnce_def Let_def with_db_def\<close>)
      next
        case False
        show thesis
          by (rule tried [OF Some, where a = "audit_of actor ''order.attestFiatPaid'' x ?c (AttestPayload ev status (Some hash) None)"])
            (use True False Some a Inr p in \<open>simp_all add: r_def attestFiatPaidOnce_def Let_def\<close>)
      qed
    qed
  qed
qed

lemma attest_once_sends:
  assumes "at_sent (fst (attestFiatPaidOnce env submit now turn ok meanwhile i actor ev s)) \<noteq> at_sent s"
  shows "\<exists>x. find_order (at_db s) i = Some x \<and> attestable env turn s x \<and>
     at_sent (fst (attestFiatPaidOnce env submit now turn ok meanwhile i actor ev s)) = at_sent s @ [attestation_of env x]"
proof (cases rule: attest_once_cases [of env submit now turn ok meanwhile i actor ev s])
  case (refused e)
  then show ?thesis using assms by simp
next
  case (tried x e a)
  note sends = attest_sends [of env submit turn "contractIdFor x (cfg_escrowContractId env)" "o_tradeId x" "refundOpensAt x" s]
  from tried(4) assms sends show ?thesis
    by (intro exI [of _ x]) (simp add: tried(1-3) attestable_def attestation_of_def)
next
  case (attested x a hash)
  note sends = attest_sends [of env submit turn "contractIdFor x (cfg_escrowContractId env)" "o_tradeId x" "refundOpensAt x" s]
  from attested(4) assms sends show ?thesis
    by (intro exI [of _ x]) (simp add: attested(1-3) attestable_def attestation_of_def)
qed

lemma confirm_sends:
  assumes "at_sent (fst (confirmOnChain env submit now turn ok meanwhile x who rc s)) \<noteq> at_sent s"
  shows "\<exists>t. rpc_getTradeStatusStrict env (contractIdFor x (cfg_escrowContractId env)) (o_tradeId x) = Inr (Some t) \<and>
     t_status t = FUNDED \<and> t_usdcProvider t = JString who \<and> \<not> windowClosed now x \<and>
     fst (confirmOnChain env submit now turn ok meanwhile x who rc s) = fst (attestFiatPaidOnce env submit now turn ok meanwhile (o_id x) who rc s)"
  using assms by (auto simp: confirmOnChain_def Let_def split: sum.splits option.splits if_splits prod.splits)

lemma forProvider_fst [simp]: "fst (forProvider r) = fst r"
  by (auto simp: forProvider_def split: prod.split sum.split)

lemma consume_consumed:
  "consume nonce e d = (d', b) \<Longrightarrow> db_orders d' = db_orders d \<and> db_lps d' = db_lps d \<and>
     (if b then nonce \<notin> cc_nonce ` set (db_consumed d) \<and> db_consumed d' = db_consumed d @ [\<lparr>cc_nonce = nonce, cc_expiresAt = e\<rparr>] else d' = d)"
  by (auto simp: consume_def create_unique_def split: option.splits if_splits)

definition statement_verified :: "env \<Rightarrow> ms \<Rightarrow> db \<Rightarrow> order \<Rightarrow> address \<Rightarrow> int \<Rightarrow> string \<Rightarrow> bool" where
  "statement_verified env now d x who at_secs signature =
     (now div 1000 - cfg_challengeTtl env \<le> at_secs \<and> at_secs \<le> now div 1000 \<and>
      receipt_nonce (o_id x) at_secs \<notin> cc_nonce ` set (db_consumed d) \<and>
      (case providerReceiptMessage x at_secs of Inl _ \<Rightarrow> False | Inr m \<Rightarrow> sdk_verifySep53 env who m signature))"

text \<open>Everything that had to hold for a provider's receipt to reach the chain check.\<close>

lemma receipt_reaches_chain:
  fixes env submit now turn ok meanwhile attesting i who at_secs signature s
  defines "r \<equiv> confirmReceiptAsProvider env submit now turn ok meanwhile attesting i who at_secs signature s"
  assumes "at_sent (fst r) \<noteq> at_sent s"
  shows "\<exists>x d1 rc. find_order (at_db s) i = Some x \<and> map_option lp_stellarAddress (order_lp (at_db s) x) = Some who \<and>
     statement_verified env now (at_db s) x who at_secs signature \<and> i \<notin> attesting \<and>
     consume (receipt_nonce (o_id x) at_secs) ((at_secs + cfg_challengeTtl env + 1) * 1000) (at_db s) = (d1, True) \<and>
     fst r = fst (confirmOnChain env submit now turn ok meanwhile x who rc (s\<lparr>at_db := d1\<rparr>))"
proof (cases "providerReceiptOrder (at_db s) i who")
  case (Inl e)
  then show ?thesis using assms(2) by (simp add: r_def confirmReceiptAsProvider_def)
next
  case (Inr x)
  obtain d1 b where c: "consume (receipt_nonce (o_id x) at_secs) ((at_secs + cfg_challengeTtl env + 1) * 1000) (at_db s) = (d1, b)"
    by (cases "consume (receipt_nonce (o_id x) at_secs) ((at_secs + cfg_challengeTtl env + 1) * 1000) (at_db s)")
  have ord: "find_order (at_db s) i = Some x" "map_option lp_stellarAddress (order_lp (at_db s) x) = Some who"
    using Inr by (auto simp: providerReceiptOrder_def split: option.splits if_splits)
  show ?thesis
  proof (cases "providerReceiptMessage x at_secs")
    case (Inl e)
    then show ?thesis using assms(2) Inr by (simp add: r_def confirmReceiptAsProvider_def split: if_splits)
  next
    case m: (Inr m)
    have "b \<and> i \<notin> attesting \<and> now div 1000 - cfg_challengeTtl env \<le> at_secs \<and> at_secs \<le> now div 1000 \<and> sdk_verifySep53 env who m signature \<and>
        fst r = fst (confirmOnChain env submit now turn ok meanwhile x who (SignedReceipt m signature now) (s\<lparr>at_db := d1\<rparr>))"
      using assms(2) Inr m c by (cases b) (simp_all add: r_def confirmReceiptAsProvider_def split: if_splits)
    then show ?thesis using ord c consume_consumed [OF c] m by (auto simp: statement_verified_def)
  qed
qed

text \<open>C26 (confirmReceiptAsProvider, confirmOnChain, attestFiatPaidOnce, attest): a provider's request makes the anchor attest at most one
  payment, and only the right one.  If the request hands anything to the network, it is exactly the
  attestation of the order it names: a top-up FUNDED both in the records and on chain, funded on chain
  from the caller's wallet and assigned to the caller; the caller's signature over this order's own
  statement verified, within the time allowed and for the first time; the escrow is one the anchor
  recognises and whose attestor is the anchor's key; and it was handed over before refunds open,
  with that instant as its limit.\<close>

theorem receipt_attests_only_own_payment:
  fixes env submit now turn ok meanwhile attesting i who at_secs signature s
  defines "s' \<equiv> fst (confirmReceiptAsProvider env submit now turn ok meanwhile attesting i who at_secs signature s)"
  assumes "at_sent s' \<noteq> at_sent s"
  shows "\<exists>x t. find_order (at_db s) i = Some x \<and> at_sent s' = at_sent s @ [attestation_of env x] \<and>
     attestable env turn s x \<and> map_option lp_stellarAddress (order_lp (at_db s) x) = Some who \<and>
     statement_verified env now (at_db s) x who at_secs signature \<and> i \<notin> attesting \<and>
     rpc_getTradeStatusStrict env (contractIdFor x (cfg_escrowContractId env)) (o_tradeId x) = Inr (Some t) \<and>
     t_status t = FUNDED \<and> t_usdcProvider t = JString who \<and> now div 1000 \<le> refundOpensAt x"
proof -
  obtain x d1 rc where r: "find_order (at_db s) i = Some x" "map_option lp_stellarAddress (order_lp (at_db s) x) = Some who"
      "statement_verified env now (at_db s) x who at_secs signature" "i \<notin> attesting"
      "consume (receipt_nonce (o_id x) at_secs) ((at_secs + cfg_challengeTtl env + 1) * 1000) (at_db s) = (d1, True)"
      "s' = fst (confirmOnChain env submit now turn ok meanwhile x who rc (s\<lparr>at_db := d1\<rparr>))"
    using receipt_reaches_chain assms(2) unfolding s'_def by blast
  obtain t where t: "rpc_getTradeStatusStrict env (contractIdFor x (cfg_escrowContractId env)) (o_tradeId x) = Inr (Some t)"
      "t_status t = FUNDED" "t_usdcProvider t = JString who" "\<not> windowClosed now x"
      "s' = fst (attestFiatPaidOnce env submit now turn ok meanwhile (o_id x) who rc (s\<lparr>at_db := d1\<rparr>))"
    using confirm_sends [of env submit now turn ok meanwhile x who rc "s\<lparr>at_db := d1\<rparr>"] assms(2) r(6) by auto
  have "find_order d1 (o_id x) = Some x"
    using r(1) consume_consumed [OF r(5)] find_order_Some [OF r(1)] by (simp add: find_order_def)
  then have "attestable env turn (s\<lparr>at_db := d1\<rparr>) x \<and> at_sent s' = at_sent s @ [attestation_of env x]"
    using attest_once_sends [of env submit now turn ok meanwhile "o_id x" who rc "s\<lparr>at_db := d1\<rparr>"] assms(2) t(5) by auto
  then show ?thesis using r t by (auto simp: attestable_def windowClosed_def)
qed

definition funded_order :: order where
  "funded_order = demo_order\<lparr>o_status := FUNDED\<rparr>"

definition attest_env :: env where
  "attest_env = demo_env\<lparr>rpc_getTradeStatusStrict := \<lambda>_ _. Inr (Some (demo_trade\<lparr>t_status := FUNDED, t_usdcProvider := JString ''GL''\<rparr>))\<rparr>"

definition attest_start :: attest_state where
  "attest_start = \<lparr>at_db = empty_db\<lparr>db_orders := [funded_order], db_lps := [demo_lp]\<rparr>, at_confirmed = {}, at_sent = []\<rparr>"

abbreviation attest_run :: "attest_state \<times> attest_result outcome" where
  "attest_run \<equiv> confirmReceiptAsProvider attest_env (\<lambda>_ _ _. Inr (''SUCCESS'', ''h'')) 1700000000000 1700000000000 True id {}
     ''o1'' ''GL'' 1700000000 ''ok'' attest_start"

lemmas attest_eval = confirmReceiptAsProvider_def confirmOnChain_def attestFiatPaidOnce_def attest_def assertIsTheChainsAttestor_def
  submitInTurn_def providerReceiptOrder_def providerReceiptMessage_def printable_token_def windowClosed_def refundOpensAt_def
  ATTEST_GRACE_SECS_def contractIdFor_def consume_def create_unique_def

lemma attest_run_sends: "at_sent (fst attest_run) = [(''CE'', ''t1'', 1700005400)]"
proof -
  have f: "find_order (empty_db\<lparr>db_orders := [funded_order], db_lps := [demo_lp]\<rparr>) ''o1'' = Some funded_order"
    by (simp add: find_order_def find_row_def funded_order_def)
  have x: "o_id funded_order = ''o1''" "o_flow funded_order = TOP_UP" "o_status funded_order = FUNDED" "o_tradeId funded_order = ''t1''"
    "o_contractId funded_order = Some ''CE''" "o_payDeadline funded_order = 1700001800" "o_confirmDeadline funded_order = 1700005400"
    "o_lpId funded_order = Some ''lp1''" "o_fiatCurrency funded_order = ''IDR''" "o_ref funded_order = None"
    by (simp_all add: funded_order_def demo_order_def)
  have l: "order_lp (empty_db\<lparr>db_orders := [funded_order], db_lps := [demo_lp]\<rparr>) funded_order = Some demo_lp" "lp_stellarAddress demo_lp = ''GL''"
    by (simp_all add: order_lp_def find_lp_def find_row_def x demo_lp_def)
  have e: "attestor_key attest_env = Some ''GT''" "rpc_readEscrowFiatAttestor attest_env ''CE'' = Inr ''GT''"
    "cfg_escrowContractId attest_env = ''CE''" "cfg_challengeTtl attest_env = 300" "sdk_verifySep53 attest_env a m ''ok''"
    "rpc_getTradeStatusStrict attest_env c t = Inr (Some (demo_trade\<lparr>t_status := FUNDED, t_usdcProvider := JString ''GL''\<rparr>))" for a m c t
    by (simp_all add: attest_env_def demo_env_def)
  have "find_order (empty_db\<lparr>db_orders := [funded_order], db_lps := [demo_lp], db_consumed := c\<rparr>) ''o1'' = Some funded_order" for c
    by (simp add: find_order_def find_row_def x)
  moreover have "db_consumed empty_db = []" by (simp add: empty_db_def)
  ultimately show ?thesis
    by (simp add: attest_eval attest_start_def f x l e Let_def is_letter_def is_digit_def)
qed

theorem receipt_attests_only_own_payment_witness:
  "\<exists>x. find_order (at_db attest_start) ''o1'' = Some x \<and> at_sent (fst attest_run) = [attestation_of attest_env x] \<and>
     statement_verified attest_env 1700000000000 (at_db attest_start) x ''GL'' 1700000000 ''ok''"
proof -
  have "at_sent attest_start = []" by (simp add: attest_start_def)
  then show ?thesis
    using receipt_attests_only_own_payment [of attest_env "\<lambda>_ _ _. Inr (''SUCCESS'', ''h'')" 1700000000000 1700000000000 True id "{}"
      "''o1''" "''GL''" 1700000000 "''ok''" attest_start] attest_run_sends by auto
qed

section \<open>A signed statement is used once\<close>

lemma audit_frame [simp]:
  "db_orders (try_audit ok a d) = db_orders d" "db_consumed (try_audit ok a d) = db_consumed d"
  by (simp_all add: try_audit_def recordAudit_def)

lemma attested_write_consumed [simp]: "db_consumed (attested_write env now x d) = db_consumed d"
  by (simp add: attested_write_def Let_def)

lemma attest_once_consumed:
  assumes "\<And>d. set (db_consumed d) \<subseteq> set (db_consumed (meanwhile d))"
  shows "set (db_consumed (at_db s)) \<subseteq> set (db_consumed (at_db (fst (attestFiatPaidOnce env submit now turn ok meanwhile i actor ev s))))"
proof (cases rule: attest_once_cases [of env submit now turn ok meanwhile i actor ev s])
  case (tried x e a)
  then show ?thesis using assms by simp
next
  case (attested x a hash)
  then show ?thesis using assms by simp
qed simp

lemma receipt_spends_statement:
  assumes "at_sent (fst (confirmReceiptAsProvider env submit now turn ok meanwhile attesting i who at_secs signature s)) \<noteq> at_sent s"
    and "\<And>d. set (db_consumed d) \<subseteq> set (db_consumed (meanwhile d))"
  shows "\<lparr>cc_nonce = receipt_nonce i at_secs, cc_expiresAt = (at_secs + cfg_challengeTtl env + 1) * 1000\<rparr>
     \<in> set (db_consumed (at_db (fst (confirmReceiptAsProvider env submit now turn ok meanwhile attesting i who at_secs signature s))))"
proof -
  let ?r = "confirmReceiptAsProvider env submit now turn ok meanwhile attesting i who at_secs signature s"
  obtain x d1 rc where r: "find_order (at_db s) i = Some x"
      "consume (receipt_nonce (o_id x) at_secs) ((at_secs + cfg_challengeTtl env + 1) * 1000) (at_db s) = (d1, True)"
      "fst ?r = fst (confirmOnChain env submit now turn ok meanwhile x who rc (s\<lparr>at_db := d1\<rparr>))"
    using receipt_reaches_chain [OF assms(1)] by blast
  have "fst ?r = fst (attestFiatPaidOnce env submit now turn ok meanwhile (o_id x) who rc (s\<lparr>at_db := d1\<rparr>))"
    using confirm_sends [of env submit now turn ok meanwhile x who rc "s\<lparr>at_db := d1\<rparr>"] assms(1) r(3) by auto
  moreover have "\<lparr>cc_nonce = receipt_nonce i at_secs, cc_expiresAt = (at_secs + cfg_challengeTtl env + 1) * 1000\<rparr> \<in> set (db_consumed d1)"
    using consume_consumed [OF r(2)] find_order_Some [OF r(1)] by simp
  ultimately show ?thesis using attest_once_consumed [OF assms(2), of "s\<lparr>at_db := d1\<rparr>" env submit now turn ok "o_id x" who rc] by auto
qed

lemma prune_consumed: "db_consumed (pruneOldQuotes p d) = filter (\<lambda>c. \<not> cc_expiresAt c < p) (db_consumed d)"
  by (simp add: pruneOldQuotes_def prune_def delete_many_def)

text \<open>A signed statement makes the anchor send one transaction at most.  After a
  receipt that was sent to the network, and whatever pruning of spent nonces runs
  in between, presenting the statement of the same order and instant again, by anyone and with any
  signature, sends nothing: a nonce is only forgotten once its statement is too old to be accepted.\<close>

theorem receipt_statement_single_use:
  fixes env submit now turn ok meanwhile attesting i who at_secs signature s
  defines "s1 \<equiv> fst (confirmReceiptAsProvider env submit now turn ok meanwhile attesting i who at_secs signature s)"
  assumes "at_sent s1 \<noteq> at_sent s" "\<And>d. set (db_consumed d) \<subseteq> set (db_consumed (meanwhile d))" "p \<le> now2"
  shows "at_sent (fst (confirmReceiptAsProvider env submit2 now2 turn2 ok2 meanwhile2 attesting2 i who2 at_secs signature2
           (with_db (pruneOldQuotes p) s1))) = at_sent s1"
proof (rule ccontr)
  let ?s2 = "with_db (pruneOldQuotes p) s1"
  assume "\<not> ?thesis"
  then obtain x where x: "find_order (at_db ?s2) i = Some x" "statement_verified env now2 (at_db ?s2) x who2 at_secs signature2"
    using receipt_reaches_chain [of env submit2 now2 turn2 ok2 meanwhile2 attesting2 i who2 at_secs signature2 ?s2] by auto
  have i: "o_id x = i" using find_order_Some [OF x(1)] by simp
  have fresh: "receipt_nonce i at_secs \<notin> cc_nonce ` set (db_consumed (at_db ?s2))" "now2 div 1000 - cfg_challengeTtl env \<le> at_secs"
    using x(2) i by (auto simp: statement_verified_def)
  have "\<lparr>cc_nonce = receipt_nonce i at_secs, cc_expiresAt = (at_secs + cfg_challengeTtl env + 1) * 1000\<rparr> \<in> set (db_consumed (at_db s1))"
    using receipt_spends_statement [OF assms(2,3) [unfolded s1_def]] unfolding s1_def .
  then have "(at_secs + cfg_challengeTtl env + 1) * 1000 < p"
    using fresh(1) by (force simp: prune_consumed)
  then have "(at_secs + cfg_challengeTtl env + 1) * 1000 \<le> now2" using assms(4) by simp
  then have "at_secs + cfg_challengeTtl env + 1 \<le> now2 div 1000" by (simp add: int_le_div_iff)
  then show False using fresh(2) by simp
qed

theorem receipt_statement_single_use_witness:
  "at_sent (fst (confirmReceiptAsProvider attest_env (\<lambda>_ _ _. Inr (''SUCCESS'', ''h'')) 1700000001000 1700000001000 True id {}
     ''o1'' ''GL'' 1700000000 ''ok'' (with_db (pruneOldQuotes 1700000001000) (fst attest_run)))) = [(''CE'', ''t1'', 1700005400)]"
proof -
  have "at_sent attest_start = []" by (simp add: attest_start_def)
  then show ?thesis
    using receipt_statement_single_use [of attest_env "\<lambda>_ _ _. Inr (''SUCCESS'', ''h'')" 1700000000000 1700000000000 True id "{}"
      "''o1''" "''GL''" 1700000000 "''ok''" attest_start] attest_run_sends by simp
qed

section \<open>The order's row\<close>

lemma attested_write_orders:
  "db_orders (attested_write env now x d)
     = update_many (\<lambda>y. o_id y = o_id x \<and> o_status y = FUNDED) (\<lambda>y. y\<lparr>o_status := FIAT_PAID\<rparr>) (db_orders d)"
  "db_audits (attested_write env now x d) = db_audits d"
  by (simp_all add: attested_write_def Let_def)

lemma attested_write_step: "order_step d (attested_write env now x d)"
proof -
  have "order_step d (upd_orders (update_many (\<lambda>y. o_id y = o_id x \<and> o_status y = FUNDED) (\<lambda>y. y\<lparr>o_status := FIAT_PAID\<rparr>)) d)"
    by (rule order_step_update) (simp_all add: row_kept_def order_key_def order_ok_def settled_status_def)
  then show ?thesis by (rule order_step_trans) (simp add: order_step_frame attested_write_orders)
qed

interpretation attested: order_writer "\<lambda>(env, now, x). attested_write env now x"
  by (rule order_writerI) (auto simp: attested_write_step)

text \<open>The records say FIAT_PAID only after the chain did.  An attestation that
  succeeds was of a FUNDED top-up, its transaction was submitted and answered SUCCESS, and
  exactly the order's row moves, from FUNDED to FIAT_PAID, if no other request has moved it
  in the meantime; one that fails writes no order at all.  Whenever something was submitted and the
  audit log can be written, the attempt is the last entry of the log, under the name of the administrator.\<close>

theorem attestation_row_follows_chain:
  fixes env submit now turn ok meanwhile attesting i actor memo s
  defines "r \<equiv> attestFiatPaid env submit now turn ok meanwhile attesting i actor memo s"
  shows "(case snd r of
       Inl e \<Rightarrow> db_orders (at_db (fst r)) \<in> {db_orders (at_db s), db_orders (meanwhile (at_db s))}
     | Inr res \<Rightarrow> \<exists>x hash. find_order (at_db s) i = Some x \<and> attestable env turn s x \<and>
         submit (contractIdFor x (cfg_escrowContractId env)) (o_tradeId x) (refundOpensAt x) = Inr (''SUCCESS'', hash) \<and>
         res = \<lparr>ar_orderId = i, ar_submission = Some (''SUCCESS'', hash)\<rparr> \<and>
         db_orders (at_db (fst r)) = update_many (\<lambda>y. o_id y = i \<and> o_status y = FUNDED) (\<lambda>y. y\<lparr>o_status := FIAT_PAID\<rparr>)
           (db_orders (meanwhile (at_db s)))) \<and>
     (at_sent (fst r) = at_sent s \<or> \<not> ok \<or>
       (\<exists>a. db_audits (at_db (fst r)) = db_audits (meanwhile (at_db s)) @ [a] \<and>
          a_actorAddress a = actor \<and> a_targetId a = Some i \<and> a_action a = ''order.attestFiatPaid''))"
proof (cases "i \<in> attesting")
  case True
  then show ?thesis by (simp add: r_def attestFiatPaid_def whileAttesting_def)
next
  case False
  then have r: "r = attestFiatPaidOnce env submit now turn ok meanwhile i actor (AdminNote memo) s"
    by (simp add: r_def attestFiatPaid_def whileAttesting_def)
  show ?thesis
  proof (cases rule: attest_once_cases [of env submit now turn ok meanwhile i actor "AdminNote memo" s])
    case (refused e)
    then show ?thesis by (simp add: r)
  next
    case (tried x e a)
    have "o_id x = i" using find_order_Some [OF tried(1)] by simp
    then show ?thesis using tried by (simp add: r try_audit_def recordAudit_def)
  next
    case (attested x a hash)
    let ?c = "contractIdFor x (cfg_escrowContractId env)"
    have i: "o_id x = i" using find_order_Some [OF attested(1)] by simp
    have "at_sent (fst (attest env submit turn ?c (o_tradeId x) (refundOpensAt x) s)) \<noteq> at_sent s"
      using attest_unsent [of env submit turn ?c "o_tradeId x" "refundOpensAt x" s] attested(5) by auto
    from attest_sends [OF this] have "attestable env turn s x" "submit ?c (o_tradeId x) (refundOpensAt x) = Inr (''SUCCESS'', hash)"
      using attested(2,3,5) by (auto simp: attestable_def)
    then show ?thesis using attested i by (simp add: r try_audit_def recordAudit_def attested_write_orders)
  qed
qed

theorem attestation_row_follows_chain_witness:
  "map o_status (db_orders (at_db (fst (attestFiatPaid attest_env (\<lambda>_ _ _. Inr (''SUCCESS'', ''h'')) 1700000000000 1700000000000 True id {}
     ''o1'' ''GA'' ''seen'' attest_start)))) = [FIAT_PAID]"
proof -
  let ?r = "attestFiatPaid attest_env (\<lambda>_ _ _. Inr (''SUCCESS'', ''h'')) 1700000000000 1700000000000 True id {} ''o1'' ''GA'' ''seen'' attest_start"
  have f: "find_order (at_db attest_start) ''o1'' = Some funded_order"
    by (simp add: attest_start_def find_order_def find_row_def funded_order_def)
  have x: "o_flow funded_order = TOP_UP" "o_status funded_order = FUNDED" "o_contractId funded_order = Some ''CE''"
    "o_payDeadline funded_order = 1700001800" "o_confirmDeadline funded_order = 1700005400" "o_id funded_order = ''o1''"
    by (simp_all add: funded_order_def)
  have e: "attestor_key attest_env = Some ''GT''" "rpc_readEscrowFiatAttestor attest_env ''CE'' = Inr ''GT''" "cfg_escrowContractId attest_env = ''CE''"
    by (simp_all add: attest_env_def demo_env_def)
  have c: "at_confirmed attest_start = {}" by (simp add: attest_start_def)
  have "\<exists>v. snd ?r = Inr v"
    by (simp add: attestFiatPaid_def whileAttesting_def attestFiatPaidOnce_def f x e contractIdFor_def attest_def assertIsTheChainsAttestor_def
        submitInTurn_def refundOpensAt_def ATTEST_GRACE_SECS_def c Let_def)
  moreover have "db_orders (at_db attest_start) = [funded_order]" by (simp add: attest_start_def)
  ultimately show ?thesis
    using attestation_row_follows_chain [of attest_env "\<lambda>_ _ _. Inr (''SUCCESS'', ''h'')" 1700000000000 1700000000000 True id "{}" "''o1''" "''GA''" "''seen''" attest_start]
    by (auto simp: update_many_def x)
qed

section \<open>The statement identifies the payment\<close>

lemma printable_no_space: "printable_token u \<Longrightarrow> CHR '' '' \<notin> set u"
  by (auto simp: printable_token_def list_all_iff is_letter_def is_digit_def)

lemma dec_int_no_space: "CHR '' '' \<notin> set (dec_int n)"
proof -
  have "CHR '' '' \<notin> set (dec_nat k)" for k using dec_nat_digits [of "CHR '' ''" k] by (auto simp: is_digit_def)
  then show ?thesis by (simp add: dec_int_def)
qed

lemma receipt_text_inj:
  assumes "list_all printable_token [i, t, c, r]" "list_all printable_token [i', t', c', r']"
    and "receipt_text i t n c r a = receipt_text i' t' n' c' r' a'"
  shows "i = i' \<and> t = t' \<and> n = n' \<and> c = c' \<and> r = r' \<and> a = a'"
proof -
  have sp: "CHR '' '' \<notin> set u" if "u \<in> {i, t, c, r, i', t', c', r', dec_int n, dec_int n'}" for u
    using that assms(1,2) printable_no_space dec_int_no_space by auto
  show ?thesis
    using assms(3) by (simp add: receipt_text_def token_append_eq sp dec_int_inj)
qed

text \<open>What a provider signs names one payment.  Two orders whose statements read the same have
  the same id, trade, amount and currency, and the statements the same instant, so a signature given for one
  order or at one time never passes for another.\<close>

theorem receipt_statement_identifies:
  assumes "providerReceiptMessage x a = Inr m" "providerReceiptMessage y b = Inr m"
  shows "o_id x = o_id y \<and> o_tradeId x = o_tradeId y \<and> o_fiatAmount x = o_fiatAmount y \<and>
         o_fiatCurrency x = o_fiatCurrency y \<and> a = b"
  using assms receipt_text_inj [of "o_id x" "o_tradeId x" "o_fiatCurrency x" "case o_ref x of Some r \<Rightarrow> r | None \<Rightarrow> ''-''"
    "o_id y" "o_tradeId y" "o_fiatCurrency y" "case o_ref y of Some r \<Rightarrow> r | None \<Rightarrow> ''-''" "o_fiatAmount x" a "o_fiatAmount y" b]
  by (simp add: providerReceiptMessage_def Let_def split: if_splits)

theorem receipt_statement_identifies_witness:
  "\<exists>m. providerReceiptMessage demo_order 5 = Inr m \<and> (\<forall>b. providerReceiptMessage demo_order b = Inr m \<longrightarrow> b = 5)"
proof -
  have "o_ref demo_order = None" "o_fiatCurrency demo_order = ''IDR''" by (simp_all add: demo_order_def)
  then obtain m where "providerReceiptMessage demo_order 5 = Inr m"
    by (simp add: providerReceiptMessage_def printable_token_def is_letter_def is_digit_def)
  then show ?thesis using receipt_statement_identifies [of demo_order 5 m demo_order] by blast
qed

end
