(* ===== verification/Signing.thy ===== *)
theory Signing
  imports ChainRead Attest
begin

text \<open>
  What the anchor signs itself: the guards on a transaction before its key touches it
  (\<open>stellar/attest-guard.ts\<close>, \<open>stellar/refund-signer.service.ts\<close>) and the submission
  (\<open>stellar/sign-send-poll.ts\<close>).  The network is the parameter \<open>network\<close>; the clock a poll
  reads is a function of the number of polls made.
\<close>

section \<open>Guards\<close>

definition MAX_ATTEST_FEE_STROOPS :: rat where "MAX_ATTEST_FEE_STROOPS = 10000000"
definition MAX_REFUND_FEE_STROOPS :: rat where "MAX_REFUND_FEE_STROOPS = 10000000"

definition fee_within :: "rat \<Rightarrow> jsnum \<Rightarrow> bool" where
  "fee_within cap fee = (case fee of Fin x \<Rightarrow> x \<le> cap | _ \<Rightarrow> False)"

datatype refusal =
    WrongOperationCount nat
  | FeeTooHigh
  | NotAnInvocation string
  | NotAContractCall
  | WrongFunction string
  | WrongContract string
  | WrongArity nat
  | WrongTrade string
  | WrongCaller address
  | UnreadableArgument
  | TooManyAuths nat
  | ForeignAuth

text \<open>The checks the two guards share, up to the arguments; \<open>scValToNative\<close> of an argument that is no byte string is
  no buffer and is refused as unreadable.\<close>

definition guard_call :: "rat \<Rightarrow> string \<Rightarrow> nat \<Rightarrow> string \<Rightarrow> transaction_envelope \<Rightarrow> refusal + (contract_call \<times> auth_entry list)" where
  "guard_call cap fn arity c tx =
     (case te_operations tx of
        [op] \<Rightarrow>
          if \<not> fee_within cap (te_fee tx) then Inl FeeTooHigh
          else (case op of
             OtherOperation ty \<Rightarrow> Inl (NotAnInvocation ty)
           | InvokeHostFunction OtherHostFunction _ \<Rightarrow> Inl NotAContractCall
           | InvokeHostFunction (InvokeContract call) auth \<Rightarrow>
               if cc_function call \<noteq> fn then Inl (WrongFunction (cc_function call))
               else if cc_contract call \<noteq> c then Inl (WrongContract (cc_contract call))
               else if length (cc_args call) \<noteq> arity then Inl (WrongArity (length (cc_args call)))
               else Inr (call, auth))
      | ops \<Rightarrow> Inl (WrongOperationCount (length ops)))"

fun trade_arg :: "scval \<Rightarrow> string option" where
  "trade_arg (ScBytes bs) = Some (hex_of_bytes bs)"
| "trade_arg _ = None"

fun address_arg :: "scval \<Rightarrow> address option" where
  "address_arg (ScAddress a) = Some a"
| "address_arg _ = None"

definition assertIsThisTradesAttestation :: "string \<Rightarrow> string \<Rightarrow> address \<Rightarrow> transaction_envelope \<Rightarrow> refusal option" where
  "assertIsThisTradesAttestation c tradeIdHex attestor tx =
     (case guard_call MAX_ATTEST_FEE_STROOPS ''mark_fiat_paid'' 2 c tx of
        Inl r \<Rightarrow> Some r
      | Inr (call, auth) \<Rightarrow>
          (case (trade_arg (cc_args call ! 0), address_arg (cc_args call ! 1)) of
             (Some t, Some a) \<Rightarrow>
               if t \<noteq> tradeIdHex then Some (WrongTrade t)
               else if a \<noteq> attestor then Some (WrongCaller a)
               else if length auth > 1 then Some (TooManyAuths (length auth))
               else if length auth = 1 \<and> auth ! 0 \<noteq> SourceAccountFor call then Some ForeignAuth
               else None
           | _ \<Rightarrow> Some UnreadableArgument))"

definition assertIsSingleRefundOperation :: "string \<Rightarrow> string \<Rightarrow> transaction_envelope \<Rightarrow> refusal option" where
  "assertIsSingleRefundOperation c tradeIdHex tx =
     (case guard_call MAX_REFUND_FEE_STROOPS ''refund'' 1 c tx of
        Inl r \<Rightarrow> Some r
      | Inr (call, auth) \<Rightarrow>
          (case trade_arg (cc_args call ! 0) of
             Some t \<Rightarrow> if t \<noteq> tradeIdHex then Some (WrongTrade t) else None
           | None \<Rightarrow> Some UnreadableArgument))"

section \<open>Submission (sign-send-poll.ts)\<close>

datatype send_status = SendError "string option" | SendAccepted string

record network =
  net_send :: "transaction_envelope \<Rightarrow> (string \<times> send_status) reply" \<comment> \<open>hash and status\<close>
  net_poll :: "string \<Rightarrow> nat \<Rightarrow> string reply"
  net_clock :: "nat \<Rightarrow> ms" \<comment> \<open>the instant of the \<open>n\<close>-th look at the clock of the loop\<close>

definition pollTimeoutMs :: ms where "pollTimeoutMs = 30000"
definition pollIntervalMs :: ms where "pollIntervalMs = 2000"

text \<open>The loop; \<open>used\<close> is \<open>usedTransientRetry\<close>.  That it ends is a theorem.\<close>

partial_function (option) poll_loop :: "network \<Rightarrow> string \<Rightarrow> string \<Rightarrow> ms \<Rightarrow> bool \<Rightarrow> nat \<Rightarrow> string reply option" where
  "poll_loop nw label hash deadline used n =
     (if net_clock nw n < deadline
      then (case net_poll nw hash n of
              Throws msg \<Rightarrow>
                if \<not> used then poll_loop nw label hash deadline True (Suc n)
                else Some (Throws (label @ '': getTransaction failed for hash='' @ hash @ '': '' @ msg))
            | Answers status \<Rightarrow>
                if status = ''SUCCESS'' then Some (Answers ''SUCCESS'')
                else if status = ''FAILED'' then Some (Answers ''FAILED'')
                else poll_loop nw label hash deadline used (Suc n))
      else Some (Throws (label @ '': getTransaction poll timed out for hash='' @ hash)))"

definition pollTransaction :: "network \<Rightarrow> string \<Rightarrow> string \<Rightarrow> ms \<Rightarrow> string reply option" where
  "pollTransaction nw label hash start = poll_loop nw label hash (start + pollTimeoutMs) False 0"

definition signSendAndPoll :: "network \<Rightarrow> string \<Rightarrow> ms \<Rightarrow> transaction_envelope \<Rightarrow> (string \<times> string) reply option" where
  "signSendAndPoll nw label start tx =
     (case net_send nw tx of
        Throws msg \<Rightarrow> Some (Throws (label @ '': sendTransaction failed: '' @ msg))
      | Answers (hash, SendError code) \<Rightarrow>
          Some (Throws (label @ '': sendTransaction rejected (hash='' @ hash @ (case code of Some k \<Rightarrow> '', '' @ k | None \<Rightarrow> []) @
            (if code = Some ''txTooLate'' then ''; the transaction window has closed'' else []) @ '')''))
      | Answers (hash, SendAccepted _) \<Rightarrow>
          (case pollTransaction nw label hash start of
             None \<Rightarrow> None
           | Some (Throws e) \<Rightarrow> Some (Throws e)
           | Some (Answers status) \<Rightarrow> Some (Answers (status, hash))))"

section \<open>The two signers\<close>

text \<open>The transaction that reaches the network, if any, and what the caller gets.\<close>

definition attestation_to_send :: "node \<Rightarrow> ms \<Rightarrow> address \<Rightarrow> string \<Rightarrow> string \<Rightarrow> secs \<Rightarrow> transaction_envelope reply" where
  "attestation_to_send nd now key c tradeIdHex notAfter =
     (case rpc_buildMarkFiatPaidTx nd now c key tradeIdHex notAfter of
        Throws e \<Rightarrow> Throws e
      | Answers tx \<Rightarrow>
          (case assertIsThisTradesAttestation c tradeIdHex key tx of
             Some _ \<Rightarrow> Throws (''AttestorService: refused to sign'') | None \<Rightarrow> Answers tx))"

definition attestor_submit :: "node \<Rightarrow> network \<Rightarrow> ms \<Rightarrow> ms \<Rightarrow> address \<Rightarrow> submit" where
  "attestor_submit nd nw now start key c tradeIdHex notAfter =
     (case attestation_to_send nd now key c tradeIdHex notAfter of
        Throws e \<Rightarrow> Inl (UncaughtError e)
      | Answers tx \<Rightarrow>
          (case signSendAndPoll nw ''AttestorService'' start tx of
             Some (Answers r) \<Rightarrow> Inr r | Some (Throws e) \<Rightarrow> Inl (UncaughtError e) | None \<Rightarrow> Inl (UncaughtError [])))"

definition refund_to_send :: "env \<Rightarrow> node \<Rightarrow> ms \<Rightarrow> string \<Rightarrow> string \<Rightarrow> transaction_envelope reply" where
  "refund_to_send env nd now c tradeIdHex =
     (case refund_signer env of
        None \<Rightarrow> Throws ''RefundSignerService: signer not configured (REFUND_SIGNER_SECRET absent/invalid)''
      | Some key \<Rightarrow>
          (case rpc_buildRefundTx nd now c tradeIdHex key of
             Throws e \<Rightarrow> Throws e
           | Answers tx \<Rightarrow> (case assertIsSingleRefundOperation c tradeIdHex tx of
                Some _ \<Rightarrow> Throws ''RefundSignerService: refused to sign'' | None \<Rightarrow> Answers tx)))"

definition submitRefund :: "env \<Rightarrow> node \<Rightarrow> network \<Rightarrow> ms \<Rightarrow> ms \<Rightarrow> string \<Rightarrow> string \<Rightarrow> (string \<times> string) outcome" where
  "submitRefund env nd nw now start c tradeIdHex =
     (case refund_to_send env nd now c tradeIdHex of
        Throws e \<Rightarrow> Inl (UncaughtError e)
      | Answers tx \<Rightarrow>
          (case signSendAndPoll nw ''RefundSignerService'' start tx of
             Some (Answers r) \<Rightarrow> Inr r | Some (Throws e) \<Rightarrow> Inl (UncaughtError e) | None \<Rightarrow> Inl (UncaughtError [])))"

section \<open>Nothing else is signed\<close>

lemma guard_call_accepts:
  assumes "guard_call cap fn arity c tx = Inr (call, auth)"
  shows "te_operations tx = [InvokeHostFunction (InvokeContract call) auth] \<and> fee_within cap (te_fee tx) \<and>
     cc_function call = fn \<and> cc_contract call = c \<and> length (cc_args call) = arity"
  using assms by (auto simp: guard_call_def split: list.splits operation.splits host_function.splits if_splits)

lemma trade_arg_Some: "trade_arg v = Some t \<longleftrightarrow> (\<exists>bs. v = ScBytes bs \<and> hex_of_bytes bs = t)"
  by (cases v) auto

lemma address_arg_Some: "address_arg v = Some a \<longleftrightarrow> v = ScAddress a"
  by (cases v) auto

lemma length_two: "length xs = 2 \<Longrightarrow> xs = [xs ! 0, xs ! 1]"
  by (cases xs; cases "tl xs") auto

lemma attest_guard_accepts:
  assumes "assertIsThisTradesAttestation c t key tx = None"
  shows "\<exists>bs auth. te_operations tx = [InvokeHostFunction (InvokeContract
       \<lparr>cc_contract = c, cc_function = ''mark_fiat_paid'', cc_args = [ScBytes bs, ScAddress key]\<rparr>) auth] \<and> hex_of_bytes bs = t \<and>
     auth \<in> {[], [SourceAccountFor \<lparr>cc_contract = c, cc_function = ''mark_fiat_paid'', cc_args = [ScBytes bs, ScAddress key]\<rparr>]} \<and>
     fee_within MAX_ATTEST_FEE_STROOPS (te_fee tx)"
proof -
  obtain call auth where g: "guard_call MAX_ATTEST_FEE_STROOPS ''mark_fiat_paid'' 2 c tx = Inr (call, auth)"
    using assms by (auto simp: assertIsThisTradesAttestation_def split: sum.splits)
  note a = guard_call_accepts [OF g]
  have r: "trade_arg (cc_args call ! 0) = Some t" "address_arg (cc_args call ! 1) = Some key" "length auth \<le> 1"
      "length auth = 1 \<longrightarrow> auth ! 0 = SourceAccountFor call"
    using assms by (auto simp: assertIsThisTradesAttestation_def g split: option.splits if_splits)
  obtain bs where bs: "cc_args call ! 0 = ScBytes bs" "hex_of_bytes bs = t" using r(1) by (auto simp: trade_arg_Some)
  have call: "call = \<lparr>cc_contract = c, cc_function = ''mark_fiat_paid'', cc_args = [ScBytes bs, ScAddress key]\<rparr>"
    using a length_two [of "cc_args call"] bs(1) r(2) by (cases call) (auto simp: address_arg_Some)
  have "auth = [] \<or> auth = [SourceAccountFor call]" using r(3,4) by (cases auth) auto
  then show ?thesis using a bs(2) unfolding call by blast
qed

lemma refund_guard_accepts:
  assumes "assertIsSingleRefundOperation c t tx = None"
  shows "\<exists>bs auth. te_operations tx = [InvokeHostFunction (InvokeContract
       \<lparr>cc_contract = c, cc_function = ''refund'', cc_args = [ScBytes bs]\<rparr>) auth] \<and> hex_of_bytes bs = t \<and>
     fee_within MAX_REFUND_FEE_STROOPS (te_fee tx)"
proof -
  obtain call auth where g: "guard_call MAX_REFUND_FEE_STROOPS ''refund'' 1 c tx = Inr (call, auth)"
    using assms by (auto simp: assertIsSingleRefundOperation_def split: sum.splits)
  note a = guard_call_accepts [OF g]
  obtain bs where bs: "cc_args call ! 0 = ScBytes bs" "hex_of_bytes bs = t"
    using assms g by (auto simp: assertIsSingleRefundOperation_def trade_arg_Some split: option.splits if_splits)
  have "cc_args call = [ScBytes bs]" using a bs(1) by (cases "cc_args call") auto
  then have "call = \<lparr>cc_contract = c, cc_function = ''refund'', cc_args = [ScBytes bs]\<rparr>"
    using a by (cases call) auto
  then show ?thesis using a bs(2) by blast
qed


section \<open>An honest node's attestation is accepted and expires in time\<close>

definition is_lower_hex :: "char \<Rightarrow> bool" where
  "is_lower_hex c = (c \<in> set ''0123456789abcdef'')"

lemma hex_value_digit:
  assumes "is_lower_hex c"
  obtains x where "hex_value c = Some x" "x < 16" "hex_digit x = c"
proof -
  have "\<exists>x. hex_value c = Some x \<and> x < 16 \<and> hex_digit x = c"
    using assms by (auto simp: is_lower_hex_def hex_value_def hex_digit_def)
  then show thesis using that by blast
qed

lemma hex_roundtrip: "even (length s) \<Longrightarrow> list_all is_lower_hex s \<Longrightarrow> hex_of_bytes (bytes_of_hex s) = s"
proof (induction s rule: bytes_of_hex.induct)
  case (1 a b s)
  obtain x where x: "hex_value a = Some x" "x < 16" "hex_digit x = a" using "1.prems" by (auto elim: hex_value_digit)
  obtain y where y: "hex_value b = Some y" "y < 16" "hex_digit y = b" using "1.prems" by (auto elim: hex_value_digit)
  have "(16 * x + y) div 16 = x" "(16 * x + y) mod 16 = y" using y(2) by simp_all
  then show ?case using "1.IH" [OF refl x(1) y(1)] "1.prems" x y by (simp add: hex_of_bytes_def)
qed (auto simp: hex_of_bytes_def)

lemma bounded_until_limits: "1 \<le> n \<Longrightarrow> bounded_until now n \<le> n" "0 \<le> now \<Longrightarrow> bounded_until now n \<le> now div 1000 + 300"
  by (auto simp: bounded_until_def)

text \<open>What \<open>prepareTransaction\<close> of the SDK does to the transaction: it keeps the source, the call and the time bounds, adds the
  authorisation of the call by its source account, and the resource fee.\<close>

definition prepares_faithfully :: "node \<Rightarrow> bool" where
  "prepares_faithfully nd \<longleftrightarrow> (\<forall>src call m. \<exists>tx. nd_prepare nd (unsigned_tx src call m) 1 = Answers tx \<and> te_maxTime tx = m \<and>
     te_operations tx = [InvokeHostFunction (InvokeContract call) [SourceAccountFor call]] \<and> fee_within 10000000 (te_fee tx))"

lemma retry_first: "f 1 = Answers a \<Longrightarrow> withRpcRetry f label = Answers a"
  by (simp add: withRpcRetry_def RPC_RETRY_ATTEMPTS_def numeral_eq_Suc)

lemma attestation_accepted:
  assumes "prepares_faithfully nd" "nd_getAccount nd key 1 = Answers ()" "nd_isAddress nd key" "even (length t)" "list_all is_lower_hex t"
  shows "\<exists>tx. attestation_to_send nd now key c t notAfter = Answers tx \<and> te_maxTime tx = bounded_until now notAfter"
proof -
  let ?call = "mark_fiat_paid_call c t key" and ?m = "bounded_until now notAfter"
  obtain tx where tx: "nd_prepare nd (unsigned_tx key ?call ?m) 1 = Answers tx" "te_maxTime tx = ?m"
      "te_operations tx = [InvokeHostFunction (InvokeContract ?call) [SourceAccountFor ?call]]" "fee_within 10000000 (te_fee tx)"
    using assms(1) unfolding prepares_faithfully_def by meson
  have "find (\<lambda>a. \<not> nd_isAddress nd a) (arg_addresses (cc_args ?call)) = None" using assms(3) by (simp add: mark_fiat_paid_call_def)
  then have "rpc_buildMarkFiatPaidTx nd now c key t notAfter = Answers tx"
    by (simp add: rpc_buildMarkFiatPaidTx_def prepare_call_def retry_first [of "nd_getAccount nd key", OF assms(2)]
        retry_first [of "nd_prepare nd (unsigned_tx key ?call ?m)", OF tx(1)])
  moreover have "assertIsThisTradesAttestation c t key tx = None"
    using tx(3,4) by (simp add: assertIsThisTradesAttestation_def guard_call_def MAX_ATTEST_FEE_STROOPS_def mark_fiat_paid_call_def
        hex_roundtrip [OF assms(4,5)])
  ultimately show ?thesis using tx(2) by (simp add: attestation_to_send_def)
qed

text \<open>An attestation can never take effect once refunds open.  With a node that answers and prepares
  transactions as documented, the guard passes the attestation of a well-formed trade id, and the transaction
  sent can be included in a ledger only up to the instant it was asked for (the refund instant of the
  order) and for at most five minutes.\<close>

theorem attestation_expires_in_time:
  assumes "prepares_faithfully nd" "nd_getAccount nd key 1 = Answers ()" "nd_isAddress nd key"
    and "even (length t)" "list_all is_lower_hex t" "1 \<le> notAfter" "0 \<le> now"
  shows "\<exists>tx. attestation_to_send nd now key c t notAfter = Answers tx \<and> te_maxTime tx \<le> notAfter \<and> te_maxTime tx \<le> now div 1000 + 300"
  using attestation_accepted [OF assms(1-5), of now c notAfter] bounded_until_limits(1) [OF assms(6)] bounded_until_limits(2) [OF assms(7)]
  by fastforce

section \<open>A submission ends\<close>

lemma poll_loop_returns:
  assumes "\<And>n. net_clock nw n + pollIntervalMs \<le> net_clock nw (Suc n)"
  shows "\<exists>r. poll_loop nw label hash deadline used n = Some r \<and>
     (\<forall>st. r = Answers st \<longrightarrow> st \<in> {''SUCCESS'', ''FAILED''} \<and> (\<exists>k. net_clock nw k < deadline \<and> net_poll nw hash k = Answers st))"
proof (induction "nat (deadline - net_clock nw n)" arbitrary: n used rule: less_induct)
  case less
  show ?case
  proof (cases "net_clock nw n < deadline")
    case False
    then show ?thesis by (subst poll_loop.simps) simp
  next
    case True
    have "nat (deadline - net_clock nw (Suc n)) < nat (deadline - net_clock nw n)"
      using assms [of n] True by (simp add: pollIntervalMs_def)
    note IH = less [OF this]
    show ?thesis
    proof (cases "net_poll nw hash n")
      case (Throws msg)
      then show ?thesis using True IH [of True] by (subst poll_loop.simps) simp
    next
      case (Answers st)
      then show ?thesis using True IH [of used] by (subst poll_loop.simps) auto
    qed
  qed
qed

text \<open>C31 (signSendAndPoll, pollTransaction): a submission always ends, and says SUCCESS only if the network did.  As long as the clock advances by the
  poll interval between two polls, the call returns a result or an error; a result is SUCCESS or FAILED, read for the hash the
  network accepted the transaction under, within thirty seconds.\<close>

theorem submission_ends:
  assumes "\<And>n. net_clock nw n + pollIntervalMs \<le> net_clock nw (Suc n)"
  shows "\<exists>r. signSendAndPoll nw label start tx = Some r \<and>
     (\<forall>st h. r = Answers (st, h) \<longrightarrow> st \<in> {''SUCCESS'', ''FAILED''} \<and>
        (\<exists>k s. net_send nw tx = Answers (h, SendAccepted s) \<and> net_poll nw h k = Answers st \<and> net_clock nw k < start + 30000))"
proof (cases "net_send nw tx")
  case (Throws e)
  then show ?thesis by (simp add: signSendAndPoll_def)
next
  case (Answers p)
  obtain hash ss where p: "p = (hash, ss)" by (cases p)
  show ?thesis
  proof (cases ss)
    case (SendError code)
    then show ?thesis using Answers p by (simp add: signSendAndPoll_def)
  next
    case (SendAccepted s)
    obtain r where r: "poll_loop nw label hash (start + pollTimeoutMs) False 0 = Some r"
        "\<forall>st. r = Answers st \<longrightarrow> st \<in> {''SUCCESS'', ''FAILED''} \<and> (\<exists>k. net_clock nw k < start + pollTimeoutMs \<and> net_poll nw hash k = Answers st)"
      using poll_loop_returns [OF assms, of label hash "start + pollTimeoutMs" False 0] by blast
    then show ?thesis using Answers p SendAccepted
      by (cases r) (auto simp: signSendAndPoll_def pollTransaction_def pollTimeoutMs_def)
  qed
qed

section \<open>A node and a network that answer\<close>

definition sign_node :: node where
  "sign_node = read_node\<lparr>nd_prepare := \<lambda>tx _. Answers (tx\<lparr>te_fee := Fin 50000, te_operations := map (\<lambda>op. case op of
     InvokeHostFunction (InvokeContract call) _ \<Rightarrow> InvokeHostFunction (InvokeContract call) [SourceAccountFor call] | _ \<Rightarrow> op) (te_operations tx)\<rparr>)\<rparr>"

definition sign_network :: network where
  "sign_network = \<lparr>net_send = (\<lambda>_. Answers (''h'', SendAccepted ''PENDING'')),
     net_poll = (\<lambda>_ n. if n < 2 then Answers ''NOT_FOUND'' else Answers ''SUCCESS''), net_clock = (\<lambda>n. 2000 * int n)\<rparr>"

lemma sign_node_faithful: "prepares_faithfully sign_node"
  by (simp add: prepares_faithfully_def sign_node_def unsigned_tx_def fee_within_def)

theorem attestation_expires_in_time_witness:
  "\<exists>tx. attestation_to_send sign_node 1700000000000 ''GT'' ''CE'' ''a1'' 1700000100 = Answers tx \<and> te_maxTime tx \<le> 1700000100"
  using attestation_expires_in_time [OF sign_node_faithful, of "''GT''" "''a1''" 1700000100 1700000000000 "''CE''"]
  by (auto simp: sign_node_def read_node_def is_lower_hex_def)


theorem submission_ends_witness:
  "\<exists>r. signSendAndPoll sign_network ''AttestorService'' 0 (unsigned_tx ''GT'' (refund_call ''CE'' ''a1'') 9) = Some r"
proof -
  have "net_clock sign_network n + pollIntervalMs \<le> net_clock sign_network (Suc n)" for n
    by (simp add: sign_network_def pollIntervalMs_def)
  from submission_ends [OF this] show ?thesis by blast
qed

end
