(* ===== verification/Sep24.thy ===== *)
theory Sep24
  imports OrderProof Rate Sep12
begin

text \<open>
  SEP-24, the interactive door for wallets: \<open>sep24/sep24-status.ts\<close> and
  \<open>sep24/sep24-transaction.ts\<close> (how an order is shown to a wallet), \<open>sep24/interactive-token.ts\<close>
  (the credentials of the popup), \<open>sep24/interactive-page.ts\<close> (\<open>interactiveScreen\<close>) and
  \<open>sep24/sep24.service.ts\<close> (the reads, opening a transaction, and the four posts of the popup: identity, amount, signing, \<open>I have
  sent the rupiah\<close>).  Signing and verifying a JWT is the library's (\<open>jwt\<close>); the HTML of the pages is left out, and a
  sentence that names a deadline is its constructor with the instant.
\<close>

section \<open>Status (sep24-status.ts)\<close>

datatype sep24_status = Incomplete | PendingAnchor | PendingUserTransferStart | PendingUser | Completed | RefundedTx | ExpiredTx

definition SEP24_EMITTED_STATUSES :: "sep24_status list" where
  "SEP24_EMITTED_STATUSES = [Incomplete, PendingAnchor, PendingUserTransferStart, PendingUser, Completed, RefundedTx, ExpiredTx]"

fun BY_ORDER_STATUS :: "order_status \<Rightarrow> sep24_status" where
  "BY_ORDER_STATUS CREATED = PendingAnchor"
| "BY_ORDER_STATUS MATCHED = PendingAnchor"
| "BY_ORDER_STATUS AWAITING_ONCHAIN = PendingAnchor"
| "BY_ORDER_STATUS FUNDED = PendingUserTransferStart"
| "BY_ORDER_STATUS FIAT_PAID = PendingAnchor"
| "BY_ORDER_STATUS RELEASED = Completed"
| "BY_ORDER_STATUS REFUNDED = RefundedTx"
| "BY_ORDER_STATUS DISPUTED = PendingAnchor"
| "BY_ORDER_STATUS EXPIRED = ExpiredTx"
| "BY_ORDER_STATUS CANCELLED = ExpiredTx"

fun WITHDRAW_BY_ORDER_STATUS :: "order_status \<Rightarrow> sep24_status option" where
  "WITHDRAW_BY_ORDER_STATUS MATCHED = Some PendingUser"
| "WITHDRAW_BY_ORDER_STATUS AWAITING_ONCHAIN = Some PendingUser"
| "WITHDRAW_BY_ORDER_STATUS FUNDED = Some PendingAnchor"
| "WITHDRAW_BY_ORDER_STATUS FIAT_PAID = Some PendingUser"
| "WITHDRAW_BY_ORDER_STATUS _ = None"

definition sep24Status :: "order option \<Rightarrow> flow \<Rightarrow> sep24_status" where
  "sep24Status r flw =
     (case r of
        None \<Rightarrow> Incomplete
      | Some x \<Rightarrow>
          if flw = TOP_UP \<and> o_status x = FUNDED \<and> o_userClaimedPaidAt x \<noteq> None then PendingAnchor
          else (case (if flw = WITHDRAW then WITHDRAW_BY_ORDER_STATUS (o_status x) else None) of
                  Some s \<Rightarrow> s | None \<Rightarrow> BY_ORDER_STATUS (o_status x)))"

section \<open>The transaction record (sep24-transaction.ts)\<close>

datatype action_message =
    SignToFund | SigningClosed | CheckBankAndConfirm
  | ClaimedBeforeDue secs | ClaimedStillConfirmable secs | ClaimedTooLate
  | SendTheRupiah | LateStillConfirmable secs | LateAndClosed
  | DepositRefunded

record user_action =
  ua_by :: "secs option"
  ua_message :: action_message

definition userAction :: "ms \<Rightarrow> bool \<Rightarrow> order \<Rightarrow> user_action option" where
  "userAction now withdrawing x =
     (if withdrawing
      then (if o_status x = MATCHED \<or> o_status x = AWAITING_ONCHAIN
            then (let cutoff = signingCutoffSecs (o_payDeadline x) in
                  Some \<lparr>ua_by = Some cutoff, ua_message = (if cutoff * 1000 > now then SignToFund else SigningClosed)\<rparr>)
            else if o_status x = FIAT_PAID then Some \<lparr>ua_by = None, ua_message = CheckBankAndConfirm\<rparr>
            else None)
      else if o_status x = FUNDED
      then (let nowSecs = now div 1000; refundAtSecs = refundOpensAt (x\<lparr>o_flow := TOP_UP\<rparr>) in
            if o_userClaimedPaidAt x \<noteq> None
            then Some \<lparr>ua_by = None, ua_message =
                   (if o_payDeadline x * 1000 > now then ClaimedBeforeDue refundAtSecs
                    else if refundAtSecs \<ge> nowSecs then ClaimedStillConfirmable refundAtSecs else ClaimedTooLate)\<rparr>
            else Some \<lparr>ua_by = Some (o_payDeadline x), ua_message =
                   (if o_payDeadline x * 1000 > now then SendTheRupiah
                    else if refundAtSecs \<ge> nowSecs then LateStillConfirmable refundAtSecs else LateAndClosed)\<rparr>)
      else if o_status x = REFUNDED then Some \<lparr>ua_by = None, ua_message = DepositRefunded\<rparr>
      else None)"

record sep24_record =
  sr_id :: string
  sr_stellarAccount :: string
  sr_startedAt :: ms
  sr_kycVerified :: bool
  sr_flow :: flow
  sr_order :: "order option"

text \<open>The part of the answer that is only there with an order.\<close>

record sep24_amounts =
  sa_amount_in :: string
  sa_amount_in_asset :: string
  sa_amount_out :: string
  sa_amount_out_asset :: string
  sa_fee_total :: string
  sa_action :: "user_action option"
  sa_external_transaction_id :: "string option"
  sa_settlement :: "(string option \<times> ms option) option" \<comment> \<open>\<open>stellar_transaction_id\<close>, \<open>completed_at\<close>\<close>

record sep24_json =
  sj_id :: string
  sj_withdrawal :: bool
  sj_status :: sep24_status
  sj_more_info_url :: string
  sj_started_at :: string
  sj_to :: "string option"
  sj_from :: "string option"
  sj_kyc_verified :: bool
  sj_amounts :: "sep24_amounts option"

definition usdc_asset :: "env \<Rightarrow> string" where
  "usdc_asset env = ''stellar:USDC:'' @ cfg_usdcAssetIssuer env"

definition serialize_amounts :: "env \<Rightarrow> ms \<Rightarrow> bool \<Rightarrow> sep24_status \<Rightarrow> order \<Rightarrow> sep24_amounts" where
  "serialize_amounts env now withdrawing status x =
     (let split = splitFees (o_usdcAmount x) (o_platformFeeBps x) (o_lpFeeBps x);
          fiat = dec_int (o_fiatAmount x); fiatAsset = ''iso4217:'' @ o_fiatCurrency x;
          netUsdc = baseUnitsToUsdcString (net split); grossUsdc = baseUnitsToUsdcString (o_usdcAmount x)
      in \<lparr>sa_amount_in = (if withdrawing then grossUsdc else fiat),
          sa_amount_in_asset = (if withdrawing then usdc_asset env else fiatAsset),
          sa_amount_out = (if withdrawing then fiat else netUsdc),
          sa_amount_out_asset = (if withdrawing then fiatAsset else usdc_asset env),
          sa_fee_total = baseUnitsToUsdcString (if withdrawing then 0 else platformFee split + lpFee split),
          sa_action = userAction now withdrawing x,
          sa_external_transaction_id = (if truthy_str (o_ref x) then o_ref x else None),
          sa_settlement = (if status = Completed \<or> status = RefundedTx then Some (o_settlementTxHash x, o_settledAt x) else None)\<rparr>)"

definition serializeSep24 :: "env \<Rightarrow> ms \<Rightarrow> sep24_record \<Rightarrow> sep24_json" where
  "serializeSep24 env now r =
     (let withdrawing = (sr_flow r = WITHDRAW); status = sep24Status (sr_order r) (sr_flow r) in
      \<lparr>sj_id = sr_id r, sj_withdrawal = withdrawing, sj_status = status,
       sj_more_info_url = cfg_anchorBaseUrl env @ ''/sep24/more-info/'' @ sr_id r, sj_started_at = iso_string (sr_startedAt r),
       sj_to = (if withdrawing then None else Some (accountOf env (sr_stellarAccount r))),
       sj_from = (if withdrawing then Some (accountOf env (sr_stellarAccount r)) else None),
       sj_kyc_verified = sr_kycVerified r,
       sj_amounts = map_option (serialize_amounts env now withdrawing status) (sr_order r)\<rparr>)"

section \<open>Credentials (interactive-token.ts)\<close>

definition SEP24_INTERACTIVE_TTL_SECS :: secs where "SEP24_INTERACTIVE_TTL_SECS = 1800"
definition SEP24_INTERACTIVE_LINK_TTL_SECS :: secs where "SEP24_INTERACTIVE_LINK_TTL_SECS = 300"
definition SEP24_INTERACTIVE_ABSOLUTE_TTL_SECS :: secs where "SEP24_INTERACTIVE_ABSOLUTE_TTL_SECS = 86400"

datatype token_use = LinkUse | SessionUse

record claims =
  cl_sub :: string
  cl_acct :: "string option" \<comment> \<open>None: not a string\<close>
  cl_use :: token_use
  cl_abs :: "secs option"
  cl_exp :: secs

text \<open>\<open>jwt.sign\<close> and \<open>jwt.verify\<close> with the anchor's secret, issuer and the audience of these tokens; verifying answers the claims of a token
  signed with them and not expired.\<close>

record jwt =
  jwt_sign :: "claims \<Rightarrow> string"
  jwt_verify :: "ms \<Rightarrow> string \<Rightarrow> claims option"

definition jwt_lawful :: "jwt \<Rightarrow> bool" where
  "jwt_lawful j \<longleftrightarrow> (\<forall>now c. jwt_verify j now (jwt_sign j c) = (if now div 1000 < cl_exp c then Some c else None))"

definition mintInteractiveToken :: "jwt \<Rightarrow> ms \<Rightarrow> string \<Rightarrow> string \<Rightarrow> secs \<Rightarrow> token_use \<Rightarrow> string" where
  "mintInteractiveToken j now transactionId account ttlSecs use =
     jwt_sign j \<lparr>cl_sub = transactionId, cl_acct = Some account, cl_use = use,
       cl_abs = Some (now div 1000 + SEP24_INTERACTIVE_ABSOLUTE_TTL_SECS), cl_exp = now div 1000 + ttlSecs\<rparr>"

definition readInteractiveToken :: "jwt \<Rightarrow> ms \<Rightarrow> string \<Rightarrow> string \<Rightarrow> token_use \<Rightarrow> (string \<times> secs) outcome" where
  "readInteractiveToken j now token transactionId expected =
     (case jwt_verify j now token of
        None \<Rightarrow> Inl (UnauthorizedException ''this link is not one this anchor issued, or it has expired'')
      | Some c \<Rightarrow>
          if cl_sub c \<noteq> transactionId then Inl (UnauthorizedException ''this link belongs to a different transaction'')
          else if cl_use c \<noteq> expected then Inl (UnauthorizedException ''this credential cannot be used that way'')
          else (case cl_acct c of
             None \<Rightarrow> Inl (UnauthorizedException ''this link names no account'')
           | Some account \<Rightarrow>
               if account = [] then Inl (UnauthorizedException ''this link names no account'')
               else (let cap = (case cl_abs c of Some a \<Rightarrow> a | None \<Rightarrow> 0) in
                     if cap > 0 \<and> cap \<le> now div 1000
                     then Inl (UnauthorizedException (''this session has been open too long '' @ em_dash @ '' start again from your wallet''))
                     else Inr (account, cap))))"

section \<open>Reads (sep24.service.ts)\<close>

definition screenedPeople :: "env \<Rightarrow> db \<Rightarrow> string list \<Rightarrow> string set" where
  "screenedPeople env d personIds =
     (let rows = filter (\<lambda>v. v_personId v \<in> set personIds \<and> (acceptedForFunds (cfg_kycRequireAml env) v \<or> v_status v = REJECTED)) (db_kyc d);
          refused = v_personId ` set (filter (\<lambda>v. v_status v = REJECTED) rows)
      in v_personId ` set (filter (\<lambda>v. v_status v \<noteq> REJECTED \<and> v_personId v \<notin> refused) rows))"

definition tx_order :: "db \<Rightarrow> sep24_transaction \<Rightarrow> order option" where
  "tx_order d t = Option.bind (tx_orderId t) (find_order d)"

text \<open>An order that belongs to another person is not shown.\<close>

definition own_order :: "db \<Rightarrow> sep24_transaction \<Rightarrow> order option" where
  "own_order d t = (case tx_order d t of Some x \<Rightarrow> if o_personId x = tx_personId t then Some x else None | None \<Rightarrow> None)"

definition dress :: "env \<Rightarrow> ms \<Rightarrow> db \<Rightarrow> sep24_transaction list \<Rightarrow> sep24_json list" where
  "dress env now d rows =
     (let screened = screenedPeople env d (map tx_personId rows) in
      map (\<lambda>t. serializeSep24 env now \<lparr>sr_id = tx_id t, sr_stellarAccount = tx_stellarAccount t, sr_startedAt = tx_startedAt t,
        sr_kycVerified = (tx_personId t \<in> screened), sr_flow = tx_flow t, sr_order = own_order d t\<rparr>) rows)"

definition SEP24_PAGE_DEFAULT :: nat where "SEP24_PAGE_DEFAULT = 100"
definition SEP24_PAGE_MAX :: nat where "SEP24_PAGE_MAX = 500"

record transactions_query =
  qs_asset_code :: "string option"
  qs_kind :: "flow option" \<comment> \<open>deposit, withdrawal\<close>
  qs_no_older_than :: "ms option option" \<comment> \<open>Some None: not a readable time\<close>
  qs_limit :: "nat option"

definition assertAssetServed :: "env \<Rightarrow> string option \<Rightarrow> unit outcome" where
  "assertAssetServed env code =
     (case code of None \<Rightarrow> Inr ()
      | Some c \<Rightarrow> if c \<noteq> cfg_usdcAssetCode env then Inl (BadRequestException (''this anchor does not serve '' @ c)) else Inr ())"

definition list_transactions :: "env \<Rightarrow> ms \<Rightarrow> db \<Rightarrow> string \<Rightarrow> transactions_query \<Rightarrow> sep24_json list outcome" where
  "list_transactions env now d subject q =
     (case assertAssetServed env (qs_asset_code q) of
        Inl e \<Rightarrow> Inl e
      | Inr _ \<Rightarrow>
          if qs_no_older_than q = Some None then Inl (BadRequestException ''no_older_than is not a readable time'')
          else (let tk = min (case qs_limit q of Some n \<Rightarrow> n | None \<Rightarrow> SEP24_PAGE_DEFAULT) SEP24_PAGE_MAX;
                    keep = (\<lambda>t. tx_stellarAccount t = subject \<and> (case qs_kind q of None \<Rightarrow> True | Some f \<Rightarrow> tx_flow t = f) \<and>
                                (case qs_no_older_than q of Some (Some since) \<Rightarrow> since \<le> tx_startedAt t | _ \<Rightarrow> True))
                in Inr (dress env now d (take tk (sort_key (\<lambda>t. - tx_startedAt t) (filter keep (db_sep24 d)))))))"

datatype transaction_name = ById string | ByStellarTx string | ByExternal string | ByNothing

definition named_by :: "db \<Rightarrow> transaction_name \<Rightarrow> sep24_transaction \<Rightarrow> bool" where
  "named_by d q t =
     (case q of
        ById i \<Rightarrow> tx_id t = i
      | ByStellarTx h \<Rightarrow> (case tx_order d t of Some x \<Rightarrow> o_settlementTxHash x = Some h | None \<Rightarrow> False)
      | ByExternal r \<Rightarrow> (case tx_order d t of Some x \<Rightarrow> o_ref x = Some r | None \<Rightarrow> False)
      | ByNothing \<Rightarrow> False)"

definition one_transaction :: "env \<Rightarrow> ms \<Rightarrow> db \<Rightarrow> string \<Rightarrow> transaction_name \<Rightarrow> sep24_json outcome" where
  "one_transaction env now d subject q =
     (if q = ByNothing then Inl (BadRequestException ''name a transaction by id, stellar_transaction_id or external_transaction_id'')
      else case find (\<lambda>t. named_by d q t \<and> tx_stellarAccount t = subject) (db_sep24 d) of
             None \<Rightarrow> Inl (NotFoundException ''this anchor holds no such transaction for you'')
           | Some t \<Rightarrow> Inr (hd (dress env now d [t])))"

record sep24_info =
  in_min_amount :: jsnum
  in_max_amount :: jsnum
  in_deposit_fee_percent :: jsnum
  in_withdraw_enabled :: bool

definition info :: "bool \<Rightarrow> db \<Rightarrow> sep24_info" where
  "info withdrawEnabled d =
     (let at0 = (\<lambda>f. case db_config d of Some c \<Rightarrow> f c | None \<Rightarrow> 0) in
      \<lparr>in_min_amount = baseUnitsToUsdc (at0 c_minOrder), in_max_amount = baseUnitsToUsdc (at0 c_maxOrder),
       in_deposit_fee_percent = js_div (Fin (of_int (at0 c_platformFeeBps + at0 c_lpFeeBps))) (Fin 100), in_withdraw_enabled = withdrawEnabled\<rparr>)"

section \<open>Opening a transaction\<close>

text \<open>A member of the request body: absent, no string, or a string.\<close>

datatype body_field = Absent | NotAString | Text string

definition not_an_address :: http_error where
  "not_an_address = BadRequestException ''account is not a Stellar address''"

definition account_refusal :: "env \<Rightarrow> (string \<Rightarrow> bool) \<Rightarrow> string \<Rightarrow> flow \<Rightarrow> body_field \<Rightarrow> http_error option" where
  "account_refusal env known subject flw account =
     (case account of
        Absent \<Rightarrow> None
      | NotAString \<Rightarrow> Some not_an_address
      | Text a \<Rightarrow>
          if length a > 96 then Some not_an_address
          else (let named = hd (split_on (CHR '':'') a) in
                if \<not> known named then Some not_an_address
                else if a \<noteq> subject \<and> accountOf env named \<noteq> accountOf env subject
                then Some (BadRequestException (if flw = WITHDRAW
                  then ''this anchor withdraws from the account its token speaks for, and will not take another''
                  else ''this anchor credits the account its token speaks for, and will not deposit to another''))
                else None))"

text \<open>\<open>known\<close>: the SDK accepts the string as a public key, a muxed account or a contract.\<close>

definition openInteractive ::
  "env \<Rightarrow> jwt \<Rightarrow> (string \<Rightarrow> bool) \<Rightarrow> ms \<Rightarrow> string \<Rightarrow> string \<Rightarrow> string \<Rightarrow> body_field \<Rightarrow> body_field \<Rightarrow> flow \<Rightarrow> (db, string \<times> string) handler" where
  "openInteractive env j known now uuid subject personId assetCode account flw d =
     (case assetCode of
        Text code \<Rightarrow>
          if code = [] then (d, Inl (BadRequestException ''asset_code is required''))
          else if code \<noteq> cfg_usdcAssetCode env then (d, Inl (BadRequestException (''this anchor does not serve '' @ code)))
          else (case account_refusal env known subject flw account of
                  Some e \<Rightarrow> (d, Inl e)
                | None \<Rightarrow>
                    (d\<lparr>db_sep24 := db_sep24 d @ [\<lparr>tx_id = uuid, tx_personId = personId, tx_stellarAccount = subject, tx_assetCode = code,
                         tx_flow = flw, tx_orderId = None, tx_startedAt = now\<rparr>]\<rparr>,
                     Inr (uuid, cfg_anchorBaseUrl env @ ''/sep24/interactive/'' @ uuid @ ''?token='' @
                       mintInteractiveToken j now uuid subject SEP24_INTERACTIVE_LINK_TTL_SECS LinkUse)))
      | _ \<Rightarrow> (d, Inl (BadRequestException ''asset_code is required'')))"

section \<open>The popup\<close>

datatype interactive_screen =
    IdentityScreen | WaitingOnIdentity | Refused | AmountScreen | WaitingOnEscrow | WaitingOnFiat | SignFunding | SignRelease
  | Instructions | ClaimReceived | RefundedClaimed | RefundedUnclaimed | SettledScreen

definition interactiveScreen :: "kyc_status option \<Rightarrow> bool \<Rightarrow> order_status option \<Rightarrow> flow \<Rightarrow> ms option \<Rightarrow> interactive_screen" where
  "interactiveScreen kycStatus screened orderStatus flw userClaimedPaidAt =
     (if kycStatus = Some REJECTED then Refused
      else if kycStatus = None \<or> kycStatus = Some NEEDS_INFO then IdentityScreen
      else if \<not> screened then WaitingOnIdentity
      else case orderStatus of
             None \<Rightarrow> AmountScreen
           | Some st \<Rightarrow>
               (let withdrawing = (flw = WITHDRAW) in
                if st = CREATED \<or> st = MATCHED \<or> st = AWAITING_ONCHAIN
                then (if withdrawing \<and> st \<noteq> CREATED then SignFunding else WaitingOnEscrow)
                else if st = FUNDED
                then (if withdrawing then WaitingOnFiat else if userClaimedPaidAt \<noteq> None then ClaimReceived else Instructions)
                else if st = REFUNDED \<and> \<not> withdrawing
                then (if userClaimedPaidAt \<noteq> None then RefundedClaimed else RefundedUnclaimed)
                else if st = FIAT_PAID \<and> withdrawing then SignRelease
                else SettledScreen))"

record popup_state =
  ps_row :: sep24_transaction
  ps_order :: "order option"
  ps_kyc :: "kyc_row option"
  ps_screenedElsewhere :: bool
  ps_refusedAnywhere :: bool

definition no_such_transaction :: http_error where
  "no_such_transaction = NotFoundException ''this anchor holds no such transaction''"

definition find_sep24 :: "db \<Rightarrow> string \<Rightarrow> sep24_transaction option" where
  "find_sep24 d i = find_row tx_id i (db_sep24 d)"

text \<open>The transaction a credential opens: its own, for the account it names, of a person still linked to that account.\<close>

definition opened_by :: "env \<Rightarrow> jwt \<Rightarrow> ms \<Rightarrow> string \<Rightarrow> string \<Rightarrow> token_use \<Rightarrow> db \<Rightarrow> sep24_transaction outcome" where
  "opened_by env j now i token use d =
     (case readInteractiveToken j now token i use of
        Inl e \<Rightarrow> Inl e
      | Inr (account, _) \<Rightarrow>
          (case find_sep24 d i of
             None \<Rightarrow> Inl no_such_transaction
           | Some t \<Rightarrow>
               if tx_stellarAccount t \<noteq> account then Inl no_such_transaction
               else if lookupPerson env d (tx_stellarAccount t) = None then Inl no_such_transaction
               else Inr t))"

definition interactiveState :: "env \<Rightarrow> jwt \<Rightarrow> ms \<Rightarrow> string \<Rightarrow> string \<Rightarrow> (db, popup_state) handler" where
  "interactiveState env j now i token d =
     (case opened_by env j now i token SessionUse d of
        Inl e \<Rightarrow> (d, Inl e)
      | Inr t \<Rightarrow>
          (let shown = tx_order d t;
               (d1, current) = (case shown of
                  Some x \<Rightarrow> if truthy_str (tx_orderId t) \<and> o_status x \<in> set REFRESH_FROM_CHAIN_STATUSES
                     then (let (d', fresh) = refreshOrderStatus env now (o_id x) x d in (d', Some (x\<lparr>o_status := o_status fresh\<rparr>)))
                     else (d, shown)
                | None \<Rightarrow> (d, None))
           in (d1, Inr \<lparr>ps_row = t, ps_order = current, ps_kyc = find_kyc d1 (tx_stellarAccount t),
                 ps_screenedElsewhere = list_ex (\<lambda>v. v_personId v = tx_personId t \<and> acceptedForFunds (cfg_kycRequireAml env) v) (db_kyc d1),
                 ps_refusedAnywhere = list_ex (\<lambda>v. v_personId v = tx_personId t \<and> v_status v = REJECTED) (db_kyc d1)\<rparr>)))"

definition sessionFromLink :: "env \<Rightarrow> jwt \<Rightarrow> ms \<Rightarrow> string \<Rightarrow> string \<Rightarrow> db \<Rightarrow> string outcome" where
  "sessionFromLink env j now i token d =
     (case opened_by env j now i token LinkUse d of
        Inl e \<Rightarrow> Inl e
      | Inr t \<Rightarrow> Inr (mintInteractiveToken j now i (tx_stellarAccount t) SEP24_INTERACTIVE_TTL_SECS SessionUse))"

definition screenFor :: "env \<Rightarrow> ms \<Rightarrow> popup_state \<Rightarrow> interactive_screen" where
  "screenFor env now st =
     (if ps_refusedAnywhere st then interactiveScreen (Some REJECTED) False None TOP_UP None
      else interactiveScreen
        (if ps_screenedElsewhere st then Some ACCEPTED
         else if needsNewSession now (ps_kyc st) (cfg_kycRequireAml env) then Some NEEDS_INFO else map_option v_status (ps_kyc st))
        (ps_screenedElsewhere st) (map_option o_status (ps_order st)) (tx_flow (ps_row st))
        (Option.bind (ps_order st) o_userClaimedPaidAt))"

definition submitIdentity :: "env \<Rightarrow> jwt \<Rightarrow> kyc_provider \<Rightarrow> bool \<Rightarrow> (db \<Rightarrow> db) \<Rightarrow> ms \<Rightarrow> string \<Rightarrow> string \<Rightarrow> (string \<times> string) list \<Rightarrow> (db, unit) handler" where
  "submitIdentity env j provider isOpening meanwhile now i token submitted d =
     (case interactiveState env j now i token d of
        (d1, Inl e) \<Rightarrow> (d1, Inl e)
      | (d1, Inr st) \<Rightarrow>
          if screenFor env now st \<noteq> IdentityScreen then (d1, Inr ())
          else (case put env provider isOpening meanwhile (tx_stellarAccount (ps_row st)) submitted now d1 of
                  (d2, Inl e) \<Rightarrow> (d2, Inl e) | (d2, Inr _) \<Rightarrow> (d2, Inr ())))"

definition fundTx :: "env \<Rightarrow> jwt \<Rightarrow> builder \<Rightarrow> ms \<Rightarrow> string \<Rightarrow> string \<Rightarrow> (db, built) handler" where
  "fundTx env j build now i token d =
     (case interactiveState env j now i token d of
        (d1, Inl e) \<Rightarrow> (d1, Inl e)
      | (d1, Inr st) \<Rightarrow>
          if tx_flow (ps_row st) \<noteq> WITHDRAW then (d1, Inl (BadRequestException ''only a withdrawal is funded by the person who opened it''))
          else (case ps_order st of
                  None \<Rightarrow> (d1, Inl (ConflictException ''name an amount before this withdrawal can be funded''))
                | Some x \<Rightarrow> buildCreateTradeTx env build now (o_id x) (accountOf env (tx_stellarAccount (ps_row st))) d1))"

definition releaseTx :: "env \<Rightarrow> jwt \<Rightarrow> builder \<Rightarrow> ms \<Rightarrow> string \<Rightarrow> string \<Rightarrow> (db, built) handler" where
  "releaseTx env j build now i token d =
     (case interactiveState env j now i token d of
        (d1, Inl e) \<Rightarrow> (d1, Inl e)
      | (d1, Inr st) \<Rightarrow>
          if tx_flow (ps_row st) \<noteq> WITHDRAW then (d1, Inl (BadRequestException ''only a withdrawal is released by the person who opened it''))
          else (case ps_order st of
                  None \<Rightarrow> (d1, Inl (ConflictException ''this withdrawal has no order to release''))
                | Some x \<Rightarrow> buildConfirmReleaseTx env build now (o_id x) (accountOf env (tx_stellarAccount (ps_row st))) d1))"

section \<open>Naming an amount\<close>

definition FIAT_INPUT_REFUSAL :: string where
  "FIAT_INPUT_REFUSAL = ''write the amount in plain digits, for example 200000, or with dots as thousands separators, for example 200.000: commas, fractions and other symbols are refused because they could mean two different amounts, and this anchor will not guess which''"

text \<open>The amount named, in rupiah, or the refusal.\<close>

definition named_amount :: "body_field \<Rightarrow> int outcome" where
  "named_amount raw =
     (case raw of
        Text a \<Rightarrow>
          if \<not> fiatInputAccepted a then Inl (BadRequestException FIAT_INPUT_REFUSAL)
          else (let digits = fiatDigits a in
                if digits = [] \<or> length digits > 18 \<or> digits_val digits = 0 then Inl (BadRequestException ''name an amount in rupiah'')
                else Inr (int (digits_val digits)))
      | _ \<Rightarrow> Inl (BadRequestException ''name an amount in rupiah''))"

definition link_order :: "string \<Rightarrow> string \<Rightarrow> string \<Rightarrow> db \<Rightarrow> db \<times> nat" where
  "link_order i account orderId d =
     (let free = (\<lambda>t. tx_id t = i \<and> tx_orderId t = None \<and> tx_stellarAccount t = account) in
      (d\<lparr>db_sep24 := update_many free (\<lambda>t. t\<lparr>tx_orderId := Some orderId\<rparr>) (db_sep24 d)\<rparr>, count_rows free (db_sep24 d)))"

definition undo_order :: "string \<Rightarrow> db \<Rightarrow> db" where
  "undo_order orderId d = upd_orders (update_many (\<lambda>x. o_id x = orderId \<and> o_status x = MATCHED) cancel_row) d"

text \<open>What a run takes from outside: the price source, the configuration, the draws of ids and references, and what others write before
  the order is placed and before it is linked.\<close>

record amount_run =
  ar_source :: price_source
  ar_conf :: config
  ar_tradeId :: string
  ar_refs :: "nat \<Rightarrow> string"
  ar_placing :: "nat \<Rightarrow> db \<Rightarrow> db"
  ar_linking :: "db \<Rightarrow> db"

definition link_or_undo :: "string \<Rightarrow> string \<Rightarrow> string \<Rightarrow> db \<Rightarrow> db" where
  "link_or_undo i account orderId d =
     (case link_order i account orderId d of (d1, n) \<Rightarrow> if n \<noteq> 1 then undo_order orderId d1 else d1)"

definition openOrderForAmount ::
  "env \<Rightarrow> jwt \<Rightarrow> amount_run \<Rightarrow> ms \<Rightarrow> string \<Rightarrow> string \<Rightarrow> body_field \<Rightarrow> string option \<Rightarrow> (rate_state, unit) handler" where
  "openOrderForAmount env j run now i token rawAmount rawPaymentMethod s =
     (case interactiveState env j now i token (fst s) of
        (d1, Inl e) \<Rightarrow> ((d1, snd s), Inl e)
      | (d1, Inr st) \<Rightarrow>
          (let row = ps_row st; account = accountOf env (tx_stellarAccount row) in
           if truthy_str (tx_orderId row) then ((d1, snd s), Inr ())
           else if screenFor env now st \<noteq> AmountScreen
           then ((d1, snd s), Inl (ForbiddenException ''this transaction is not at the point of naming an amount; reopen the page to see where it is''))
           else case named_amount rawAmount of
             Inl e \<Rightarrow> ((d1, snd s), Inl e)
           | Inr amount \<Rightarrow>
               (case (if tx_flow row = WITHDRAW then map_sum id Some (validatePaymentDestination rawPaymentMethod) else Inr None) of
                  Inl e \<Rightarrow> ((d1, snd s), Inl e)
                | Inr upm \<Rightarrow>
                    (case createQuote env (ar_source run) now account (tx_flow row) BANK None (Some amount) ''IDR'' (d1, snd s) of
                       (s2, Inl e) \<Rightarrow> (s2, Inl e)
                     | (s2, Inr q) \<Rightarrow>
                         (case createFromQuote env (ar_conf run) (rm_markets (snd s2)) now account (q_id q) upm (ar_tradeId run) (ar_placing run) (ar_refs run) (fst s2) of
                            (d3, Inl e) \<Rightarrow> ((d3, snd s2), Inl e)
                          | (d3, Inr (x, _)) \<Rightarrow>
                              ((link_or_undo i (tx_stellarAccount row) (o_id x) (ar_linking run d3), snd s2), Inr ()))))))"

text \<open>\<open>amountInFlight\<close>: a second post while a run is under way gets the outcome of that run.\<close>

definition submitAmount ::
  "env \<Rightarrow> jwt \<Rightarrow> amount_run \<Rightarrow> ms \<Rightarrow> (string \<rightharpoonup> unit outcome) \<Rightarrow> string \<Rightarrow> string \<Rightarrow> body_field \<Rightarrow> string option \<Rightarrow> (rate_state, unit) handler" where
  "submitAmount env j run now inFlight i token rawAmount rawPaymentMethod s =
     (case inFlight i of
        Some running \<Rightarrow>
          (case interactiveState env j now i token (fst s) of
             (d1, Inl e) \<Rightarrow> ((d1, snd s), Inl e) | (d1, Inr _) \<Rightarrow> ((d1, snd s), running))
      | None \<Rightarrow> openOrderForAmount env j run now i token rawAmount rawPaymentMethod s)"

section \<open>The depositor's claim\<close>

fun RAIL_WORDS :: "rail \<Rightarrow> string" where
  "RAIL_WORDS BANK = ''bank account''"
| "RAIL_WORDS EWALLET = ''e-wallet''"
| "RAIL_WORDS QRIS = ''QRIS code''"

text \<open>A dot before every group of three digits from the right.\<close>

fun group_dots :: "string \<Rightarrow> string" where
  "group_dots [] = []"
| "group_dots (c # r) = (if r \<noteq> [] \<and> length r mod 3 = 0 then c # CHR ''.'' # group_dots r else c # group_dots r)"

definition formatFiat :: "int \<Rightarrow> string" where
  "formatFiat amount = group_dots (fiatDigits (dec_int amount))"

definition claim_subject :: string where "claim_subject = ''A depositor says they have sent your rupiah''"

definition claim_text :: "order \<Rightarrow> string" where
  "claim_text x =
     ''A depositor on order '' @ o_id x @ '' says they have sent '' @ formatFiat (o_fiatAmount x) @ '' '' @ o_fiatCurrency x @ '' to your account'' @
     (if truthy_str (o_ref x) then '', reference '' @ the (o_ref x) else []) @ ''. That is their claim, not proof '' @ em_dash @ '' check your own account.'' @
     [CHR 0x0A, CHR 0x0A] @
     ''Nothing has moved on chain. If the money is in your account, open lp.lolipay.app/assignments and press Confirm receipt & release before '' @
     iso_string (refundOpensAt (x\<lparr>o_flow := TOP_UP\<rparr>) * 1000) @
     '' and approve both requests in your wallet: that records the payment on chain and releases the USDC to the depositor. If it is not there, do not press it. After that time it can no longer be confirmed; the escrow can be returned to you '' @
     em_dash @ '' the route is open on chain to anyone, including you '' @ em_dash @ '' and the order closes.''"

definition claim_body :: "order \<Rightarrow> string" where
  "claim_body x =
     ''Check your '' @ RAIL_WORDS (o_rail x) @ '' for '' @ formatFiat (o_fiatAmount x) @ '' '' @ o_fiatCurrency x @
     ''. That is their claim, not proof. If it is there, open Assignments and press Confirm receipt & release before '' @
     iso_string (refundOpensAt (x\<lparr>o_flow := TOP_UP\<rparr>) * 1000) @ ''. If it is not, do not press it.''"

definition claimable_row :: "string \<Rightarrow> order \<Rightarrow> bool" where
  "claimable_row orderId x = (o_id x = orderId \<and> o_flow x = TOP_UP \<and> o_status x = FUNDED \<and> o_userClaimedPaidAt x = None)"

definition claim_row :: "ms \<Rightarrow> order \<Rightarrow> order" where
  "claim_row now x = x\<lparr>o_userClaimedPaidAt := Some now\<rparr>"

definition claim_notice :: "env \<Rightarrow> ms \<Rightarrow> lp \<Rightarrow> order \<Rightarrow> notification" where
  "claim_notice env now l x =
     \<lparr>n_id = sdk_uuid env (''notification:'' @ lp_stellarAddress l @ '':'' @ o_id x @ '':USER_CLAIMED_PAID''), n_address = lp_stellarAddress l,
      n_orderId = Some (o_id x), n_event = ''USER_CLAIMED_PAID'', n_title = claim_subject, n_body = claim_body x, n_read = False, n_createdAt = now\<rparr>"

definition claim_tx :: "env \<Rightarrow> ms \<Rightarrow> string \<Rightarrow> (db, unit) handler" where
  "claim_tx env now orderId d =
     (let d1 = upd_orders (update_many (claimable_row orderId) (claim_row now)) d in
      if count_rows (claimable_row orderId) (db_orders d) \<noteq> 1 then (d1, Inr ())
      else case Option.bind (find_order d1 orderId) (\<lambda>x. map_option (Pair x) (if truthy_str (o_lpId x) then order_lp d1 x else None)) of
             None \<Rightarrow> (d1, Inl (ServiceUnavailableException ''this deposit has no provider on file to notify of the claim right now''))
           | Some (x, l) \<Rightarrow>
               (let d2 = (if truthy_str (lp_alertEmail l)
                          then enqueue env EMAIL_OUTBOX_KIND (EmailPayload None (Some (lp_id l)) claim_subject (claim_text x))
                                 (Some (''email:'' @ orderId @ '':USER_CLAIMED_PAID:'' @ lp_id l)) now d1
                          else d1)
                in (d2\<lparr>db_notifications := create_skip n_key (claim_notice env now l x) (db_notifications d2)\<rparr>, Inr ())))"

definition claimPaid :: "env \<Rightarrow> jwt \<Rightarrow> ms \<Rightarrow> (db \<Rightarrow> db) \<Rightarrow> string \<Rightarrow> string \<Rightarrow> (db, unit) handler" where
  "claimPaid env j now meanwhile i token d =
     (case interactiveState env j now i token d of
        (d1, Inl e) \<Rightarrow> (d1, Inl e)
      | (d1, Inr st) \<Rightarrow>
          (case (tx_orderId (ps_row st), ps_order st) of
             (Some orderId, Some x) \<Rightarrow>
               if orderId = [] \<or> tx_flow (ps_row st) \<noteq> TOP_UP \<or> o_status x \<noteq> FUNDED \<or> o_userClaimedPaidAt x \<noteq> None then (d1, Inr ())
               else if now div 1000 > refundOpensAt x then (d1, Inr ())
               else transaction (claim_tx env now orderId) (meanwhile d1)
           | _ \<Rightarrow> (d1, Inr ())))"

section \<open>Payment instructions\<close>

text \<open>Whether the popup and the more-info page show where to send the rupiah, and what.\<close>

definition paymentLine :: "ms \<Rightarrow> flow \<Rightarrow> order option \<Rightarrow> (int \<times> string \<times> string option \<times> string \<times> string option \<times> secs) option" where
  "paymentLine now flw r =
     (case r of
        None \<Rightarrow> None
      | Some x \<Rightarrow>
          if flw \<noteq> TOP_UP \<or> o_status x \<noteq> FUNDED \<or> o_userClaimedPaidAt x \<noteq> None then None
          else if o_payDeadline x = 0 \<or> o_payDeadline x * 1000 \<le> now then None
          else Some (o_fiatAmount x, o_fiatCurrency x, o_lpPaymentLabel x, (case o_lpPaymentDetails x of Some s \<Rightarrow> s | None \<Rightarrow> []), o_ref x, o_payDeadline x))"

definition moreInfo :: "env \<Rightarrow> ms \<Rightarrow> db \<Rightarrow> string \<Rightarrow> (sep24_json \<times> (int \<times> string \<times> string option \<times> string \<times> string option \<times> secs) option) outcome" where
  "moreInfo env now d i =
     (case find_sep24 d i of
        None \<Rightarrow> Inl no_such_transaction
      | Some t \<Rightarrow> Inr (hd (dress env now d [t]), paymentLine now (tx_flow t) (own_order d t)))"

section \<open>What a wallet is told\<close>

text \<open>C35 (sep24Status, userAction, serializeSep24): the status a wallet sees is always one SEP-24 knows and tells the truth about the order.  It is completed exactly for a RELEASED
  order, refunded exactly for a REFUNDED one, expired exactly for an EXPIRED or CANCELLED one, incomplete exactly without
  one, and awaits a transfer exactly for a FUNDED deposit not yet claimed as paid; and whenever the user has to act, the record says
  how.\<close>

theorem sep24_status_tells_the_truth:
  "sep24Status r flw \<in> set SEP24_EMITTED_STATUSES \<and>
   (sep24Status r flw = Incomplete \<longleftrightarrow> r = None) \<and>
   (sep24Status r flw = Completed \<longleftrightarrow> map_option o_status r = Some RELEASED) \<and>
   (sep24Status r flw = RefundedTx \<longleftrightarrow> map_option o_status r = Some REFUNDED) \<and>
   (sep24Status r flw = ExpiredTx \<longleftrightarrow> map_option o_status r \<in> {Some EXPIRED, Some CANCELLED}) \<and>
   (sep24Status r flw = PendingUserTransferStart \<longleftrightarrow>
      (\<exists>x. r = Some x \<and> flw = TOP_UP \<and> o_status x = FUNDED \<and> o_userClaimedPaidAt x = None)) \<and>
   (sep24Status r flw \<in> {PendingUser, PendingUserTransferStart} \<longrightarrow>
      (\<exists>x a. r = Some x \<and> userAction now (flw = WITHDRAW) x = Some a))"
proof (cases r)
  case None
  then show ?thesis by (simp add: sep24Status_def SEP24_EMITTED_STATUSES_def)
next
  case (Some x)
  show ?thesis
    by (cases flw; cases "o_status x") (simp_all add: Some sep24Status_def SEP24_EMITTED_STATUSES_def userAction_def Let_def)
qed

theorem sep24_status_tells_the_truth_witness:
  "\<exists>a. userAction 0 False (demo_order\<lparr>o_status := FUNDED\<rparr>) = Some a"
proof -
  have "sep24Status (Some (demo_order\<lparr>o_status := FUNDED\<rparr>)) TOP_UP = PendingUserTransferStart" by (simp add: sep24Status_def)
  then show ?thesis using sep24_status_tells_the_truth [of "Some (demo_order\<lparr>o_status := FUNDED\<rparr>)" TOP_UP 0] by auto
qed

section \<open>Who may use the popup\<close>

lemma readInteractiveToken_Inr:
  "readInteractiveToken j now token i use = Inr (account, cap) \<longleftrightarrow>
     (\<exists>c. jwt_verify j now token = Some c \<and> cl_sub c = i \<and> cl_use c = use \<and> cl_acct c = Some account \<and> account \<noteq> [] \<and>
        cap = (case cl_abs c of Some a \<Rightarrow> a | None \<Rightarrow> 0) \<and> (0 < cap \<longrightarrow> now div 1000 < cap))"
  by (auto simp: readInteractiveToken_def Let_def split: option.splits)

lemma opened_by_Inr:
  "opened_by env j now i token use d = Inr t \<longleftrightarrow>
     (\<exists>cap. readInteractiveToken j now token i use = Inr (tx_stellarAccount t, cap)) \<and> find_sep24 d i = Some t \<and>
     lookupPerson env d (tx_stellarAccount t) \<noteq> None"
  by (auto simp: opened_by_def split: sum.splits option.splits if_splits)

lemma interactiveState_Inr:
  assumes "interactiveState env j now i token d = (d1, Inr st)"
  shows "opened_by env j now i token SessionUse d = Inr (ps_row st)"
  using assms by (auto simp: interactiveState_def Let_def split: sum.splits prod.splits)

lemma opened_state: "opened_by env j now i token SessionUse d = Inr t \<Longrightarrow> \<exists>d1 st. interactiveState env j now i token d = (d1, Inr st) \<and> ps_row st = t"
  by (auto simp: interactiveState_def Let_def split: prod.splits)

lemma minted_reads:
  assumes "jwt_lawful j" "account \<noteq> []" "0 \<le> now" "now div 1000 \<le> later div 1000" "later div 1000 < now div 1000 + ttl" "ttl \<le> SEP24_INTERACTIVE_ABSOLUTE_TTL_SECS"
  shows "readInteractiveToken j later (mintInteractiveToken j now i account ttl use) i use = Inr (account, now div 1000 + SEP24_INTERACTIVE_ABSOLUTE_TTL_SECS)"
  using assms by (auto simp: readInteractiveToken_Inr mintInteractiveToken_def jwt_lawful_def)


text \<open>A JWT library for the examples: the claims written out, each character after a mark, and read back.\<close>

definition write_fields :: "string list \<Rightarrow> string" where
  "write_fields fs = concat (map (\<lambda>s. concat (map (\<lambda>c. [CHR ''a'', c]) s) @ ''b'') fs)"

fun read_fields :: "string \<Rightarrow> string \<Rightarrow> string list" where
  "read_fields cur (m # s) =
     (if m = CHR ''b'' then cur # read_fields [] s else case s of [] \<Rightarrow> [] | c # r \<Rightarrow> read_fields (cur @ [c]) r)"
| "read_fields cur [] = []"

definition read_int :: "string \<Rightarrow> int" where
  "read_int s = (if take 1 s = ''-'' then - int (digits_val (drop 1 s)) else int (digits_val s))"

definition demo_jwt :: jwt where
  "demo_jwt =
     \<lparr>jwt_sign = (\<lambda>c. write_fields [cl_sub c, (case cl_acct c of None \<Rightarrow> [] | Some a \<Rightarrow> CHR ''s'' # a), (if cl_use c = LinkUse then ''l'' else ''s''),
        (case cl_abs c of None \<Rightarrow> [] | Some a \<Rightarrow> CHR ''s'' # dec_int a), dec_int (cl_exp c)]),
      jwt_verify = (\<lambda>now tok. case read_fields [] tok of
        [sub, acct, use, absolute, expiry] \<Rightarrow>
          if now div 1000 < read_int expiry
          then Some \<lparr>cl_sub = sub, cl_acct = (if acct = [] then None else Some (tl acct)), cl_use = (if use = ''l'' then LinkUse else SessionUse),
            cl_abs = (if absolute = [] then None else Some (read_int (tl absolute))), cl_exp = read_int expiry\<rparr>
          else None
      | _ \<Rightarrow> None)\<rparr>"

lemma read_field: "read_fields cur (concat (map (\<lambda>c. [CHR ''a'', c]) s) @ CHR ''b'' # r) = (cur @ s) # read_fields [] r"
  by (induction s arbitrary: cur) auto

lemma read_write_fields: "read_fields [] (write_fields fs) = fs"
proof (induction fs)
  case (Cons f fs)
  have "write_fields (f # fs) = concat (map (\<lambda>c. [CHR ''a'', c]) f) @ CHR ''b'' # write_fields fs" by (simp add: write_fields_def)
  then show ?case using Cons read_field [of "[]" f "write_fields fs"] by simp
qed (simp add: write_fields_def)

lemma read_dec_int: "read_int (dec_int n) = n"
proof -
  have "take 1 (dec_nat k) \<noteq> ''-''" for k
    using dec_nat_digits [of "CHR ''-''" k] dec_nat_not_Nil [of k] by (cases "dec_nat k") (auto simp: is_digit_def)
  then show ?thesis by (simp add: dec_int_def read_int_def)
qed

lemma demo_jwt_lawful: "jwt_lawful demo_jwt"
proof -
  have "jwt_verify demo_jwt now (jwt_sign demo_jwt c) = (if now div 1000 < cl_exp c then Some c else None)" for now c
    by (cases c; cases "cl_use c") (auto simp: demo_jwt_def read_write_fields read_dec_int split: option.splits)
  then show ?thesis by (simp add: jwt_lawful_def)
qed

definition deposit_tx :: sep24_transaction where
  "deposit_tx = \<lparr>tx_id = ''s1'', tx_personId = ''p1'', tx_stellarAccount = ''GU'', tx_assetCode = ''USDC'', tx_flow = TOP_UP,
     tx_orderId = Some ''o1'', tx_startedAt = 0\<rparr>"

definition popup_db :: db where
  "popup_db = empty_db\<lparr>db_sep24 := [deposit_tx], db_persons := [\<lparr>person_id = ''p1'', person_email = None\<rparr>],
     db_links := [\<lparr>w_stellarAddress = ''GU'', w_personId = ''p1'', w_authMethod = SEP10, w_status = ACTIVE, w_provenAt = 0\<rparr>],
     db_orders := [demo_order\<lparr>o_status := FUNDED\<rparr>], db_lps := [demo_lp\<lparr>lp_alertEmail := Some ''l@x''\<rparr>]\<rparr>"

abbreviation popup_link :: string where
  "popup_link \<equiv> mintInteractiveToken demo_jwt 1700000000000 ''s1'' ''GU'' SEP24_INTERACTIVE_LINK_TTL_SECS LinkUse"

abbreviation popup_session :: string where
  "popup_session \<equiv> mintInteractiveToken demo_jwt 1700000000000 ''s1'' ''GU'' SEP24_INTERACTIVE_TTL_SECS SessionUse"

lemma popup_db_facts:
  "find_sep24 popup_db ''s1'' = Some deposit_tx" "lookupPerson demo_env popup_db ''GU'' \<noteq> None" "tx_stellarAccount deposit_tx = ''GU''"
  by (simp_all add: popup_db_def find_sep24_def find_row_def deposit_tx_def lookupPerson_def accountOf_def find_link_def find_person_def)

lemma popup_link_opens: "opened_by demo_env demo_jwt 1700000000000 ''s1'' popup_link LinkUse popup_db = Inr deposit_tx"
  using minted_reads [OF demo_jwt_lawful, of "''GU''" 1700000000000 1700000000000 SEP24_INTERACTIVE_LINK_TTL_SECS "''s1''" LinkUse] popup_db_facts
  by (simp add: opened_by_Inr SEP24_INTERACTIVE_LINK_TTL_SECS_def SEP24_INTERACTIVE_ABSOLUTE_TTL_SECS_def)

lemma popup_session_opens: "opened_by demo_env demo_jwt 1700000000000 ''s1'' popup_session SessionUse popup_db = Inr deposit_tx"
  using minted_reads [OF demo_jwt_lawful, of "''GU''" 1700000000000 1700000000000 SEP24_INTERACTIVE_TTL_SECS "''s1''" SessionUse] popup_db_facts
  by (simp add: opened_by_Inr SEP24_INTERACTIVE_TTL_SECS_def SEP24_INTERACTIVE_ABSOLUTE_TTL_SECS_def)


section \<open>The claim and its notice\<close>

lemma claim_row_simps [simp]:
  "o_id (claim_row now x) = o_id x" "o_lpId (claim_row now x) = o_lpId x" "order_key (claim_row now x) = order_key x"
  by (simp_all add: claim_row_def order_key_def)

interpretation claim_latch: keyed_latch "\<lambda>x. o_flow x = TOP_UP \<and> o_status x = FUNDED \<and> o_userClaimedPaidAt x = None" "claim_row now" o_id for now
  by unfold_locales (simp_all add: claim_row_def)

interpretation claim_writer: order_writer "\<lambda>(orderId, now) d. upd_orders (update_many (claimable_row orderId) (claim_row now)) d"
proof (rule order_writerI, clarify)
  fix orderId now d
  show "order_step d (upd_orders (update_many (claimable_row orderId) (claim_row now)) d)"
    by (rule order_step_update) (auto simp: row_kept_def order_ok_def claim_row_def claimable_row_def order_key_def)
qed

lemma claimable_split: "claimable_row orderId = (\<lambda>x. o_id x = orderId \<and> o_flow x = TOP_UP \<and> o_status x = FUNDED \<and> o_userClaimedPaidAt x = None)"
  by (auto simp: claimable_row_def)

lemma skipped_or_stored: "\<exists>n \<in> set (create_skip key r t). key n = key r"
  by (auto simp: create_skip_def create_unique_def)

lemma enqueue_frame [simp]:
  "db_orders (enqueue env kind p k now d) = db_orders d" "db_lps (enqueue env kind p k now d) = db_lps d"
  "db_notifications (enqueue env kind p k now d) = db_notifications d"
  by (simp_all add: enqueue_def)

lemma enqueue_has: "\<exists>m \<in> set (db_outbox (enqueue env kind p (Some k) now d)). x_dedupeKey m = Some k"
proof -
  define r where "r = \<lparr>x_id = sdk_uuid env (''outbox:'' @ k), x_kind = kind, x_payload = p, x_dedupeKey = Some k, x_status = PENDING, x_attempts = 0,
    x_lastError = None, x_createdAt = now, x_sentAt = None, x_nextAttemptAt = now\<rparr>"
  have "x_dedupeKey r = Some k" "db_outbox (enqueue env kind p (Some k) now d) = create_skip x_dedupeKey r (db_outbox d)"
    by (simp_all add: enqueue_def r_def)
  then show ?thesis using skipped_or_stored [of x_dedupeKey r "db_outbox d"] by simp
qed

text \<open>The claim, written with the notice to the provider.\<close>

definition claim_stands :: "db \<Rightarrow> db \<Rightarrow> string \<Rightarrow> ms \<Rightarrow> bool" where
  "claim_stands d d' orderId now \<longleftrightarrow>
     (\<exists>x l. find_order d orderId = Some x \<and> claimable_row orderId x \<and> order_lp d x = Some l \<and>
        db_orders d' = update_many (claimable_row orderId) (claim_row now) (db_orders d) \<and>
        (\<exists>n \<in> set (db_notifications d'). n_address n = lp_stellarAddress l \<and> n_orderId n = Some orderId \<and> n_event n = ''USER_CLAIMED_PAID'') \<and>
        (truthy_str (lp_alertEmail l) \<longrightarrow>
           (\<exists>m \<in> set (db_outbox d'). x_dedupeKey m = Some (''email:'' @ orderId @ '':USER_CLAIMED_PAID:'' @ lp_id l))))"

lemma claim_tx_unclaimable:
  assumes "\<And>x. find_order d orderId = Some x \<Longrightarrow> \<not> claimable_row orderId x" "distinct (map o_id (db_orders d))"
  shows "\<exists>d'. claim_tx env now orderId d = (d', Inr ()) \<and> db_orders d' = db_orders d"
proof -
  have "\<not> claimable_row orderId y" if "y \<in> set (db_orders d)" for y
    using find_row_distinct [OF assms(2) that] assms(1) by (auto simp: find_order_def claimable_row_def)
  then have "count_rows (claimable_row orderId) (db_orders d) = 0" by (simp add: count_rows_0)
  then show ?thesis by (auto simp: claim_tx_def Let_def update_many_count_0)
qed

text \<open>The claim of a claimable order with its provider on file, and without.\<close>

definition with_notice :: "env \<Rightarrow> ms \<Rightarrow> string \<Rightarrow> lp \<Rightarrow> order \<Rightarrow> db \<Rightarrow> db" where
  "with_notice env now orderId l x d =
     (let d2 = (if truthy_str (lp_alertEmail l)
                then enqueue env EMAIL_OUTBOX_KIND (EmailPayload None (Some (lp_id l)) claim_subject (claim_text x))
                       (Some (''email:'' @ orderId @ '':USER_CLAIMED_PAID:'' @ lp_id l)) now d else d)
      in d2\<lparr>db_notifications := create_skip n_key (claim_notice env now l x) (db_notifications d2)\<rparr>)"

lemma claim_tx_claimable:
  assumes "distinct (map o_id (db_orders d))" "find_order d orderId = Some x" "claimable_row orderId x"
    and d1: "d1 = upd_orders (update_many (claimable_row orderId) (claim_row now)) d"
  shows "claim_tx env now orderId d =
    (case if truthy_str (o_lpId x) then order_lp d x else None of
       None \<Rightarrow> (d1, Inl (ServiceUnavailableException ''this deposit has no provider on file to notify of the claim right now''))
     | Some l \<Rightarrow> (with_notice env now orderId l (claim_row now x) d1, Inr ()))"
proof -
  have c: "count_rows (claimable_row orderId) (db_orders d) = 1"
    using claim_latch.claim_counts [OF assms(1), of orderId x] assms(2,3) by (simp add: find_order_def claimable_row_def claimable_split)
  have f: "find_order d1 orderId = Some (claim_row now x)"
    using assms(2,3) by (simp add: d1 find_order_def claim_latch.find_after_write)
  have "find_lp d1 = find_lp d" by (rule ext) (simp add: d1 find_lp_def)
  then have "order_lp d1 (claim_row now x) = order_lp d x" by (simp add: order_lp_def)
  then show ?thesis using c f
    by (cases "truthy_str (o_lpId x)"; cases "order_lp d x") (simp_all add: claim_tx_def with_notice_def Let_def d1 [symmetric])
qed

lemma claim_with_notice_stands:
  assumes "find_order d orderId = Some x" "claimable_row orderId x" "order_lp d x = Some l"
    and d': "d' = with_notice env now orderId l (claim_row now x) (upd_orders (update_many (claimable_row orderId) (claim_row now)) d)"
  shows "claim_stands d d' orderId now"
proof -
  have i: "o_id x = orderId" using assms(2) by (simp add: claimable_row_def)
  obtain n where n: "n \<in> set (db_notifications d')" "n_key n = n_key (claim_notice env now l (claim_row now x))"
    using skipped_or_stored [of n_key "claim_notice env now l (claim_row now x)"] by (auto simp: d' with_notice_def Let_def)
  have "n_address n = lp_stellarAddress l \<and> n_orderId n = Some orderId \<and> n_event n = ''USER_CLAIMED_PAID''"
    using n(2) i by (auto simp: n_key_def claim_notice_def)
  moreover have "\<exists>m \<in> set (db_outbox d'). x_dedupeKey m = Some (''email:'' @ orderId @ '':USER_CLAIMED_PAID:'' @ lp_id l)" if "truthy_str (lp_alertEmail l)"
    using enqueue_has that by (simp add: d' with_notice_def)
  moreover have "db_orders d' = update_many (claimable_row orderId) (claim_row now) (db_orders d)" by (simp add: d' with_notice_def Let_def)
  ultimately show ?thesis unfolding claim_stands_def using assms(1-3) n(1) by blast
qed

lemma claim_tx_result:
  assumes "distinct (map o_id (db_orders d))" "claim_tx env now orderId d = (d', r)"
  shows "(\<exists>e. r = Inl e) \<or> r = Inr () \<and> db_orders d' = db_orders d \<or> r = Inr () \<and> claim_stands d d' orderId now"
proof (cases "\<exists>x. find_order d orderId = Some x \<and> claimable_row orderId x")
  case False
  then show ?thesis using claim_tx_unclaimable [of d orderId env now] assms by (metis old.prod.inject)
next
  case True
  then obtain x where x: "find_order d orderId = Some x" "claimable_row orderId x" by blast
  show ?thesis
    using claim_tx_claimable [OF assms(1) x refl, of env now] assms(2) claim_with_notice_stands [OF x _ refl, of _ env now]
    by (cases "truthy_str (o_lpId x)"; cases "order_lp d x") auto
qed

text \<open>C33 (claimPaid): a depositor's claim of having paid is recorded together with the notice to the provider, or not at all.  The handler changes
  the orders only for a deposit whose escrow is funded, not yet claimed and not yet refundable; then exactly its own order
  carries the claim, the provider has a notification naming the order, and, when the provider left an address, an email
  waits in the outbox.  A claim of a claimable order with its provider on file does go through.\<close>

theorem claim_recorded_with_notice:
  assumes "interactiveState env j now i token d = (d1, Inr st)" "distinct (map o_id (db_orders (meanwhile d1)))"
    and "claimPaid env j now meanwhile i token d = (d', r)"
  shows "(db_orders d' \<in> {db_orders d1, db_orders (meanwhile d1)} \<or>
          r = Inr () \<and> tx_flow (ps_row st) = TOP_UP \<and>
          (\<exists>orderId x. tx_orderId (ps_row st) = Some orderId \<and> ps_order st = Some x \<and> o_status x = FUNDED \<and> o_userClaimedPaidAt x = None \<and>
             now div 1000 \<le> refundOpensAt x \<and> claim_stands (meanwhile d1) d' orderId now)) \<and>
         (tx_flow (ps_row st) = TOP_UP \<and> tx_orderId (ps_row st) = Some orderId \<and> orderId \<noteq> [] \<and> ps_order st = Some x \<and> o_status x = FUNDED \<and>
          o_userClaimedPaidAt x = None \<and> now div 1000 \<le> refundOpensAt x \<and> find_order (meanwhile d1) orderId = Some y \<and>
          claimable_row orderId y \<and> truthy_str (o_lpId y) \<and> order_lp (meanwhile d1) y \<noteq> None \<longrightarrow>
            r = Inr () \<and> claim_stands (meanwhile d1) d' orderId now)"
proof -
  consider (quiet) "d' = d1"
    | (run) orderId x where "tx_orderId (ps_row st) = Some orderId" "ps_order st = Some x" "tx_flow (ps_row st) = TOP_UP" "o_status x = FUNDED"
        "o_userClaimedPaidAt x = None" "now div 1000 \<le> refundOpensAt x" "transaction (claim_tx env now orderId) (meanwhile d1) = (d', r)"
    using assms(1,3) by (auto simp: claimPaid_def split: option.splits if_splits)
  then have "db_orders d' \<in> {db_orders d1, db_orders (meanwhile d1)} \<or>
          r = Inr () \<and> tx_flow (ps_row st) = TOP_UP \<and>
          (\<exists>orderId x. tx_orderId (ps_row st) = Some orderId \<and> ps_order st = Some x \<and> o_status x = FUNDED \<and> o_userClaimedPaidAt x = None \<and>
             now div 1000 \<le> refundOpensAt x \<and> claim_stands (meanwhile d1) d' orderId now)"
  proof cases
    case run
    then show ?thesis using claim_tx_result [OF assms(2), of env now orderId] transaction_Inl transaction_Inr
      by (cases r) fastforce+
  qed simp
  moreover have "r = Inr () \<and> claim_stands (meanwhile d1) d' orderId now"
    if h: "tx_flow (ps_row st) = TOP_UP" "tx_orderId (ps_row st) = Some orderId" "orderId \<noteq> []" "ps_order st = Some x" "o_status x = FUNDED"
      "o_userClaimedPaidAt x = None" "now div 1000 \<le> refundOpensAt x" "find_order (meanwhile d1) orderId = Some y"
      "claimable_row orderId y" "truthy_str (o_lpId y)" "order_lp (meanwhile d1) y \<noteq> None"
  proof -
    obtain l where l: "order_lp (meanwhile d1) y = Some l" using h(11) by blast
    have t: "claim_tx env now orderId (meanwhile d1) =
        (with_notice env now orderId l (claim_row now y) (upd_orders (update_many (claimable_row orderId) (claim_row now)) (meanwhile d1)), Inr ())"
      using claim_tx_claimable [OF assms(2) h(8,9) refl, of env now] h(10) l by simp
    have "transaction (claim_tx env now orderId) (meanwhile d1) = (d', r)" using assms(1,3) h(1-7) by (simp add: claimPaid_def)
    then show ?thesis using t claim_with_notice_stands [OF h(8,9) l refl, of env now] by (simp add: transaction_def)
  qed
  ultimately show ?thesis by blast
qed

lemma popup_opened:
  "\<exists>st. interactiveState demo_env demo_jwt 1700000000000 ''s1'' popup_session popup_db = (popup_db, Inr st) \<and>
     ps_row st = deposit_tx \<and> ps_order st = Some (demo_order\<lparr>o_status := FUNDED\<rparr>)"
proof -
  have "tx_order popup_db deposit_tx = Some (demo_order\<lparr>o_status := FUNDED\<rparr>)"
    by (simp add: tx_order_def popup_db_def deposit_tx_def find_order_def find_row_def)
  moreover have "refreshOrderStatus demo_env 1700000000000 i x d = (d, x)" for i x d by (simp add: refreshOrderStatus_def)
  ultimately show ?thesis using popup_session_opens by (simp add: interactiveState_def)
qed

theorem claim_recorded_with_notice_witness:
  "\<exists>d'. claimPaid demo_env demo_jwt 1700000000000 id ''s1'' popup_session popup_db = (d', Inr ()) \<and> claim_stands popup_db d' ''o1'' 1700000000000"
proof -
  let ?x = "demo_order\<lparr>o_status := FUNDED\<rparr>"
  obtain st where st: "interactiveState demo_env demo_jwt 1700000000000 ''s1'' popup_session popup_db = (popup_db, Inr st)"
      "ps_row st = deposit_tx" "ps_order st = Some ?x" using popup_opened by blast
  obtain d' r where c: "claimPaid demo_env demo_jwt 1700000000000 id ''s1'' popup_session popup_db = (d', r)" by (metis surj_pair)
  have d: "distinct (map o_id (db_orders (id popup_db)))" by (simp add: popup_db_def)
  have "tx_flow deposit_tx = TOP_UP" "tx_orderId deposit_tx = Some ''o1''" by (simp_all add: deposit_tx_def)
  moreover have "o_userClaimedPaidAt ?x = None" "truthy_str (o_lpId ?x)" "claimable_row ''o1'' ?x"
    by (simp_all add: claimable_row_def demo_order_def)
  moreover have "1700000000000 div 1000 \<le> refundOpensAt ?x" by (simp add: refundOpensAt_def demo_order_def ATTEST_GRACE_SECS_def)
  moreover have "find_order popup_db ''o1'' = Some ?x" "order_lp popup_db ?x \<noteq> None"
    by (simp_all add: popup_db_def find_order_def find_row_def order_lp_def find_lp_def demo_order_def demo_lp_def)
  ultimately have "r = Inr () \<and> claim_stands popup_db d' ''o1'' 1700000000000"
    using conjunct2 [OF claim_recorded_with_notice [OF st(1) d c, of "''o1''" ?x ?x]] st(2,3) by simp
  then show ?thesis using c by blast
qed

section \<open>One order per transaction\<close>

interpretation link_latch: keyed_latch "\<lambda>t. tx_orderId t = None \<and> tx_stellarAccount t = account" "\<lambda>t. t\<lparr>tx_orderId := Some orderId\<rparr>" tx_id for account orderId
  by unfold_locales simp_all

interpretation undo_latch: keyed_latch "\<lambda>x. o_status x = MATCHED" cancel_row o_id
  by unfold_locales (simp_all add: cancel_row_def)

lemma link_or_undo_links:
  assumes "distinct (map tx_id (db_sep24 d))" "find_sep24 d i = Some t" "tx_stellarAccount t = account" "tx_orderId t = None"
    and d': "d' = link_or_undo i account orderId d"
  shows "find_sep24 d' i = Some (t\<lparr>tx_orderId := Some orderId\<rparr>)" "db_orders d' = db_orders d"
    "map tx_id (db_sep24 d') = map tx_id (db_sep24 d)"
proof -
  have "count_rows (\<lambda>t. tx_id t = i \<and> tx_orderId t = None \<and> tx_stellarAccount t = account) (db_sep24 d) = 1"
    using link_latch.claim_counts [OF assms(1) assms(2) [unfolded find_sep24_def], of account] assms(3,4) by simp
  then have "d' = d\<lparr>db_sep24 := update_many (\<lambda>t. tx_id t = i \<and> tx_orderId t = None \<and> tx_stellarAccount t = account) (\<lambda>t. t\<lparr>tx_orderId := Some orderId\<rparr>) (db_sep24 d)\<rparr>"
    by (simp add: d' link_or_undo_def link_order_def)
  then show "find_sep24 d' i = Some (t\<lparr>tx_orderId := Some orderId\<rparr>)" "db_orders d' = db_orders d"
    "map tx_id (db_sep24 d') = map tx_id (db_sep24 d)"
    using link_latch.claimed_row [of i "db_sep24 d" t account orderId] assms(2-4)
    by (simp_all add: find_sep24_def update_many_def)
qed

lemma link_or_undo_undoes:
  assumes "distinct (map tx_id (db_sep24 d))" "find_sep24 d i = Some t" "tx_orderId t \<noteq> None"
    and d': "d' = link_or_undo i account orderId d"
  shows "find_sep24 d' i = Some t" "db_orders d' = update_many (\<lambda>x. o_id x = orderId \<and> o_status x = MATCHED) cancel_row (db_orders d)"
proof -
  have "count_rows (\<lambda>t. tx_id t = i \<and> tx_orderId t = None \<and> tx_stellarAccount t = account) (db_sep24 d) = 0"
    using link_latch.claim_counts [OF assms(1) assms(2) [unfolded find_sep24_def], of account] assms(3) by simp
  then have "d' = undo_order orderId d" by (simp add: d' link_or_undo_def link_order_def update_many_count_0)
  then show "find_sep24 d' i = Some t" "db_orders d' = update_many (\<lambda>x. o_id x = orderId \<and> o_status x = MATCHED) cancel_row (db_orders d)"
    using assms(2) by (simp_all add: undo_order_def find_sep24_def)
qed

text \<open>However two submissions of an amount race, a SEP-24 transaction ends with one order.  The
  first of them to link its order keeps it; the order of the other, still MATCHED, is cancelled so that it frees the
  provider's capacity, and no other order is touched.\<close>

theorem one_order_per_transaction:
  assumes "distinct (map tx_id (db_sep24 d))" "find_sep24 d i = Some t" "tx_stellarAccount t = account" "tx_orderId t = None"
    and "first \<noteq> second" "find_order d second = Some y" "o_status y = MATCHED"
    and "d' = link_or_undo i account second (link_or_undo i account first d)"
  shows "find_sep24 d' i = Some (t\<lparr>tx_orderId := Some first\<rparr>) \<and> find_order d' second = Some (cancel_row y) \<and>
         o_status (cancel_row y) = CANCELLED \<and> (k \<noteq> second \<longrightarrow> find_order d' k = find_order d k)"
proof -
  note l = link_or_undo_links [OF assms(1-4) refl, of first]
  have "db_orders d' = update_many (\<lambda>x. o_id x = second \<and> o_status x = MATCHED) cancel_row (db_orders d) \<and> find_sep24 d' i = Some (t\<lparr>tx_orderId := Some first\<rparr>)"
    using link_or_undo_undoes [OF _ l(1) _ assms(8)] assms(1) by (simp add: l)
  moreover have "find_order d' k = find_order d k" if "k \<noteq> second"
    unfolding find_order_def conjunct1 [OF calculation] using that by (intro cancel_put.find_other) auto
  moreover have "find_order d' second = Some (cancel_row y)"
    unfolding find_order_def conjunct1 [OF calculation(1)] using assms(6,7) by (intro undo_latch.claimed_row) (simp_all add: find_order_def)
  ultimately show ?thesis by (simp add: cancel_row_def)
qed

theorem one_order_per_transaction_witness:
  "\<exists>d t d'. find_sep24 d ''s1'' = Some t \<and> tx_orderId t = None \<and>
     d' = link_or_undo ''s1'' ''GU'' ''o2'' (link_or_undo ''s1'' ''GU'' ''o1'' d) \<and> find_sep24 d' ''s1'' = Some (t\<lparr>tx_orderId := Some ''o1''\<rparr>) \<and>
     find_order d' ''o1'' = Some demo_order"
proof -
  let ?t = "deposit_tx\<lparr>tx_orderId := None\<rparr>" and ?y = "demo_order\<lparr>o_id := ''o2''\<rparr>"
  define d where "d = popup_db\<lparr>db_sep24 := [?t], db_orders := [demo_order, ?y]\<rparr>"
  have f: "find_sep24 d ''s1'' = Some ?t" "find_order d ''o2'' = Some ?y" "find_order d ''o1'' = Some demo_order" "distinct (map tx_id (db_sep24 d))"
    by (simp_all add: d_def find_sep24_def find_order_def find_row_def deposit_tx_def)
  have "tx_stellarAccount ?t = ''GU''" "o_status ?y = MATCHED" by (simp_all add: deposit_tx_def)
  then show ?thesis
    using one_order_per_transaction [OF f(4,1) _ _ _ f(2), of "''GU''" "''o1''" _ "''o1''", OF _ _ _ _ refl] f(1,3) by fastforce
qed

end
