(* ===== verification/Auth.thy ===== *)
theory Auth
  imports People
begin

text \<open>
  How a caller proves who they are (\<open>auth/\<close> and \<open>sep10/\<close>): the two doors that hand out tokens, \<open>AuthService.verify\<close> for the
  applications and \<open>Sep10Service.issueToken\<close> for wallets, the loading of an account's signers, and what a token admits to
  (\<open>JwtStrategy.validate\<close>, \<open>resolveRole\<close>, \<open>RolesGuard\<close>, \<open>TokenClassInterceptor\<close>).  The HMAC, the signing of a token, Horizon and
  the challenge functions of the Stellar SDK are parameters.
\<close>

section \<open>Roles and token classes\<close>

datatype role = AdminRole | LpRole | UserRole

datatype token_class = SessionClass | Sep10Class

definition TOKEN_CLASSES :: "(string \<times> token_class) list" where
  "TOKEN_CLASSES = [(''session'', SessionClass), (''sep10'', Sep10Class)]"

definition MAY_PROMOTE :: "token_class list" where "MAY_PROMOTE = [SessionClass]"
definition MAY_USE_INTERNAL_API :: "token_class list" where "MAY_USE_INTERNAL_API = [SessionClass]"

text \<open>The class a claim names, or none.\<close>

definition isTokenClass :: "string option \<Rightarrow> token_class option" where
  "isTokenClass v = Option.bind v (map_of TOKEN_CLASSES)"

definition resolveRole :: "env \<Rightarrow> db \<Rightarrow> string \<Rightarrow> token_class \<Rightarrow> role outcome" where
  "resolveRole env d a cls =
     (case find_link d (accountOf env a) of
        None \<Rightarrow> Inl (UnauthorizedException ''address is not a proven wallet'')
      | Some w \<Rightarrow>
          if w_status w \<noteq> ACTIVE then Inl (UnauthorizedException ''address is not a proven wallet'')
          else if cls \<notin> set MAY_PROMOTE then Inr UserRole
          else if a \<in> set (cfg_adminAddresses env) then Inr AdminRole
          else case find_row lp_stellarAddress a (db_lps d) of
                 Some l \<Rightarrow> Inr (if lp_status l = LP_APPROVED then LpRole else UserRole)
               | None \<Rightarrow> Inr UserRole)"

record token_payload =
  tp_sub :: string
  tp_role :: role
  tp_cls :: token_class

section \<open>The session door\<close>

definition PREFIX :: string where "PREFIX = ''lolipay-auth''"

definition challenge_payload :: "string \<Rightarrow> string \<Rightarrow> string \<Rightarrow> string" where
  "challenge_payload a nonce expiry = PREFIX @ '':'' @ a @ '':'' @ nonce @ '':'' @ expiry"

definition issueChallenge :: "env \<Rightarrow> (string \<Rightarrow> string) \<Rightarrow> ms \<Rightarrow> string \<Rightarrow> string \<Rightarrow> string" where
  "issueChallenge env mac now nonce a =
     (let payload = challenge_payload a nonce (dec_int (now + cfg_challengeTtl env * 1000))
      in payload @ '':'' @ mac payload)"

text \<open>The largest instant a JavaScript \<open>Date\<close> holds; a row with a later one is refused by the client library.\<close>

definition MAX_DATE :: int where "MAX_DATE = 8640000000000000"

definition integer_value :: "jsnum \<Rightarrow> int option" where
  "integer_value v = (case v of Fin r \<Rightarrow> if r = of_int \<lfloor>r\<rfloor> then Some \<lfloor>r\<rfloor> else None | _ \<Rightarrow> None)"

text \<open>What a challenge presented for an address says, once the anchor recognises it: its nonce and when it expires.\<close>

definition read_challenge :: "env \<Rightarrow> (string \<Rightarrow> string) \<Rightarrow> ms \<Rightarrow> string \<Rightarrow> string \<Rightarrow> string \<Rightarrow> (string \<times> ms) outcome" where
  "read_challenge env mac now a challenge signature =
     (case split_on (CHR '':'') challenge of
        [tag, addr, nonce, expiry, code] \<Rightarrow>
          if tag \<noteq> PREFIX then Inl (UnauthorizedException ''malformed challenge'')
          else if code \<noteq> mac (challenge_payload addr nonce expiry) then Inl (UnauthorizedException ''challenge expired or unknown'')
          else (case integer_value (to_number expiry) of
                  None \<Rightarrow> Inl (UnauthorizedException ''challenge expired or unknown'')
                | Some e \<Rightarrow>
                    if e \<le> now then Inl (UnauthorizedException ''challenge expired or unknown'')
                    else if addr \<noteq> a then Inl (UnauthorizedException ''address mismatch'')
                    else if \<not> sdk_verifySep53 env a challenge signature then Inl (UnauthorizedException ''bad signature'')
                    else Inr (nonce, e))
      | _ \<Rightarrow> Inl (UnauthorizedException ''malformed challenge''))"

text \<open>\<open>meanwhile\<close> is what others write between the read and the insert of \<open>proveWallet\<close>.\<close>

definition verify ::
  "env \<Rightarrow> (string \<Rightarrow> string) \<Rightarrow> (token_payload \<Rightarrow> string) \<Rightarrow> string \<Rightarrow> (db \<Rightarrow> db) \<Rightarrow> ms \<Rightarrow> string \<Rightarrow> string \<Rightarrow> string \<Rightarrow> (db, string) handler" where
  "verify env mac sign newId meanwhile now a challenge signature d =
     (case read_challenge env mac now a challenge signature of
        Inl e \<Rightarrow> (d, Inl e)
      | Inr (nonce, e) \<Rightarrow>
          if MAX_DATE < e then (d, Inl (UncaughtError ''invalid date''))
          else (case consume nonce e d of
            (d1, False) \<Rightarrow> (d1, Inl (UnauthorizedException ''this challenge has already been used''))
          | (d1, True) \<Rightarrow>
              (case proveWallet a SEP53 newId now d1 (meanwhile d1) of
                 (d2, Inl err) \<Rightarrow> (d2, Inl err)
               | (d2, Inr _) \<Rightarrow>
                   (case resolveRole env d2 a SessionClass of
                      Inl err \<Rightarrow> (d2, Inl err)
                    | Inr r \<Rightarrow> (d2, Inr (sign \<lparr>tp_sub = a, tp_role = r, tp_cls = SessionClass\<rparr>))))))"

section \<open>The signers of an account\<close>

record account_signer =
  as_key :: string
  as_weight :: int
  as_type :: string

record account_signers =
  ag_signers :: "account_signer list"
  ag_medThreshold :: int

text \<open>Horizon: what it answers at its root (status and network) and for an account (status, signers, medium threshold); none when the
  request fails or the answer cannot be read.\<close>

record horizon =
  hz_root :: "(int \<times> string option) option"
  hz_account :: "string \<Rightarrow> (int \<times> account_signer list option \<times> int option) option"

definition http_ok :: "int \<Rightarrow> bool" where
  "http_ok status = (200 \<le> status \<and> status \<le> 299)"

definition assertSameNetwork :: "string \<Rightarrow> horizon \<Rightarrow> bool \<Rightarrow> bool \<times> unit outcome" where
  "assertSameNetwork passphrase hz checked =
     (if checked then (True, Inr ())
      else case hz_root hz of
             None \<Rightarrow> (False, Inl (UncaughtError ''horizon could not be reached''))
           | Some (status, network) \<Rightarrow>
               if \<not> http_ok status then (False, Inl (UncaughtError ''horizon did not say which network it is''))
               else if network \<noteq> Some passphrase then (False, Inl (UncaughtError ''horizon is serving a different network''))
               else (True, Inr ()))"

text \<open>\<open>AccountSignersService.load\<close>: no account is \<open>Inr None\<close>.\<close>

definition load_signers :: "env \<Rightarrow> string \<Rightarrow> horizon \<Rightarrow> string \<Rightarrow> bool \<Rightarrow> bool \<times> account_signers option outcome" where
  "load_signers env passphrase hz a checked =
     (case assertSameNetwork passphrase hz checked of
        (checked', Inl e) \<Rightarrow> (checked', Inl e)
      | (checked', Inr _) \<Rightarrow>
          (checked', case hz_account hz (sdk_baseStellarAccount env a) of
             None \<Rightarrow> Inl (UncaughtError ''horizon could not be reached'')
           | Some (status, signers, threshold) \<Rightarrow>
               if status = 404 then Inr None
               else if \<not> http_ok status then Inl (UncaughtError ''horizon answered an error'')
               else (case threshold of
                       None \<Rightarrow> Inl (UncaughtError ''horizon returned no medium threshold'')
                     | Some m \<Rightarrow> Inr (Some \<lparr>ag_signers = (case signers of None \<Rightarrow> [] | Some l \<Rightarrow> l), ag_medThreshold = m\<rparr>))))"

section \<open>The wallet door\<close>

definition CHALLENGE_TIMEOUT_SECONDS :: secs where "CHALLENGE_TIMEOUT_SECONDS = 900"
definition MAX_MEMO_ID :: nat where "MAX_MEMO_ID = 18446744073709551615"

record sep10_config =
  sc_signer :: "string option"
  sc_homeDomain :: "string option"
  sc_webAuthDomain :: "string option"
  sc_passphrase :: string

text \<open>A challenge transaction as the SDK reads it, and the SDK functions the service calls: building one, reading one, and checking
  its signatures against one key or against a threshold.\<close>

record challenge_tx =
  ct_client :: string
  ct_memo :: "string option"
  ct_nonce :: string
  ct_maxTime :: secs

record web_auth =
  wa_isMuxed :: "string \<Rightarrow> bool"
  wa_build :: "string \<Rightarrow> string \<Rightarrow> string \<Rightarrow> secs \<Rightarrow> string \<Rightarrow> string \<Rightarrow> string option \<Rightarrow> string"
  wa_read :: "string \<Rightarrow> string \<Rightarrow> string + challenge_tx"
  wa_verifySigners :: "string \<Rightarrow> string \<Rightarrow> string list \<Rightarrow> string + unit"
  wa_verifyThreshold :: "string \<Rightarrow> string \<Rightarrow> int \<Rightarrow> account_signer list \<Rightarrow> string + unit"

definition isConfigured :: "sep10_config \<Rightarrow> bool" where
  "isConfigured c = (sc_signer c \<noteq> None \<and> truthy_str (sc_homeDomain c) \<and> truthy_str (sc_webAuthDomain c))"

definition requireSigner :: "sep10_config \<Rightarrow> string outcome" where
  "requireSigner c =
     (case sc_signer c of
        Some k \<Rightarrow> if isConfigured c then Inr k else Inl (ServiceUnavailableException ''this anchor is not configured for SEP-10'')
      | None \<Rightarrow> Inl (ServiceUnavailableException ''this anchor is not configured for SEP-10''))"

definition memo_refusal :: "bool \<Rightarrow> string option \<Rightarrow> http_error option" where
  "memo_refusal muxed memo =
     (case memo of
        None \<Rightarrow> None
      | Some m \<Rightarrow>
          if muxed then Some (BadRequestException ''memo may not be used with a muxed account'')
          else if m = [] \<or> \<not> list_all is_digit m \<or> MAX_MEMO_ID < digits_val m
          then Some (BadRequestException ''memo must be a 64-bit unsigned integer'')
          else None)"

definition buildChallenge :: "env \<Rightarrow> web_auth \<Rightarrow> sep10_config \<Rightarrow> string \<Rightarrow> string option \<Rightarrow> (string \<times> string) outcome" where
  "buildChallenge env wa c account memo =
     (case requireSigner c of
        Inl e \<Rightarrow> Inl e
      | Inr k \<Rightarrow>
          (let muxed = wa_isMuxed wa account in
           if \<not> muxed \<and> \<not> sdk_isValidEd25519PublicKey env account then Inl (BadRequestException ''account must be a Stellar address'')
           else case memo_refusal muxed memo of
                  Some e \<Rightarrow> Inl e
                | None \<Rightarrow>
                    Inr (wa_build wa k account (the (sc_homeDomain c)) CHALLENGE_TIMEOUT_SECONDS (sc_passphrase c) (the (sc_webAuthDomain c)) memo,
                         sc_passphrase c)))"

definition read_sep10 :: "web_auth \<Rightarrow> string \<Rightarrow> ms \<Rightarrow> string \<Rightarrow> challenge_tx outcome" where
  "read_sep10 wa serverKey now xdr =
     (case wa_read wa serverKey xdr of
        Inl m \<Rightarrow> Inl (BadRequestException m)
      | Inr t \<Rightarrow> if now div 1000 > ct_maxTime t then Inl (BadRequestException ''this challenge has expired'') else Inr t)"

definition check_signatures :: "env \<Rightarrow> web_auth \<Rightarrow> string \<Rightarrow> string \<Rightarrow> challenge_tx \<Rightarrow> account_signers option \<Rightarrow> string + unit" where
  "check_signatures env wa serverKey xdr t account =
     (case account of
        None \<Rightarrow> wa_verifySigners wa serverKey xdr [sdk_baseStellarAccount env (ct_client t)]
      | Some g \<Rightarrow> wa_verifyThreshold wa serverKey xdr (ag_medThreshold g) (ag_signers g))"

definition token_subject :: "challenge_tx \<Rightarrow> string" where
  "token_subject t = (if truthy_str (ct_memo t) then ct_client t @ '':'' @ the (ct_memo t) else ct_client t)"

text \<open>The whole of \<open>issueToken\<close>; the state is the database and whether Horizon's network has been checked.\<close>

definition issueToken ::
  "env \<Rightarrow> web_auth \<Rightarrow> horizon \<Rightarrow> sep10_config \<Rightarrow> (token_payload \<Rightarrow> string) \<Rightarrow> string \<Rightarrow> (db \<Rightarrow> db) \<Rightarrow> ms \<Rightarrow> string \<Rightarrow> (db \<times> bool, string) handler" where
  "issueToken env wa hz c sign newId meanwhile now xdr s =
     (case requireSigner c of
        Inl e \<Rightarrow> (s, Inl e)
      | Inr k \<Rightarrow>
     (case read_sep10 wa k now xdr of
        Inl e \<Rightarrow> (s, Inl e)
      | Inr t \<Rightarrow>
     (case load_signers env (sc_passphrase c) hz (ct_client t) (snd s) of
        (checked, Inl _) \<Rightarrow> ((fst s, checked), Inl (ServiceUnavailableException ''cannot reach the network to verify this account''))
      | (checked, Inr account) \<Rightarrow>
     (case check_signatures env wa k xdr t account of
        Inl m \<Rightarrow> ((fst s, checked), Inl (BadRequestException m))
      | Inr _ \<Rightarrow>
     if MAX_DATE < ct_maxTime t * 1000 then ((fst s, checked), Inl (UncaughtError ''invalid date'')) else
     (case consume (ct_nonce t) (ct_maxTime t * 1000) (fst s) of
        (d1, False) \<Rightarrow> ((d1, checked), Inl (BadRequestException ''this challenge has already been used''))
      | (d1, True) \<Rightarrow>
     (let base = sdk_baseStellarAccount env (ct_client t) in
      case proveWallet base SEP10 newId now d1 (meanwhile d1) of
        (d2, Inl e) \<Rightarrow> ((d2, checked), Inl e)
      | (d2, Inr _) \<Rightarrow>
          if lookupPerson env d2 base = None
          then ((d2, checked), Inl (UnauthorizedException ''this wallet is no longer permitted to authenticate''))
          else ((d2, checked), Inr (sign \<lparr>tp_sub = token_subject t, tp_role = UserRole, tp_cls = Sep10Class\<rparr>))))))))"

section \<open>What a token admits to\<close>

definition is_base32 :: "char \<Rightarrow> bool" where
  "is_base32 c = (let n = (of_char c :: nat) in 65 \<le> n \<and> n \<le> 90 \<or> 50 \<le> n \<and> n \<le> 55)"

text \<open>The pattern \<open>SUBJECT\<close>.\<close>

definition is_subject :: "string \<Rightarrow> bool" where
  "is_subject s =
     (case s of
        [] \<Rightarrow> False
      | c # r \<Rightarrow>
          if c = CHR ''G''
          then length (take 55 r) = 55 \<and> list_all is_base32 (take 55 r) \<and>
               (case drop 55 r of [] \<Rightarrow> True | x # ds \<Rightarrow> x = CHR '':'' \<and> 1 \<le> length ds \<and> length ds \<le> 20 \<and> list_all is_digit ds)
          else c = CHR ''M'' \<and> length r = 68 \<and> list_all is_base32 r)"

record request_user =
  ru_address :: string
  ru_role :: role
  ru_cls :: token_class

text \<open>\<open>JwtStrategy.validate\<close>, on the subject and class of a token the library has verified; none for a claim that is missing or no string.\<close>

definition validate :: "env \<Rightarrow> db \<Rightarrow> string option \<Rightarrow> string option \<Rightarrow> request_user outcome" where
  "validate env d sub cls =
     (case sub of
        None \<Rightarrow> Inl (UnauthorizedException ''token subject missing'')
      | Some a \<Rightarrow>
          if a = [] then Inl (UnauthorizedException ''token subject missing'')
          else if \<not> is_subject a then Inl (UnauthorizedException ''token subject is not an address this anchor mints'')
          else case isTokenClass cls of
                 None \<Rightarrow> Inl (UnauthorizedException ''token class missing or unrecognised'')
               | Some k \<Rightarrow>
                   (case resolveRole env d a k of
                      Inl e \<Rightarrow> Inl e | Inr r \<Rightarrow> Inr \<lparr>ru_address = a, ru_role = r, ru_cls = k\<rparr>))"

definition roles_guard :: "role list \<Rightarrow> request_user option \<Rightarrow> bool" where
  "roles_guard roles user = (roles = [] \<or> (case user of None \<Rightarrow> False | Some u \<Rightarrow> ru_role u \<in> set roles))"

definition intercept :: "token_class list \<Rightarrow> request_user option \<Rightarrow> unit outcome" where
  "intercept optedIn user =
     (case user of
        None \<Rightarrow> Inr ()
      | Some u \<Rightarrow> if ru_cls u \<in> set (MAY_USE_INTERNAL_API @ optedIn) then Inr ()
          else Inl (ForbiddenException ''this token class may not use this endpoint''))"

text \<open>A route behind the token guard: who gets in.\<close>

definition admit :: "env \<Rightarrow> db \<Rightarrow> role list \<Rightarrow> token_class list \<Rightarrow> string option \<Rightarrow> string option \<Rightarrow> request_user outcome" where
  "admit env d roles optedIn sub cls =
     (case validate env d sub cls of
        Inl e \<Rightarrow> Inl e
      | Inr u \<Rightarrow>
          if \<not> roles_guard roles (Some u) then Inl (ForbiddenException ''Forbidden resource'')
          else (case intercept optedIn (Some u) of Inl e \<Rightarrow> Inl e | Inr _ \<Rightarrow> Inr u))"

section \<open>Reading a challenge\<close>

lemma split_on_parts: "s = hd (split_on c s) @ concat (map (\<lambda>q. c # q) (tl (split_on c s)))"
proof (induction s)
  case (Cons x s)
  have "split_on c s \<noteq> []" by (cases s) (auto split: list.splits)
  then show ?case using Cons by (cases "split_on c s") auto
qed simp

lemma split_on_front: "c \<notin> set p \<Longrightarrow> split_on c (p @ c # s) = p # split_on c s"
  by (induction p) auto

lemma split_on_whole: "c \<notin> set p \<Longrightarrow> split_on c p = [p]"
  by (induction p) auto

lemma read_challenge_Inr:
  assumes "read_challenge env mac now a challenge signature = Inr (nonce, e)"
  shows "\<exists>expiry. challenge = challenge_payload a nonce expiry @ '':'' @ mac (challenge_payload a nonce expiry) \<and>
           split_on (CHR '':'') challenge ! 2 = nonce \<and> integer_value (to_number expiry) = Some e \<and>
           now < e \<and> sdk_verifySep53 env a challenge signature"
proof -
  obtain expiry where s: "split_on (CHR '':'') challenge = [PREFIX, a, nonce, expiry, mac (challenge_payload a nonce expiry)]"
      "integer_value (to_number expiry) = Some e" "now < e" "sdk_verifySep53 env a challenge signature"
    using assms by (auto simp: read_challenge_def split: list.splits if_splits option.splits)
  moreover have "challenge = challenge_payload a nonce expiry @ '':'' @ mac (challenge_payload a nonce expiry)"
    using split_on_parts [of challenge "CHR '':''"] by (simp add: s(1) challenge_payload_def)
  ultimately show ?thesis by auto
qed

lemma read_challenge_nonce:
  "read_challenge env mac now a challenge signature = Inr (nonce, e) \<Longrightarrow> nonce = split_on (CHR '':'') challenge ! 2"
  by (auto simp: read_challenge_def split: list.splits if_splits option.splits)

text \<open>A nonce is spent when it is among the consumed ones.\<close>

definition nonce_spent :: "db \<Rightarrow> string \<Rightarrow> bool" where
  "nonce_spent d nonce = (nonce \<in> cc_nonce ` set (db_consumed d))"

lemma consume_result: "consume nonce e d = (d1, ok) \<Longrightarrow> nonce_spent d1 nonce \<and> (ok \<longleftrightarrow> \<not> nonce_spent d nonce) \<and> db_links d1 = db_links d \<and> db_persons d1 = db_persons d"
  by (auto simp: consume_def nonce_spent_def create_unique_def split: if_splits)

lemma consume_spent: "nonce_spent d nonce \<Longrightarrow> \<exists>d1. consume nonce e d = (d1, False)"
  by (auto simp: consume_def nonce_spent_def create_unique_def)

lemma proveWallet_consumed: "proveWallet a m newId now d0 d = (d', r) \<Longrightarrow> db_consumed d' = db_consumed d"
  by (auto simp: proveWallet_def Let_def split: option.splits)

section \<open>The session door, in and out\<close>

definition active_link :: "env \<Rightarrow> db \<Rightarrow> string \<Rightarrow> bool" where
  "active_link env d a = (\<exists>w. find_link d (accountOf env a) = Some w \<and> w_status w = ACTIVE)"

lemma resolveRole_Inr:
  "resolveRole env d a cls = Inr r \<Longrightarrow> active_link env d a \<and>
     (r = AdminRole \<longrightarrow> cls = SessionClass \<and> a \<in> set (cfg_adminAddresses env)) \<and>
     (r = LpRole \<longrightarrow> cls = SessionClass \<and> (\<exists>l \<in> set (db_lps d). lp_stellarAddress l = a \<and> lp_status l = LP_APPROVED))"
  by (auto simp: resolveRole_def active_link_def MAY_PROMOTE_def split: option.splits if_splits dest!: find_row_Some intro: token_class.exhaust)

lemma resolveRole_refuses: "\<not> active_link env d a \<Longrightarrow> \<exists>e. resolveRole env d a cls = Inl e"
  by (auto simp: resolveRole_def active_link_def split: option.splits)

lemma resolveRole_accepts: "active_link env d a \<Longrightarrow> \<exists>r. resolveRole env d a cls = Inr r"
  by (auto simp: resolveRole_def active_link_def split: option.split)


lemma dec_int_expiry:
  assumes "0 \<le> e" "e \<le> MAX_DATE"
  shows "integer_value (to_number (dec_int e)) = Some e" "CHR '':'' \<notin> set (dec_int e)"
proof -
  have d: "dec_int e = dec_nat (nat e)" using assms(1) by (simp add: dec_int_def)
  have "to_number (dec_nat (nat e)) = Fin (of_nat (digits_val (dec_nat (nat e))))"
    using assms dec_nat_not_Nil dec_nat_digits by (intro to_number_digits) (auto simp: MAX_DATE_def)
  then show "integer_value (to_number (dec_int e)) = Some e" using assms(1) by (simp add: d integer_value_def of_nat_nat)
  show "CHR '':'' \<notin> set (dec_int e)" using dec_nat_digits [of "CHR '':''" "nat e"] by (auto simp: d is_digit_def)
qed

lemma issued_reads:
  assumes "CHR '':'' \<notin> set a" "CHR '':'' \<notin> set nonce" "\<And>p. CHR '':'' \<notin> set (mac p)"
    and "0 \<le> issued" "0 \<le> cfg_challengeTtl env" "issued + cfg_challengeTtl env * 1000 \<le> MAX_DATE" "now < issued + cfg_challengeTtl env * 1000"
    and "sdk_verifySep53 env a (issueChallenge env mac issued nonce a) signature"
  shows "read_challenge env mac now a (issueChallenge env mac issued nonce a) signature = Inr (nonce, issued + cfg_challengeTtl env * 1000)"
proof -
  define e where "e = issued + cfg_challengeTtl env * 1000"
  have e: "integer_value (to_number (dec_int e)) = Some e" "CHR '':'' \<notin> set (dec_int e)"
    using dec_int_expiry [of e] assms(4-6) by (simp_all add: e_def)
  have i: "issueChallenge env mac issued nonce a = challenge_payload a nonce (dec_int e) @ '':'' @ mac (challenge_payload a nonce (dec_int e))"
    by (simp add: issueChallenge_def Let_def e_def)
  have "CHR '':'' \<notin> set PREFIX" by (simp add: PREFIX_def)
  then have s: "split_on (CHR '':'') (issueChallenge env mac issued nonce a) = [PREFIX, a, nonce, dec_int e, mac (challenge_payload a nonce (dec_int e))]"
    using assms(1-3) e(2) by (simp add: i challenge_payload_def split_on_front split_on_whole)
  show ?thesis unfolding read_challenge_def s using e(1) assms(7,8) by (simp add: e_def)
qed

lemma consume_fresh: "\<not> nonce_spent d nonce \<Longrightarrow> consume nonce e d = (d\<lparr>db_consumed := db_consumed d @ [\<lparr>cc_nonce = nonce, cc_expiresAt = e\<rparr>]\<rparr>, True)"
  by (auto simp: consume_def nonce_spent_def create_unique_def)

text \<open>A wallet that may enter: one nobody has linked yet, or one with an active link to a person.\<close>

definition may_enter :: "db \<Rightarrow> string \<Rightarrow> bool" where
  "may_enter d a = (case find_link d a of None \<Rightarrow> True | Some w \<Rightarrow> w_status w = ACTIVE \<and> find_person d (w_personId w) \<noteq> None)"

lemma find_row_one: "find_row key k [r] = (if key r = k then Some r else None)"
  by (simp add: find_row_def)

lemma may_enter_proves:
  assumes "may_enter d a"
  shows "\<exists>d' p w. proveWallet a m newId now d d = (d', Inr p) \<and> find_link d' a = Some w \<and> w_status w = ACTIVE"
proof (cases "find_link d a")
  case None
  then have n: "a \<notin> w_stellarAddress ` set (db_links d)" by (auto simp: find_link_def find_row_None)
  then show ?thesis using None
    by (auto simp: proveWallet_def linkedPerson_def create_unique_def find_link_def find_row_append find_row_one Let_def)
next
  case (Some w)
  then show ?thesis using assms by (auto simp: may_enter_def proveWallet_def linkedPerson_def)
qed

lemma issued_opens:
  assumes "CHR '':'' \<notin> set a" "CHR '':'' \<notin> set nonce" "\<And>p. CHR '':'' \<notin> set (mac p)"
    and "0 \<le> issued" "0 \<le> cfg_challengeTtl env" "issued + cfg_challengeTtl env * 1000 \<le> MAX_DATE" "now < issued + cfg_challengeTtl env * 1000"
    and "sdk_verifySep53 env a (issueChallenge env mac issued nonce a) signature"
    and "\<not> nonce_spent d nonce" "may_enter d a" "sdk_baseStellarAccount env a = a"
  shows "\<exists>d' r. verify env mac sign newId id now a (issueChallenge env mac issued nonce a) signature d = (d', Inr (sign \<lparr>tp_sub = a, tp_role = r, tp_cls = SessionClass\<rparr>))"
proof -
  obtain d1 where c: "consume nonce (issued + cfg_challengeTtl env * 1000) d = (d1, True)" "may_enter d1 a"
    using consume_fresh [OF assms(9)] assms(10) by (auto simp: may_enter_def find_link_def find_person_def split: option.splits)
  obtain d2 p w where p: "proveWallet a SEP53 newId now d1 d1 = (d2, Inr p)" "find_link d2 a = Some w" "w_status w = ACTIVE"
    using may_enter_proves [OF c(2)] by blast
  have "accountOf env a = a" using split_on_whole [OF assms(1)] assms(11) by (simp add: accountOf_def)
  then obtain r where "resolveRole env d2 a SessionClass = Inr r" using p(2,3) resolveRole_accepts by (fastforce simp: active_link_def)
  then show ?thesis using issued_reads [OF assms(1-8)] c(1) p(1) assms(6) by (auto simp: verify_def)
qed

text \<open>A challenge the anchor issued opens the door it was issued for.  Signed by its address and presented once before
  it expires, it is read back to its own nonce and expiry and answered with a session token, for a wallet nobody
  has linked yet and for one with an active link.\<close>

theorem issued_challenge_opens:
  assumes "CHR '':'' \<notin> set a" "CHR '':'' \<notin> set nonce" "\<And>p. CHR '':'' \<notin> set (mac p)"
    and "0 \<le> issued" "0 \<le> cfg_challengeTtl env" "issued + cfg_challengeTtl env * 1000 \<le> MAX_DATE" "now < issued + cfg_challengeTtl env * 1000"
    and "sdk_verifySep53 env a (issueChallenge env mac issued nonce a) signature"
    and "\<not> nonce_spent d nonce" "may_enter d a" "sdk_baseStellarAccount env a = a"
  shows "\<exists>d' r. verify env mac sign newId id now a (issueChallenge env mac issued nonce a) signature d = (d', Inr (sign \<lparr>tp_sub = a, tp_role = r, tp_cls = SessionClass\<rparr>))"
  by (rule issued_opens [OF assms])

section \<open>The wallet door, in and out\<close>

lemma load_signers_Inr:
  assumes "load_signers env passphrase hz a checked = (checked', Inr g)"
  shows "(checked \<or> (\<exists>st. hz_root hz = Some (st, Some passphrase) \<and> http_ok st)) \<and>
    (case g of None \<Rightarrow> \<exists>x. hz_account hz (sdk_baseStellarAccount env a) = Some (404, x)
     | Some g \<Rightarrow> \<exists>st signers. hz_account hz (sdk_baseStellarAccount env a) = Some (st, signers, Some (ag_medThreshold g)) \<and> http_ok st \<and>
         ag_signers g = (case signers of None \<Rightarrow> [] | Some l \<Rightarrow> l))"
  using assms by (auto simp: load_signers_def assertSameNetwork_def split: prod.split_asm sum.split_asm option.split_asm if_split_asm)

lemma issueToken_run:
  assumes "issueToken env wa hz c sign newId meanwhile now xdr s = (s', Inr token)"
  obtains k t account checked d1 p where "sc_signer c = Some k" "isConfigured c" "wa_read wa k xdr = Inr t" "now div 1000 \<le> ct_maxTime t"
    "load_signers env (sc_passphrase c) hz (ct_client t) (snd s) = (checked, Inr account)" "check_signatures env wa k xdr t account = Inr ()"
    "consume (ct_nonce t) (ct_maxTime t * 1000) (fst s) = (d1, True)"
    "proveWallet (sdk_baseStellarAccount env (ct_client t)) SEP10 newId now d1 (meanwhile d1) = (fst s', Inr p)"
    "lookupPerson env (fst s') (sdk_baseStellarAccount env (ct_client t)) \<noteq> None"
    "token = sign \<lparr>tp_sub = token_subject t, tp_role = UserRole, tp_cls = Sep10Class\<rparr>"
  using assms
  by (auto simp: issueToken_def requireSigner_def read_sep10_def Let_def split: sum.splits option.splits if_splits prod.splits bool.splits)


section \<open>What a token opens\<close>

lemma proveWallet_keeps_links: "proveWallet a m newId now d0 d = (d', r) \<Longrightarrow> find_link d k = Some w \<Longrightarrow> find_link d' k = Some w"
  by (auto simp: proveWallet_def Let_def create_unique_def find_link_def find_row_append split: option.splits if_splits)

lemma validate_Inr:
  "validate env d sub cls = Inr u \<Longrightarrow> sub = Some (ru_address u) \<and> is_subject (ru_address u) \<and> resolveRole env d (ru_address u) (ru_cls u) = Inr (ru_role u)"
  by (auto simp: validate_def split: option.splits if_splits sum.splits)

lemma admit_Inr:
  assumes "admit env d roles optedIn sub cls = Inr u"
  shows "validate env d sub cls = Inr u" "roles \<noteq> [] \<Longrightarrow> ru_role u \<in> set roles" "ru_cls u = Sep10Class \<Longrightarrow> Sep10Class \<in> set optedIn"
  using assms by (auto simp: admit_def roles_guard_def intercept_def MAY_USE_INTERNAL_API_def split: sum.splits if_splits)

text \<open>C39 (resolveRole, JwtStrategy.validate, RolesGuard, TokenClassInterceptor): a request that gets past the guards of a route comes from an address with an active
  link and in the form the anchor mints.  A route for administrators lets in only a session of a configured address, one for
  providers only a session of an approved provider; a SEP-10 token enters only routes that name its class, and only as a user.  A wallet whose
  link has been revoked gets nothing: neither door gives it a new token and no token it still holds is admitted.\<close>

theorem guards_admit_only_entitled:
  "(admit env d roles optedIn sub cls = Inr u \<longrightarrow>
      sub = Some (ru_address u) \<and> is_subject (ru_address u) \<and> active_link env d (ru_address u) \<and>
      (ru_role u = AdminRole \<longrightarrow> ru_cls u = SessionClass \<and> ru_address u \<in> set (cfg_adminAddresses env)) \<and>
      (ru_role u = LpRole \<longrightarrow> ru_cls u = SessionClass \<and> (\<exists>l \<in> set (db_lps d). lp_stellarAddress l = ru_address u \<and> lp_status l = LP_APPROVED)) \<and>
      (roles \<noteq> [] \<longrightarrow> ru_role u \<in> set roles) \<and>
      (ru_cls u = Sep10Class \<longrightarrow> ru_role u = UserRole \<and> Sep10Class \<in> set optedIn)) \<and>
   (find_link d (accountOf env a) = Some w \<and> w_status w \<noteq> ACTIVE \<and> (\<forall>e. db_links (meanwhile e) = db_links e) \<longrightarrow>
      (\<exists>e. admit env d roles optedIn (Some a) cls = Inl e) \<and>
      (\<exists>d' e. verify env mac sign newId meanwhile now a challenge signature d = (d', Inl e)) \<and>
      (wa_read wa k xdr = Inr t \<and> sc_signer c = Some k \<and> accountOf env (sdk_baseStellarAccount env (ct_client t)) = accountOf env a \<longrightarrow>
         (\<exists>s' e. issueToken env wa hz c sign newId meanwhile now xdr (d, checked) = (s', Inl e))))"
proof (intro conjI impI)
  assume ad: "admit env d roles optedIn sub cls = Inr u"
  note v = validate_Inr [OF admit_Inr(1) [OF ad]]
  note r = resolveRole_Inr [OF conjunct2 [OF conjunct2 [OF v]]]
  show "sub = Some (ru_address u)" "is_subject (ru_address u)" "active_link env d (ru_address u)" using v r by simp_all
  show "ru_cls u = SessionClass" "ru_address u \<in> set (cfg_adminAddresses env)" if "ru_role u = AdminRole" using r that by simp_all
  show "ru_cls u = SessionClass" "\<exists>l \<in> set (db_lps d). lp_stellarAddress l = ru_address u \<and> lp_status l = LP_APPROVED" if "ru_role u = LpRole"
    using r that by simp_all
  show "ru_role u \<in> set roles" if "roles \<noteq> []" using admit_Inr(2) [OF ad that] .
  show "ru_role u = UserRole" if "ru_cls u = Sep10Class" using r that by (cases "ru_role u") simp_all
  show "Sep10Class \<in> set optedIn" if "ru_cls u = Sep10Class" using admit_Inr(3) [OF ad that] .
next
  assume a: "find_link d (accountOf env a) = Some w \<and> w_status w \<noteq> ACTIVE \<and> (\<forall>e. db_links (meanwhile e) = db_links e)"
  then have n: "\<not> active_link env d a" by (auto simp: active_link_def)
  show "\<exists>e. admit env d roles optedIn (Some a) cls = Inl e"
  proof (cases "admit env d roles optedIn (Some a) cls")
    case (Inr u)
    then show ?thesis using validate_Inr [OF admit_Inr(1) [OF Inr]] resolveRole_Inr n by fastforce
  qed simp
  have kept: "find_link d2 (accountOf env a) = Some w" if "consume nonce e d = (d1, ok)" "proveWallet b m newId now d1 (meanwhile d1) = (d2, p)" for nonce e d1 ok b m d2 p
    using consume_result [OF that(1)] proveWallet_keeps_links [OF that(2), of "accountOf env a" w] a by (simp add: find_link_def)
  show "\<exists>d' e. verify env mac sign newId meanwhile now a challenge signature d = (d', Inl e)"
  proof (rule ccontr)
    assume c: "\<not> ?thesis"
    then obtain nonce e d1 d2 p r where "consume nonce e d = (d1, True)" "proveWallet a SEP53 newId now d1 (meanwhile d1) = (d2, p)" "resolveRole env d2 a SessionClass = Inr r"
      by (auto simp: verify_def split: sum.splits prod.splits bool.splits if_splits)
    then show False using kept resolveRole_Inr a by (fastforce simp: active_link_def)
  qed
  assume t: "wa_read wa k xdr = Inr t \<and> sc_signer c = Some k \<and> accountOf env (sdk_baseStellarAccount env (ct_client t)) = accountOf env a"
  show "\<exists>s' e. issueToken env wa hz c sign newId meanwhile now xdr (d, checked) = (s', Inl e)"
  proof (rule ccontr)
    assume c: "\<not> ?thesis"
    obtain s3 o3 where i: "issueToken env wa hz c sign newId meanwhile now xdr (d, checked) = (s3, o3)" by (metis surj_pair)
    then obtain token2 where "o3 = Inr token2" using c by (cases o3) auto
    with i obtain k2 t2 d1 p where "sc_signer c = Some k2" "wa_read wa k2 xdr = Inr t2" "consume (ct_nonce t2) (ct_maxTime t2 * 1000) d = (d1, True)"
      "proveWallet (sdk_baseStellarAccount env (ct_client t2)) SEP10 newId now d1 (meanwhile d1) = (fst s3, Inr p)"
      "lookupPerson env (fst s3) (sdk_baseStellarAccount env (ct_client t2)) \<noteq> None"
      using issueToken_run [of env wa hz c sign newId meanwhile now xdr "(d, checked)" s3 token2] by (metis fst_conv)
    then show False using kept t a by (fastforce simp: lookupPerson_def)
  qed
qed

section \<open>The doors at work\<close>

abbreviation demo_mac :: "string \<Rightarrow> string" where "demo_mac \<equiv> (\<lambda>_. ''6d'')"

lemma demo_opens:
  "\<exists>d' r. verify demo_env demo_mac tp_sub ''p1'' id 1700000100000 ''GU'' (issueChallenge demo_env demo_mac 1700000000000 ''n1'' ''GU'') ''ok'' empty_db =
     (d', Inr (tp_sub \<lparr>tp_sub = ''GU'', tp_role = r, tp_cls = SessionClass\<rparr>))"
  by (rule issued_opens)
    (simp_all add: demo_env_def MAX_DATE_def nonce_spent_def empty_db_def may_enter_def find_link_def find_row_def)

theorem issued_challenge_opens_witness:
  "\<exists>d' token. verify demo_env demo_mac tp_sub ''p1'' id 1700000100000 ''GU'' (issueChallenge demo_env demo_mac 1700000000000 ''n1'' ''GU'') ''ok'' empty_db = (d', Inr token)"
  using issued_challenge_opens [of "''GU''" "''n1''" demo_mac 1700000000000 demo_env 1700000100000 "''ok''" empty_db tp_sub "''p1''"]
  by (auto simp: demo_env_def MAX_DATE_def nonce_spent_def empty_db_def may_enter_def find_link_def find_row_def)


definition demo_web_auth :: web_auth where
  "demo_web_auth = \<lparr>wa_isMuxed = (\<lambda>_. False), wa_build = (\<lambda>k a h t p w m. a), wa_read = (\<lambda>k x. Inr \<lparr>ct_client = x, ct_memo = Some ''7'', ct_nonce = ''n2'', ct_maxTime = 1700000900\<rparr>),
     wa_verifySigners = (\<lambda>k x ks. Inr ()), wa_verifyThreshold = (\<lambda>k x m l. if l = [] then Inl ''unsigned'' else Inr ())\<rparr>"

definition demo_horizon :: horizon where
  "demo_horizon = \<lparr>hz_root = Some (200, Some ''net''), hz_account = (\<lambda>_. Some (200, Some [\<lparr>as_key = ''GU'', as_weight = 1, as_type = ''k''\<rparr>], Some 1))\<rparr>"

definition demo_sep10 :: sep10_config where
  "demo_sep10 = \<lparr>sc_signer = Some ''GS'', sc_homeDomain = Some ''h'', sc_webAuthDomain = Some ''w'', sc_passphrase = ''net''\<rparr>"

lemma demo_issues:
  "\<exists>s'. issueToken demo_env demo_web_auth demo_horizon demo_sep10 tp_sub ''p1'' id 1700000000000 ''GU'' (empty_db, False) = (s', Inr ''GU:7'')"
  by (auto simp: issueToken_def requireSigner_def isConfigured_def demo_sep10_def read_sep10_def demo_web_auth_def load_signers_def assertSameNetwork_def
      demo_horizon_def http_ok_def check_signatures_def MAX_DATE_def consume_def create_unique_def empty_db_def proveWallet_def linkedPerson_def find_link_def
      find_row_def lookupPerson_def accountOf_def find_person_def token_subject_def Let_def)


definition subject_db :: "link_status \<Rightarrow> db" where
  "subject_db st = empty_db\<lparr>db_links := [\<lparr>w_stellarAddress = CHR ''G'' # replicate 55 CHR ''A'', w_personId = ''p1'', w_authMethod = SEP53, w_status = st, w_provenAt = 0\<rparr>]\<rparr>"

theorem guards_admit_only_entitled_witness:
  "\<exists>u. admit demo_env (subject_db ACTIVE) [] [Sep10Class] (Some (CHR ''G'' # replicate 55 CHR ''A'')) (Some ''sep10'') = Inr u \<and> ru_role u = UserRole \<and>
     (\<exists>e. admit demo_env (subject_db REVOKED) [] [Sep10Class] (Some (CHR ''G'' # replicate 55 CHR ''A'')) (Some ''sep10'') = Inl e)"
proof -
  let ?a = "CHR ''G'' # replicate 55 CHR ''A''"
  have s: "is_subject ?a" by (simp add: is_subject_def is_base32_def list_all_length)
  have l: "accountOf demo_env ?a = ?a" using split_on_whole [of "CHR '':''" ?a] by (simp add: accountOf_def)
  have f: "find_link (subject_db st) ?a = Some \<lparr>w_stellarAddress = ?a, w_personId = ''p1'', w_authMethod = SEP53, w_status = st, w_provenAt = 0\<rparr>" for st
    by (simp add: subject_db_def find_link_def find_row_def)
  define u where "u = \<lparr>ru_address = ?a, ru_role = UserRole, ru_cls = Sep10Class\<rparr>"
  have "admit demo_env (subject_db ACTIVE) [] [Sep10Class] (Some ?a) (Some ''sep10'') = Inr u"
    using s f [of ACTIVE] 
    by (simp add: l admit_def validate_def resolveRole_def u_def isTokenClass_def TOKEN_CLASSES_def MAY_PROMOTE_def roles_guard_def intercept_def)
  moreover have "ru_cls u = Sep10Class" by (simp add: u_def)
  ultimately show ?thesis
    using conjunct1 [OF guards_admit_only_entitled, of demo_env "subject_db ACTIVE" "[]" "[Sep10Class]" "Some ?a" "Some ''sep10''" u]
      conjunct1 [OF mp [OF conjunct2 [OF guards_admit_only_entitled [of demo_env "subject_db REVOKED" "[]" "[Sep10Class]" "Some ?a" "Some ''sep10''" u ?a _ id]]]]
      f [of REVOKED] l by fastforce
qed

end
