(* ===== verification/System.thy ===== *)
theory System
  imports OrderProof Indexer Maintenance Attest Admin Rate Sep24
begin

text \<open>
  The order table under every handler that writes it, run against each other in any order and interleaved at every point where a
  handler has read and not yet written.  A run of the system is a chain of handler calls; within a call, what other callers do
  between its reads and its writes is again a run.
\<close>

section \<open>A run leaves every order in place\<close>

text \<open>What a run may do to the order table: keep every order in its place with what no write takes from it, add orders at the end,
  and keep the constraints.\<close>

definition grown :: "db \<Rightarrow> db \<Rightarrow> bool" where
  "grown d d' =
     ((orders_ok d \<longrightarrow> orders_ok d') \<and> (\<exists>old new. db_orders d' = old @ new \<and> list_all2 row_kept (db_orders d) old))"

lemma order_step_grown: "order_step d d' \<Longrightarrow> grown d d'"
  unfolding grown_def order_step_def same_orders_def by (metis append_Nil2)

lemma grown_refl [simp]: "grown d d"
  by (simp add: order_step_grown)

lemma grown_frame: "db_orders d' = db_orders d \<Longrightarrow> grown d d'"
  by (simp add: order_step_grown order_step_frame)

lemma grown_trans:
  assumes "grown d d1" "grown d1 d2"
  shows "grown d d2"
proof -
  obtain old new where o: "db_orders d1 = old @ new" "list_all2 row_kept (db_orders d) old" using assms(1) by (auto simp: grown_def)
  obtain old' new' where o': "db_orders d2 = old' @ new'" "list_all2 row_kept (old @ new) old'" using assms(2) by (auto simp: grown_def o(1))
  obtain a b where s: "old' = a @ b" "list_all2 row_kept old a" using o'(2) by (auto simp: list_all2_append1)
  have "list_all2 row_kept (db_orders d) a" using list_all2_trans [OF _ o(2) s(2)] row_kept_trans by blast
  then show ?thesis using assms s(1) o'(1) by (auto simp: grown_def)
qed

lemma grown_then_frame: "grown d d1 \<Longrightarrow> db_orders d2 = db_orders d1 \<Longrightarrow> grown d d2"
  using grown_trans grown_frame by blast

lemma grown_then_step: "grown d d1 \<Longrightarrow> order_step d1 d2 \<Longrightarrow> grown d d2"
  using grown_trans order_step_grown by blast

section \<open>Each handler\<close>

lemma refresh_step: "order_step d (fst (refreshOrderStatus env now i x d))"
  using refresh.run_same [of d "(env, now, i, x)"] refresh.run_ok [of d "(env, now, i, x)"] by (simp add: order_step_def)

lemma place_grown:
  assumes "place_tx env now quoteId plan ref d = (d', Inr x)" "order_ok x"
  shows "grown d d'"
proof -
  have d': "db_orders d' = db_orders d @ [x]" and c: "\<not> order_collides x d" using place_tx_facts [OF assms(1)] by auto
  have "orders_ok d \<longrightarrow> orders_ok d'" using c assms(2) by (auto simp: orders_ok_def d' order_collides_def list_ex_iff)
  then show ?thesis using d' by (auto simp: grown_def list_all2_refl)
qed

lemma place_order_grown:
  assumes "\<And>k e. grown e (meanwhile k e)" "order_ok (op_order plan)"
  shows "grown d (fst (place_order env now quoteId plan meanwhile refs n k d))"
proof (induction n arbitrary: k d)
  case (Suc n)
  obtain d1 r where t: "transaction (place_tx env now quoteId plan (refs k)) (meanwhile k d) = (d1, r)" by (metis surj_pair)
  show ?case
  proof (cases r)
    case (Inl e)
    then have "d1 = meanwhile k d" using transaction_Inl t by metis
    then have g: "grown d d1" using assms(1) by simp
    show ?thesis using t Inl g grown_trans [OF g Suc] by simp
  next
    case (Inr x)
    then have p: "place_tx env now quoteId plan (refs k) (meanwhile k d) = (d1, Inr x)" using t transaction_Inr by metis
    have "order_ok x" using place_tx_facts [OF p] assms(2) by (auto simp: order_ok_def)
    then show ?thesis using t Inr grown_trans [OF assms(1) place_grown [OF p]] by simp
  qed
qed simp

lemma create_grown:
  assumes "\<And>k e. grown e (meanwhile k e)"
  shows "grown d (fst (createFromQuote env conf mcache now user quoteId upm tradeId meanwhile refs d))"
proof (cases "plan_order env conf mcache now user quoteId upm tradeId d")
  case (Inr plan)
  have ok: "order_ok (op_order plan)" using plan_order_facts [OF Inr] by (auto simp: order_ok_def settled_status_def)
  obtain d1 r where p: "place_order env now quoteId plan meanwhile refs (if o_flow (op_order plan) = TOP_UP then MAX_REF_ATTEMPTS else 1) 0 d = (d1, r)"
    by (metis surj_pair)
  have g1: "grown d d1"
    using place_order_grown [where meanwhile = meanwhile and plan = plan and d = d and env = env and now = now and quoteId = quoteId and refs = refs
        and n = "if o_flow (op_order plan) = TOP_UP then MAX_REF_ATTEMPTS else 1" and k = 0, OF assms ok] unfolding p fst_conv .
  have "db_orders (fst (createFromQuote env conf mcache now user quoteId upm tradeId meanwhile refs d)) = db_orders d1"
    unfolding createFromQuote_def Inr sum.case Let_def p by (cases r) simp_all
  then show ?thesis by (rule grown_then_frame [OF g1])
qed (simp add: createFromQuote_def)

lemma catch_up_step: "order_step d (fst (catch_up now i x seen d))"
proof -
  have "order_step d (upd_orders (update_many (\<lambda>y. o_id y = i) (\<lambda>y. settlementFieldsFrom now t (y\<lparr>o_status := t_status t\<rparr>))) d)" for t
    by (rule order_step_update)
      (auto simp: row_kept_def order_ok_def settlementFieldsFrom_direction, auto simp: settlementFieldsFrom_def order_key_def)
  then show ?thesis by (simp add: catch_up_def split: option.split)
qed

lemma cancel_write_step: "order_step d (upd_orders (update_many p cancel_row) d)"
  by (rule order_step_update) (auto simp: row_kept_def order_key_def cancel_row_def order_ok_def settled_status_def)

lemma cancel_grown:
  assumes "\<And>e. grown e (meanwhile e)"
  shows "grown d (fst (cancelOrder env now i who meanwhile d))"
proof -
  have c: "grown d (fst (catch_up now i x seen (meanwhile d)))" for x seen
    using grown_then_step [OF assms catch_up_step] .
  have w: "grown d (upd_orders (update_many (pre_chain_row i) cancel_row) (fst (catch_up now i x seen (meanwhile d))))" for x seen
    using grown_then_step [OF c cancel_write_step] .
  show ?thesis unfolding cancelOrder_def Let_def split_beta
    using assms [of d] c w grown_then_frame [OF w]
    by (auto split: option.split sum.split)
qed

lemma raise_step: "order_step d (fst (buildRaiseDisputeTx env build conf now i who d))"
  using refresh_step [of d env now i] by (auto simp: buildRaiseDisputeTx_def Let_def case_prod_unfold split: option.split)

lemma dispute_grown:
  assumes "\<And>e. grown e (meanwhile e)"
  shows "grown d (fst (postDispute env build statObject conf now i who reason memo evidence meanwhile d))"
proof -
  have f: "order_step e (upd_orders (update_many p (file_dispute now role reason (trim memo) evidence)) e)" for e p role
    by (rule order_step_update) (auto simp: row_kept_def file_dispute_def order_key_def order_ok_def)
  have r: "grown d (fst (refreshOrderStatus env now i x d))" for x by (rule order_step_grown [OF refresh_step])
  have b: "grown d (fst (buildRaiseDisputeTx env build conf now i who (fst (refreshOrderStatus env now i x d))))" for x
    using grown_then_step [OF r raise_step] .
  have w: "grown d (upd_orders (update_many p (file_dispute now role reason (trim memo) evidence))
      (meanwhile (fst (buildRaiseDisputeTx env build conf now i who (fst (refreshOrderStatus env now i x d))))))" for p role x
    using grown_then_step [OF grown_trans [OF b assms] f] .
  show ?thesis unfolding postDispute_def Let_def split_beta
    using r b w by (auto split: option.split sum.split)
qed

lemma proof_grown:
  assumes "\<And>e. grown e (meanwhile e)"
  shows "grown (snd s) (snd (fst (uploadProof env now meanwhile put_ok uuid i who f meta s)))"
proof -
  obtain st d where s: "s = (st, d)" by (cases s)
  have r: "grown d (fst (refreshOrderStatus env now i x d))" for x by (rule order_step_grown [OF refresh_step])
  have c: "order_step e (snd (fst (claim_proof now i prev path rrn amount paidAt (st1, e))))" for prev path rrn amount paidAt st1 e
  proof -
    have "order_step e (upd_orders (update_many p (proof_row now path rrn amount paidAt)) e)" for p
      by (rule order_step_update) (auto simp: row_kept_def proof_row_def order_key_def order_ok_def)
    then show ?thesis by (simp add: claim_proof_def Let_def split: option.split)
  qed
  have w: "grown d (snd (fst (claim_proof now i prev path rrn amount paidAt (st1, meanwhile (fst (refreshOrderStatus env now i x d))))))"
    for prev path rrn amount paidAt st1 x
    using grown_then_step [OF grown_trans [OF r assms] c] .
  show ?thesis unfolding s uploadProof_def Let_def split_beta
    using r w by (auto split: option.split sum.split)
qed

lemma event_grown:
  assumes "\<And>e. grown e (meanwhile e)"
  shows "grown d (fst (applyEvent env sdk now meanwhile ev d))"
  unfolding applyEvent_def using grown_then_step [OF assms apply_to_step] by (auto split: option.split)

lemma expiry_grown:
  assumes "\<And>x e. grown e (meanwhile x e)"
  shows "grown d (expireStaleOrders env now meanwhile d)"
proof -
  have one: "grown e (expire_one env now meanwhile x e)" for x e
    unfolding expire_one_def using assms grown_then_step [OF assms expire_write_step] by (auto split: option.split)
  have "grown d (fold (expire_one env now meanwhile) xs d)" for xs d
  proof (induction xs arbitrary: d)
    case (Cons x xs)
    show ?case using grown_trans [OF one Cons] by simp
  qed simp
  then show ?thesis by (simp add: expireStaleOrders_def split: sum.split)
qed

lemma refunds_grown:
  "grown d (fst (autoRefundExpired env rf now d))" "grown d (fst (snd (reconcileOrphanedEscrows env rf now after d)))"
  using auto_refund.run_same [of d "(env, rf, now)"] auto_refund.run_ok [of d "(env, rf, now)"]
    reconcile.run_same [of d "(env, rf, now, after)"] reconcile.run_ok [of d "(env, rf, now, after)"]
  by (simp_all add: order_step_grown order_step_def)

lemma attest_once_grown:
  assumes "\<And>e. grown e (meanwhile e)"
  shows "grown (at_db s) (at_db (fst (attestFiatPaidOnce env submit now turn audit_ok meanwhile i actor ev s)))"
proof -
  have a: "grown e (try_audit audit_ok entry (meanwhile e))" for entry e
    by (rule grown_then_frame [OF assms]) (simp add: try_audit_def recordAudit_def)
  have w: "grown e (attested_write env now x (try_audit audit_ok entry (meanwhile e)))" for x entry e
    using grown_then_step [OF a attested_write_step] .
  have d: "attest env submit turn c t n s = (s1, r) \<Longrightarrow> at_db s1 = at_db s" for c t n s1 r using attest_db by (metis fst_conv)
  show ?thesis unfolding attestFiatPaidOnce_def Let_def
    by (auto simp: with_db_def a w d split: option.split sum.split prod.split)
qed

lemma attest_grown:
  assumes "\<And>e. grown e (meanwhile e)"
  shows "grown (at_db s) (at_db (fst (attestFiatPaid env submit now turn audit_ok meanwhile attesting i actor memo s)))"
    "grown (at_db s) (at_db (fst (confirmReceiptAsProvider env submit now turn audit_ok meanwhile attesting i who at_secs signature s)))"
proof -
  note once = attest_once_grown [where meanwhile = meanwhile, OF assms]
  show "grown (at_db s) (at_db (fst (attestFiatPaid env submit now turn audit_ok meanwhile attesting i actor memo s)))"
    using once by (simp add: attestFiatPaid_def whileAttesting_def)
  have au: "db_orders (try_audit audit_ok entry e) = db_orders e" for entry e by (simp add: try_audit_def recordAudit_def)
  have on: "grown (at_db s1) (at_db (fst (confirmOnChain env submit now turn audit_ok meanwhile x who receipt s1)))" for x receipt s1
    unfolding confirmOnChain_def Let_def
    using once [of s1 env submit now turn audit_ok "o_id x" who receipt] grown_frame [OF au]
    by (auto simp: with_db_def split: option.split sum.split prod.split)
  have sp: "grown (at_db s) d1" if "consume n e (at_db s) = (d1, ok)" for n e d1 ok
    using that by (intro grown_frame) (auto simp: consume_def split: option.splits)
  have run: "grown (at_db s) (at_db (fst (confirmOnChain env submit now turn audit_ok meanwhile x who receipt (s\<lparr>at_db := d1\<rparr>))))"
    if "consume n e (at_db s) = (d1, ok)" for x receipt n e d1 ok
    using grown_trans [OF sp [OF that]] on [of "s\<lparr>at_db := d1\<rparr>"] by simp
  have "fst (forProvider r) = fst r" for r :: "attest_state \<times> attest_result outcome" by (auto simp: forProvider_def split: prod.split sum.split)
  then show "grown (at_db s) (at_db (fst (confirmReceiptAsProvider env submit now turn audit_ok meanwhile attesting i who at_secs signature s)))"
    unfolding confirmReceiptAsProvider_def by (auto simp: sp run split: sum.split prod.split bool.split)
qed

lemma standing_grown:
  assumes "\<And>e. grown e (first e)" "\<And>e. grown e (second e)"
  shows "grown d (fst (setStatus env i status memo actor now first second d))"
proof -
  have n: "db_orders (notify_cancelled env now xs e) = db_orders e" for xs e
    unfolding notify_cancelled_def by (induction xs arbitrary: e) simp_all
  have fs: "grown d (second (upd_lps f (first d)))" for f
    by (rule grown_trans [OF grown_then_frame [OF assms(1)] assms(2)]) simp
  have w: "grown d (upd_orders (update_many p cancel_row) (second (upd_lps f (first d))))" for p f
    using grown_then_step [OF fs cancel_write_step] .
  have t: "grown d d'" if "setStatus_tx i status memo actor now first second d = (d', Inr r)" for d' r
    using that fs w grown_then_frame [OF fs] grown_then_frame [OF w]
    by (auto simp: setStatus_tx_def Let_def recordAudit_def split: option.splits if_splits)
  show ?thesis using t grown_trans [OF assms(1) assms(2)] grown_then_frame [OF t n]
    by (auto simp: setStatus_def split: prod.split sum.split)
qed

lemma state_step: "order_step d (fst (interactiveState env j now i token d))"
  unfolding interactiveState_def Let_def using refresh_step [of d env now]
  by (auto simp: split_beta split: sum.split option.split)

lemma claim_tx_step: "order_step d (fst (claim_tx env now orderId d))"
proof -
  have u: "order_step d (upd_orders (update_many (claimable_row orderId) (claim_row now)) d)"
    using claim_writer.run_same [of d "(orderId, now)"] claim_writer.run_ok [of d "(orderId, now)"] by (simp add: order_step_def)
  show ?thesis unfolding claim_tx_def Let_def using u order_step_then_frame [OF u]
    by (auto split: option.split prod.split)
qed

lemma claim_grown:
  assumes "\<And>e. grown e (meanwhile e)"
  shows "grown d (fst (claimPaid env j now meanwhile i token d))"
proof -
  have g: "grown d (fst (interactiveState env j now i token d))" by (rule order_step_grown [OF state_step])
  have "grown d (fst (transaction (claim_tx env now orderId) (meanwhile (fst (interactiveState env j now i token d)))))" for orderId
    by (rule fst_transaction) (rule grown_trans [OF g assms], rule grown_then_step [OF grown_trans [OF g assms] claim_tx_step])
  with g show ?thesis unfolding claimPaid_def by (auto split: prod.splits sum.splits option.splits)
qed

lemma link_step: "order_step d (link_or_undo i account orderId d)"
proof -
  have l: "order_step d (d\<lparr>db_sep24 := t\<rparr>)" for t by (rule order_step_frame) simp
  show ?thesis unfolding link_or_undo_def link_order_def undo_order_def Let_def
    using l order_step_trans [OF l cancel_write_step] by simp
qed

lemma amount_grown:
  assumes "\<And>k e. grown e (ar_placing run k e)" "\<And>e. grown e (ar_linking run e)"
  shows "grown (fst s) (fst (fst (openOrderForAmount env j run now i token raw upm s)))"
proof -
  obtain d1 r where st: "interactiveState env j now i token (fst s) = (d1, r)" by (metis surj_pair)
  have g1: "grown (fst s) d1" using order_step_grown [OF state_step [of "fst s" env j now i token]] st by simp
  have q: "grown (fst s) d2" if "createQuote env src now user flw rl usdc fiatAmt fiat (d1, snd s) = ((d2, m2), o2)" for src user flw rl usdc fiatAmt fiat d2 m2 o2
    using grown_then_frame [OF g1] createQuote_within_rules [OF that] by simp
  have c: "grown (fst s) d3" if "createFromQuote env conf mc now user quoteId upm' tradeId (ar_placing run) refs d2 = (d3, o3)" "grown (fst s) d2"
    for conf mc user quoteId upm' tradeId refs d2 d3 o3
    using grown_trans [OF that(2) create_grown [where meanwhile = "ar_placing run", OF assms(1)]] that(1) by (metis fst_conv)
  have l: "grown (fst s) (link_or_undo i account orderId (ar_linking run d3))" if "grown (fst s) d3" for account orderId d3
    using grown_then_step [OF grown_trans [OF that assms(2)] link_step] .
  show ?thesis unfolding openOrderForAmount_def st
    by (auto simp: Let_def g1 split: sum.split option.split prod.split) (blast intro: q c l)+
qed

section \<open>Runs of the system\<close>

inductive runs :: "db \<Rightarrow> db \<Rightarrow> bool" where
  none: "runs d d"
| chain: "runs d d1 \<Longrightarrow> runs d1 d2 \<Longrightarrow> runs d d2"
| other_tables: "db_orders d' = db_orders d \<Longrightarrow> runs d d'"
| refreshed: "runs d (fst (refreshOrderStatus env now i x d))"
| opened: "(\<And>k e. runs e (meanwhile k e)) \<Longrightarrow> runs d (fst (createFromQuote env conf mcache now user quoteId upm tradeId meanwhile refs d))"
| cancelled: "(\<And>e. runs e (meanwhile e)) \<Longrightarrow> runs d (fst (cancelOrder env now i who meanwhile d))"
| disputed: "(\<And>e. runs e (meanwhile e)) \<Longrightarrow>
    runs d (fst (postDispute env build statObject conf now i who reason memo evidence meanwhile d))"
| proved: "(\<And>e. runs e (meanwhile e)) \<Longrightarrow> runs d (snd (fst (uploadProof env now meanwhile put_ok uuid i who f meta (st, d))))"
| indexed: "(\<And>e. runs e (meanwhile e)) \<Longrightarrow> runs d (fst (applyEvent env sdk now meanwhile ev d))"
| expired: "(\<And>x e. runs e (meanwhile x e)) \<Longrightarrow> runs d (expireStaleOrders env now meanwhile d)"
| refunded: "runs d (fst (autoRefundExpired env rf now d))"
| reconciled: "runs d (fst (snd (reconcileOrphanedEscrows env rf now after d)))"
| attested: "(\<And>e. runs e (meanwhile e)) \<Longrightarrow>
    runs (at_db s) (at_db (fst (attestFiatPaid env submit now turn audit_ok meanwhile attesting i actor memo s)))"
| receipt: "(\<And>e. runs e (meanwhile e)) \<Longrightarrow>
    runs (at_db s) (at_db (fst (confirmReceiptAsProvider env submit now turn audit_ok meanwhile attesting i who at_secs signature s)))"
| stood_down: "(\<And>e. runs e (first e)) \<Longrightarrow> (\<And>e. runs e (second e)) \<Longrightarrow> runs d (fst (setStatus env i status memo actor now first second d))"
| claimed: "(\<And>e. runs e (meanwhile e)) \<Longrightarrow> runs d (fst (claimPaid env j now meanwhile i token d))"
| named: "(\<And>k e. runs e (ar_placing run k e)) \<Longrightarrow> (\<And>e. runs e (ar_linking run e)) \<Longrightarrow>
    runs d (fst (fst (openOrderForAmount env j run now i token raw upm (d, mem))))"

lemma runs_grown: "runs d d' \<Longrightarrow> grown d d'"
proof (induction rule: runs.induct)
  case (chain d d1 d2)
  then show ?case using grown_trans by blast
next
  case (proved meanwhile d env now put_ok uuid i who f meta st)
  then show ?case using proof_grown [of meanwhile "(st, d)"] by simp
next
  case (named run d env j now i token raw upm mem)
  then show ?case using amount_grown [of run "(d, mem)"] by simp
qed (simp_all add: grown_frame order_step_grown [OF refresh_step] create_grown cancel_grown dispute_grown event_grown expiry_grown refunds_grown attest_grown standing_grown claim_grown)

lemma grown_find:
  assumes "grown d d'" "orders_ok d" "find_order d i = Some x"
  shows "\<exists>y. find_order d' i = Some y \<and> row_kept x y"
proof -
  obtain old new where o: "db_orders d' = old @ new" "list_all2 row_kept (db_orders d) old" and ok: "orders_ok d'"
    using assms(1,2) by (auto simp: grown_def)
  obtain n where n: "n < length (db_orders d)" "db_orders d ! n = x" using find_order_Some [OF assms(3)] by (auto simp: in_set_conv_nth)
  have k: "row_kept x (old ! n)" "n < length old" using list_all2_nthD [OF o(2) n(1)] list_all2_lengthD [OF o(2)] n by auto
  then have "old ! n \<in> set (db_orders d')" "o_id (old ! n) = i"
    using find_order_Some [OF assms(3)] by (auto simp: o(1) row_kept_def order_key_def)
  then have "find_order d' i = Some (old ! n)"
    using find_row_distinct [of o_id "db_orders d'" "old ! n"] ok by (simp add: find_order_def orders_ok_def)
  then show ?thesis using k(1) by blast
qed

end
