(* ===== verification/Monitoring.thy ===== *)
theory Monitoring
  imports Divergence Matching Kyc
begin

text \<open>
  \<open>monitoring/monitoring.service.ts\<close>, \<open>monitoring.conditions.ts\<close> and \<open>didit-refusals.service.ts\<close>: the check that runs every five
  minutes, reads what it watches and raises alerts.  Every read may fail on its own; a check that could not read is named among the
  incomplete families, whose alerts are not cleared.  The record \<open>tick\<close> says which reads fail and what the outside answers.
\<close>

section \<open>Conditions\<close>

definition ALERT_SAMPLE_LIMIT :: nat where "ALERT_SAMPLE_LIMIT = 500"
definition DISPUTE_STALE_DAYS :: int where "DISPUTE_STALE_DAYS = 30"
definition SLASH_SCAN_LIMIT :: nat where "SLASH_SCAN_LIMIT = 100"
definition ATTESTATION_AUDIT_ACTION :: string where "ATTESTATION_AUDIT_ACTION = ''order.attestFiatPaid''"
definition ATTESTATION_FAILURE_WINDOW_MS :: ms where "ATTESTATION_FAILURE_WINDOW_MS = 60 * 60 * 1000"
definition STROOPS_PER_XLM :: int where "STROOPS_PER_XLM = 10000000"
definition ATTESTOR_LOW_BALANCE_XLM :: int where "ATTESTOR_LOW_BALANCE_XLM = 25"
definition ATTESTOR_LOW_BALANCE_STROOPS :: int where "ATTESTOR_LOW_BALANCE_STROOPS = ATTESTOR_LOW_BALANCE_XLM * STROOPS_PER_XLM"
definition INDEXER_LAG_ALERT_SECONDS :: int where "INDEXER_LAG_ALERT_SECONDS = 120"

text \<open>A row of the audit table as this check reads it: of the two payloads the trade and the submission, when they are strings.\<close>

record attempt =
  ap_id :: string
  ap_action :: string
  ap_targetId :: "string option"
  ap_createdAt :: ms
  ap_tradeId :: "string option"
  ap_submission :: "string option"

definition char_in :: "nat \<Rightarrow> nat \<Rightarrow> char \<Rightarrow> bool" where
  "char_in a b c = (let n = of_char c in a \<le> n \<and> n \<le> b)"

definition PLAIN_TOKEN :: "string \<Rightarrow> bool" where
  "PLAIN_TOKEN s =
     (1 \<le> length s \<and> length s \<le> 80 \<and>
      list_all (\<lambda>c. char_in 65 90 c \<or> char_in 97 122 c \<or> char_in 48 57 c \<or> c = CHR ''_'' \<or> c = CHR ''-'') s)"

definition OUTCOME_LABEL :: "string \<Rightarrow> bool" where
  "OUTCOME_LABEL s = (1 \<le> length s \<and> length s \<le> 32 \<and> list_all (\<lambda>c. char_in 65 90 c \<or> c = CHR ''_'') s)"

definition safe :: "string option \<Rightarrow> (string \<Rightarrow> bool) \<Rightarrow> string \<Rightarrow> string" where
  "safe v pattern fallback = (case v of Some s \<Rightarrow> if pattern s then s else fallback | None \<Rightarrow> fallback)"

definition attestationDidNotSucceed :: "attempt \<Rightarrow> bool" where
  "attestationDidNotSucceed a = (ap_submission a \<noteq> Some ''SUCCESS'')"

definition describeAttestationAttempt :: "attempt \<Rightarrow> string \<times> string \<times> string" where
  "describeAttestationAttempt a =
     (safe (ap_targetId a) PLAIN_TOKEN ''unknown'', safe (ap_tradeId a) PLAIN_TOKEN ''unknown'', safe (ap_submission a) OUTCOME_LABEL ''unrecognised'')"

definition WINDOW_UNITS :: "(string \<times> ms) list" where
  "WINDOW_UNITS = [(''day'', 86400000), (''hour'', 3600000), (''minute'', 60000), (''second'', 1000)]"

definition windowWords :: "ms \<Rightarrow> string" where
  "windowWords m =
     (case find (\<lambda>(u, per). m mod per = 0) WINDOW_UNITS of
        Some (u, per) \<Rightarrow> if m = per then u else dec_int (m div per) @ '' '' @ u @ ''s''
      | None \<Rightarrow> dec_int m @ '' milliseconds'')"

definition formatXlm :: "int \<Rightarrow> string" where
  "formatXlm stroops =
     dec_int (bigdiv stroops STROOPS_PER_XLM) @ ''.'' @ pad_start 7 (CHR ''0'') (dec_int (bigmod stroops STROOPS_PER_XLM))"

definition openDisputesWhere :: "order \<Rightarrow> bool" where
  "openDisputesWhere x = (o_status x = DISPUTED)"

definition releaseOverdueWhere :: "secs \<Rightarrow> order \<Rightarrow> bool" where
  "releaseOverdueWhere nowSec x = (o_status x = FIAT_PAID \<and> o_confirmDeadline x < nowSec)"

definition fiatPaymentOverdueWhere :: "secs \<Rightarrow> order \<Rightarrow> bool" where
  "fiatPaymentOverdueWhere nowSec x =
     (o_status x = FUNDED \<and>
      (o_flow x = TOP_UP \<and> o_payDeadline x < nowSec \<or> o_flow x = WITHDRAW \<and> o_confirmDeadline x < nowSec))"

definition slashCandidatesWhere :: "ms \<Rightarrow> order \<Rightarrow> bool" where
  "slashCandidatesWhere now x =
     (o_liabilityEstablished x \<and> (case o_slashDeadline x of None \<Rightarrow> False | Some s \<Rightarrow> now div 1000 < s))"

datatype alert_history = FirstSeen | UnreadableHistory | KnownSince ms int

definition plural :: "int \<Rightarrow> string \<Rightarrow> string" where
  "plural n u = dec_int n @ '' '' @ u @ (if n = 1 then [] else ''s'')"

definition humanDuration :: "int \<Rightarrow> string" where
  "humanDuration m =
     (let seconds = max 0 m div 1000; minutes = seconds div 60; hours = minutes div 60; days = hours div 24 in
      if seconds < 60 then (if seconds = 0 then ''moments'' else plural seconds ''second'')
      else if minutes < 60 then plural minutes ''minute''
      else if hours < 24 then plural hours ''hour''
      else plural days ''day'')"

definition alertAgeSentence :: "alert_history \<Rightarrow> ms \<Rightarrow> string" where
  "alertAgeSentence h now =
     (case h of
        FirstSeen \<Rightarrow> ''first noticed just now''
      | UnreadableHistory \<Rightarrow> ''how long this has been going on and how many times it was sent could not be read''
      | KnownSince t n \<Rightarrow> ''first noticed '' @ humanDuration (now - t) @ '' ago, sent '' @ plural n ''time'' @ '' before this one'')"

definition deliveredButUnreadable :: "kyc_row \<Rightarrow> bool" where
  "deliveredButUnreadable v = (v_status v = NEEDS_INFO \<and> v_rejectionReason v = Some UNREADABLE_SCREENING)"

definition screeningDidNotRun :: "kyc_row \<Rightarrow> bool" where
  "screeningDidNotRun v = (v_status v = NEEDS_INFO \<and> v_rejectionReason v = Some SCREENING_DID_NOT_RUN)"

section \<open>What the provider's deliveries ran into\<close>

record didit_refusals =
  dr_count :: nat
  dr_lastReason :: "string option"
  dr_outOfSessionAt :: "ms list"
  dr_outOfSessionReason :: "string option"
  dr_providerFailures :: nat
  dr_providerReason :: "string option"
  dr_unauthenticated :: nat
  dr_unauthenticatedReason :: "string option"
  dr_overBudget :: nat
  dr_budgetReason :: "string option"
  dr_performsAml :: "bool option"

definition record_refusal :: "string \<Rightarrow> didit_refusals \<Rightarrow> didit_refusals" where
  "record_refusal reason r = r\<lparr>dr_count := dr_count r + 1, dr_lastReason := Some reason\<rparr>"

definition applied :: "didit_refusals \<Rightarrow> didit_refusals" where
  "applied r = r\<lparr>dr_count := 0, dr_lastReason := None\<rparr>"

definition droppedOutOfSession :: "string \<Rightarrow> ms \<Rightarrow> didit_refusals \<Rightarrow> didit_refusals" where
  "droppedOutOfSession reason now r = r\<lparr>dr_outOfSessionAt := dr_outOfSessionAt r @ [now], dr_outOfSessionReason := Some reason\<rparr>"

definition couldNotAuthenticate :: "string \<Rightarrow> didit_refusals \<Rightarrow> didit_refusals" where
  "couldNotAuthenticate reason r = r\<lparr>dr_unauthenticated := dr_unauthenticated r + 1, dr_unauthenticatedReason := Some reason\<rparr>"

definition budgetExhausted :: "string \<Rightarrow> didit_refusals \<Rightarrow> didit_refusals" where
  "budgetExhausted reason r = r\<lparr>dr_overBudget := dr_overBudget r + 1, dr_budgetReason := Some reason\<rparr>"

definition providerFailed :: "string \<Rightarrow> didit_refusals \<Rightarrow> didit_refusals" where
  "providerFailed reason r = r\<lparr>dr_providerFailures := dr_providerFailures r + 1, dr_providerReason := Some reason\<rparr>"

definition providerAnswered :: "didit_refusals \<Rightarrow> didit_refusals" where
  "providerAnswered r =
     (let n = dr_providerFailures r - 1 in r\<lparr>dr_providerFailures := n, dr_providerReason := (if n = 0 then None else dr_providerReason r)\<rparr>)"

definition spendResumed :: "didit_refusals \<Rightarrow> didit_refusals" where
  "spendResumed r = r\<lparr>dr_overBudget := 0, dr_budgetReason := None\<rparr>"

definition refusals_seen :: "didit_refusals \<Rightarrow> didit_refusals" where
  "refusals_seen r =
     (let n = dr_unauthenticated r - 1 in r\<lparr>dr_unauthenticated := n, dr_unauthenticatedReason := (if n = 0 then None else dr_unauthenticatedReason r)\<rparr>)"

definition workflowPerformsAml :: "bool option \<Rightarrow> didit_refusals \<Rightarrow> didit_refusals" where
  "workflowPerformsAml performs r = r\<lparr>dr_performsAml := performs\<rparr>"

definition OUT_OF_SESSION_WINDOW_MS :: ms where "OUT_OF_SESSION_WINDOW_MS = 24 * 60 * 60 * 1000"

definition outOfSessionInWindow :: "ms \<Rightarrow> didit_refusals \<Rightarrow> didit_refusals \<times> nat" where
  "outOfSessionInWindow now r =
     (let kept = filter (\<lambda>t. now - OUT_OF_SESSION_WINDOW_MS < t) (dr_outOfSessionAt r) in
      (r\<lparr>dr_outOfSessionAt := kept, dr_outOfSessionReason := (if kept = [] then None else dr_outOfSessionReason r)\<rparr>, length kept))"

section \<open>One check\<close>

datatype reading =
    RMetrics | RSamples | RMatchable | RHistory | RSlashScan | ROutbox | RAttempts | RConfig | RUnreadable | RUnscreened | RRefused
  | RUnscreenedAccepted | RAlertStates

record tick =
  tk_fails :: "reading \<Rightarrow> http_error option"
  tk_indexer :: "ms option" \<comment> \<open>when the indexer last wrote its state\<close>
  tk_attempts :: "attempt list"
  tk_attestor :: "int option outcome option" \<comment> \<open>None: there is no attestor; else its balance, None without a usable key\<close>
  tk_homeDomain :: "string option"
  tk_anchor :: "string \<Rightarrow> string list outcome"

record metrics =
  mx_by_status :: "order_status \<Rightarrow> nat"
  mx_open_disputes :: nat
  mx_release_overdue :: nat
  mx_fiat_payment_overdue :: nat
  mx_indexer_lag :: "int option"

definition take_metrics :: "tick \<Rightarrow> ms \<Rightarrow> db \<Rightarrow> metrics outcome" where
  "take_metrics t now d =
     answer (tk_fails t RMetrics)
       \<lparr>mx_by_status = (\<lambda>s. count_rows (\<lambda>x. o_status x = s) (db_orders d)),
        mx_open_disputes = count_rows openDisputesWhere (db_orders d),
        mx_release_overdue = count_rows (releaseOverdueWhere (now div 1000)) (db_orders d),
        mx_fiat_payment_overdue = count_rows (fiatPaymentOverdueWhere (now div 1000)) (db_orders d),
        mx_indexer_lag = map_option (\<lambda>u. (now - u + 500) div 1000) (tk_indexer t)\<rparr>"

text \<open>What a check finds: alerts, and the families it could not read.\<close>

type_synonym finding = "alert list \<times> string list"

definition none_found :: finding where "none_found = ([], [])"

definition mk_alert :: "string \<Rightarrow> string \<Rightarrow> urgency \<Rightarrow> string \<Rightarrow> alert" where
  "mk_alert key print u text = \<lparr>al_key = key, al_fingerprint = print, al_urgency = u, al_text = text\<rparr>"

definition sample :: "(order \<Rightarrow> bool) \<Rightarrow> db \<Rightarrow> order list" where
  "sample p d = take ALERT_SAMPLE_LIMIT (sort_key age_key (filter p (db_orders d)))"

definition noteOverflow :: "string \<Rightarrow> order list \<Rightarrow> string \<Rightarrow> finding" where
  "noteOverflow kind sampled label =
     (if length sampled < ALERT_SAMPLE_LIMIT then none_found
      else ([mk_alert (kind @ '':overflow'') ''at-limit'' Routine
               (''at least '' @ dec_nat ALERT_SAMPLE_LIMIT @ '' '' @ label @ '' '' @ em_dash @
                '' the list is truncated and nothing in this family will be reported as cleared until it is not'')], [kind]))"

definition order_label :: "order \<Rightarrow> string" where
  "order_label x = ''order '' @ o_id x @ '' (trade '' @ o_tradeId x @ '')''"

definition dispute_alert :: "ms \<Rightarrow> order \<Rightarrow> alert" where
  "dispute_alert now x =
     (let since = (case o_disputeAt x of Some t \<Rightarrow> t | None \<Rightarrow> o_createdAt x); days = (now - since) div (24 * 60 * 60 * 1000); stale = (DISPUTE_STALE_DAYS \<le> days)
      in mk_alert (''open_dispute:'' @ o_id x) (if stale then ''stale'' else ''open'') (if stale then Urgent else Routine)
           (if stale
            then order_label x @ '' has been disputed for '' @ dec_int days @ '' days and nobody has resolved it '' @ em_dash @
                 '' the escrow entry expires 45 days after its last write, after which the funds need a ledger restore''
            else order_label x @ '' is disputed and awaiting resolution''))"

definition release_alert :: "order \<Rightarrow> alert" where
  "release_alert x = mk_alert (''release_overdue:'' @ o_id x) (o_id x) Routine (order_label x @ '' is past its confirm deadline, release overdue'')"

definition fiat_alert :: "order \<Rightarrow> alert" where
  "fiat_alert x = mk_alert (''fiat_payment_overdue:'' @ o_id x) (o_id x) Routine
     (order_label x @ '' is still FUNDED past its deadline '' @ em_dash @ '' the fiat has not been marked as paid'')"

definition order_check :: "ms \<Rightarrow> db \<Rightarrow> finding" where
  "order_check now d =
     (let disputes = sample openDisputesWhere d; releases = sample (releaseOverdueWhere (now div 1000)) d;
          fiats = sample (fiatPaymentOverdueWhere (now div 1000)) d;
          overflow = [noteOverflow ''open_dispute'' disputes ''open disputes'', noteOverflow ''release_overdue'' releases ''orders past their confirm deadline'',
            noteOverflow ''fiat_payment_overdue'' fiats ''orders still FUNDED past their deadline'']
      in (concat (map fst overflow) @ map (dispute_alert now) disputes @ map release_alert releases @ map fiat_alert fiats, concat (map snd overflow)))"

definition lagging :: "metrics \<Rightarrow> bool" where
  "lagging m = (case mx_indexer_lag m of None \<Rightarrow> True | Some l \<Rightarrow> INDEXER_LAG_ALERT_SECONDS < l)"

definition noLpMatchableHistory :: "tick \<Rightarrow> string \<Rightarrow> db \<Rightarrow> alert_history" where
  "noLpMatchableHistory t print d =
     (if tk_fails t RHistory \<noteq> None then UnreadableHistory
      else case find_row as_key ''no_lp_matchable'' (db_alerts d) of
             Some r \<Rightarrow> if as_fingerprint r = print then KnownSince (as_firstSeenAt r) (as_sendCount r) else FirstSeen
           | None \<Rightarrow> FirstSeen)"

definition no_lp_text :: "alert_history \<Rightarrow> ms \<Rightarrow> string" where
  "no_lp_text h now =
     ''no liquidity provider is matchable '' @ em_dash @ '' every attempt to open an order is refused with \"no eligible LP available\". '' @
     ''A provider counts only while it is APPROVED, online, and has an active payment method. '' @
     ''Nothing an operator can do sets a provider online '' @ em_dash @ '' there is no admin route for it; only the provider can, from their own dashboard. '' @
     ''The one operator lever is approving a suspended provider who is already online. '' @
     ''Silence here does not prove orders succeed: this check ignores the rail and currency of a particular order, on-chain stake eligibility, and remaining capacity, and it does not catch the case where the only provider left is the requester themself, or where the stake could not be read at all. '' @
     alertAgeSentence h now @ ''.''"

definition matchable_check :: "tick \<Rightarrow> ms \<Rightarrow> db \<Rightarrow> finding" where
  "matchable_check t now d =
     (case answer (tk_fails t RMatchable) (count_rows matchableLpWhere (db_lps d)) of
        Inr n \<Rightarrow>
          if n = 0 then ([mk_alert ''no_lp_matchable'' ''none'' Urgent (no_lp_text (noLpMatchableHistory t ''none'' d) now)], []) else none_found
      | Inl e \<Rightarrow>
          ([mk_alert ''no_lp_matchable'' ''unreadable'' Urgent
              (''the count of matchable liquidity providers could not be read ('' @ errMsg e @ '') '' @ em_dash @
               '' this check is blind, and while it is blind an outage of the whole order path would go unreported.'')], [''no_lp_matchable'']))"

definition bucketOf :: "secs \<Rightarrow> string" where
  "bucketOf secondsLeft =
     (if secondsLeft \<le> 15 * 60 then ''under-15m'' else if secondsLeft \<le> 60 * 60 then ''under-1h''
      else if secondsLeft \<le> 6 * 60 * 60 then ''under-6h'' else ''over-6h'')"

text \<open>Settled longest ago first, by id among equals; rows without a settlement time last.\<close>

definition slash_candidates :: "ms \<Rightarrow> db \<Rightarrow> order list" where
  "slash_candidates now d =
     take SLASH_SCAN_LIMIT
       (sort_key (\<lambda>x. (case o_settledAt x of None \<Rightarrow> (1 :: int, 0 :: int) | Some t \<Rightarrow> (0, t), o_id x)) (filter (slashCandidatesWhere now) (db_orders d)))"

definition slash_one :: "env \<Rightarrow> ms \<Rightarrow> order \<Rightarrow> finding" where
  "slash_one env now x =
     (case rpc_getTradeStatusStrict env (contractIdFor x (cfg_escrowContractId env)) (o_tradeId x) of
        Inl _ \<Rightarrow> ([], [''slash_window_open''])
      | Inr None \<Rightarrow> none_found
      | Inr (Some c) \<Rightarrow>
          (let deadline = (case t_slashDeadline c of Some s \<Rightarrow> s | None \<Rightarrow> 0) in
           if t_liabilityEstablished c \<noteq> Some True \<or> deadline = 0 \<or> deadline < now div 1000 then none_found
           else case rpc_getSlashedSoFar env (o_tradeId x) of
                  Inl _ \<Rightarrow> ([], [''slash_window_open''])
                | Inr recovered \<Rightarrow>
                    if o_usdcAmount x \<le> recovered then none_found
                    else ([mk_alert (''slash_window_open:'' @ o_id x) (bucketOf (deadline - now div 1000)) Urgent
                             (order_label x @ '' has a verdict against the provider and '' @ dec_int ((deadline - now div 1000) div 60) @
                              '' minute(s) left to recover '' @ dec_int (o_usdcAmount x - recovered) @ '' base units from its bond '' @ em_dash @
                              '' nothing recovers this automatically'')], [])))"

definition slashWindowAlerts :: "env \<Rightarrow> ms \<Rightarrow> db \<Rightarrow> finding" where
  "slashWindowAlerts env now d =
     (let rows = slash_candidates now d;
          over = (if SLASH_SCAN_LIMIT \<le> length rows
            then ([mk_alert ''slash_window_open:overflow'' ''at-limit'' Urgent
                     (''at least '' @ dec_nat SLASH_SCAN_LIMIT @ '' settled trades are in scope for recovery '' @ em_dash @
                      '' the scan is truncated and nothing in this family will be reported as cleared until it is not'')], [''slash_window_open''])
            else none_found);
          found = map (slash_one env now) rows
      in (fst over @ concat (map fst found), snd over @ concat (map snd found)))"

definition slash_check :: "env \<Rightarrow> tick \<Rightarrow> metrics \<Rightarrow> ms \<Rightarrow> db \<Rightarrow> finding" where
  "slash_check env t m now d =
     (let lag = (if lagging m then [''slash_window_open''] else []) in
      case tk_fails t RSlashScan of
        Some _ \<Rightarrow> ([], lag @ [''slash_window_open''])
      | None \<Rightarrow> (fst (slashWindowAlerts env now d), lag @ snd (slashWindowAlerts env now d)))"

definition delivery_check :: "tick \<Rightarrow> ms \<Rightarrow> db \<Rightarrow> finding" where
  "delivery_check t now d =
     (case answer (tk_fails t ROutbox) (stuckCounts now d) of
        Inl _ \<Rightarrow> ([], [''delivery_failing''])
      | Inr (failed, stalled) \<Rightarrow>
          if failed > 0 \<or> stalled > 0
          then ([mk_alert ''delivery_failing'' (dec_nat failed @ ''/'' @ dec_nat stalled) Routine
                   (dec_nat failed @ '' message(s) gave up in the last 3.55 hours and '' @ dec_nat stalled @ '' have been waiting too long '' @ em_dash @
                    '' something this service tried to tell you did not arrive'')], [])
          else none_found)"

definition recent_attempts :: "tick \<Rightarrow> ms \<Rightarrow> attempt list" where
  "recent_attempts t now =
     take ALERT_SAMPLE_LIMIT (sort_key (\<lambda>a. (ap_createdAt a, ap_id a))
       (filter (\<lambda>a. ap_action a = ATTESTATION_AUDIT_ACTION \<and> now - ATTESTATION_FAILURE_WINDOW_MS \<le> ap_createdAt a) (tk_attempts t)))"

definition attempt_alert :: "attempt \<Rightarrow> alert" where
  "attempt_alert a =
     (case describeAttestationAttempt a of (orderId, tradeId, result) \<Rightarrow>
        mk_alert (''attestation_failed:'' @ ap_id a) result Urgent
          (''order '' @ orderId @ '' (trade '' @ tradeId @ '') had an attestation attempt at '' @ iso_string (ap_createdAt a) @
           '' that was not recorded as a success ('' @ result @ '') '' @ em_dash @ '' check its on-chain status before trying again''))"

definition attestation_check :: "tick \<Rightarrow> ms \<Rightarrow> finding" where
  "attestation_check t now =
     (case answer (tk_fails t RAttempts) (recent_attempts t now) of
        Inl _ \<Rightarrow> ([], [''attestation_failed''])
      | Inr attempts \<Rightarrow>
          (let over = (if ALERT_SAMPLE_LIMIT \<le> length attempts
             then ([mk_alert ''attestation_failed:overflow'' ''at-limit'' Routine
                      (''at least '' @ dec_nat ALERT_SAMPLE_LIMIT @ '' attestation attempts in the last '' @ windowWords ATTESTATION_FAILURE_WINDOW_MS @ '' '' @ em_dash @
                       '' the list is truncated and nothing in this family will be reported as cleared until it is not'')], [''attestation_failed''])
             else none_found)
           in (fst over @ map attempt_alert (filter attestationDidNotSucceed attempts), snd over)))"

definition balance_check :: "tick \<Rightarrow> finding" where
  "balance_check t =
     (case tk_attestor t of
        None \<Rightarrow> none_found
      | Some (Inl _) \<Rightarrow> ([], [''attestor_balance_low''])
      | Some (Inr None) \<Rightarrow> ([], [''attestor_balance_low''])
      | Some (Inr (Some stroops)) \<Rightarrow>
          if stroops < ATTESTOR_LOW_BALANCE_STROOPS
          then ([mk_alert ''attestor_balance_low'' ''low'' Routine
                   (''the attestor account holds '' @ formatXlm stroops @ '' XLM, below the '' @ dec_int ATTESTOR_LOW_BALANCE_XLM @ '' XLM this anchor treats as low '' @ em_dash @
                    '' every confirmation a provider or the operator makes is sent from this account and its fee is paid from this balance, so once it cannot pay, none can be submitted'')], [])
          else none_found)"

definition cooldown_check :: "env \<Rightarrow> tick \<Rightarrow> db \<Rightarrow> finding" where
  "cooldown_check env t d =
     (case answer (tk_fails t RConfig) (db_config d) of
        Inl _ \<Rightarrow> ([], [''cooldown_below_floor''])
      | Inr None \<Rightarrow> none_found
      | Inr (Some c) \<Rightarrow>
          (case rpc_stakingCooldownSecs env of
             Inl _ \<Rightarrow> ([], [''cooldown_below_floor''])
           | Inr deployed \<Rightarrow>
               (let least = cooldownFloorSecs (c_payWindowSecs c) (c_confirmWindowSecs c) in
                if deployed < least
                then ([mk_alert ''cooldown_below_floor'' (dec_int deployed @ ''/'' @ dec_int least) Urgent
                         (''the staking contract runs a '' @ dec_int deployed @ ''s cooldown but these windows need at least '' @ dec_int least @ ''s '' @ em_dash @
                          '' a provider can withdraw its bond before a verdict against it can be acted on'')], [])
                else none_found)))"

definition anchor_check :: "tick \<Rightarrow> finding" where
  "anchor_check t =
     (if \<not> truthy_str (tk_homeDomain t) then none_found
      else case tk_anchor t (the (tk_homeDomain t)) of
             Inl _ \<Rightarrow> ([], [''anchor_identity''])
           | Inr problems \<Rightarrow>
               (map (\<lambda>p. mk_alert ''anchor_identity'' p Urgent (''the anchor no longer agrees with what it publishes about itself: '' @ p)) problems, []))"

text \<open>The order of magnitude of a positive count, \<open>10 ** Math.floor(Math.log10(n))\<close>.\<close>

definition magnitude :: "nat \<Rightarrow> string" where
  "magnitude n = dec_nat (10 ^ (length (dec_nat n) - 1)) @ ''+''"

definition refusal_check :: "didit_refusals \<Rightarrow> finding" where
  "refusal_check r =
     (if dr_count r = 0 then none_found
      else ([mk_alert ''didit_deliveries_refused'' (case dr_lastReason r of Some s \<Rightarrow> s | None \<Rightarrow> ''unknown'') Urgent
               (dec_nat (dr_count r) @ '' identity verification deliveries were refused since the last check '' @ em_dash @ '' the most recent because '' @
                (case dr_lastReason r of Some s \<Rightarrow> s | None \<Rightarrow> ''undefined'') @ ''. While this continues no trade can be opened, in either direction.'')], []))"

text \<open>The checks that count customers: none when there is none, the count's order of magnitude as the fingerprint.\<close>

definition count_check :: "http_error option \<Rightarrow> (kyc_row \<Rightarrow> bool) \<Rightarrow> string \<Rightarrow> (nat \<Rightarrow> bool) \<Rightarrow> (nat \<Rightarrow> string) \<Rightarrow> db \<Rightarrow> finding" where
  "count_check failed p family pressing words d =
     (case answer failed (count_rows p (db_kyc d)) of
        Inl _ \<Rightarrow> ([], [family])
      | Inr n \<Rightarrow> if n = 0 then none_found else ([mk_alert family (magnitude n) (if pressing n then Urgent else Routine) (words n)], []))"

definition unreadable_check :: "tick \<Rightarrow> db \<Rightarrow> finding" where
  "unreadable_check t =
     count_check (tk_fails t RUnreadable) deliveredButUnreadable ''didit_approval_overruled'' (\<lambda>n. 10 \<le> n)
       (\<lambda>n. dec_nat n @ '' customers had a delivery whose screening this anchor could not read, whatever the vendor decided, so they were asked to verify again '' @ em_dash @
          '' one is a stray payload; ten or more marked at once, or a number that keeps growing, means the vendor's payload shape has changed and every new customer will loop until the reader is updated'')"

definition unscreened_check :: "tick \<Rightarrow> db \<Rightarrow> finding" where
  "unscreened_check t =
     count_check (tk_fails t RUnscreened) screeningDidNotRun ''didit_screening_unavailable'' (\<lambda>n. 10 \<le> n)
       (\<lambda>n. dec_nat n @ '' customers are waiting on a screening the vendor could not run and have been asked to verify again '' @ em_dash @
          '' ten or more marked at once means the vendor's screening provider was down for them, a number that keeps growing means it still is, and nothing in this anchor fixes that'')"

definition refused_check :: "tick \<Rightarrow> ms \<Rightarrow> db \<Rightarrow> finding" where
  "refused_check t now =
     count_check (tk_fails t RRefused) (refusedAfterDelivery (now - 24 * 60 * 60 * 1000)) ''didit_refused_last_day'' (\<lambda>n. 10 \<le> n)
       (\<lambda>n. dec_nat n @ '' refusals were written after a provider delivery in the last 24 hours '' @ em_dash @ '' each is permanent and this anchor has no way to lift it; '' @
          ''the row keeps its reason until the customer erases it; ten or more in a day is either a real wave or a vendor field this anchor misreads, so read one delivery before trusting the number'')"

definition session_check :: "ms \<Rightarrow> didit_refusals \<Rightarrow> finding" where
  "session_check now r =
     (case outOfSessionInWindow now r of (r', n) \<Rightarrow>
        if n < 3 then none_found
        else ([mk_alert ''didit_out_of_session_deliveries'' (magnitude n) Routine
                 (dec_nat n @ '' deliveries since this coordinator started, within the last 24 hours, named a session an accepted or processing row is not following and were dropped '' @
                  em_dash @ '' the most recent because '' @ (case dr_outOfSessionReason r' of Some s \<Rightarrow> s | None \<Rightarrow> ''undefined'') @
                  ''. A late approval for a session a customer abandoned and re-registered after is normal and stays dropped while the newer session still holds the row, though a late refusal lands; a steady stream means session ids no longer match what this anchor opened.'')], []))"

definition unscreened_accepted_check :: "env \<Rightarrow> tick \<Rightarrow> ms \<Rightarrow> didit_refusals \<Rightarrow> db \<Rightarrow> finding" where
  "unscreened_accepted_check env t now r d =
     (case dr_performsAml r of
        None \<Rightarrow>
          ([mk_alert ''didit_unscreened_acceptances_last_day'' ''unknown'' Routine
              (''boot could not read which checks the bound verification workflow performs, so whether an unscreened acceptance is drift is unknown '' @ em_dash @
               '' the coordinator asks the vendor again every minute and this clears on its own once it knows; if it stays, read the workflow in the Didit console and check DIDIT_WORKFLOW_ID'')], [])
      | Some False \<Rightarrow> none_found
      | Some True \<Rightarrow>
          count_check (tk_fails t RUnscreenedAccepted) (acceptedUnscreenedSince (now - 24 * 60 * 60 * 1000)) ''didit_unscreened_acceptances_last_day''
            (\<lambda>n. \<not> cfg_kycRequireAml env \<or> 10 \<le> n)
            (\<lambda>n. dec_nat n @ '' acceptances delivered in the last 24 hours carried no screening although the bound workflow performs AML '' @ em_dash @
               '' under KYC_REQUIRE_AML=false those customers can already move funds unscreened; the vendor's payload has probably dropped or moved aml_screenings, so read one delivery. '' @
               ''A clear means no such delivery landed in the window, not that the reader is fixed'') d)"

definition counter_check :: "nat \<Rightarrow> string \<Rightarrow> string \<Rightarrow> urgency \<Rightarrow> string \<Rightarrow> finding" where
  "counter_check n family print u text = (if n = 0 then none_found else ([mk_alert family print u text], []))"

definition reason_or :: "string \<Rightarrow> string option \<Rightarrow> string" where
  "reason_or fallback v = (case v of Some s \<Rightarrow> s | None \<Rightarrow> fallback)"

definition provider_checks :: "didit_refusals \<Rightarrow> finding list" where
  "provider_checks r =
     [counter_check (dr_unauthenticated r) ''didit_deliveries_unauthenticated'' (reason_or ''unknown'' (dr_unauthenticatedReason r)) Routine
        (dec_nat (dr_unauthenticated r) @ '' deliveries arrived that this anchor could not authenticate '' @ em_dash @ '' the most recent because '' @
         reason_or ''undefined'' (dr_unauthenticatedReason r) @ ''. Either the shared secret has drifted from the provider's, or something is posting to the endpoint.''),
      counter_check (dr_overBudget r) ''didit_budget_exhausted'' ''budget'' Urgent
        (dec_nat (dr_overBudget r) @ '' customers were turned away because '' @ reason_or ''undefined'' (dr_budgetReason r) @
         ''. This is the ceiling this anchor was configured with, not a provider failure.''),
      counter_check (dr_providerFailures r) ''didit_provider_unreachable'' (reason_or ''unknown'' (dr_providerReason r)) Urgent
        (dec_nat (dr_providerFailures r) @ '' attempts to start an identity verification did not produce a session '' @ em_dash @ '' the most recent because '' @
         reason_or ''undefined'' (dr_providerReason r) @ ''. No new customer can begin verification while this continues.'')]"

definition indexer_check :: "metrics \<Rightarrow> finding" where
  "indexer_check m =
     (case mx_indexer_lag m of
        None \<Rightarrow> ([mk_alert ''indexer_stalled'' ''never'' Urgent ''indexer has never run''], [])
      | Some l \<Rightarrow> if INDEXER_LAG_ALERT_SECONDS < l then ([mk_alert ''indexer_stalled'' ''lagging'' Urgent (''indexer lag '' @ dec_int l @ ''s (stalled?)'')], []) else none_found)"

text \<open>The checks, in the order they run.\<close>

definition checks :: "env \<Rightarrow> tick \<Rightarrow> metrics \<Rightarrow> ms \<Rightarrow> didit_refusals \<Rightarrow> db \<Rightarrow> finding list" where
  "checks env t m now r d =
     [order_check now d, matchable_check t now d, slash_check env t m now d, delivery_check t now d, attestation_check t now, balance_check t,
      cooldown_check env t d, anchor_check t, refusal_check r, unreadable_check t d, unscreened_check t d, refused_check t now d, session_check now r,
      unscreened_accepted_check env t now r d] @ provider_checks r @ [indexer_check m]"

definition silentlyBlind :: "alert list \<Rightarrow> string list \<Rightarrow> string list" where
  "silentlyBlind alerts incomplete = sort (remdups (filter (\<lambda>f. \<not> list_ex (\<lambda>a. familyOf (al_key a) = f) alerts) incomplete))"

definition blind_alert :: "string list \<Rightarrow> alert" where
  "blind_alert names =
     mk_alert ''monitoring_blind'' (join_with '','' names) Urgent
       (dec_nat (length names) @ '' check(s) could not read what they watch this tick and raised nothing of their own: '' @ join_with '', '' names @ '' '' @ em_dash @
        '' each of those is unread rather than clear, so nothing in them will be reported as cleared and their silence proves nothing'')"

definition buildAlerts :: "env \<Rightarrow> tick \<Rightarrow> metrics \<Rightarrow> ms \<Rightarrow> didit_refusals \<Rightarrow> db \<Rightarrow> finding outcome" where
  "buildAlerts env t m now r d =
     (case tk_fails t RSamples of
        Some e \<Rightarrow> Inl e
      | None \<Rightarrow>
          (let found = checks env t m now r d; alerts = concat (map fst found); incomplete = concat (map snd found);
               blind = silentlyBlind alerts incomplete
           in Inr (if blind = [] then alerts else blind_alert blind # alerts, incomplete)))"

section \<open>The tick\<close>

definition MONITORING_ALERT_SCOPE :: "string list" where
  "MONITORING_ALERT_SCOPE =
     [''no_lp_matchable'', ''open_dispute'', ''release_overdue'', ''fiat_payment_overdue'', ''indexer_stalled'', ''delivery_failing'', ''slash_window_open'',
      ''cooldown_below_floor'', ''anchor_identity'', ''didit_deliveries_refused'', ''didit_approval_overruled'', ''didit_screening_unavailable'',
      ''didit_refused_last_day'', ''didit_out_of_session_deliveries'', ''didit_unscreened_acceptances_last_day'', ''didit_provider_unreachable'',
      ''didit_deliveries_unauthenticated'', ''didit_budget_exhausted'', ''attestation_failed'', ''attestor_balance_low'', ''monitoring_blind'']"

definition raiseBlind :: "env \<Rightarrow> (string \<Rightarrow> string) \<Rightarrow> tick \<Rightarrow> ms \<Rightarrow> string \<Rightarrow> db \<Rightarrow> db \<times> alert list \<times> string list" where
  "raiseBlind env sha t now text d =
     raise_alerts env sha (answer (tk_fails t RAlertStates) (db_alerts d)) MONITORING_ALERT_SCOPE
       [mk_alert ''monitoring_blind'' ''all'' Urgent text] (set MONITORING_ALERT_SCOPE) now d"

text \<open>One run: the new state, and the alerts sent and the keys cleared.\<close>

definition runCheck :: "env \<Rightarrow> (string \<Rightarrow> string) \<Rightarrow> tick \<Rightarrow> ms \<Rightarrow> didit_refusals \<times> db \<Rightarrow> (didit_refusals \<times> db) \<times> alert list \<times> string list" where
  "runCheck env sha t now s =
     (case s of (r, d) \<Rightarrow>
        case take_metrics t now d of
          Inl e \<Rightarrow>
            (case raiseBlind env sha t now (''this coordinator could not read the counts every one of its checks is built on ('' @ errMsg e @
                     ''), so not one of them ran this tick '' @ em_dash @ '' nothing here is clear, it is unread, and nothing will be reported as cleared until it can be read again'') d of
               (d', res) \<Rightarrow> ((r, d'), res))
        | Inr m \<Rightarrow>
            (case buildAlerts env t m now r d of
               Inl e \<Rightarrow>
                 (case raiseBlind env sha t now (''the alert conditions could not be read ('' @ errMsg e @ ''), so every check this coordinator performs is blind this tick '' @ em_dash @
                          '' nothing here is clear, it is unread, and nothing will be reported as cleared until it can be read again'') d of
                    (d', res) \<Rightarrow> ((r, d'), res))
             | Inr (alerts, incomplete) \<Rightarrow>
                 (case raise_alerts env sha (answer (tk_fails t RAlertStates) (db_alerts d)) MONITORING_ALERT_SCOPE alerts (set incomplete) now d of
                    (d', res) \<Rightarrow> ((refusals_seen (fst (outOfSessionInWindow now r)), d'), res))))"

definition checkAndAlert :: "bool \<Rightarrow> env \<Rightarrow> (string \<Rightarrow> string) \<Rightarrow> tick \<Rightarrow> ms \<Rightarrow> didit_refusals \<times> db \<Rightarrow> didit_refusals \<times> db" where
  "checkAndAlert inRun env sha t now s = (if inRun then s else fst (runCheck env sha t now s))"

section \<open>What is unread is never clear\<close>

text \<open>The families whose check could not read what it watches.\<close>

definition unread :: "env \<Rightarrow> tick \<Rightarrow> metrics \<Rightarrow> didit_refusals \<Rightarrow> db \<Rightarrow> string set" where
  "unread env t m r d =
     {f. f = ''no_lp_matchable'' \<and> tk_fails t RMatchable \<noteq> None \<or>
         f = ''slash_window_open'' \<and> (lagging m \<or> tk_fails t RSlashScan \<noteq> None) \<or>
         f = ''delivery_failing'' \<and> tk_fails t ROutbox \<noteq> None \<or>
         f = ''attestation_failed'' \<and> tk_fails t RAttempts \<noteq> None \<or>
         f = ''attestor_balance_low'' \<and> (\<exists>b. tk_attestor t = Some b \<and> (b = Inr None \<or> (\<exists>e. b = Inl e))) \<or>
         f = ''cooldown_below_floor'' \<and> (tk_fails t RConfig \<noteq> None \<or> db_config d \<noteq> None \<and> (\<exists>e. rpc_stakingCooldownSecs env = Inl e)) \<or>
         f = ''anchor_identity'' \<and> (\<exists>h e. tk_homeDomain t = Some h \<and> h \<noteq> [] \<and> tk_anchor t h = Inl e) \<or>
         f = ''didit_approval_overruled'' \<and> tk_fails t RUnreadable \<noteq> None \<or>
         f = ''didit_screening_unavailable'' \<and> tk_fails t RUnscreened \<noteq> None \<or>
         f = ''didit_refused_last_day'' \<and> tk_fails t RRefused \<noteq> None \<or>
         f = ''didit_unscreened_acceptances_last_day'' \<and> dr_performsAml r = Some True \<and> tk_fails t RUnscreenedAccepted \<noteq> None}"

lemma unread_said:
  "tk_fails t RMatchable = Some e \<Longrightarrow> ''no_lp_matchable'' \<in> set (snd (matchable_check t now d))"
  "lagging m \<Longrightarrow> ''slash_window_open'' \<in> set (snd (slash_check env t m now d))"
  "tk_fails t RSlashScan = Some e \<Longrightarrow> ''slash_window_open'' \<in> set (snd (slash_check env t m now d))"
  "tk_fails t ROutbox = Some e \<Longrightarrow> ''delivery_failing'' \<in> set (snd (delivery_check t now d))"
  "tk_fails t RAttempts = Some e \<Longrightarrow> ''attestation_failed'' \<in> set (snd (attestation_check t now))"
  "tk_attestor t = Some (Inr None) \<Longrightarrow> ''attestor_balance_low'' \<in> set (snd (balance_check t))"
  "tk_attestor t = Some (Inl e) \<Longrightarrow> ''attestor_balance_low'' \<in> set (snd (balance_check t))"
  "tk_fails t RConfig = Some e \<Longrightarrow> ''cooldown_below_floor'' \<in> set (snd (cooldown_check env t d))"
  "db_config d = Some c \<Longrightarrow> rpc_stakingCooldownSecs env = Inl e \<Longrightarrow> ''cooldown_below_floor'' \<in> set (snd (cooldown_check env t d))"
  "tk_homeDomain t = Some h \<Longrightarrow> h \<noteq> [] \<Longrightarrow> tk_anchor t h = Inl e \<Longrightarrow> ''anchor_identity'' \<in> set (snd (anchor_check t))"
  "tk_fails t RUnreadable = Some e \<Longrightarrow> ''didit_approval_overruled'' \<in> set (snd (unreadable_check t d))"
  "tk_fails t RUnscreened = Some e \<Longrightarrow> ''didit_screening_unavailable'' \<in> set (snd (unscreened_check t d))"
  "tk_fails t RRefused = Some e \<Longrightarrow> ''didit_refused_last_day'' \<in> set (snd (refused_check t now d))"
  "dr_performsAml r = Some True \<Longrightarrow> tk_fails t RUnscreenedAccepted = Some e \<Longrightarrow>
     ''didit_unscreened_acceptances_last_day'' \<in> set (snd (unscreened_accepted_check env t now r d))"
  by (simp_all add: matchable_check_def slash_check_def delivery_check_def attestation_check_def balance_check_def cooldown_check_def anchor_check_def
      unreadable_check_def unscreened_check_def refused_check_def unscreened_accepted_check_def count_check_def answer_def Let_def
      split: option.split)

lemma unread_incomplete: "f \<in> unread env t m r d \<Longrightarrow> f \<in> set (concat (map snd (checks env t m now r d)))"
  by (auto simp: unread_def checks_def unread_said)

lemma incomplete_spoken_for:
  assumes "buildAlerts env t m now r d = Inr (alerts, incomplete)" "f \<in> set incomplete"
  shows "\<exists>a \<in> set alerts. familyOf (al_key a) = f \<or> (\<exists>names. a = blind_alert names \<and> f \<in> set names)"
proof -
  define raw where "raw = concat (map fst (checks env t m now r d))"
  have i: "incomplete = concat (map snd (checks env t m now r d))"
    and a: "alerts = (if silentlyBlind raw incomplete = [] then raw else blind_alert (silentlyBlind raw incomplete) # raw)"
    using assms(1) by (auto simp: buildAlerts_def Let_def raw_def split: option.splits)
  show ?thesis
  proof (cases "list_ex (\<lambda>a. familyOf (al_key a) = f) raw")
    case True
    then show ?thesis by (auto simp: a list_ex_iff)
  next
    case False
    then have "f \<in> set (silentlyBlind raw incomplete)" using assms(2) by (simp add: silentlyBlind_def)
    then show ?thesis by (auto simp: a)
  qed
qed

lemma cleared_complete: "raise_alerts env sha known scope alerts incomplete now d = (d', sent, gone) \<Longrightarrow> key \<in> set gone \<Longrightarrow>
    familyOf key \<notin> incomplete \<and> familyOf key \<in> set scope"
  by (auto simp: raise_alerts_def Let_def to_clear_def split: sum.splits)

lemma raiseBlind_clears_nothing: "raiseBlind env sha t now text d = (d', sent, gone) \<Longrightarrow> gone = []"
proof -
  assume r: "raiseBlind env sha t now text d = (d', sent, gone)"
  have "key \<notin> set gone" for key using cleared_complete [OF r [unfolded raiseBlind_def]] by blast
  then show ?thesis by (cases gone) auto
qed

lemma runCheck_cases:
  assumes "runCheck env sha t now (r, d) = (s', sent, gone)"
  obtains (blind) words d' where "raiseBlind env sha t now words d = (d', sent, gone)" "tk_fails t RMetrics \<noteq> None \<or> tk_fails t RSamples \<noteq> None"
  | (read) m alerts incomplete d' where "take_metrics t now d = Inr m" "buildAlerts env t m now r d = Inr (alerts, incomplete)"
      "raise_alerts env sha (answer (tk_fails t RAlertStates) (db_alerts d)) MONITORING_ALERT_SCOPE alerts (set incomplete) now d = (d', sent, gone)"
  using assms
  by (auto simp: runCheck_def take_metrics_def answer_def buildAlerts_def Let_def split: sum.splits option.splits prod.splits)


section \<open>What is open is reported\<close>

lemma checks_alert:
  assumes "buildAlerts env t m now r d = Inr (alerts, incomplete)" "c \<in> set (checks env t m now r d)"
  shows "set (fst c) \<subseteq> set alerts" "set (snd c) \<subseteq> set incomplete"
  using assms by (auto simp: buildAlerts_def Let_def split: option.splits if_splits)

lemma sampled:
  assumes "p x" "x \<in> set (db_orders d)" "length (sample p d) < ALERT_SAMPLE_LIMIT"
  shows "x \<in> set (sample p d)"
proof -
  have "length (filter p (db_orders d)) < ALERT_SAMPLE_LIMIT" using assms(3) by (simp add: sample_def min_def split: if_splits)
  then show ?thesis using assms(1,2) by (simp add: sample_def)
qed

lemma sampled_or_noted:
  assumes "p x" "x \<in> set (db_orders d)"
  shows "x \<in> set (sample p d) \<or> kind \<in> set (snd (noteOverflow kind (sample p d) label))"
  using sampled [of p x d] assms by (cases "length (sample p d) < ALERT_SAMPLE_LIMIT") (simp_all add: noteOverflow_def)

lemma slash_sampled:
  assumes "slashCandidatesWhere now x" "x \<in> set (db_orders d)" "length (slash_candidates now d) < SLASH_SCAN_LIMIT"
  shows "x \<in> set (slash_candidates now d)"
proof -
  have "length (filter (slashCandidatesWhere now) (db_orders d)) < SLASH_SCAN_LIMIT"
    using assms(3) by (simp add: slash_candidates_def min_def split: if_splits)
  then show ?thesis using assms(1,2) by (simp add: slash_candidates_def)
qed

lemma order_check_says:
  "x \<in> set (sample openDisputesWhere d) \<Longrightarrow> dispute_alert now x \<in> set (fst (order_check now d))"
  "x \<in> set (sample (releaseOverdueWhere (now div 1000)) d) \<Longrightarrow> release_alert x \<in> set (fst (order_check now d))"
  "x \<in> set (sample (fiatPaymentOverdueWhere (now div 1000)) d) \<Longrightarrow> fiat_alert x \<in> set (fst (order_check now d))"
  "f \<in> set (snd (noteOverflow ''open_dispute'' (sample openDisputesWhere d) ''open disputes'')) \<Longrightarrow> f \<in> set (snd (order_check now d))"
  "f \<in> set (snd (noteOverflow ''release_overdue'' (sample (releaseOverdueWhere (now div 1000)) d) ''orders past their confirm deadline'')) \<Longrightarrow>
     f \<in> set (snd (order_check now d))"
  "f \<in> set (snd (noteOverflow ''fiat_payment_overdue'' (sample (fiatPaymentOverdueWhere (now div 1000)) d) ''orders still FUNDED past their deadline'')) \<Longrightarrow>
     f \<in> set (snd (order_check now d))"
  by (simp_all add: order_check_def Let_def)

lemma order_alert_keys [simp]:
  "al_key (dispute_alert now x) = ''open_dispute:'' @ o_id x" "al_key (release_alert x) = ''release_overdue:'' @ o_id x"
  "al_key (fiat_alert x) = ''fiat_payment_overdue:'' @ o_id x"
  by (simp_all add: dispute_alert_def release_alert_def fiat_alert_def mk_alert_def Let_def)

text \<open>A window open for recovery, as the chain has it: the provider is liable, the deadline has not passed, and something is left to recover.\<close>

definition recoverable :: "env \<Rightarrow> ms \<Rightarrow> order \<Rightarrow> bool" where
  "recoverable env now x =
     (\<exists>c deadline recovered. rpc_getTradeStatusStrict env (contractIdFor x (cfg_escrowContractId env)) (o_tradeId x) = Inr (Some c) \<and>
        t_liabilityEstablished c = Some True \<and> t_slashDeadline c = Some deadline \<and> deadline \<noteq> 0 \<and> now div 1000 \<le> deadline \<and>
        rpc_getSlashedSoFar env (o_tradeId x) = Inr recovered \<and> recovered < o_usdcAmount x)"

lemma recoverable_alert: "recoverable env now x \<Longrightarrow> \<exists>a. fst (slash_one env now x) = [a] \<and> al_key a = ''slash_window_open:'' @ o_id x \<and> al_urgency a = Urgent"
  by (auto simp: recoverable_def slash_one_def Let_def mk_alert_def)

text \<open>Nothing that is open goes unreported.  Every disputed order, every order past its confirm or payment
  deadline, and every recovery window the chain says is open has an alert of its own, or its family is named incomplete: too many rows to list, or a read that failed.  The
  alert of a recovery window is urgent.\<close>

theorem open_matters_reported:
  assumes "buildAlerts env t m now r d = Inr (alerts, incomplete)" "x \<in> set (db_orders d)"
  shows "(openDisputesWhere x \<longrightarrow> (\<exists>a \<in> set alerts. al_key a = ''open_dispute:'' @ o_id x) \<or> ''open_dispute'' \<in> set incomplete) \<and>
         (releaseOverdueWhere (now div 1000) x \<longrightarrow> (\<exists>a \<in> set alerts. al_key a = ''release_overdue:'' @ o_id x) \<or> ''release_overdue'' \<in> set incomplete) \<and>
         (fiatPaymentOverdueWhere (now div 1000) x \<longrightarrow>
            (\<exists>a \<in> set alerts. al_key a = ''fiat_payment_overdue:'' @ o_id x) \<or> ''fiat_payment_overdue'' \<in> set incomplete) \<and>
         (slashCandidatesWhere now x \<and> recoverable env now x \<longrightarrow>
            (\<exists>a \<in> set alerts. al_key a = ''slash_window_open:'' @ o_id x \<and> al_urgency a = Urgent) \<or> ''slash_window_open'' \<in> set incomplete)"
proof -
  have o: "set (fst (order_check now d)) \<subseteq> set alerts" "set (snd (order_check now d)) \<subseteq> set incomplete"
    and s: "set (fst (slash_check env t m now d)) \<subseteq> set alerts" "set (snd (slash_check env t m now d)) \<subseteq> set incomplete"
    using checks_alert [OF assms(1), of "order_check now d"] checks_alert [OF assms(1), of "slash_check env t m now d"] by (simp_all add: checks_def)
  have disputes: "openDisputesWhere x \<Longrightarrow> (\<exists>a \<in> set alerts. al_key a = ''open_dispute:'' @ o_id x) \<or> ''open_dispute'' \<in> set incomplete"
    using sampled_or_noted [of openDisputesWhere x d "''open_dispute''" "''open disputes''"] assms(2) o order_check_says(1) [of x d now] order_check_says(4) [of "''open_dispute''" d now] order_alert_keys(1) [of now x]
    by blast
  have releases: "releaseOverdueWhere (now div 1000) x \<Longrightarrow> (\<exists>a \<in> set alerts. al_key a = ''release_overdue:'' @ o_id x) \<or> ''release_overdue'' \<in> set incomplete"
    using sampled_or_noted [of "releaseOverdueWhere (now div 1000)" x d "''release_overdue''" "''orders past their confirm deadline''"] assms(2) o order_check_says(2) [of x now d] order_check_says(5) [of "''release_overdue''" now d] order_alert_keys(2) [of x]
    by blast
  have fiats: "fiatPaymentOverdueWhere (now div 1000) x \<Longrightarrow> (\<exists>a \<in> set alerts. al_key a = ''fiat_payment_overdue:'' @ o_id x) \<or> ''fiat_payment_overdue'' \<in> set incomplete"
    using sampled_or_noted [of "fiatPaymentOverdueWhere (now div 1000)" x d "''fiat_payment_overdue''" "''orders still FUNDED past their deadline''"] assms(2) o order_check_says(3) [of x now d] order_check_says(6) [of "''fiat_payment_overdue''" now d] order_alert_keys(3) [of x]
    by blast
  have slash: "(\<exists>a \<in> set alerts. al_key a = ''slash_window_open:'' @ o_id x \<and> al_urgency a = Urgent) \<or> ''slash_window_open'' \<in> set incomplete"
    if c: "slashCandidatesWhere now x" "recoverable env now x"
  proof (cases "tk_fails t RSlashScan = None \<and> length (slash_candidates now d) < SLASH_SCAN_LIMIT")
    case True
    then have "x \<in> set (slash_candidates now d)" using slash_sampled [OF c(1) assms(2)] by simp
    moreover obtain a where a: "fst (slash_one env now x) = [a]" "al_key a = ''slash_window_open:'' @ o_id x" "al_urgency a = Urgent"
      using recoverable_alert [OF c(2)] by blast
    ultimately have "a \<in> set (fst (slash_check env t m now d))" using True by (force simp: slash_check_def slashWindowAlerts_def Let_def)
    then show ?thesis using s a by blast
  next
    case False
    then have "''slash_window_open'' \<in> set (snd (slash_check env t m now d))"
      by (auto simp: slash_check_def slashWindowAlerts_def Let_def split: option.split)
    then show ?thesis using s by blast
  qed
  show ?thesis using disputes releases fiats slash by blast
qed

section \<open>The monitor at work\<close>

definition quiet_tick :: tick where
  "quiet_tick = \<lparr>tk_fails = (\<lambda>x. if x = ROutbox then Some (UncaughtError ''gone'') else None), tk_indexer = Some 1700000000000, tk_attempts = [], tk_attestor = None,
     tk_homeDomain = None, tk_anchor = (\<lambda>_. Inr [])\<rparr>"

definition quiet_refusals :: didit_refusals where
  "quiet_refusals = \<lparr>dr_count = 0, dr_lastReason = None, dr_outOfSessionAt = [], dr_outOfSessionReason = None, dr_providerFailures = 0, dr_providerReason = None,
     dr_unauthenticated = 0, dr_unauthenticatedReason = None, dr_overBudget = 0, dr_budgetReason = None, dr_performsAml = Some False\<rparr>"


theorem open_matters_reported_witness:
  "\<exists>m alerts incomplete. buildAlerts demo_env quiet_tick m 1700000000000 quiet_refusals (empty_db\<lparr>db_orders := [demo_order\<lparr>o_status := DISPUTED\<rparr>]\<rparr>) = Inr (alerts, incomplete) \<and>
     ((\<exists>a \<in> set alerts. al_key a = ''open_dispute:o1'') \<or> ''open_dispute'' \<in> set incomplete)"
proof -
  let ?x = "demo_order\<lparr>o_status := DISPUTED\<rparr>"
  obtain m where "take_metrics quiet_tick 1700000000000 empty_db = Inr m" by (simp add: take_metrics_def quiet_tick_def answer_def)
  have "\<exists>p. buildAlerts demo_env quiet_tick m 1700000000000 quiet_refusals (empty_db\<lparr>db_orders := [?x]\<rparr>) = Inr p"
    by (simp add: buildAlerts_def Let_def quiet_tick_def)
  then obtain alerts incomplete where b: "buildAlerts demo_env quiet_tick m 1700000000000 quiet_refusals (empty_db\<lparr>db_orders := [?x]\<rparr>) = Inr (alerts, incomplete)"
    by (metis surj_pair)
  show ?thesis using conjunct1 [OF open_matters_reported [OF b, of ?x]] b by (auto simp: openDisputesWhere_def)
qed

end
