(* ===== verification/Realtime.thy ===== *)
theory Realtime
  imports Auth
begin

text \<open>
  \<open>realtime/realtime.gateway.ts\<close>: the sockets on which order updates are pushed.  Who may open one, how many, into which rooms a socket
  is put, when it is closed, and who receives what.  The state of the gateway and of the socket server it drives is one record; a
  connection is two steps, because the role is read from the database between them and a socket may close meanwhile.
\<close>

section \<open>The gateway\<close>

definition JOIN_ORDER_RATE_LIMIT :: nat where "JOIN_ORDER_RATE_LIMIT = 30"
definition JOIN_ORDER_RATE_WINDOW_MS :: ms where "JOIN_ORDER_RATE_WINDOW_MS = 10000"
definition MAX_SOCKETS_PER_ADDRESS :: nat where "MAX_SOCKETS_PER_ADDRESS = 10"
definition MAX_TIMER_MS :: ms where "MAX_TIMER_MS = 2147483647"
definition CONNECT_RATE_LIMIT :: nat where "CONNECT_RATE_LIMIT = 20"
definition CONNECT_RATE_WINDOW_MS :: ms where "CONNECT_RATE_WINDOW_MS = 10000"
definition MAY_OPEN_SOCKET :: "token_class list" where "MAY_OPEN_SOCKET = [SessionClass]"

type_synonym socket = string

record socket_data =
  sd_address :: address
  sd_role :: role
  sd_cls :: token_class

datatype room = UserRoom address | AdminOrders | LpAssignments | OrderRoom string

type_synonym attempts = "string \<rightharpoonup> nat \<times> ms" \<comment> \<open>how many, and when the window began\<close>

record gateway =
  gw_slots :: "address \<Rightarrow> socket list" \<comment> \<open>\<open>socketsByAddress\<close>; an address without an entry has none\<close>
  gw_lpOnline :: "address list"
  gw_joinAttempts :: attempts
  gw_connectAttempts :: attempts
  gw_timers :: "socket \<rightharpoonup> ms" \<comment> \<open>when the socket is closed at the latest\<close>
  gw_data :: "socket \<rightharpoonup> socket_data"
  gw_rooms :: "(socket \<times> room) list"
  gw_live :: "socket list" \<comment> \<open>the sockets the server holds open\<close>

definition set_add :: "'a \<Rightarrow> 'a list \<Rightarrow> 'a list" where
  "set_add x xs = (if x \<in> set xs then xs else xs @ [x])"

definition join :: "socket \<Rightarrow> room \<Rightarrow> gateway \<Rightarrow> gateway" where
  "join s rm g = g\<lparr>gw_rooms := set_add (s, rm) (gw_rooms g)\<rparr>"

definition leave :: "socket \<Rightarrow> room \<Rightarrow> gateway \<Rightarrow> gateway" where
  "leave s rm g = g\<lparr>gw_rooms := removeAll (s, rm) (gw_rooms g)\<rparr>"

definition releaseSocketSlot :: "address \<Rightarrow> socket \<Rightarrow> gateway \<Rightarrow> gateway" where
  "releaseSocketSlot a s g = g\<lparr>gw_slots := (gw_slots g)(a := removeAll s (gw_slots g a))\<rparr>"

definition handleDisconnect :: "socket \<Rightarrow> gateway \<Rightarrow> gateway" where
  "handleDisconnect s g =
     (let g1 = g\<lparr>gw_joinAttempts := (gw_joinAttempts g)(s := None), gw_timers := (gw_timers g)(s := None)\<rparr> in
      case gw_data g s of
        None \<Rightarrow> g1
      | Some sd \<Rightarrow>
          if sd_address sd = [] then g1
          else (let g2 = releaseSocketSlot (sd_address sd) s g1 in
                if sd_role sd = LpRole \<and> gw_slots g2 (sd_address sd) = []
                then g2\<lparr>gw_lpOnline := removeAll (sd_address sd) (gw_lpOnline g2)\<rparr> else g2))"

text \<open>\<open>socket.disconnect(true)\<close>, or the client going away: an open socket leaves every room and the server tells the gateway; a closed one stays closed.\<close>

definition disconnect :: "socket \<Rightarrow> gateway \<Rightarrow> gateway" where
  "disconnect s g =
     (if s \<in> set (gw_live g)
      then handleDisconnect s (g\<lparr>gw_live := removeAll s (gw_live g), gw_rooms := filter (\<lambda>(t, _). t \<noteq> s) (gw_rooms g)\<rparr>)
      else g)"

section \<open>Opening a socket\<close>

record handshake =
  hs_auth :: "string option" \<comment> \<open>\<open>auth.token\<close>, when it is a string\<close>
  hs_header :: "string option" \<comment> \<open>the first authorization header\<close>

definition lower :: "char \<Rightarrow> char" where
  "lower c = (if 65 \<le> (of_char c :: nat) \<and> (of_char c :: nat) \<le> 90 then char_of (of_char c + (32 :: nat)) else c)"

text \<open>The pattern \<open>/^Bearer\s+(.+)$/i\<close>: the group takes what follows the blanks, or the last blank when nothing does.\<close>

definition bearer :: "string \<Rightarrow> string option" where
  "bearer h =
     (let r = drop 6 h; blanks = takeWhile is_space r; rest = dropWhile is_space r in
      if map lower (take 6 h) \<noteq> ''bearer'' \<or> blanks = [] then None
      else if rest \<noteq> [] then (if CHR 0x0A \<in> set rest \<or> CHR 0x0D \<in> set rest then None else Some rest)
      else if 2 \<le> length blanks \<and> last blanks \<noteq> CHR 0x0A \<and> last blanks \<noteq> CHR 0x0D then Some [last blanks]
      else None)"

definition extractToken :: "handshake \<Rightarrow> string option" where
  "extractToken hs = (if truthy_str (hs_auth hs) then hs_auth hs else if truthy_str (hs_header hs) then bearer (the (hs_header hs)) else None)"

record socket_claims =
  sk_sub :: "string option"
  sk_cls :: "string option"
  sk_exp :: "secs option" \<comment> \<open>a finite number\<close>

text \<open>The JWT library: the claims of a token it accepts at an instant.\<close>

type_synonym token_check = "ms \<Rightarrow> string \<Rightarrow> socket_claims option"

definition read_socket_token :: "token_check \<Rightarrow> ms \<Rightarrow> handshake \<Rightarrow> (address \<times> token_class \<times> ms) option" where
  "read_socket_token accepts now hs =
     (case extractToken hs of
        None \<Rightarrow> None
      | Some token \<Rightarrow>
          if token = [] then None
          else case accepts now token of
                 None \<Rightarrow> None
               | Some c \<Rightarrow>
                   (case (sk_sub c, isTokenClass (sk_cls c), sk_exp c) of
                      (Some a, Some k, Some e) \<Rightarrow> if a \<noteq> [] \<and> k \<in> set MAY_OPEN_SOCKET then Some (a, k, e * 1000) else None
                    | _ \<Rightarrow> None))"

text \<open>Both rate limits: a window begins at the first attempt after the last window is over.\<close>

definition check_rate :: "nat \<Rightarrow> ms \<Rightarrow> ms \<Rightarrow> string \<Rightarrow> attempts \<Rightarrow> attempts \<times> bool" where
  "check_rate limit window now k m =
     (case m k of
        Some (n, start) \<Rightarrow>
          if now - start > window then (m(k \<mapsto> (1, now)), True) else (m(k \<mapsto> (n + 1, start)), n + 1 \<le> limit)
      | None \<Rightarrow> (m(k \<mapsto> (1, now)), True))"

definition checkConnectRate :: "ms \<Rightarrow> address \<Rightarrow> gateway \<Rightarrow> gateway \<times> bool" where
  "checkConnectRate now a g =
     (case check_rate CONNECT_RATE_LIMIT CONNECT_RATE_WINDOW_MS now a (gw_connectAttempts g) of
        (m, ok) \<Rightarrow> (g\<lparr>gw_connectAttempts := m\<rparr>, ok))"

definition checkJoinRate :: "ms \<Rightarrow> socket \<Rightarrow> gateway \<Rightarrow> gateway \<times> bool" where
  "checkJoinRate now s g =
     (case check_rate JOIN_ORDER_RATE_LIMIT JOIN_ORDER_RATE_WINDOW_MS now s (gw_joinAttempts g) of
        (m, ok) \<Rightarrow> (g\<lparr>gw_joinAttempts := m\<rparr>, ok))"

text \<open>\<open>handleConnection\<close> up to the read of the role: the socket is refused, or it holds a slot and waits.\<close>

definition connect_start :: "token_check \<Rightarrow> ms \<Rightarrow> handshake \<Rightarrow> socket \<Rightarrow> gateway \<Rightarrow> gateway \<times> (address \<times> token_class \<times> ms) option" where
  "connect_start accepts now hs s g0 =
     (let g = g0\<lparr>gw_live := set_add s (gw_live g0)\<rparr> in
      case read_socket_token accepts now hs of
        None \<Rightarrow> (disconnect s g, None)
      | Some (a, k, e) \<Rightarrow>
          (case checkConnectRate now a g of
             (g1, False) \<Rightarrow> (disconnect s g1, None)
           | (g1, True) \<Rightarrow>
               if MAX_SOCKETS_PER_ADDRESS \<le> length (gw_slots g1 a) then (disconnect s g1, None)
               else (g1\<lparr>gw_slots := (gw_slots g1)(a := set_add s (gw_slots g1 a))\<rparr>, Some (a, k, e))))"

definition heartbeat_row :: "ms \<Rightarrow> lp \<Rightarrow> lp" where
  "heartbeat_row now l = l\<lparr>lp_lastHeartbeatAt := Some now\<rparr>"

text \<open>The rest of it, with the role the database gave.\<close>

definition connect_end :: "env \<Rightarrow> ms \<Rightarrow> socket \<Rightarrow> address \<times> token_class \<times> ms \<Rightarrow> gateway \<times> db \<Rightarrow> gateway \<times> db" where
  "connect_end env now s w gd =
     (case (w, gd) of ((a, k, e), (g, d)) \<Rightarrow>
        (case resolveRole env d a k of
           Inl _ \<Rightarrow> (disconnect s (releaseSocketSlot a s g), d)
         | Inr r \<Rightarrow>
             (let g1 = g\<lparr>gw_data := (gw_data g)(s \<mapsto> \<lparr>sd_address = a, sd_role = r, sd_cls = k\<rparr>)\<rparr>;
                  remaining = min (e - now) MAX_TIMER_MS in
              if remaining \<le> 0 then (disconnect s (releaseSocketSlot a s g1), d)
              else (let g2 = join s (UserRoom a) (g1\<lparr>gw_timers := (gw_timers g1)(s \<mapsto> now + remaining)\<rparr>);
                        g3 = (if r = AdminRole then join s AdminOrders g2 else g2) in
                    if r = LpRole
                    then ((join s LpAssignments g3)\<lparr>gw_lpOnline := set_add a (gw_lpOnline g3)\<rparr>,
                          d\<lparr>db_lps := update_many (\<lambda>l. lp_stellarAddress l = a) (heartbeat_row now) (db_lps d)\<rparr>)
                    else (g3, d)))))"

definition expire_timer :: "ms \<Rightarrow> socket \<Rightarrow> gateway \<Rightarrow> gateway" where
  "expire_timer now s g =
     (case gw_timers g s of
        Some t \<Rightarrow> if t \<le> now then disconnect s (g\<lparr>gw_timers := (gw_timers g)(s := None)\<rparr>) else g
      | None \<Rightarrow> g)"

section \<open>Following an order\<close>

definition applyRoleChange :: "socket \<Rightarrow> socket_data \<Rightarrow> role \<Rightarrow> gateway \<Rightarrow> gateway" where
  "applyRoleChange s sd r g =
     (let g1 = (if sd_role sd = AdminRole then leave s AdminOrders g else g);
          g2 = (if sd_role sd = LpRole then (leave s LpAssignments g1)\<lparr>gw_lpOnline := removeAll (sd_address sd) (gw_lpOnline g1)\<rparr> else g1);
          g3 = (if r = AdminRole then join s AdminOrders g2 else g2);
          g4 = (if r = LpRole then (join s LpAssignments g3)\<lparr>gw_lpOnline := set_add (sd_address sd) (gw_lpOnline g3)\<rparr> else g3)
      in g4\<lparr>gw_data := (gw_data g4)(s \<mapsto> \<lparr>sd_address = sd_address sd, sd_role = r, sd_cls = sd_cls sd\<rparr>)\<rparr>)"

datatype join_answer = Joined | RateLimited | Unavailable | InvalidOrderId | JoinForbidden | Disconnected | Ignored

text \<open>\<open>unreadable\<close>: the database cannot be read when the role is checked again.  The authorisation is decided on the data the handler was entered with.\<close>

definition handleJoinOrder :: "env \<Rightarrow> ms \<Rightarrow> bool \<Rightarrow> socket \<Rightarrow> string option \<Rightarrow> gateway \<times> db \<Rightarrow> gateway \<times> join_answer" where
  "handleJoinOrder env now unreadable s orderId gd =
     (case gd of (g, d) \<Rightarrow>
        case gw_data g s of
          None \<Rightarrow> (g, Ignored)
        | Some sd \<Rightarrow>
            if sd_address sd = [] then (g, Ignored)
            else (case checkJoinRate now s g of
              (g1, False) \<Rightarrow> (g1, RateLimited)
            | (g1, True) \<Rightarrow>
                if unreadable then (g1, Unavailable)
                else (case resolveRole env d (sd_address sd) (sd_cls sd) of
                  Inl _ \<Rightarrow> (disconnect s g1, Disconnected)
                | Inr r \<Rightarrow>
                    (let g2 = (if r \<noteq> sd_role sd then applyRoleChange s sd r g1 else g1) in
                     if \<not> truthy_str orderId then (g2, InvalidOrderId)
                     else (case find_order d (the orderId) of
                       None \<Rightarrow> (g2, JoinForbidden)
                     | Some x \<Rightarrow>
                         if sd_role sd = AdminRole \<or> o_userAddress x = sd_address sd \<or> sd_role sd = LpRole \<and> o_lpWallet x = Some (sd_address sd)
                         then (join s (OrderRoom (the orderId)) g2, Joined) else (g2, JoinForbidden))))))"

section \<open>What is pushed\<close>

text \<open>The rooms an order update goes to; \<open>lp:assignments\<close> only learns that something changed.\<close>

definition update_rooms :: "realtime_event \<Rightarrow> room list" where
  "update_rooms ev =
     [OrderRoom (r_orderId ev), UserRoom (r_userAddress ev)] @ (if truthy_str (r_lpWallet ev) then [UserRoom (the (r_lpWallet ev))] else []) @ [AdminOrders]"

definition receives_update :: "gateway \<Rightarrow> realtime_event \<Rightarrow> socket \<Rightarrow> bool" where
  "receives_update g ev s = (s \<in> set (gw_live g) \<and> list_ex (\<lambda>(t, rm). t = s \<and> rm \<in> set (update_rooms ev)) (gw_rooms g))"

section \<open>Housekeeping\<close>

definition pruneConnectAttempts :: "ms \<Rightarrow> gateway \<Rightarrow> gateway" where
  "pruneConnectAttempts now g =
     g\<lparr>gw_connectAttempts := (\<lambda>a. case gw_connectAttempts g a of
         Some (n, start) \<Rightarrow> if now - start > CONNECT_RATE_WINDOW_MS then None else Some (n, start) | None \<Rightarrow> None)\<rparr>"

definition bumpLpPresence :: "ms \<Rightarrow> gateway \<Rightarrow> db \<Rightarrow> db" where
  "bumpLpPresence now g d =
     (if gw_lpOnline g = [] then d
      else d\<lparr>db_lps := update_many (\<lambda>l. lp_stellarAddress l \<in> set (gw_lpOnline g) \<and> lp_status l = LP_APPROVED) (heartbeat_row now) (db_lps d)\<rparr>)"

section \<open>Runs of the gateway\<close>

text \<open>The gateway, the sockets whose connection waits for the role, and the database.\<close>

type_synonym gw_state = "gateway \<times> (socket \<times> address \<times> token_class \<times> ms) list \<times> db"

definition fresh_socket :: "socket \<Rightarrow> gateway \<Rightarrow> (socket \<times> address \<times> token_class \<times> ms) list \<Rightarrow> bool" where
  "fresh_socket s g waiting = (s \<notin> set (gw_live g) \<and> gw_data g s = None \<and> s \<notin> fst ` set waiting \<and> (\<forall>a. s \<notin> set (gw_slots g a)))"

inductive gw_step :: "gw_state \<Rightarrow> gw_state \<Rightarrow> bool" where
  refused: "fresh_socket s g waiting \<Longrightarrow> connect_start accepts now hs s g = (g', None) \<Longrightarrow> gw_step (g, waiting, d) (g', waiting, d)"
| started: "fresh_socket s g waiting \<Longrightarrow> connect_start accepts now hs s g = (g', Some w) \<Longrightarrow> gw_step (g, waiting, d) (g', (s, w) # waiting, d)"
| finished: "(s, w) \<in> set waiting \<Longrightarrow> connect_end env now s w (g, d) = (g', d') \<Longrightarrow> gw_step (g, waiting, d) (g', removeAll (s, w) waiting, d')"
| closed: "gw_step (g, waiting, d) (disconnect s g, waiting, d)"
| timed_out: "gw_step (g, waiting, d) (expire_timer now s g, waiting, d)"
| asked: "handleJoinOrder env now unreadable s orderId (g, d) = (g', ans) \<Longrightarrow> gw_step (g, waiting, d) (g', waiting, d)"
| pruned: "gw_step (g, waiting, d) (pruneConnectAttempts now g, waiting, d)"
| bumped: "gw_step (g, waiting, d) (g, waiting, bumpLpPresence now g d)"
| written: "gw_step (g, waiting, d) (g, waiting, d')"

definition empty_gateway :: gateway where
  "empty_gateway = \<lparr>gw_slots = (\<lambda>_. []), gw_lpOnline = [], gw_joinAttempts = (\<lambda>_. None), gw_connectAttempts = (\<lambda>_. None), gw_timers = (\<lambda>_. None),
     gw_data = (\<lambda>_. None), gw_rooms = [], gw_live = []\<rparr>"

inductive gw_reachable :: "gw_state \<Rightarrow> bool" where
  start: "gw_reachable (empty_gateway, [], d)"
| step: "gw_reachable st \<Longrightarrow> gw_step st st' \<Longrightarrow> gw_reachable st'"

text \<open>The rooms a socket may be in, by what the gateway knows of it.\<close>

fun room_ok :: "socket_data \<Rightarrow> room \<Rightarrow> bool" where
  "room_ok sd (UserRoom a) = (sd_address sd = a)"
| "room_ok sd AdminOrders = (sd_role sd = AdminRole)"
| "room_ok sd LpAssignments = (sd_role sd = LpRole)"
| "room_ok sd (OrderRoom i) = True"

definition slots_ok :: "gateway \<Rightarrow> bool" where
  "slots_ok g = (\<forall>a. length (gw_slots g a) \<le> MAX_SOCKETS_PER_ADDRESS)"

definition rooms_ok :: "gateway \<Rightarrow> bool" where
  "rooms_ok g = (\<forall>(s, rm) \<in> set (gw_rooms g). \<exists>sd. gw_data g s = Some sd \<and> room_ok sd rm)"

definition timers_ok :: "gateway \<Rightarrow> bool" where
  "timers_ok g = (\<forall>s. s \<in> set (gw_live g) \<and> gw_data g s \<noteq> None \<longrightarrow> gw_timers g s \<noteq> None)"

definition waiting_ok :: "gateway \<Rightarrow> (socket \<times> address \<times> token_class \<times> ms) list \<Rightarrow> bool" where
  "waiting_ok g waiting = (distinct (map fst waiting) \<and> (\<forall>(s, w) \<in> set waiting. gw_data g s = None))"

definition gw_ok :: "gateway \<Rightarrow> bool" where
  "gw_ok g = (slots_ok g \<and> rooms_ok g \<and> timers_ok g)"

lemmas gw_ok_defs = gw_ok_def slots_ok_def rooms_ok_def timers_ok_def

lemma release_ok: "gw_ok g \<Longrightarrow> gw_ok (releaseSocketSlot a s g)"
  by (auto simp: gw_ok_defs releaseSocketSlot_def intro: order_trans [OF length_removeAll_less_eq])

lemma release_frame [simp]:
  "gw_data (releaseSocketSlot a s g) = gw_data g" "gw_rooms (releaseSocketSlot a s g) = gw_rooms g" "gw_live (releaseSocketSlot a s g) = gw_live g"
  "gw_timers (releaseSocketSlot a s g) = gw_timers g"
  by (simp_all add: releaseSocketSlot_def)

lemma handleDisconnect_frame [simp]:
  "gw_data (handleDisconnect s g) = gw_data g" "gw_rooms (handleDisconnect s g) = gw_rooms g" "gw_live (handleDisconnect s g) = gw_live g"
  "gw_timers (handleDisconnect s g) = (gw_timers g)(s := None)"
  by (simp_all add: handleDisconnect_def Let_def split: option.split)

lemma handleDisconnect_slots: "length (gw_slots (handleDisconnect s g) a) \<le> length (gw_slots g a)"
  by (auto simp: handleDisconnect_def Let_def releaseSocketSlot_def length_removeAll_less_eq split: option.split)

lemma disconnect_frame [simp]: "gw_data (disconnect s g) = gw_data g"
  by (simp add: disconnect_def)

lemma disconnect_ok: "gw_ok g \<Longrightarrow> gw_ok (disconnect s g)"
  using handleDisconnect_slots [of s "g\<lparr>gw_live := removeAll s (gw_live g), gw_rooms := filter (\<lambda>(t, _). t \<noteq> s) (gw_rooms g)\<rparr>"]
  by (auto simp: gw_ok_defs disconnect_def intro: order_trans)

lemma release_data_ok: "rooms_ok g \<Longrightarrow> rooms_ok (releaseSocketSlot a s g)"
  by (simp add: rooms_ok_def)

lemma join_frame [simp]:
  "gw_data (join s rm g) = gw_data g" "gw_live (join s rm g) = gw_live g" "gw_timers (join s rm g) = gw_timers g" "gw_slots (join s rm g) = gw_slots g"
  by (simp_all add: join_def)

lemma set_set_add [simp]: "set (set_add x xs) = insert x (set xs)"
  by (auto simp: set_add_def)

lemma join_ok: "\<lbrakk>gw_ok g; gw_data g s = Some sd; room_ok sd rm\<rbrakk> \<Longrightarrow> gw_ok (join s rm g)"
  by (auto simp: gw_ok_defs join_def)

lemma gw_ok_other [simp]:
  "gw_ok (g\<lparr>gw_lpOnline := v\<rparr>) = gw_ok g" "gw_ok (g\<lparr>gw_joinAttempts := w\<rparr>) = gw_ok g" "gw_ok (g\<lparr>gw_connectAttempts := w\<rparr>) = gw_ok g"
  by (simp_all add: gw_ok_defs)

lemma checkJoinRate_frame: "checkJoinRate now s g = (g', ok) \<Longrightarrow> \<exists>m. g' = g\<lparr>gw_joinAttempts := m\<rparr>"
  by (auto simp: checkJoinRate_def split: prod.splits)

lemma checkConnectRate_frame: "checkConnectRate now s g = (g', ok) \<Longrightarrow> \<exists>m. g' = g\<lparr>gw_connectAttempts := m\<rparr>"
  by (auto simp: checkConnectRate_def split: prod.splits)

text \<open>A socket that begins to connect is unknown to the gateway, so that opening it cannot break what holds of the others.\<close>

lemma live_ok: "gw_ok g \<Longrightarrow> gw_data g s = None \<Longrightarrow> gw_ok (g\<lparr>gw_live := set_add s (gw_live g)\<rparr>)"
  by (auto simp: gw_ok_defs)

lemma length_set_add: "length (set_add x xs) \<le> Suc (length xs)"
  by (simp add: set_add_def)

lemma slot_ok: "\<lbrakk>gw_ok g; length (gw_slots g a) < MAX_SOCKETS_PER_ADDRESS\<rbrakk> \<Longrightarrow> gw_ok (g\<lparr>gw_slots := (gw_slots g)(a := set_add s (gw_slots g a))\<rparr>)"
  using length_set_add [of s "gw_slots g a"] by (auto simp: gw_ok_defs)

lemma connect_start_ok:
  assumes "gw_ok g" "gw_data g s = None" "connect_start accepts now hs s g = (g', w)"
  shows "gw_ok g' \<and> gw_data g' = gw_data g"
proof -
  define h where "h = g\<lparr>gw_live := set_add s (gw_live g)\<rparr>"
  have h: "gw_ok h" "gw_data h = gw_data g" using live_ok [OF assms(1,2)] by (simp_all add: h_def)
  show ?thesis
  proof (cases "read_socket_token accepts now hs")
    case None
    then show ?thesis using assms(3) h disconnect_ok [OF h(1), of s] by (auto simp: connect_start_def Let_def h_def)
  next
    case (Some t)
    obtain a k e where t: "t = (a, k, e)" by (cases t)
    obtain h1 ok where c: "checkConnectRate now a h = (h1, ok)" by fastforce
    have h1: "gw_ok h1" "gw_data h1 = gw_data g" using checkConnectRate_frame [OF c] h by auto
    have "(g', w) = (if ok then if MAX_SOCKETS_PER_ADDRESS \<le> length (gw_slots h1 a) then (disconnect s h1, None)
        else (h1\<lparr>gw_slots := (gw_slots h1)(a := set_add s (gw_slots h1 a))\<rparr>, Some t) else (disconnect s h1, None))"
      using assms(3) Some t c by (cases ok) (simp_all add: connect_start_def Let_def h_def split: if_splits)
    then show ?thesis using h1 disconnect_ok [OF h1(1), of s] slot_ok [OF h1(1), of a s] by (auto split: if_splits)
  qed
qed

text \<open>A connection that ends knows the socket for the first time.\<close>

lemma no_rooms: "rooms_ok g \<Longrightarrow> gw_data g s = None \<Longrightarrow> (s, rm) \<notin> set (gw_rooms g)"
  by (fastforce simp: rooms_ok_def)

lemma data_rooms_ok: "rooms_ok g \<Longrightarrow> gw_data g s = None \<Longrightarrow> rooms_ok (g\<lparr>gw_data := (gw_data g)(s \<mapsto> sd)\<rparr>)"
  using no_rooms [of g s] by (fastforce simp: rooms_ok_def)

lemma known_ok:
  assumes "gw_ok g" "gw_data g s = None"
  shows "gw_ok (g\<lparr>gw_data := (gw_data g)(s \<mapsto> sd), gw_timers := (gw_timers g)(s \<mapsto> t)\<rparr>)"
proof -
  have "rooms_ok (g\<lparr>gw_data := (gw_data g)(s \<mapsto> sd)\<rparr>)" using assms by (simp add: gw_ok_def data_rooms_ok)
  moreover have "timers_ok (g\<lparr>gw_data := (gw_data g)(s \<mapsto> sd), gw_timers := (gw_timers g)(s \<mapsto> t)\<rparr>)"
    using assms(1) by (simp add: gw_ok_def timers_ok_def)
  ultimately show ?thesis using assms(1) by (simp add: gw_ok_def slots_ok_def rooms_ok_def)
qed

lemma disconnect_slots: "length (gw_slots (disconnect s g) a) \<le> length (gw_slots g a)"
  using handleDisconnect_slots [of s "g\<lparr>gw_live := removeAll s (gw_live g), gw_rooms := filter (\<lambda>(t, _). t \<noteq> s) (gw_rooms g)\<rparr>" a]
  by (simp add: disconnect_def)

lemma disconnect_not_live: "s \<notin> set (gw_live (disconnect s g))"
  by (simp add: disconnect_def)

lemma disconnect_others: "t \<noteq> s \<Longrightarrow> t \<in> set (gw_live (disconnect s g)) \<Longrightarrow> t \<in> set (gw_live g) \<and> gw_timers (disconnect s g) t = gw_timers g t"
  by (auto simp: disconnect_def split: if_splits)

lemma disconnect_rooms: "set (gw_rooms (disconnect s g)) \<subseteq> set (gw_rooms g)"
  by (auto simp: disconnect_def)

lemma release_slots: "length (gw_slots (releaseSocketSlot a s g) b) \<le> length (gw_slots g b)"
  by (simp add: releaseSocketSlot_def length_removeAll_less_eq)

text \<open>Closing a socket makes good whatever is missing for that socket alone.\<close>

lemma closing_ok:
  assumes "slots_ok g" "rooms_ok g" "\<And>t. \<lbrakk>t \<noteq> s; t \<in> set (gw_live g); gw_data g t \<noteq> None\<rbrakk> \<Longrightarrow> gw_timers g t \<noteq> None"
  shows "gw_ok (disconnect s g)"
proof -
  have "slots_ok (disconnect s g)" using assms(1) disconnect_slots [of s g] by (meson order_trans slots_ok_def)
  moreover have "rooms_ok (disconnect s g)" using assms(2) disconnect_rooms [of s g] by (fastforce simp: rooms_ok_def)
  moreover have "gw_timers (disconnect s g) t \<noteq> None" if "t \<in> set (gw_live (disconnect s g))" "gw_data g t \<noteq> None" for t
    using that disconnect_not_live [of s g] disconnect_others [of t s g] assms(3) [of t] by (cases "t = s") auto
  ultimately show ?thesis by (simp add: gw_ok_def timers_ok_def)
qed

lemma forgotten_ok:
  assumes "gw_ok g" "gw_data g s = None"
  shows "gw_ok (disconnect s (releaseSocketSlot a s (g\<lparr>gw_data := (gw_data g)(s \<mapsto> sd)\<rparr>)))"
proof (rule closing_ok)
  show "slots_ok (releaseSocketSlot a s (g\<lparr>gw_data := (gw_data g)(s \<mapsto> sd)\<rparr>))"
    using assms(1) release_slots [of a s "g\<lparr>gw_data := (gw_data g)(s \<mapsto> sd)\<rparr>"] by (simp add: gw_ok_def slots_ok_def) (meson order_trans)
  show "rooms_ok (releaseSocketSlot a s (g\<lparr>gw_data := (gw_data g)(s \<mapsto> sd)\<rparr>))"
    using assms by (simp add: gw_ok_def data_rooms_ok release_data_ok)
qed (use assms(1) in \<open>auto simp: gw_ok_def timers_ok_def\<close>)

lemma connect_end_ok:
  assumes "gw_ok g" "gw_data g s = None" "connect_end env now s (a, k, e) (g, d) = (g', d')"
  shows "gw_ok g' \<and> (\<forall>t. t \<noteq> s \<longrightarrow> gw_data g' t = gw_data g t)"
proof (cases "resolveRole env d a k")
  case (Inl er)
  then show ?thesis using assms disconnect_ok [OF release_ok [OF assms(1)], of s a s] by (auto simp: connect_end_def)
next
  case (Inr r)
  define sd where "sd = \<lparr>sd_address = a, sd_role = r, sd_cls = k\<rparr>"
  define h where "h = g\<lparr>gw_data := (gw_data g)(s \<mapsto> sd), gw_timers := (gw_timers g)(s \<mapsto> now + min (e - now) MAX_TIMER_MS)\<rparr>"
  have h: "gw_ok h" "gw_data h s = Some sd" using known_ok [OF assms(1,2)] by (simp_all add: h_def)
  show ?thesis
  proof (cases "min (e - now) MAX_TIMER_MS \<le> 0")
    case True
    then show ?thesis using assms Inr forgotten_ok [OF assms(1,2), of a sd] by (auto simp: connect_end_def sd_def Let_def)
  next
    case False
    have "g' = (let g2 = join s (UserRoom a) h; g3 = (if r = AdminRole then join s AdminOrders g2 else g2) in
        if r = LpRole then (join s LpAssignments g3)\<lparr>gw_lpOnline := set_add a (gw_lpOnline g3)\<rparr> else g3)"
      using assms(3) Inr False by (auto simp: connect_end_def h_def sd_def Let_def split: if_splits)
    moreover have "gw_ok (join s (UserRoom a) h)" by (rule join_ok [OF h]) (simp add: sd_def)
    ultimately show ?thesis using h by (auto simp: Let_def h_def sd_def intro!: join_ok)
  qed
qed

lemma leave_ok: "gw_ok g \<Longrightarrow> gw_ok (leave s rm g)"
  by (auto simp: gw_ok_defs leave_def)

lemma leave_frame [simp]:
  "gw_data (leave s rm g) = gw_data g" "gw_live (leave s rm g) = gw_live g" "gw_timers (leave s rm g) = gw_timers g" "gw_slots (leave s rm g) = gw_slots g"
  by (simp_all add: leave_def)

text \<open>A change of role moves a socket between the rooms of the roles and nothing else.\<close>

lemma applyRoleChange_frame:
  "gw_live (applyRoleChange s sd r g) = gw_live g" "gw_timers (applyRoleChange s sd r g) = gw_timers g" "gw_slots (applyRoleChange s sd r g) = gw_slots g"
  "gw_data (applyRoleChange s sd r g) = (gw_data g)(s \<mapsto> \<lparr>sd_address = sd_address sd, sd_role = r, sd_cls = sd_cls sd\<rparr>)"
  by (simp_all add: applyRoleChange_def Let_def)

lemma applyRoleChange_rooms:
  "set (gw_rooms (applyRoleChange s sd r g)) =
     set (gw_rooms g) - (if sd_role sd = AdminRole then {(s, AdminOrders)} else {}) - (if sd_role sd = LpRole then {(s, LpAssignments)} else {})
     \<union> (if r = AdminRole then {(s, AdminOrders)} else {}) \<union> (if r = LpRole then {(s, LpAssignments)} else {})"
  by (cases "sd_role sd"; cases r) (auto simp: applyRoleChange_def Let_def join_def leave_def)

lemma applyRoleChange_ok:
  assumes "gw_ok g" "gw_data g s = Some sd"
  shows "gw_ok (applyRoleChange s sd r g)"
proof -
  let ?sd = "\<lparr>sd_address = sd_address sd, sd_role = r, sd_cls = sd_cls sd\<rparr>"
  have "\<exists>sd'. gw_data (applyRoleChange s sd r g) t = Some sd' \<and> room_ok sd' rm" if "(t, rm) \<in> set (gw_rooms (applyRoleChange s sd r g))" for t rm
  proof (cases "t = s")
    case True
    have old: "room_ok sd rm" if "(s, rm) \<in> set (gw_rooms g)" using assms that by (fastforce simp: gw_ok_def rooms_ok_def)
    have "room_ok ?sd rm" using that True old by (cases rm) (auto simp: applyRoleChange_rooms split: if_splits)
    then show ?thesis using True by (simp add: applyRoleChange_frame)
  next
    case False
    then show ?thesis using assms(1) that by (fastforce simp: applyRoleChange_rooms applyRoleChange_frame gw_ok_def rooms_ok_def split: if_splits)
  qed
  then have "rooms_ok (applyRoleChange s sd r g)" by (auto simp: rooms_ok_def)
  then show ?thesis using assms by (auto simp: gw_ok_def slots_ok_def timers_ok_def applyRoleChange_frame)
qed

text \<open>What asking for an order's room does, step by step.\<close>

lemma handleJoinOrder_cases:
  assumes "handleJoinOrder env now unreadable s orderId (g, d) = (g', ans)"
  obtains (ignored) "g' = g" "ans \<noteq> Joined"
    | (refused) m where "g' = g\<lparr>gw_joinAttempts := m\<rparr>" "ans \<noteq> Joined"
    | (closed) m where "g' = disconnect s (g\<lparr>gw_joinAttempts := m\<rparr>)" "ans \<noteq> Joined"
    | (changed) m sd r where "gw_data g s = Some sd" "g' = applyRoleChange s sd r (g\<lparr>gw_joinAttempts := m\<rparr>)" "ans \<noteq> Joined"
    | (joined) m sd r x where "gw_data g s = Some sd" "resolveRole env d (sd_address sd) (sd_cls sd) = Inr r" "find_order d (the orderId) = Some x"
        "sd_role sd = AdminRole \<or> o_userAddress x = sd_address sd \<or> sd_role sd = LpRole \<and> o_lpWallet x = Some (sd_address sd)"
        "g' = join s (OrderRoom (the orderId)) (if r \<noteq> sd_role sd then applyRoleChange s sd r (g\<lparr>gw_joinAttempts := m\<rparr>) else g\<lparr>gw_joinAttempts := m\<rparr>)"
        "ans = Joined" "orderId \<noteq> None"
proof (cases "gw_data g s")
  case None
  then show ?thesis using assms ignored by (simp add: handleJoinOrder_def)
next
  case (Some sd)
  obtain g1 ok where c: "checkJoinRate now s g = (g1, ok)" by fastforce
  obtain m where m: "g1 = g\<lparr>gw_joinAttempts := m\<rparr>" using checkJoinRate_frame [OF c] by blast
  note run = assms [unfolded handleJoinOrder_def]
  show ?thesis
  proof (cases "sd_address sd = [] \<or> \<not> ok \<or> unreadable")
    case True
    then show ?thesis using run Some c m ignored refused by (cases ok) (auto split: if_splits)
  next
    case go: False
    show ?thesis
    proof (cases "resolveRole env d (sd_address sd) (sd_cls sd)")
      case (Inl er)
      then show ?thesis using run Some c m go closed by auto
    next
      case (Inr r)
      define g2 where "g2 = (if r \<noteq> sd_role sd then applyRoleChange s sd r g1 else g1)"
      define may where "may = (\<lambda>x :: order. sd_role sd = AdminRole \<or> o_userAddress x = sd_address sd \<or> sd_role sd = LpRole \<and> o_lpWallet x = Some (sd_address sd))"
      have result: "(g', ans) = (if \<not> truthy_str orderId then (g2, InvalidOrderId)
          else case find_order d (the orderId) of None \<Rightarrow> (g2, JoinForbidden)
               | Some x \<Rightarrow> if may x then (join s (OrderRoom (the orderId)) g2, Joined) else (g2, JoinForbidden))"
        using Some c go Inr unfolding assms [symmetric] handleJoinOrder_def g2_def may_def Let_def by simp
      show ?thesis
      proof (cases "ans = Joined")
        case True
        then obtain x where "find_order d (the orderId) = Some x" "may x" "g' = join s (OrderRoom (the orderId)) g2" "orderId \<noteq> None"
          using result by (cases orderId) (auto split: if_splits option.splits)
        then show ?thesis by (intro joined [OF Some Inr, of x m]) (simp_all add: g2_def may_def m True)
      next
        case False
        then have "g' = g2" using result by (auto split: if_splits option.splits)
        then show ?thesis using changed [OF Some _ False] refused [OF _ False] m by (auto simp: g2_def split: if_splits)
      qed
    qed
  qed
qed

lemma handleJoinOrder_ok:
  assumes "gw_ok g" "handleJoinOrder env now unreadable s orderId (g, d) = (g', ans)"
  shows "gw_ok g' \<and> (\<forall>t. gw_data g t = None \<longrightarrow> gw_data g' t = None)"
  using assms(2)
proof (cases rule: handleJoinOrder_cases)
  case (closed m)
  then show ?thesis using assms(1) by (auto intro!: disconnect_ok)
next
  case (changed m sd r)
  then show ?thesis using assms(1) by (auto simp: applyRoleChange_frame intro!: applyRoleChange_ok)
next
  case (joined m sd r x)
  then show ?thesis using assms(1) by (auto simp: applyRoleChange_frame intro!: applyRoleChange_ok join_ok)
qed (use assms(1) in auto)

lemma expire_timer_ok:
  assumes "gw_ok g"
  shows "gw_ok (expire_timer now s g)"
proof -
  have "gw_ok (disconnect s (g\<lparr>gw_timers := (gw_timers g)(s := None)\<rparr>))"
    by (rule closing_ok) (use assms in \<open>auto simp: gw_ok_defs\<close>)
  then show ?thesis using assms by (simp add: expire_timer_def split: option.split)
qed

lemma expire_timer_data [simp]: "gw_data (expire_timer now s g) = gw_data g"
  by (simp add: expire_timer_def split: option.split)

lemma prune_ok: "gw_ok g \<Longrightarrow> gw_ok (pruneConnectAttempts now g)"
  by (simp add: pruneConnectAttempts_def)

lemma prune_data [simp]: "gw_data (pruneConnectAttempts now g) = gw_data g"
  by (simp add: pruneConnectAttempts_def)

text \<open>The sockets that wait are distinct, unknown to the gateway, and stay so until their connection ends.\<close>

lemma gw_step_ok:
  assumes "gw_step (g, waiting, d) (g', waiting', d')" "gw_ok g" "waiting_ok g waiting"
  shows "gw_ok g' \<and> waiting_ok g' waiting'"
  using assms(1)
proof cases
  case (refused s accepts now hs)
  then show ?thesis using connect_start_ok [OF assms(2) _ refused(4)] assms(3) by (auto simp: fresh_socket_def waiting_ok_def)
next
  case (started s accepts now hs w)
  then show ?thesis using connect_start_ok [OF assms(2) _ started(4)] assms(3) by (auto simp: fresh_socket_def waiting_ok_def)
next
  case (finished s w env now)
  obtain a k e where w: "w = (a, k, e)" by (cases w)
  have "gw_data g s = None" using finished assms(3) by (fastforce simp: waiting_ok_def)
  then have g': "gw_ok g'" "\<And>t. t \<noteq> s \<Longrightarrow> gw_data g' t = gw_data g t"
    using connect_end_ok [OF assms(2) _ finished(3) [unfolded w]] by auto
  have d: "distinct (map fst waiting)" and none: "\<And>t v. (t, v) \<in> set waiting \<Longrightarrow> gw_data g t = None"
    using assms(3) by (auto simp: waiting_ok_def)
  have "t \<noteq> s" if "(t, v) \<in> set (removeAll (s, w) waiting)" for t v
    using that eq_key_imp_eq_value [OF d finished(2)] by (metis DiffE insertI1 set_removeAll)
  then have "gw_data g' t = None" if "(t, v) \<in> set (removeAll (s, w) waiting)" for t v
    using that g'(2) none by (metis DiffD1 set_removeAll)
  moreover have "distinct (map fst (removeAll (s, w) waiting))" using d by (simp add: distinct_map_filter removeAll_filter_not_eq)
  ultimately have "waiting_ok g' (removeAll (s, w) waiting)" unfolding waiting_ok_def by blast
  then show ?thesis using g'(1) finished(1) by simp
next
  case (asked env now unreadable s orderId ans)
  then show ?thesis using handleJoinOrder_ok [OF assms(2)] assms(3) by (fastforce simp: waiting_ok_def)
qed (use assms(2,3) in \<open>auto simp: waiting_ok_def disconnect_ok expire_timer_ok prune_ok\<close>)

lemma gw_reachable_ok: "gw_reachable (g, waiting, d) \<Longrightarrow> gw_ok g \<and> waiting_ok g waiting"
proof (induction "(g, waiting, d)" arbitrary: g waiting d rule: gw_reachable.induct)
  case start
  then show ?case by (simp add: gw_ok_defs waiting_ok_def empty_gateway_def)
next
  case (step st)
  obtain h u e where "st = (h, u, e)" by (cases st)
  then show ?case using step gw_step_ok by blast
qed

lemma order_rooms:
  assumes "handleJoinOrder env now unreadable s orderId (g, d) = (g', ans)" "(t, OrderRoom i) \<in> set (gw_rooms g')" "(t, OrderRoom i) \<notin> set (gw_rooms g)"
  shows "t = s \<and> (\<exists>sd x. gw_data g s = Some sd \<and> find_order d i = Some x \<and>
     (sd_role sd = AdminRole \<or> o_userAddress x = sd_address sd \<or> sd_role sd = LpRole \<and> o_lpWallet x = Some (sd_address sd)))"
  using assms(1)
proof (cases rule: handleJoinOrder_cases)
  case (closed m)
  then show ?thesis using assms(2,3) disconnect_rooms [of s "g\<lparr>gw_joinAttempts := m\<rparr>"] by auto
next
  case (changed m sd r)
  then show ?thesis using assms(2,3) by (auto simp: applyRoleChange_rooms split: if_splits)
next
  case (joined m sd r x)
  then have "(t, OrderRoom i) = (s, OrderRoom (the orderId))" using assms(2,3) by (auto simp: join_def applyRoleChange_rooms split: if_splits)
  then show ?thesis using joined by auto
qed (use assms(2,3) in auto)

lemma receivers:
  assumes "gw_ok g" "receives_update g ev s"
  shows "\<exists>sd t. gw_data g s = Some sd \<and> gw_timers g s = Some t \<and>
     (sd_address sd = r_userAddress ev \<or> r_lpWallet ev = Some (sd_address sd) \<or> sd_role sd = AdminRole \<or> (s, OrderRoom (r_orderId ev)) \<in> set (gw_rooms g))"
proof -
  obtain rm where rm: "(s, rm) \<in> set (gw_rooms g)" "rm \<in> set (update_rooms ev)" and live: "s \<in> set (gw_live g)"
    using assms(2) by (auto simp: receives_update_def list_ex_iff)
  obtain sd where sd: "gw_data g s = Some sd" "room_ok sd rm" using assms(1) rm(1) by (fastforce simp: gw_ok_def rooms_ok_def)
  obtain t where "gw_timers g s = Some t" using assms(1) live sd(1) by (fastforce simp: gw_ok_def timers_ok_def)
  then show ?thesis using sd rm by (cases "r_lpWallet ev") (auto simp: update_rooms_def split: if_splits)
qed

text \<open>No other step puts a socket into the room of an order.\<close>

lemma connect_start_rooms: "connect_start accepts now hs s g = (g', w) \<Longrightarrow> set (gw_rooms g') \<subseteq> set (gw_rooms g)"
  using disconnect_rooms [of s] checkConnectRate_frame
  by (fastforce simp: connect_start_def Let_def split: option.splits prod.splits bool.splits if_splits)

lemma connect_end_rooms:
  assumes "connect_end env now s w (g, d) = (g', d')" "(t, OrderRoom i) \<in> set (gw_rooms g')"
  shows "(t, OrderRoom i) \<in> set (gw_rooms g)"
  using assms disconnect_rooms [of s] by (fastforce simp: connect_end_def join_def Let_def split: prod.splits sum.splits if_splits)

lemma expire_timer_rooms: "set (gw_rooms (expire_timer now s g)) \<subseteq> set (gw_rooms g)"
  using disconnect_rooms [of s "g\<lparr>gw_timers := (gw_timers g)(s := None)\<rparr>"] by (simp add: expire_timer_def split: option.split)

lemma step_enters_room:
  assumes "gw_step (g, waiting, d) (g', waiting', d')" "(t, OrderRoom i) \<in> set (gw_rooms g') - set (gw_rooms g)"
  obtains env now unreadable orderId ans where "handleJoinOrder env now unreadable t orderId (g, d) = (g', ans)"
  using assms(1)
proof cases
  case (asked env now unreadable s orderId ans)
  then have "t = s" using order_rooms [OF asked(3)] assms(2) by blast
  then show ?thesis using that asked(3) by blast
next
  case (refused s accepts now hs)
  then show ?thesis using connect_start_rooms assms(2) by blast
next
  case (started s accepts now hs w)
  then show ?thesis using connect_start_rooms assms(2) by blast
next
  case (finished s w env now)
  then show ?thesis using connect_end_rooms assms(2) by blast
next
  case (closed s)
  then show ?thesis using disconnect_rooms assms(2) by blast
next
  case (timed_out now s)
  then show ?thesis using expire_timer_rooms assms(2) by blast
qed (use assms(2) in \<open>auto simp: pruneConnectAttempts_def\<close>)

text \<open>C38 (handleConnection, handleJoinOrder, applyRoleChange, handleDisconnect, emitOrderUpdate): however sockets open, close, wait for their role, time out and ask for orders, no
  address ever holds more than ten places; whoever receives an update of an order is known to the gateway, has a timer running that will close the socket,
  and is the order's user, its provider, an administrator, or sits in the order's own room; and that room is entered in no step but the answer to the socket's own request, for an
  order that exists, as its user, as its provider or as an administrator.\<close>

theorem sockets_hear_only_their_own:
  assumes "gw_reachable (g, waiting, d)"
  shows "length (gw_slots g a) \<le> 10 \<and>
     (receives_update g ev s \<longrightarrow> (\<exists>sd t. gw_data g s = Some sd \<and> gw_timers g s = Some t \<and>
        (sd_address sd = r_userAddress ev \<or> r_lpWallet ev = Some (sd_address sd) \<or> sd_role sd = AdminRole \<or> (s, OrderRoom (r_orderId ev)) \<in> set (gw_rooms g)))) \<and>
     (gw_step (g, waiting, d) (g', waiting', d') \<and> (s, OrderRoom i) \<in> set (gw_rooms g') - set (gw_rooms g) \<longrightarrow>
        (\<exists>env now unreadable orderId ans. handleJoinOrder env now unreadable s orderId (g, d) = (g', ans)) \<and>
        (\<exists>sd x. gw_data g s = Some sd \<and> find_order d i = Some x \<and>
          (sd_role sd = AdminRole \<or> o_userAddress x = sd_address sd \<or> sd_role sd = LpRole \<and> o_lpWallet x = Some (sd_address sd))))"
proof -
  have ok: "gw_ok g" using gw_reachable_ok [OF assms] by simp
  have "length (gw_slots g a) \<le> 10" using ok by (simp add: gw_ok_def slots_ok_def MAX_SOCKETS_PER_ADDRESS_def)
  moreover have "(\<exists>env now unreadable orderId ans. handleJoinOrder env now unreadable s orderId (g, d) = (g', ans)) \<and>
      (\<exists>sd x. gw_data g s = Some sd \<and> find_order d i = Some x \<and>
        (sd_role sd = AdminRole \<or> o_userAddress x = sd_address sd \<or> sd_role sd = LpRole \<and> o_lpWallet x = Some (sd_address sd)))"
    if into: "gw_step (g, waiting, d) (g', waiting', d')" "(s, OrderRoom i) \<in> set (gw_rooms g') - set (gw_rooms g)"
  proof -
    obtain env now unreadable orderId ans where j: "handleJoinOrder env now unreadable s orderId (g, d) = (g', ans)" by (rule step_enters_room [OF into])
    show ?thesis using order_rooms [OF j, of s i] into(2) j by blast
  qed
  ultimately show ?thesis using receivers [OF ok, of ev s] by blast
qed

text \<open>A user who opens a socket and hears of the order they opened.\<close>

definition demo_sockets_db :: db where
  "demo_sockets_db = empty_db\<lparr>db_orders := [demo_order], db_links := [\<lparr>w_stellarAddress = ''GU'', w_personId = ''p1'', w_authMethod = SEP53, w_status = ACTIVE, w_provenAt = 0\<rparr>]\<rparr>"

definition demo_claims :: token_check where
  "demo_claims now token = Some \<lparr>sk_sub = Some ''GU'', sk_cls = Some ''session'', sk_exp = Some 1700003600\<rparr>"

definition demo_handshake :: handshake where
  "demo_handshake = \<lparr>hs_auth = Some ''t'', hs_header = None\<rparr>"

definition demo_waiting :: gateway where
  "demo_waiting = fst (connect_start demo_claims 1700000000000 demo_handshake ''s1'' empty_gateway)"

definition demo_open :: gateway where
  "demo_open = fst (connect_end demo_env 1700000000000 ''s1'' (''GU'', SessionClass, 1700003600000) (demo_waiting, demo_sockets_db))"

lemma demo_start: "connect_start demo_claims 1700000000000 demo_handshake ''s1'' empty_gateway = (demo_waiting, Some (''GU'', SessionClass, 1700003600000))"
  by (simp add: demo_waiting_def connect_start_def read_socket_token_def extractToken_def demo_handshake_def demo_claims_def isTokenClass_def TOKEN_CLASSES_def
      MAY_OPEN_SOCKET_def checkConnectRate_def check_rate_def empty_gateway_def MAX_SOCKETS_PER_ADDRESS_def Let_def)

lemma demo_role: "resolveRole demo_env demo_sockets_db ''GU'' SessionClass = Inr UserRole"
  by (simp add: resolveRole_def demo_sockets_db_def empty_db_def find_link_def find_row_def accountOf_def MAY_PROMOTE_def) (simp add: demo_env_def)

lemma demo_end: "connect_end demo_env 1700000000000 ''s1'' (''GU'', SessionClass, 1700003600000) (demo_waiting, demo_sockets_db) = (demo_open, demo_sockets_db)"
  by (simp add: demo_open_def connect_end_def demo_role MAX_TIMER_MS_def Let_def)

lemma demo_open_hears: "receives_update demo_open \<lparr>r_orderId = ''o1'', r_status = ''FUNDED'', r_flow = TOP_UP, r_userAddress = ''GU'', r_lpWallet = Some ''GL''\<rparr> ''s1''"
  by (simp add: demo_open_def connect_end_def demo_role MAX_TIMER_MS_def Let_def receives_update_def update_rooms_def join_def set_add_def)
    (simp add: demo_waiting_def connect_start_def read_socket_token_def extractToken_def demo_handshake_def demo_claims_def isTokenClass_def TOKEN_CLASSES_def
      MAY_OPEN_SOCKET_def checkConnectRate_def check_rate_def empty_gateway_def MAX_SOCKETS_PER_ADDRESS_def Let_def set_add_def)

lemma demo_open_reachable: "gw_reachable (demo_open, [], demo_sockets_db)"
proof -
  have "gw_step (empty_gateway, [], demo_sockets_db) (demo_waiting, [(''s1'', ''GU'', SessionClass, 1700003600000)], demo_sockets_db)"
    by (rule started [OF _ demo_start]) (simp add: fresh_socket_def empty_gateway_def)
  moreover have "gw_step (demo_waiting, [(''s1'', ''GU'', SessionClass, 1700003600000)], demo_sockets_db) (demo_open, [], demo_sockets_db)"
    using finished [OF _ demo_end, of "[(''s1'', ''GU'', SessionClass, 1700003600000)]"] by simp
  ultimately show ?thesis using gw_reachable.intros by blast
qed

theorem sockets_hear_only_their_own_witness: "gw_reachable (demo_open, [], demo_sockets_db) \<and> (\<exists>sd. gw_data demo_open ''s1'' = Some sd) \<and> length (gw_slots demo_open ''GU'') \<le> 10"
  using sockets_hear_only_their_own [OF demo_open_reachable, where s = "''s1''"] demo_open_hears demo_open_reachable by blast

section \<open>Two faults\<close>

text \<open>Asking for an order reads the role again and moves the socket to the rooms of the new role, but the answer is decided on the old one: an administrator
  who has lost the role is still let into the room of any order.\<close>

theorem lost_role_still_joins:
  assumes "gw_data g s = Some sd" "sd_address sd \<noteq> []" "sd_role sd = AdminRole" "checkJoinRate now s g = (g1, True)"
    "resolveRole env d (sd_address sd) (sd_cls sd) = Inr UserRole" "i \<noteq> []" "find_order d i = Some x"
  obtains g' where "handleJoinOrder env now False s (Some i) (g, d) = (g', Joined)" "(s, OrderRoom i) \<in> set (gw_rooms g')"
    "gw_data g' s = Some \<lparr>sd_address = sd_address sd, sd_role = UserRole, sd_cls = sd_cls sd\<rparr>"
  using assms by (simp add: handleJoinOrder_def Let_def join_def applyRoleChange_frame)

text \<open>A socket that closes while its role is read has no data yet, so that closing it gives nothing back, and the connection then goes on for
  the closed socket: its place is never freed.\<close>

theorem early_close_keeps_the_place:
  assumes "connect_start accepts now hs s g = (g1, Some (a, k, e))" "gw_data g s = None" "resolveRole env d a k = Inr r" "now2 < e"
    "connect_end env now2 s (a, k, e) (disconnect s g1, d) = (g2, d2)"
  shows "s \<notin> set (gw_live g2) \<and> s \<in> set (gw_slots (disconnect s g2) a) \<and> s \<in> set (gw_slots (expire_timer t s g2) a)"
proof -
  have "s \<in> set (gw_slots g1 a) \<and> gw_data g1 s = None"
    using assms(1,2) checkConnectRate_frame by (fastforce simp: connect_start_def Let_def split: option.splits prod.splits bool.splits if_splits)
  then have h: "s \<in> set (gw_slots (disconnect s g1) a)" by (simp add: disconnect_def handleDisconnect_def)
  have "min (e - now2) MAX_TIMER_MS > 0" using assms(4) by (simp add: MAX_TIMER_MS_def)
  then have "gw_live g2 = gw_live (disconnect s g1)" "gw_slots g2 = gw_slots (disconnect s g1)"
    using assms(3,5) by (auto simp: connect_end_def Let_def split: if_splits)
  then show ?thesis using h disconnect_not_live [of s g1] by (auto simp: disconnect_def expire_timer_def split: option.split)
qed

end
