(* ===== verification/Vendor.thy ===== *)
theory Vendor
  imports Sep12 Markets Monitoring "HOL-Library.Multiset"
begin

text \<open>
  The identity provider and the mail service at the edge of the coordinator: \<open>kyc/didit-signature.ts\<close> and \<open>kyc/didit-webhook.controller.ts\<close>
  (which deliveries are believed), \<open>kyc/didit-kyc-provider.ts\<close> (opening a session, within a daily budget, and asking which checks the workflow performs),
  \<open>kyc/stub-kyc-provider.ts\<close>, \<open>email/email.service.ts\<close> and \<open>AlertsService.deliver\<close> (whom a queued message reaches).  The HMAC, the JSON parser and
  the answers of the network are arguments.
\<close>

section \<open>Deliveries of the provider\<close>

definition DIDIT_FRESHNESS_SECS :: rat where "DIDIT_FRESHNESS_SECS = 300"

text \<open>Around the bound the difference of the two times is exact in double precision, so it is written as a difference of rationals.\<close>

definition fresh_time :: "ms \<Rightarrow> jsnum \<Rightarrow> bool" where
  "fresh_time now v = (case v of Fin sent \<Rightarrow> \<bar>of_int (now div 1000) - sent\<bar> < DIDIT_FRESHNESS_SECS | _ \<Rightarrow> False)"

record didit_delivery =
  dl_raw :: "string option" \<comment> \<open>the bytes that arrived, when they were captured\<close>
  dl_signature :: string
  dl_timestamp :: string

text \<open>Why a delivery is not believed; None when it is.\<close>

definition verifyDiditDelivery :: "(string \<Rightarrow> string \<Rightarrow> string) \<Rightarrow> string \<Rightarrow> ms \<Rightarrow> didit_delivery \<Rightarrow> string option" where
  "verifyDiditDelivery hmac secret now dl =
     (if secret = [] then Some ''no webhook secret is configured''
      else case dl_raw dl of
        None \<Rightarrow> Some ''the bytes of this delivery were not captured''
      | Some raw \<Rightarrow>
          if raw = [] then Some ''the bytes of this delivery were not captured''
          else if \<not> fresh_time now (to_number (dl_timestamp dl)) then Some ''timestamp is outside the freshness window''
          else if hmac secret raw \<noteq> dl_signature dl then Some ''signature does not match the bytes that arrived''
          else None)"

text \<open>\<open>String\<close> and \<open>Number\<close> of a parsed value: an object whose own \<open>toString\<close> hides the inherited one cannot be converted, nor can an array
  that holds one; an array of one element is read as that element, the empty one as zero.\<close>

fun unprintable :: "json \<Rightarrow> bool" where
  "unprintable (JObj members) = (map_of members ''toString'' \<noteq> None)"
| "unprintable (JArr xs) = list_ex unprintable xs"
| "unprintable _ = False"

fun element_number :: "json \<Rightarrow> jsnum" where
  "element_number JNull = Fin 0"
| "element_number (JsonBool b) = NaN"
| "element_number (JNum n) = n"
| "element_number (JStr s) = to_number s"
| "element_number (JArr []) = Fin 0"
| "element_number (JArr [x]) = element_number x"
| "element_number (JArr (x # y # zs)) = NaN"
| "element_number (JObj members) = NaN"

definition json_number :: "json option \<Rightarrow> jsnum outcome" where
  "json_number v =
     (case v of
        None \<Rightarrow> Inr NaN
      | Some (JsonBool b) \<Rightarrow> Inr (Fin (if b then 1 else 0))
      | Some j \<Rightarrow> if unprintable j then Inl (UncaughtError ''cannot convert object to primitive value'') else Inr (element_number j))"

definition NON_SESSION_EVENT_FAMILIES :: "string list" where
  "NON_SESSION_EVENT_FAMILIES = [''user.'', ''business.'', ''activity.'', ''transaction.'', ''travel_rule.'', ''workflow.'']"

definition non_session :: "json option \<Rightarrow> bool" where
  "non_session payload =
     (case js_prop payload ''webhook_type'' of
        Some (JStr name) \<Rightarrow> list_ex (\<lambda>family. take (length family) name = family) NON_SESSION_EVENT_FAMILIES
      | _ \<Rightarrow> False)"

text \<open>\<open>new Date(sent * 1000)\<close>, which cuts off the fraction of a millisecond; a fresh time is never outside the range of a date.\<close>

definition delivered_ms :: "rat \<Rightarrow> ms" where
  "delivered_ms sent = (case js_mul (Fin sent) (Fin 1000) of Fin v \<Rightarrow> if 0 \<le> v then \<lfloor>v\<rfloor> else \<lceil>v\<rceil> | _ \<Rightarrow> 0)"

definition count_delivery :: "ms \<Rightarrow> delivery_result \<Rightarrow> didit_refusals \<Rightarrow> didit_refusals" where
  "count_delivery now res r =
     (case res of
        Recorded reason \<Rightarrow> record_refusal reason r
      | OutOfSession \<Rightarrow> droppedOutOfSession ''a delivery named a session this customer is not following'' now r
      | Applied \<Rightarrow> applied r
      | Dropped \<Rightarrow> r
      | StorageRefused \<Rightarrow> r)"

definition receive ::
  "env \<Rightarrow> (string \<Rightarrow> string \<Rightarrow> string) \<Rightarrow> string \<Rightarrow> (string \<Rightarrow> json option) \<Rightarrow> ms \<Rightarrow> didit_delivery \<Rightarrow> (didit_refusals \<times> db, unit) handler" where
  "receive env hmac secret parse now dl s =
     (case s of (r, d) \<Rightarrow>
        case verifyDiditDelivery hmac secret now dl of
          Some reason \<Rightarrow> ((couldNotAuthenticate reason r, d), Inl (UnauthorizedException ''this delivery was not signed by the shared secret''))
        | None \<Rightarrow>
            (case parse (the (dl_raw dl)) of
               None \<Rightarrow> ((record_refusal ''a signed delivery did not carry readable json'' r, d), Inr ())
             | Some payload \<Rightarrow>
                 if non_session (Some payload)
                 then ((r, d), if (case js_prop (Some payload) ''status'' of None \<Rightarrow> False | Some j \<Rightarrow> unprintable j)
                               then Inl (UncaughtError ''cannot convert object to primitive value'') else Inr ())
                 else (case json_number (js_prop (Some payload) ''timestamp'') of
                    Inl e \<Rightarrow> ((r, d), Inl e)
                  | Inr sent \<Rightarrow>
                      if \<not> fresh_time now sent then ((record_refusal ''a delivery carried a time this anchor will not order by'' r, d), Inr ())
                      else (let c = readDiditDecision (Some payload) (cfg_kycRequireAml env);
                                (d', res) = applyDelivery env c (case sent of Fin v \<Rightarrow> delivered_ms v | _ \<Rightarrow> 0) now d
                            in ((count_delivery now res r, d'),
                                if res = StorageRefused then Inl (UncaughtError ''the client refused the write'') else Inr ())))))"

section \<open>Opening a session\<close>

record didit_config =
  dg_apiKey :: string
  dg_workflowId :: string
  dg_budget :: nat \<comment> \<open>\<open>diditDailySessionBudget\<close>\<close>

definition BUDGET_WINDOW_MS :: ms where "BUDGET_WINDOW_MS = 86400000"

record didit_provider =
  dp_started :: "ms list"
  dp_refusals :: didit_refusals

text \<open>\<open>overBudget\<close> forgets what is older than a day.\<close>

definition overBudget :: "didit_config \<Rightarrow> ms \<Rightarrow> didit_provider \<Rightarrow> didit_provider \<times> bool" where
  "overBudget cfg now p =
     (let kept = filter (\<lambda>t. now - BUDGET_WINDOW_MS < t) (dp_started p) in (p\<lparr>dp_started := kept\<rparr>, dg_budget cfg \<le> length kept))"

definition refuse :: "string \<Rightarrow> didit_provider \<Rightarrow> didit_provider \<times> 'a outcome" where
  "refuse reason p = (p\<lparr>dp_refusals := providerFailed reason (dp_refusals p)\<rparr>, Inl (ServiceUnavailableException reason))"

text \<open>\<open>start\<close> up to the request, which holds a place of the budget, and \<open>start\<close> from its answer on, which gives the place back when no session came of it.\<close>

definition start_reserve :: "didit_config \<Rightarrow> ms \<Rightarrow> (didit_provider, ms) handler" where
  "start_reserve cfg now p =
     (if dg_apiKey cfg = [] \<or> dg_workflowId cfg = [] then refuse ''identity verification is not configured'' p
      else case overBudget cfg now p of
        (p1, False) \<Rightarrow> (p1\<lparr>dp_refusals := spendResumed (dp_refusals p1), dp_started := dp_started p1 @ [now]\<rparr>, Inr now)
      | (p1, True) \<Rightarrow>
          (let reason = ''this anchor has already opened '' @ dec_nat (length (dp_started p1)) @ '' verifications in the last day, which is its whole budget''
           in (p1\<lparr>dp_refusals := budgetExhausted reason (dp_refusals p1)\<rparr>, Inl (ServiceUnavailableException reason))))"

datatype session_answer =
    RequestFailed http_error \<comment> \<open>the request, or reading its body, threw\<close>
  | NotOk
  | SessionBody "string option" "string option" \<comment> \<open>\<open>session_id\<close> and \<open>url\<close>, strings where the body has them\<close>

definition open_session :: "session_answer \<Rightarrow> (didit_provider, kyc_decision) handler" where
  "open_session a p =
     (case a of
        RequestFailed e \<Rightarrow> (p, Inl e)
      | NotOk \<Rightarrow> refuse ''identity verification could not be started'' p
      | SessionBody i u \<Rightarrow>
          if \<not> truthy_str i \<or> \<not> truthy_str u then refuse ''identity verification returned no session'' p
          else (p\<lparr>dp_refusals := providerAnswered (dp_refusals p)\<rparr>,
                Inr \<lparr>kd_status = PROCESSING, kd_rejectionReason = None, kd_providerRef = i, kd_verificationUrl = u\<rparr>))"

text \<open>\<open>splice\<close> at \<open>lastIndexOf\<close>.\<close>

fun remove_last :: "'a \<Rightarrow> 'a list \<Rightarrow> 'a list" where
  "remove_last x ys = rev (remove1 x (rev ys))"

definition start_finish :: "ms \<Rightarrow> session_answer \<Rightarrow> (didit_provider, kyc_decision) handler" where
  "start_finish reserved a p =
     (case open_session a p of
        (p1, Inr k) \<Rightarrow> (p1, Inr k)
      | (p1, Inl e) \<Rightarrow> (p1\<lparr>dp_started := remove_last reserved (dp_started p1)\<rparr>, Inl e))"

section \<open>Which checks the workflow performs\<close>

definition word_char :: "char \<Rightarrow> bool" where
  "word_char c = (is_digit c \<or> is_upper c \<or> is_upper (to_upper c) \<or> c = CHR ''_'')"

text \<open>The pattern \<open>/\bAML\b/i\<close>; \<open>before\<close> is whether the character before is one of a word.\<close>

fun names_aml :: "bool \<Rightarrow> string \<Rightarrow> bool" where
  "names_aml before [] = False"
| "names_aml before (c # cs) =
     ((\<not> before \<and> map to_upper (take 3 (c # cs)) = ''AML'' \<and> (case drop 2 cs of [] \<Rightarrow> True | e # _ \<Rightarrow> \<not> word_char e)) \<or> names_aml (word_char c) cs)"

datatype workflow_answer = WorkflowsUnread | WorkflowRows "(string \<times> string option) list" \<comment> \<open>\<open>workflow_id\<close> and \<open>features\<close>\<close>

text \<open>Whether asking again is of no use, and what is noted.\<close>

definition probeWorkflow :: "didit_config \<Rightarrow> workflow_answer \<Rightarrow> didit_refusals \<Rightarrow> didit_refusals \<times> bool" where
  "probeWorkflow cfg a r =
     (case a of
        WorkflowsUnread \<Rightarrow> (r, False)
      | WorkflowRows rows \<Rightarrow>
          (case map_of rows (dg_workflowId cfg) of
             Some (Some features) \<Rightarrow> (workflowPerformsAml (Some (names_aml False features)) r, True)
           | _ \<Rightarrow> (r, True)))"

section \<open>The stub\<close>

definition stub_start :: kyc_provider where
  "stub_start ref submitted =
     Inr (if missing_field submitted
          then \<lparr>kd_status = NEEDS_INFO, kd_rejectionReason = None, kd_providerRef = None, kd_verificationUrl = None\<rparr>
          else if map_option (\<lambda>v. map to_upper (trim v)) (map_of submitted ''first_name'') = Some ''REJECT''
          then \<lparr>kd_status = REJECTED, kd_rejectionReason = Some ''the operator marked this identity as refused'', kd_providerRef = None, kd_verificationUrl = None\<rparr>
          else \<lparr>kd_status = ACCEPTED, kd_rejectionReason = None, kd_providerRef = None, kd_verificationUrl = None\<rparr>)"

section \<open>Delivering queued messages\<close>

definition strip :: "string option \<Rightarrow> string" where
  "strip v = (case v of None \<Rightarrow> [] | Some s \<Rightarrow> trim s)"

record mail =
  ml_to :: string
  ml_subject :: string
  ml_text :: string

text \<open>\<open>EmailService.deliver\<close>: the message that is posted, and the error; \<open>post\<close> is the answer of the mail service.\<close>

definition mail_recipient :: "db \<Rightarrow> string option \<Rightarrow> string option \<Rightarrow> string" where
  "mail_recipient d person lp =
     (let personId = strip person; lpId = strip lp;
          to = (if lpId \<noteq> [] then strip (Option.bind (find_row lp_id lpId (db_lps d)) lp_alertEmail) else [])
      in if to = [] \<and> personId \<noteq> [] \<and> lpId = [] then strip (Option.bind (find_person d personId) person_email) else to)"

definition deliver_email :: "string \<Rightarrow> (mail \<Rightarrow> string + (bool \<times> nat)) \<Rightarrow> db \<Rightarrow> string option \<Rightarrow> string option \<Rightarrow> string \<Rightarrow> string \<Rightarrow> mail option \<times> string option" where
  "deliver_email apiKey post d person lp subject body =
     (if strip person = [] \<and> strip lp = [] then (None, Some ''email job carries neither a personId nor an lpId, refusing to send'')
      else let to = mail_recipient d person lp in
           if to = [] then (None, Some ''no address on file for this person, so nothing was delivered'')
           else if apiKey = [] then (None, Some ''email is not configured: RESEND_API_KEY is unset'')
           else let m = \<lparr>ml_to = to, ml_subject = subject, ml_text = body\<rparr> in
                (Some m, case post m of
                           Inl message \<Rightarrow> Some message
                         | Inr (ok, status) \<Rightarrow> if ok then None else Some (''email provider refused with '' @ dec_nat status)))"

text \<open>\<open>AlertsService.deliver\<close>: the address the text is posted to, and the error; the webhook answers with the name of an error or a status.\<close>

definition deliver_alert :: "env \<Rightarrow> (string \<Rightarrow> string \<Rightarrow> string + (bool \<times> nat)) \<Rightarrow> string \<Rightarrow> (string \<times> string) option \<times> string option" where
  "deliver_alert env post body =
     (if \<not> truthy_str (cfg_alertWebhookUrl env) then (None, Some ''ALERT_WEBHOOK_URL is unset'')
      else let url = the (cfg_alertWebhookUrl env) in
           (Some (url, body),
            case post url body of
              Inl name \<Rightarrow> Some (''alert webhook request failed: '' @ name)
            | Inr (ok, status) \<Rightarrow> if ok then None else Some (''alert webhook responded '' @ dec_nat status)))"

text \<open>The handlers the two services register with the outbox.\<close>

definition registered :: "env \<Rightarrow> string \<Rightarrow> (mail \<Rightarrow> string + (bool \<times> nat)) \<Rightarrow> (string \<Rightarrow> string \<Rightarrow> string + (bool \<times> nat)) \<Rightarrow> db \<Rightarrow> handlers" where
  "registered env apiKey post hook d kind =
     (if kind = EMAIL_OUTBOX_KIND
      then Some (\<lambda>m. snd (case x_payload m of
             EmailPayload p l t b \<Rightarrow> deliver_email apiKey post d p l t b
           | AlertPayload t i \<Rightarrow> deliver_email apiKey post d None None [] t))
      else if kind = ALERT_OUTBOX_KIND
      then Some (\<lambda>m. snd (deliver_alert env hook (case x_payload m of EmailPayload p l t b \<Rightarrow> b | AlertPayload t i \<Rightarrow> t)))
      else None)"

section \<open>Only the provider's own word is believed\<close>

lemma verify_trusted:
  "verifyDiditDelivery hmac secret now dl = None \<longleftrightarrow>
     secret \<noteq> [] \<and> (\<exists>raw. dl_raw dl = Some raw \<and> raw \<noteq> [] \<and> dl_signature dl = hmac secret raw) \<and> fresh_time now (to_number (dl_timestamp dl))"
  by (auto simp: verifyDiditDelivery_def split: option.split)

lemma receive_changes:
  assumes "receive env hmac secret parse now dl (r, d) = ((r', d'), res)" "d' \<noteq> d"
  obtains raw payload sent where "verifyDiditDelivery hmac secret now dl = None" "dl_raw dl = Some raw" "parse raw = Some payload"
    "json_number (js_prop (Some payload) ''timestamp'') = Inr (Fin sent)" "fresh_time now (Fin sent)" "\<not> non_session (Some payload)"
    "d' = fst (applyDelivery env (readDiditDecision (Some payload) (cfg_kycRequireAml env)) (delivered_ms sent) now d)"
proof -
  have v: "verifyDiditDelivery hmac secret now dl = None" using assms by (auto simp: receive_def split: option.splits)
  then obtain raw where raw: "dl_raw dl = Some raw" by (auto simp: verify_trusted)
  obtain payload where p: "parse raw = Some payload" using assms v raw by (auto simp: receive_def split: option.splits)
  have n: "\<not> non_session (Some payload)" using assms v raw p by (auto simp: receive_def)
  obtain t where t: "json_number (js_prop (Some payload) ''timestamp'') = Inr t" "fresh_time now t"
    using assms v raw p n by (auto simp: receive_def split: sum.splits if_splits)
  then obtain sent where s: "t = Fin sent" by (auto simp: fresh_time_def split: jsnum.splits)
  show ?thesis
    using that [OF v raw p, of sent] assms v raw p n t s by (auto simp: receive_def Let_def split: prod.splits)
qed

lemma json_string_Some: "json_string j = Some s \<Longrightarrow> j = Some (JStr s)"
  by (auto simp: json_string_def split: option.splits json.splits)

text \<open>What a delivery writes is its own conclusion.\<close>

lemma applyDelivery_writes:
  assumes "kyc_ok d" "v \<in> set (db_kyc (fst (applyDelivery env c t now d)))" "v \<notin> set (db_kyc d)"
  shows "v_status v = dc_status c \<and> (dc_screened c \<longleftrightarrow> v_screenedAt v \<noteq> None) \<and> json_string (dc_customerRef c) = Some (v_customerRef v)"
proof -
  obtain ref and p :: person where w: "json_string (dc_customerRef c) = Some ref" "fst (applyDelivery env c t now d) = writeDelivery ref (person_id p) c t (find_kyc d ref) now d"
    using applyDelivery_cases [OF assms(1), of env c t now] assms(2,3) by metis
  have "v = delivered_row (person_id p) c t (find_kyc d ref) now (blank_kyc ref (person_id p) now) \<or>
      (\<exists>u. v_customerRef u = ref \<and> v = delivered_row (person_id p) c t (find_kyc d ref) now u)"
    using upsert_kyc_row assms(2,3) w(2) unfolding writeDelivery_def by metis
  then show ?thesis using w(1) by (auto simp: delivered_row_def blank_kyc_def split: if_splits)
qed


section \<open>The budget of a day\<close>

text \<open>Openings in any order and interleaving: the time of the last call, the reservations whose answer is awaited, and those that became a session.\<close>

inductive session_run :: "didit_config \<Rightarrow> ms \<Rightarrow> ms list \<Rightarrow> ms list \<Rightarrow> didit_provider \<Rightarrow> bool" for cfg where
  boot: "dp_started p = [] \<Longrightarrow> session_run cfg now [] [] p"
| reserved: "\<lbrakk>session_run cfg latest pending opened p; latest \<le> now; start_reserve cfg now p = (p', Inr t)\<rbrakk> \<Longrightarrow> session_run cfg now (t # pending) opened p'"
| turned_away: "\<lbrakk>session_run cfg latest pending opened p; latest \<le> now; start_reserve cfg now p = (p', Inl e)\<rbrakk> \<Longrightarrow> session_run cfg now pending opened p'"
| session: "\<lbrakk>session_run cfg latest pending opened p; t \<in> set pending; start_finish t a p = (p', Inr k)\<rbrakk> \<Longrightarrow> session_run cfg latest (remove1 t pending) (t # opened) p'"
| no_session: "\<lbrakk>session_run cfg latest pending opened p; t \<in> set pending; start_finish t a p = (p', Inl e)\<rbrakk> \<Longrightarrow> session_run cfg latest (remove1 t pending) opened p'"

definition within_day :: "ms \<Rightarrow> ms multiset \<Rightarrow> ms multiset" where
  "within_day now M = filter_mset (\<lambda>t. now - BUDGET_WINDOW_MS < t) M"

text \<open>Every reservation of the last day that was not given back is still in the list the budget is read from.\<close>

definition budget_ok :: "didit_config \<Rightarrow> ms \<Rightarrow> ms list \<Rightarrow> ms list \<Rightarrow> didit_provider \<Rightarrow> bool" where
  "budget_ok cfg latest pending opened p =
     (within_day latest (mset pending + mset opened) \<subseteq># mset (dp_started p) \<and> length (dp_started p) \<le> dg_budget cfg)"

lemma within_day_later: "latest \<le> now \<Longrightarrow> within_day now (within_day latest M) = within_day now M"
  by (auto simp: within_day_def filter_filter_mset intro!: filter_mset_cong)

lemma within_day_mono: "M \<subseteq># N \<Longrightarrow> within_day now M \<subseteq># within_day now N"
  by (simp add: within_day_def multiset_filter_mono)

lemma within_day_sub: "within_day now M \<subseteq># M"
  by (simp add: within_day_def)

lemma kept_later:
  assumes "within_day latest M \<subseteq># mset xs" "latest \<le> now"
  shows "within_day now M \<subseteq># mset (filter (\<lambda>t. now - BUDGET_WINDOW_MS < t) xs)"
  using within_day_mono [OF assms(1), of now] by (simp add: within_day_later [OF assms(2)]) (simp add: within_day_def)

lemma mset_remove_last: "mset (remove_last x xs) = mset xs - {#x#}"
  by simp

lemma start_finish_started:
  "start_finish t a p = (p', res) \<Longrightarrow> dp_started p' = (case res of Inr _ \<Rightarrow> dp_started p | Inl _ \<Rightarrow> remove_last t (dp_started p))"
  by (auto simp: start_finish_def open_session_def refuse_def split: session_answer.splits if_splits)

lemma given_back:
  assumes "within_day latest (add_mset t M) \<subseteq># N"
  shows "within_day latest M \<subseteq># N - {#t#}"
proof (cases "latest - BUDGET_WINDOW_MS < t")
  case True
  then show ?thesis using assms by (simp add: within_day_def insert_subset_eq_iff)
next
  case False
  then have "count (within_day latest M) t = 0" by (simp add: within_day_def)
  then show ?thesis using assms False by (auto simp: within_day_def subseteq_mset_def) (metis One_nat_def diff_zero)
qed

lemma session_run_budget: "session_run cfg latest pending opened p \<Longrightarrow> budget_ok cfg latest pending opened p"
proof (induction rule: session_run.induct)
  case (boot p now)
  then show ?case by (simp add: budget_ok_def within_day_def)
next
  case (reserved latest pending opened p now p' t)
  then have "t = now" "dp_started p' = filter (\<lambda>t. now - BUDGET_WINDOW_MS < t) (dp_started p) @ [now]"
      "length (filter (\<lambda>t. now - BUDGET_WINDOW_MS < t) (dp_started p)) < dg_budget cfg"
    by (auto simp: start_reserve_def refuse_def overBudget_def Let_def split: if_splits prod.splits bool.splits)
  then show ?case using kept_later [of latest "mset pending + mset opened" "dp_started p" now] reserved
    by (auto simp: budget_ok_def within_day_def BUDGET_WINDOW_MS_def)
next
  case (turned_away latest pending opened p now p' e)
  then have "dp_started p' \<in> {dp_started p, filter (\<lambda>t. now - BUDGET_WINDOW_MS < t) (dp_started p)}"
    by (auto simp: start_reserve_def refuse_def overBudget_def Let_def split: if_splits prod.splits bool.splits)
  then show ?case using kept_later [of latest "mset pending + mset opened" "dp_started p" now] turned_away
    by (auto simp: budget_ok_def intro: subset_mset.order_trans order_trans [OF length_filter_le])
next
  case (session latest pending opened p t a p' k)
  then have "mset (remove1 t pending) + mset (t # opened) = mset pending + mset opened" "dp_started p' = dp_started p"
    using start_finish_started [OF session(3)] by simp_all
  then show ?case using session by (simp add: budget_ok_def)
next
  case (no_session latest pending opened p t a p' e)
  have "mset pending + mset opened = add_mset t (mset (remove1 t pending) + mset opened)" using no_session(2) by simp
  then show ?case using no_session given_back [of latest t] start_finish_started [OF no_session(3)] by (auto simp: budget_ok_def length_remove1)
qed

text \<open>C17 (DiditKycProvider.start, overBudget, open): the daily budget of verifications holds however openings overlap.  At every moment, the sessions opened in the
  24 hours before it, together with those whose answer is still awaited, are no more than the configured budget; a place is given back only when no
  session came of it.\<close>

theorem session_budget_holds:
  assumes "session_run cfg latest pending opened p" "latest \<le> t"
  shows "length (filter (\<lambda>r. t - 86400000 < r) (pending @ opened)) \<le> dg_budget cfg"
proof -
  have b: "within_day latest (mset pending + mset opened) \<subseteq># mset (dp_started p)" "length (dp_started p) \<le> dg_budget cfg"
    using session_run_budget [OF assms(1)] by (simp_all add: budget_ok_def)
  have "mset (filter (\<lambda>r. t - 86400000 < r) (pending @ opened)) = within_day t (mset pending + mset opened)"
    by (simp add: within_day_def BUDGET_WINDOW_MS_def)
  also have "\<dots> \<subseteq># mset (filter (\<lambda>r. t - BUDGET_WINDOW_MS < r) (dp_started p))" by (rule kept_later [OF b(1) assms(2)])
  finally have "length (filter (\<lambda>r. t - 86400000 < r) (pending @ opened)) \<le> length (filter (\<lambda>r. t - BUDGET_WINDOW_MS < r) (dp_started p))"
    by (metis size_mset size_mset_mono)
  then show ?thesis using b(2) length_filter_le [of "\<lambda>r. t - BUDGET_WINDOW_MS < r" "dp_started p"] by linarith
qed

definition demo_didit :: didit_config where
  "demo_didit = \<lparr>dg_apiKey = ''k'', dg_workflowId = ''w'', dg_budget = 1\<rparr>"

definition demo_provider :: didit_provider where
  "demo_provider = \<lparr>dp_started = [], dp_refusals = quiet_refusals\<rparr>"

lemma demo_session_run: "\<exists>p. session_run demo_didit 1700000000000 [] [1700000000000] p"
proof -
  have 1: "\<exists>p'. start_reserve demo_didit 1700000000000 demo_provider = (p', Inr 1700000000000)"
    by (simp add: start_reserve_def demo_didit_def demo_provider_def overBudget_def Let_def)
  then obtain p1 where p1: "start_reserve demo_didit 1700000000000 demo_provider = (p1, Inr 1700000000000)" by blast
  have "\<exists>p' k. start_finish 1700000000000 (SessionBody (Some ''s'') (Some ''https://u'')) p1 = (p', Inr k)"
    by (simp add: start_finish_def open_session_def)
  then obtain p2 k where p2: "start_finish 1700000000000 (SessionBody (Some ''s'') (Some ''https://u'')) p1 = (p2, Inr k)" by blast
  have "session_run demo_didit 0 [] [] demo_provider" by (rule boot) (simp add: demo_provider_def)
  from reserved [OF this _ p1] have "session_run demo_didit 1700000000000 [1700000000000] [] p1" by simp
  from session [OF this _ p2] show ?thesis by auto
qed

theorem session_budget_holds_witness: "length (filter (\<lambda>r. 1700000060000 - 86400000 < r) ([] @ [1700000000000 :: ms])) \<le> dg_budget demo_didit"
proof -
  obtain p where "session_run demo_didit 1700000000000 [] [1700000000000] p" using demo_session_run by blast
  from session_budget_holds [OF this, of 1700000060000] show ?thesis by simp
qed

text \<open>A signed approval that opens the gate.\<close>

definition signed_payload :: json where
  "signed_payload = JObj [(''timestamp'', JNum (Fin 9)), (''status'', JStr ''Approved''), (''environment'', JStr ''live''), (''session_id'', JStr ''s1''),
     (''vendor_data'', JStr ''G1''),
     (''decision'', JObj [(''aml_screenings'', JArr [JObj [(''status'', JStr ''Approved''), (''total_hits'', JNum (Fin 0))]])])]"

definition signed_delivery :: didit_delivery where
  "signed_delivery = \<lparr>dl_raw = Some ''body'', dl_signature = ''k:body'', dl_timestamp = ''9''\<rparr>"

definition demo_hmac :: "string \<Rightarrow> string \<Rightarrow> string" where
  "demo_hmac secret raw = secret @ '':'' @ raw"

lemma nine: "to_number ''9'' = Fin 9"
  using to_number_digits [of "''9''"] by (simp add: is_digit_def digits_val_def digit_val_def)

lemma signed_trusted: "verifyDiditDelivery demo_hmac ''k'' 9000 signed_delivery = None"
  by (simp add: verifyDiditDelivery_def signed_delivery_def demo_hmac_def nine fresh_time_def DIDIT_FRESHNESS_SECS_def)

lemma signed_conclusion:
  "dc_status (readDiditDecision (Some signed_payload) True) = ACCEPTED" "dc_customerRef (readDiditDecision (Some signed_payload) True) = Some (JStr ''G1'')"
  "dc_environment (readDiditDecision (Some signed_payload) True) = Some (JStr ''live'')" "\<not> dc_unrecognisedStatus (readDiditDecision (Some signed_payload) True)"
  "dc_providerRef (readDiditDecision (Some signed_payload) True) = Some (JStr ''s1'')"
  by (simp_all add: readDiditDecision_def signed_payload_def Let_def foundHits_def screenings_def hitsPresent_def
      noScreeningDelivered_def emptyOrAbsent_def ranAndFoundNothing_def cleared_def CLEARED_SCREENING_def)

lemma signed_person: "lookupPerson demo_env kyc_db ''G1'' = Some \<lparr>person_id = ''p1'', person_email = None\<rparr>" "db_kyc kyc_db = []" "cfg_diditEnvironment demo_env = ''live''"
  by (simp_all add: kyc_db_def empty_db_def lookupPerson_def find_link_def find_row_def accountOf_def find_person_def) (simp add: demo_env_def)

lemma signed_applied:
  "applyDelivery demo_env (readDiditDecision (Some signed_payload) True) t now kyc_db =
     (writeDelivery ''G1'' ''p1'' (readDiditDecision (Some signed_payload) True) t None now kyc_db, Applied)"
  by (simp add: applyDelivery_def signed_conclusion signed_person json_string_def find_kyc_def find_row_def storable_def)

lemma signed_delivery_applied:
  "\<exists>r' d' v. receive demo_env demo_hmac ''k'' (\<lambda>_. Some signed_payload) 9000 signed_delivery (quiet_refusals, kyc_db) = ((r', d'), Inr ()) \<and> v \<in> set (db_kyc d') \<and> v_status v = ACCEPTED"
proof -
  have time: "json_number (js_prop (Some signed_payload) ''timestamp'') = Inr (Fin 9)" "\<not> non_session (Some signed_payload)"
    by (simp_all add: signed_payload_def json_number_def non_session_def)
  have "fresh_time 9000 (Fin 9)" by (simp add: fresh_time_def DIDIT_FRESHNESS_SECS_def)
  then show ?thesis
    by (simp add: receive_def signed_trusted time signed_applied Let_def writeDelivery_def upsert_kyc_def find_kyc_def find_row_def signed_person delivered_row_def signed_conclusion)
qed


text \<open>A queued mail reaches the address on file for the one it names: a provider's mail never goes to a person, and nothing is sent when there is no address.\<close>

theorem mail_only_to_its_owner:
  assumes "deliver_email apiKey post d person lp subject body = (Some m, err)"
  shows "ml_to m \<noteq> [] \<and> ml_subject m = subject \<and> ml_text m = body \<and>
     (if strip lp \<noteq> [] then \<exists>l e. find_row lp_id (strip lp) (db_lps d) = Some l \<and> lp_alertEmail l = Some e \<and> ml_to m = trim e
      else \<exists>p e. find_person d (strip person) = Some p \<and> person_email p = Some e \<and> ml_to m = trim e)"
  using assms
  by (auto simp: deliver_email_def mail_recipient_def Let_def strip_def Option.bind_eq_Some_conv split: if_splits option.splits prod.splits sum.splits bind_splits)

end
