(* ===== verification/Boot.thy ===== *)
theory Boot
  imports Admin
begin

text \<open>
  What the coordinator reads and checks before it serves: \<open>config/app-config.service.ts\<close> (values from environment variables),
  \<open>config/config-boot.service.ts\<close> (the refusals to start), \<open>auth/jwt-options.ts\<close>, \<open>anchor/anchor-cors.ts\<close> (which origins may call
  which paths), \<open>anchor/consistency.ts\<close> (the advertised identity against the served one) and \<open>sep24/interactive-session.ts\<close> (the cookie of the
  popup).  The URL parser of the platform and \<open>decodeURIComponent\<close> are arguments, as are the public network passphrase of the SDK and the
  answers of the network.  Of a refusal the kind is kept, not the English sentence.
\<close>

section \<open>Environment variables\<close>

type_synonym variables = "string \<rightharpoonup> string"

record url =
  u_protocol :: string
  u_host :: string
  u_username :: string
  u_password :: string
  u_search :: string
  u_hash :: string
  u_origin :: string
  u_href :: string

type_synonym url_parser = "string \<Rightarrow> url option"

definition get_or :: "variables \<Rightarrow> string \<Rightarrow> string \<Rightarrow> string" where
  "get_or vars k dflt = (case vars k of Some v \<Rightarrow> v | None \<Rightarrow> dflt)"

definition comma_list :: "string \<Rightarrow> string list" where
  "comma_list raw = filter (\<lambda>s. s \<noteq> []) (map trim (split_on (CHR '','') raw))"

definition LOLIPAY_ORIGINS :: "string list" where
  "LOLIPAY_ORIGINS = [''https://app.lolipay.app'', ''https://lp.lolipay.app'', ''https://admin.lolipay.app'', ''https://lolipay.app'']"

text \<open>\<open>[...new Set(xs)]\<close>: the first of equal values stays.\<close>

definition unique :: "string list \<Rightarrow> string list" where
  "unique xs = rev (remdups (rev xs))"

definition corsAllowlist :: "string option \<Rightarrow> string list" where
  "corsAllowlist raw = unique (comma_list (case raw of Some v \<Rightarrow> v | None \<Rightarrow> []) @ LOLIPAY_ORIGINS)"

datatype boot_refusal =
    MissingVariable string
  | JwtSecretTooShort
  | BadPlatformWallet string
  | BadReadKey string
  | WebhookNotAUrl
  | WebhookNotHttps
  | IssuerNotAUri string
  | IssuerNotHttp string
  | IssuerWithCredential
  | BudgetUnreadable string
  | BadBaseUrl string
  | BadRpcUrl
  | NoWebhookSecret
  | MockedOnPublicNetwork string
  | StubOnPublicNetwork
  | NoAssetCode
  | BadAssetIssuer
  | SpreadWithinDeviation
  | FeeAboveSpread
  | BadWindows window_refusal
  | NoPlatformWallet

definition req :: "variables \<Rightarrow> string \<Rightarrow> boot_refusal + string" where
  "req vars k = (if truthy_str (vars k) then Inr (the (vars k)) else Inl (MissingVariable k))"

definition jwtSecret :: "variables \<Rightarrow> boot_refusal + string" where
  "jwtSecret vars = (case req vars ''JWT_SECRET'' of Inl e \<Rightarrow> Inl e | Inr s \<Rightarrow> if length s < 32 then Inl JwtSecretTooShort else Inr s)"

text \<open>The pattern \<open>/^G[A-Z2-7]{55}$/\<close>.\<close>

definition is_public_key :: "string \<Rightarrow> bool" where
  "is_public_key s =
     (length s = 56 \<and> hd s = CHR ''G'' \<and> list_all (\<lambda>c. is_upper c \<or> (50 \<le> (of_char c :: nat) \<and> (of_char c :: nat) \<le> 55)) (tl s))"

definition platformWallet_of :: "variables \<Rightarrow> boot_refusal + string" where
  "platformWallet_of vars =
     (case req vars ''PLATFORM_WALLET'' of Inl e \<Rightarrow> Inl e | Inr w \<Rightarrow> if is_public_key w then Inr w else Inl (BadPlatformWallet w))"

definition stellarReadKey :: "variables \<Rightarrow> boot_refusal + string option" where
  "stellarReadKey vars =
     (if \<not> truthy_str (vars ''STELLAR_READ_KEY'') then Inr None
      else if is_public_key (the (vars ''STELLAR_READ_KEY'')) then Inr (vars ''STELLAR_READ_KEY'') else Inl (BadReadKey (the (vars ''STELLAR_READ_KEY''))))"

definition anchorBaseUrl_of :: "variables \<Rightarrow> string" where
  "anchorBaseUrl_of vars =
     (let raw = trim (get_or vars ''ANCHOR_BASE_URL'' []) in if raw \<noteq> [] \<and> last raw = CHR ''/'' then butlast raw else raw)"

definition adminAddresses_of :: "variables \<Rightarrow> string list" where
  "adminAddresses_of vars = comma_list (get_or vars ''ADMIN_ADDRESSES'' [])"

definition escrowContractIdsExtra_of :: "variables \<Rightarrow> string list" where
  "escrowContractIdsExtra_of vars = comma_list (get_or vars ''ESCROW_CONTRACT_IDS_EXTRA'' [])"

definition diditDailySessionBudget :: "variables \<Rightarrow> nat" where
  "diditDailySessionBudget vars =
     (let raw = trim (get_or vars ''DIDIT_DAILY_SESSION_BUDGET'' []) in
      if raw = [] then 200 else case to_number raw of Fin n \<Rightarrow> if 0 \<le> n then nat \<lfloor>n\<rfloor> else 200 | _ \<Rightarrow> 200)"

definition to_lower :: "char \<Rightarrow> char" where
  "to_lower c = (if is_upper c then char_of ((of_char c :: nat) + 32) else c)"

definition kycRequireAml_of :: "variables \<Rightarrow> bool" where
  "kycRequireAml_of vars = (map to_lower (trim (get_or vars ''KYC_REQUIRE_AML'' ''true'')) \<noteq> ''false'')"

definition sep24WithdrawEnabled :: "variables \<Rightarrow> bool" where
  "sep24WithdrawEnabled vars = (map to_lower (trim (get_or vars ''SEP24_WITHDRAW_ENABLED'' ''false'')) = ''true'')"

definition alertWebhookUrl_of :: "url_parser \<Rightarrow> variables \<Rightarrow> boot_refusal + string option" where
  "alertWebhookUrl_of parse vars =
     (if \<not> truthy_str (vars ''ALERT_WEBHOOK_URL'') then Inr None
      else case parse (the (vars ''ALERT_WEBHOOK_URL'')) of
             None \<Rightarrow> Inl WebhookNotAUrl
           | Some u \<Rightarrow> if u_protocol u \<noteq> ''https:'' then Inl WebhookNotHttps else Inr (vars ''ALERT_WEBHOOK_URL''))"

text \<open>\<open>requireUri\<close> of \<open>jwt-options.ts\<close>.\<close>

definition requireUri :: "url_parser \<Rightarrow> string \<Rightarrow> boot_refusal + string" where
  "requireUri parse v =
     (case parse v of
        None \<Rightarrow> Inl (IssuerNotAUri v)
      | Some u \<Rightarrow>
          if u_protocol u \<noteq> ''https:'' \<and> u_protocol u \<noteq> ''http:'' then Inl (IssuerNotHttp v)
          else if u_username u \<noteq> [] \<or> u_password u \<noteq> [] then Inl IssuerWithCredential
          else Inr (u_href u))"

section \<open>Starting\<close>

definition budget_readable :: "variables \<Rightarrow> bool" where
  "budget_readable vars =
     (let raw = trim (get_or vars ''DIDIT_DAILY_SESSION_BUDGET'' []) in
      raw = [] \<or> (case to_number raw of Fin n \<Rightarrow> 0 \<le> n | _ \<Rightarrow> False))"

definition plain_https_origin :: "url_parser \<Rightarrow> string \<Rightarrow> bool" where
  "plain_https_origin parse base =
     (case parse base of
        None \<Rightarrow> False
      | Some u \<Rightarrow> u_protocol u = ''https:'' \<and> u_host u \<noteq> [] \<and> u_username u = [] \<and> u_password u = [] \<and> u_search u = [] \<and> u_hash u = [] \<and> base = u_origin u)"

definition https_without_userinfo :: "url_parser \<Rightarrow> string \<Rightarrow> bool" where
  "https_without_userinfo parse v =
     (case parse v of None \<Rightarrow> False | Some u \<Rightarrow> u_protocol u = ''https:'' \<and> u_host u \<noteq> [] \<and> u_username u = [] \<and> u_password u = [])"

definition provider_configured :: "variables \<Rightarrow> bool" where
  "provider_configured vars = (get_or vars ''DIDIT_API_KEY'' [] \<noteq> [] \<and> get_or vars ''DIDIT_WORKFLOW_ID'' [] \<noteq> [])"

text \<open>The checks before the database is touched, in their order.\<close>

definition variable_checks :: "url_parser \<Rightarrow> string \<Rightarrow> variables \<Rightarrow> boot_refusal option" where
  "variable_checks parse public vars =
     (if \<not> budget_readable vars then Some (BudgetUnreadable (trim (get_or vars ''DIDIT_DAILY_SESSION_BUDGET'' [])))
      else if \<not> plain_https_origin parse (anchorBaseUrl_of vars) then Some (BadBaseUrl (anchorBaseUrl_of vars))
      else case req vars ''STELLAR_RPC_URL'' of
        Inl e \<Rightarrow> Some e
      | Inr rpc \<Rightarrow>
          if \<not> https_without_userinfo parse rpc then Some BadRpcUrl
          else if provider_configured vars \<and> get_or vars ''DIDIT_WEBHOOK_SECRET'' [] = [] then Some NoWebhookSecret
          else (case req vars ''STELLAR_NETWORK_PASSPHRASE'' of
            Inl e \<Rightarrow> Some e
          | Inr network \<Rightarrow>
              if network = public \<and> get_or vars ''DIDIT_ENVIRONMENT'' ''live'' \<noteq> ''live''
              then Some (MockedOnPublicNetwork (get_or vars ''DIDIT_ENVIRONMENT'' ''live''))
              else if network = public \<and> \<not> provider_configured vars then Some StubOnPublicNetwork
              else if get_or vars ''USDC_ASSET_CODE'' [] = [] then Some NoAssetCode
              else if \<not> is_public_key (get_or vars ''USDC_ASSET_ISSUER'' []) then Some BadAssetIssuer
              else None))"

text \<open>The checks of the row; what is read from the chain at this point is only logged.\<close>

definition row_checks :: "env \<Rightarrow> config \<Rightarrow> boot_refusal option" where
  "row_checks env row =
     (if \<not> spreadCoversPriceDeviation (c_spreadBps row) (cfg_priceDeviationMaxBps env) then Some SpreadWithinDeviation
      else if \<not> platformFeeFitsSpread (c_platformFeeBps row) (c_spreadBps row) (cfg_priceDeviationMaxBps env) then Some FeeAboveSpread
      else case windowsFitTheContract (c_payWindowSecs row) (c_confirmWindowSecs row) (c_disputeWindowSecs row) None of
        Some w \<Rightarrow> Some (BadWindows w)
      | None \<Rightarrow> if c_platformWallet row = [] then Some NoPlatformWallet else None)"

definition onModuleInit :: "url_parser \<Rightarrow> string \<Rightarrow> variables \<Rightarrow> env \<Rightarrow> ms \<Rightarrow> db \<Rightarrow> db \<times> boot_refusal option" where
  "onModuleInit parse public vars env now d =
     (case variable_checks parse public vars of
        Some e \<Rightarrow> (d, Some e)
      | None \<Rightarrow>
          (case platformWallet_of vars of
             Inl e \<Rightarrow> (d, Some e)
           | Inr wallet \<Rightarrow>
               (let row = (case db_config d of Some c \<Rightarrow> c | None \<Rightarrow> default_config wallet now)
                in (d\<lparr>db_config := Some row\<rparr>, row_checks env row))))"

section \<open>Which origins may call which paths\<close>

definition ANCHOR_PATHS :: "string list" where "ANCHOR_PATHS = [''/auth'', ''/customer'']"
definition ANCHOR_PREFIXES :: "string list" where "ANCHOR_PREFIXES = [''/sep24/'', ''/customer/'']"

definition isAnchorPath :: "string \<Rightarrow> bool" where
  "isAnchorPath path =
     (let lowered = map to_lower path;
          normalised = (if 1 < length lowered \<and> last lowered = CHR ''/'' then butlast lowered else lowered)
      in normalised \<in> set ANCHOR_PATHS \<or> list_ex (\<lambda>prefix. take (length prefix) (normalised @ ''/'') = prefix) ANCHOR_PREFIXES)"

datatype cors_origin = AnyOrigin | Origins "string list" | NoOrigin

record cors_options =
  co_origin :: cors_origin
  co_credentials :: bool
  co_methods :: "string list"
  co_allowedHeaders :: "string list"

definition anchorCorsOptions :: "string \<Rightarrow> string list \<Rightarrow> cors_options" where
  "anchorCorsOptions path allowlist =
     (if isAnchorPath path
      then \<lparr>co_origin = AnyOrigin, co_credentials = False, co_methods = [''GET'', ''POST'', ''PUT'', ''DELETE'', ''OPTIONS''],
            co_allowedHeaders = [''Content-Type'', ''Authorization'']\<rparr>
      else \<lparr>co_origin = (if allowlist \<noteq> [] then Origins allowlist else NoOrigin), co_credentials = True,
            co_methods = [''GET'', ''POST'', ''PATCH'', ''DELETE''], co_allowedHeaders = [''Content-Type'', ''Authorization'']\<rparr>)"

section \<open>The identity the anchor advertises\<close>

record advertised_anchor =
  ad_SIGNING_KEY :: "string option"
  ad_WEB_AUTH_ENDPOINT :: "string option"
  ad_NETWORK_PASSPHRASE :: "string option"

record served_challenge =
  sv_source :: string
  sv_webAuthDomain :: string
  sv_homeDomain :: string
  sv_networkPassphrase :: string

datatype identity_problem =
    WrongHomeDomain string string
  | NoSigningKey
  | WrongSigningKey string string
  | NoWebAuthEndpoint
  | WrongWebAuthHost string string
  | NoNetworkPassphrase
  | WrongNetwork
  | EndpointNotHttps string

definition hostOf :: "url_parser \<Rightarrow> string option \<Rightarrow> string option" where
  "hostOf parse endpoint = (if \<not> truthy_str endpoint then None else map_option u_host (parse (the endpoint)))"

definition compareAnchorIdentity :: "url_parser \<Rightarrow> advertised_anchor \<Rightarrow> served_challenge \<Rightarrow> string \<Rightarrow> identity_problem list" where
  "compareAnchorIdentity parse toml c homeDomain =
     (if map to_lower (sv_homeDomain c) \<noteq> map to_lower homeDomain then [WrongHomeDomain (sv_homeDomain c) homeDomain] else []) @
     (if \<not> truthy_str (ad_SIGNING_KEY toml) then [NoSigningKey]
      else if the (ad_SIGNING_KEY toml) \<noteq> sv_source c then [WrongSigningKey (the (ad_SIGNING_KEY toml)) (sv_source c)] else []) @
     (case hostOf parse (ad_WEB_AUTH_ENDPOINT toml) of
        None \<Rightarrow> [NoWebAuthEndpoint]
      | Some h \<Rightarrow> if h \<noteq> sv_webAuthDomain c then [WrongWebAuthHost (sv_webAuthDomain c) h] else []) @
     (if \<not> truthy_str (ad_NETWORK_PASSPHRASE toml) then [NoNetworkPassphrase]
      else if the (ad_NETWORK_PASSPHRASE toml) \<noteq> sv_networkPassphrase c then [WrongNetwork] else [])"

text \<open>\<open>checkAnchorIdentity\<close>: the file is fetched, then a challenge from the endpoint it names; a fetch that fails, or an answer that cannot be read, throws.\<close>

definition checkAnchorIdentity ::
  "url_parser \<Rightarrow> (string \<Rightarrow> advertised_anchor outcome) \<Rightarrow> (string \<Rightarrow> served_challenge outcome) \<Rightarrow> string \<Rightarrow> identity_problem list outcome" where
  "checkAnchorIdentity parse resolveToml fetchChallenge domain =
     (case resolveToml domain of
        Inl e \<Rightarrow> Inl e
      | Inr toml \<Rightarrow>
          if \<not> truthy_str (ad_WEB_AUTH_ENDPOINT toml)
          then Inl (UncaughtError ''the toml advertises no WEB_AUTH_ENDPOINT, so there is nothing to cross-check'')
          else (let endpoint = the (ad_WEB_AUTH_ENDPOINT toml) in
                if (case parse endpoint of None \<Rightarrow> True | Some u \<Rightarrow> u_protocol u \<noteq> ''https:'') then Inr [EndpointNotHttps endpoint]
                else case fetchChallenge endpoint of
                       Inl e \<Rightarrow> Inl e
                     | Inr c \<Rightarrow> Inr (compareAnchorIdentity parse toml c domain)))"

section \<open>The cookie of the popup\<close>

definition cookie_char :: "char \<Rightarrow> bool" where
  "cookie_char c = (is_upper c \<or> is_upper (to_upper c) \<or> is_digit c \<or> c = CHR ''_'' \<or> c = CHR ''-'')"

definition sessionCookieName :: "string \<Rightarrow> string" where
  "sessionCookieName transactionId = ''sep24_'' @ filter cookie_char transactionId"

text \<open>A part without an equals sign, of another name, or that cannot be decoded is skipped.\<close>

definition read_cookie :: "(string \<Rightarrow> string option) \<Rightarrow> string \<Rightarrow> string \<Rightarrow> string option" where
  "read_cookie decode name part =
     (if CHR ''='' \<notin> set part \<or> trim (takeWhile (\<lambda>c. c \<noteq> CHR ''='') part) \<noteq> name then None
      else decode (trim (tl (dropWhile (\<lambda>c. c \<noteq> CHR ''='') part))))"

definition readCookies :: "(string \<Rightarrow> string option) \<Rightarrow> string option \<Rightarrow> string \<Rightarrow> string list" where
  "readCookies decode header name =
     (if \<not> truthy_str header then [] else List.map_filter (read_cookie decode name) (split_on (CHR '';'') (the header)))"

definition originIsForeign :: "url_parser \<Rightarrow> string option \<Rightarrow> string \<Rightarrow> bool" where
  "originIsForeign parse origin baseUrl =
     (if \<not> truthy_str origin then False
      else case (parse (the origin), parse baseUrl) of (Some a, Some b) \<Rightarrow> u_origin a \<noteq> u_origin b | _ \<Rightarrow> True)"

section \<open>What starting guarantees\<close>

lemma default_config_ok:
  assumes "row_checks env (default_config wallet now) = None"
  shows "config_ok env (default_config wallet now)"
proof -
  have "dailyLimitBaseUnits t (Some (default_config wallet now)) = dailyLimitBaseUnits t (Some demo_config)" for t
    by (simp add: dailyLimitBaseUnits_def default_config_def)
  then show ?thesis using assms demo_config_ok
    by (auto simp: config_ok_def row_checks_def default_config_def spreadCoversPriceDeviation_def platformFeeFitsSpread_def split: if_splits option.splits)
qed

text \<open>C29 (ConfigBootService.onModuleInit): a coordinator that starts is configured safely.  The base address it hands to wallets is a plain https origin; on the public
  network an identity provider is configured, in its live environment, and wherever one is configured its deliveries can be authenticated; the configuration row exists, names
  the wallet the fees go to, its spread covers the accepted price deviation together with the platform fee, and its windows fit the contract.  An existing
  row is left as it is, and a new one obeys every rule the administration keeps afterwards.\<close>

theorem boot_leaves_safe_config:
  assumes "onModuleInit parse public vars env now d = (d', None)"
  shows "plain_https_origin parse (anchorBaseUrl_of vars) \<and>
    (vars ''STELLAR_NETWORK_PASSPHRASE'' = Some public \<longrightarrow> provider_configured vars \<and> get_or vars ''DIDIT_ENVIRONMENT'' ''live'' = ''live'') \<and>
    (provider_configured vars \<longrightarrow> get_or vars ''DIDIT_WEBHOOK_SECRET'' [] \<noteq> []) \<and>
    (\<exists>c. db_config d' = Some c \<and> d' = d\<lparr>db_config := Some c\<rparr> \<and> c_platformWallet c \<noteq> [] \<and> c_platformFeeBps c + cfg_priceDeviationMaxBps env < c_spreadBps c \<and>
       windowsFitTheContract (c_payWindowSecs c) (c_confirmWindowSecs c) (c_disputeWindowSecs c) None = None \<and>
       (case db_config d of Some c0 \<Rightarrow> c = c0 | None \<Rightarrow> config_ok env c))"
proof -
  have v: "variable_checks parse public vars = None" using assms by (simp add: onModuleInit_def split: option.splits)
  obtain wallet where w: "platformWallet_of vars = Inr wallet" using assms v by (auto simp: onModuleInit_def split: sum.splits)
  define c where "c = (case db_config d of Some c \<Rightarrow> c | None \<Rightarrow> default_config wallet now)"
  have d': "d' = d\<lparr>db_config := Some c\<rparr>" "row_checks env c = None" using assms v w by (simp_all add: onModuleInit_def Let_def c_def)
  have "c_platformWallet c \<noteq> [] \<and> c_platformFeeBps c + cfg_priceDeviationMaxBps env < c_spreadBps c \<and>
       windowsFitTheContract (c_payWindowSecs c) (c_confirmWindowSecs c) (c_disputeWindowSecs c) None = None"
    using d'(2) by (auto simp: row_checks_def platformFeeFitsSpread_def split: if_splits option.splits)
  moreover have "case db_config d of Some c0 \<Rightarrow> c = c0 | None \<Rightarrow> config_ok env c"
    using d'(2) default_config_ok [of env wallet now] by (cases "db_config d") (simp_all add: c_def)
  moreover have "plain_https_origin parse (anchorBaseUrl_of vars) \<and>
    (vars ''STELLAR_NETWORK_PASSPHRASE'' = Some public \<longrightarrow> provider_configured vars \<and> get_or vars ''DIDIT_ENVIRONMENT'' ''live'' = ''live'') \<and>
    (provider_configured vars \<longrightarrow> get_or vars ''DIDIT_WEBHOOK_SECRET'' [] \<noteq> [])"
    using v by (auto simp: variable_checks_def req_def split: if_splits sum.splits)
  ultimately show ?thesis using d'(1) by auto
qed

text \<open>A first start on the public network.\<close>

definition demo_variables :: variables where
  "demo_variables = map_of [(''ANCHOR_BASE_URL'', ''https://a''), (''STELLAR_RPC_URL'', ''https://r''), (''STELLAR_NETWORK_PASSPHRASE'', ''public''),
     (''DIDIT_API_KEY'', ''k''), (''DIDIT_WORKFLOW_ID'', ''w''), (''DIDIT_WEBHOOK_SECRET'', ''s''), (''USDC_ASSET_CODE'', ''USDC''),
     (''USDC_ASSET_ISSUER'', CHR ''G'' # replicate 55 CHR ''A''), (''PLATFORM_WALLET'', CHR ''G'' # replicate 55 CHR ''B'')]"

definition demo_parser :: url_parser where
  "demo_parser s = Some \<lparr>u_protocol = ''https:'', u_host = ''h'', u_username = [], u_password = [], u_search = [], u_hash = [], u_origin = s, u_href = s\<rparr>"

lemma demo_boots: "snd (onModuleInit demo_parser ''public'' demo_variables demo_env 5 (empty_db\<lparr>db_config := None\<rparr>)) = None"
  by (simp add: onModuleInit_def variable_checks_def demo_variables_def demo_parser_def budget_readable_def get_or_def trim_def trim_start_def plain_https_origin_def
      anchorBaseUrl_of_def https_without_userinfo_def provider_configured_def req_def is_public_key_def is_upper_def is_space_def platformWallet_of_def row_checks_def default_config_def
      spreadCoversPriceDeviation_def platformFeeFitsSpread_def windowsFitTheContract_def limit_defs demo_env_def list_all_iff Let_def)

theorem boot_leaves_safe_config_witness:
  "\<exists>d' c. onModuleInit demo_parser ''public'' demo_variables demo_env 5 (empty_db\<lparr>db_config := None\<rparr>) = (d', None) \<and> db_config d' = Some c \<and> config_ok demo_env c"
proof -
  obtain d' where d': "onModuleInit demo_parser ''public'' demo_variables demo_env 5 (empty_db\<lparr>db_config := None\<rparr>) = (d', None)"
    using demo_boots by (metis prod.collapse)
  then show ?thesis using boot_leaves_safe_config [OF d'] by auto
qed

text \<open>Any origin may call only the paths of the anchor protocols, and never with credentials.\<close>

theorem open_paths_carry_no_credentials:
  "(co_origin (anchorCorsOptions path allowlist) = AnyOrigin \<longleftrightarrow> isAnchorPath path) \<and>
   (co_credentials (anchorCorsOptions path allowlist) \<longrightarrow> co_origin (anchorCorsOptions path allowlist) \<in> {Origins allowlist, NoOrigin})"
  by (simp add: anchorCorsOptions_def)

text \<open>The comparison finds no problem exactly when the advertised identity is the served one.\<close>

theorem identity_agrees:
  "compareAnchorIdentity parse toml c home = [] \<longleftrightarrow>
     map to_lower (sv_homeDomain c) = map to_lower home \<and> ad_SIGNING_KEY toml = Some (sv_source c) \<and> sv_source c \<noteq> [] \<and>
     hostOf parse (ad_WEB_AUTH_ENDPOINT toml) = Some (sv_webAuthDomain c) \<and>
     ad_NETWORK_PASSPHRASE toml = Some (sv_networkPassphrase c) \<and> sv_networkPassphrase c \<noteq> []"
  by (cases "ad_SIGNING_KEY toml"; cases "ad_NETWORK_PASSPHRASE toml") (auto simp: compareAnchorIdentity_def split: option.split)

end
