(* ===== verification/Web.thy ===== *)
theory Web
  imports Boot Attest OrderView Auth
begin

text \<open>
  The logic of the front ends that the coordinator's promises reach the user through (\<open>src/frontend\<close>): reading and writing amounts
  (\<open>packages/api-client/src/money.ts\<close>, \<open>apps/web/lib/money.ts\<close>), the steps and the countdown of an order (\<open>apps/web/lib/steps.ts\<close>), tiers and
  limits (\<open>apps/web/lib/format.ts\<close>, \<open>apps/admin/lib/daily-limit.ts\<close>), the session of the HTTP client (\<open>packages/api-client/src/http.ts\<close>) and
  the file in which the anchor describes itself (\<open>apps/landing/app/api/stellar-toml/route.ts\<close>).  React components and hooks are not modelled.
\<close>

section \<open>Amounts\<close>

text \<open>The pattern \<open>/^\d+(\.\d+)?$/\<close> and the two parts \<open>split\<close> gives.\<close>

definition decimal_parts :: "string \<Rightarrow> (string \<times> string) option" where
  "decimal_parts s =
     (case split_on (CHR ''.'') s of
        [w] \<Rightarrow> if all_digits w then Some (w, []) else None
      | [w, fr] \<Rightarrow> if all_digits w \<and> all_digits fr then Some (w, fr) else None
      | _ \<Rightarrow> None)"

datatype amount_refusal = InvalidAmount | TooManyDecimals nat | NotPositive

definition usdcToBaseUnits :: "nat \<Rightarrow> string \<Rightarrow> amount_refusal + string" where
  "usdcToBaseUnits decimals input =
     (case decimal_parts (trim input) of
        None \<Rightarrow> Inl InvalidAmount
      | Some (w, fr) \<Rightarrow>
          if decimals < length fr then Inl (TooManyDecimals decimals)
          else (let scaledFrac = take decimals (fr @ replicate decimals (CHR ''0''));
                    base = digits_val w * 10 ^ decimals + digits_val scaledFrac
                in if base = 0 then Inl NotPositive else Inr (dec_nat base)))"

definition formatUSDC :: "int \<Rightarrow> nat \<Rightarrow> string" where
  "formatUSDC baseUnits decimals =
     (let divisor = 10 ^ decimals; units = bigdiv baseUnits divisor; fr = bigdiv (bigmod baseUnits divisor * 100) divisor
      in dec_int units @ ''.'' @ pad_start 2 (CHR ''0'') (dec_int fr))"

text \<open>The pattern is that of the coordinator (\<open>Money\<close>).\<close>

definition idrInputAccepted :: "string \<Rightarrow> bool" where
  "idrInputAccepted s =
     (let t = trim s; body = strip_rp t in (all_digits body \<or> grouped body) \<and> length (filter is_digit t) \<le> 18)"

definition parseIDRInput :: "string \<Rightarrow> jsnum" where
  "parseIDRInput s = (if \<not> idrInputAccepted s then Fin 0 else to_double (of_nat (digits_val (filter is_digit s))))"

section \<open>Steps and countdown of an order\<close>

datatype step_state = StepDone | StepNow | StepPending

definition isTerminal :: "order_status \<Rightarrow> bool" where
  "isTerminal st = (st \<in> {RELEASED, CANCELLED, EXPIRED, REFUNDED, DISPUTED})"

definition LABELS_TOP_UP :: "string list" where
  "LABELS_TOP_UP = [''Order created'', ''Merchant locks USDC'', ''Pay the merchant'', ''USDC released to you'']"

definition LABELS_WITHDRAW :: "string list" where
  "LABELS_WITHDRAW = [''Order created'', ''You lock USDC'', ''Merchant pays your bank'', ''USDC released to merchant'']"

definition active_step :: "order_status \<Rightarrow> nat" where
  "active_step st = (case st of FUNDED \<Rightarrow> 2 | FIAT_PAID \<Rightarrow> 3 | RELEASED \<Rightarrow> 4 | _ \<Rightarrow> 1)"

definition stepsFor :: "order_status \<Rightarrow> flow \<Rightarrow> (string \<times> step_state) list" where
  "stepsFor st flw =
     (let labels = (if flw = WITHDRAW then LABELS_WITHDRAW else LABELS_TOP_UP) in
      if st \<in> {CANCELLED, EXPIRED, REFUNDED, DISPUTED}
      then map (\<lambda>i. (labels ! i, if i = 0 then StepDone else StepPending)) [0..<4]
      else map (\<lambda>i. (labels ! i, if i < active_step st then StepDone else if i = active_step st then StepNow else StepPending)) [0..<4])"

text \<open>The fields of an order the countdown reads, as the coordinator serves them; \<open>sign_by\<close> is always there.\<close>

record shown_order =
  sh_status :: order_status
  sh_flow :: flow
  sh_pay_deadline :: secs
  sh_refund_opens_at :: secs
  sh_sign_by :: secs

datatype countdown = CountdownTo secs string | TimeIsUp string string

record countdown_window =
  cw_deadline :: secs
  cw_label :: string
  cw_past :: "(string \<times> string) option"

definition windowFor :: "shown_order \<Rightarrow> secs \<Rightarrow> countdown_window option" where
  "windowFor x now =
     (if sh_status x = MATCHED \<or> sh_status x = AWAITING_ONCHAIN
      then Some \<lparr>cw_deadline = sh_sign_by x, cw_label = ''Lock within'', cw_past = None\<rparr>
      else if sh_status x = FUNDED then
        (if sh_flow x \<noteq> TOP_UP
         then Some \<lparr>cw_deadline = sh_refund_opens_at x + 1, cw_label = ''Merchant pays within'', cw_past = Some (''Merchant's time is up'', ''Refund open'')\<rparr>
         else if now < sh_pay_deadline x then Some \<lparr>cw_deadline = sh_pay_deadline x, cw_label = ''Pay within'', cw_past = None\<rparr>
         else Some \<lparr>cw_deadline = sh_refund_opens_at x + 1, cw_label = ''Can still be confirmed for'', cw_past = None\<rparr>)
      else None)"

definition activeCountdown :: "shown_order \<Rightarrow> ms \<Rightarrow> countdown option" where
  "activeCountdown x nowMs =
     (let now = nowMs div 1000 in
      case windowFor x now of
        None \<Rightarrow> None
      | Some w \<Rightarrow> if now < cw_deadline w then Some (CountdownTo (cw_deadline w) (cw_label w)) else map_option (\<lambda>(l, v). TimeIsUp l v) (cw_past w))"

definition shown :: "order \<Rightarrow> shown_order" where
  "shown x = \<lparr>sh_status = o_status x, sh_flow = o_flow x, sh_pay_deadline = o_payDeadline x, sh_refund_opens_at = refundOpensAt x,
     sh_sign_by = signingCutoffSecs (o_payDeadline x)\<rparr>"

section \<open>Tiers and limits\<close>

definition nextTier :: "tier \<Rightarrow> tier option" where
  "nextTier t = (case t of BRONZE \<Rightarrow> Some SILVER | SILVER \<Rightarrow> Some TRUSTED | TRUSTED \<Rightarrow> Some GOLD | GOLD \<Rightarrow> None)"

fun TIER_THRESHOLDS :: "tier \<Rightarrow> int option" where
  "TIER_THRESHOLDS BRONZE = None"
| "TIER_THRESHOLDS SILVER = Some 5"
| "TIER_THRESHOLDS TRUSTED = Some 20"
| "TIER_THRESHOLDS GOLD = Some 50"

definition nextTierThreshold :: "tier \<Rightarrow> int option" where
  "nextTierThreshold t = Option.bind (nextTier t) TIER_THRESHOLDS"

fun admin_default_limit :: "tier \<Rightarrow> rat" where
  "admin_default_limit BRONZE = 100"
| "admin_default_limit SILVER = 300"
| "admin_default_limit TRUSTED = 600"
| "admin_default_limit GOLD = 2000"

definition limitsFromConfig :: "(string \<times> rat) list option \<Rightarrow> tier \<Rightarrow> rat" where
  "limitsFromConfig stored t =
     (case Option.bind stored (\<lambda>m. map_of m (tier_name t)) of Some v \<Rightarrow> if 0 \<le> v then v else admin_default_limit t | None \<Rightarrow> admin_default_limit t)"

section \<open>The session of the HTTP client\<close>

record api_session =
  se_token :: "string option"
  se_expiredEvents :: nat \<comment> \<open>how often the page was told that the session is over\<close>

definition SESSION_EXPIRED :: string where "SESSION_EXPIRED = ''Your session expired. Reconnect your wallet to continue.''"

text \<open>\<open>ApiClient.refuse\<close>: \<open>token\<close> is the one the request was sent with, the session the one there is when the answer arrives.\<close>

definition refuse_response :: "int \<Rightarrow> string \<Rightarrow> string option \<Rightarrow> string \<Rightarrow> string \<Rightarrow> api_session \<Rightarrow> api_session \<times> int \<times> string" where
  "refuse_response status detail token method path se =
     (if status = 401 \<and> truthy_str token
      then (if se_token se = token then se\<lparr>se_token := Some [], se_expiredEvents := se_expiredEvents se + 1\<rparr> else se, 401, SESSION_EXPIRED)
      else (se, status,
            if detail \<noteq> [] then detail
            else if status = 429 then ''Too many attempts '' @ em_dash @ '' please wait a moment and try again''
            else method @ '' '' @ path @ '' '' @ [CHR 0xE2, CHR 0x86, CHR 0x92] @ '' '' @ dec_int status))"

section \<open>The file in which the anchor describes itself\<close>

text \<open>The complaints of the checks; None is their \<open>null\<close>.\<close>

definition usableInAToml :: "string \<Rightarrow> string option" where
  "usableInAToml v =
     (if v \<noteq> trim v then Some ''must not be padded with whitespace''
      else if list_ex (\<lambda>c. (of_char c :: nat) < 32 \<or> (of_char c :: nat) = 127) v then Some ''must not contain a control character''
      else if CHR 0x22 \<in> set v then Some ''must not contain a quote''
      else if CHR 0x5C \<in> set v then Some ''must not contain a backslash''
      else None)"

text \<open>The path of a parsed URL is a field the other uses of the parser do not need.\<close>

definition httpsEndpoint :: "(string \<Rightarrow> (url \<times> string) option) \<Rightarrow> string \<Rightarrow> string option" where
  "httpsEndpoint parse v =
     (if take 8 v \<noteq> ''https://'' then Some ''must start with https://''
      else if last v = CHR ''/'' then Some ''must not end with a slash''
      else case parse v of
        None \<Rightarrow> Some ''must be a URL''
      | Some (u, pathname) \<Rightarrow>
          if u_search u \<noteq> [] then Some ''must not carry a query string, which would swallow ?account=''
          else if u_hash u \<noteq> [] then Some ''must not carry a fragment, which would drop the query''
          else (let canonical = (if pathname = ''/'' \<and> u_href u \<noteq> [] \<and> last (u_href u) = CHR ''/'' then butlast (u_href u) else u_href u) in
                if canonical \<noteq> v then Some (''must already be canonical, which would be '' @ canonical) else None))"

record toml_world =
  tw_parse :: "string \<Rightarrow> (url \<times> string) option"
  tw_isPublicKey :: "string \<Rightarrow> bool"
  tw_testnet :: string
  tw_public :: string
  tw_prose :: "string \<times> string \<times> string" \<comment> \<open>the sentences on the corridor, the organisation and the test asset\<close>

definition knownNetwork :: "toml_world \<Rightarrow> string \<Rightarrow> string option" where
  "knownNetwork w v = (if v = tw_testnet w \<or> v = tw_public w then None else Some ''must be the passphrase of a Stellar network the suite recognises'')"

definition stellarPublicKey :: "toml_world \<Rightarrow> string \<Rightarrow> string option" where
  "stellarPublicKey w v = (if tw_isPublicKey w v then None else Some ''must be a Stellar public key, checksum included'')"

definition quoted :: "string \<Rightarrow> string \<Rightarrow> string" where
  "quoted key v = key @ ''='' @ [CHR 0x22] @ v @ [CHR 0x22]"

text \<open>One required line.\<close>

definition required_line :: "variables \<Rightarrow> string \<times> string \<times> (string \<Rightarrow> string option) \<Rightarrow> string + string" where
  "required_line vars field =
     (case field of (key, var, check) \<Rightarrow>
        case vars var of
          None \<Rightarrow> Inl (var @ '' is not set'')
        | Some v \<Rightarrow>
            if v = [] then Inl (var @ '' is empty'')
            else case usableInAToml v of
                   Some m \<Rightarrow> Inl (var @ '' '' @ m)
                 | None \<Rightarrow> (case check v of Some m \<Rightarrow> Inl (var @ '' '' @ m) | None \<Rightarrow> Inr (quoted key v)))"

definition FIELDS :: "toml_world \<Rightarrow> (string \<times> string \<times> (string \<Rightarrow> string option)) list" where
  "FIELDS w = [(''NETWORK_PASSPHRASE'', ''STELLAR_NETWORK_PASSPHRASE'', knownNetwork w), (''SIGNING_KEY'', ''SEP10_SIGNING_PUBLIC'', stellarPublicKey w),
     (''WEB_AUTH_ENDPOINT'', ''WEB_AUTH_ENDPOINT'', httpsEndpoint (tw_parse w))]"

fun required_lines :: "variables \<Rightarrow> (string \<times> string \<times> (string \<Rightarrow> string option)) list \<Rightarrow> string + string list" where
  "required_lines vars [] = Inr []"
| "required_lines vars (f # fs) =
     (case required_line vars f of Inl m \<Rightarrow> Inl m | Inr l \<Rightarrow> (case required_lines vars fs of Inl m \<Rightarrow> Inl m | Inr ls \<Rightarrow> Inr (l # ls)))"

text \<open>A line left out when its variable is missing or unusable.\<close>

definition optional_line :: "toml_world \<Rightarrow> variables \<Rightarrow> string \<Rightarrow> string list" where
  "optional_line w vars key =
     (if truthy_str (vars key) \<and> usableInAToml (the (vars key)) = None \<and> httpsEndpoint (tw_parse w) (the (vars key)) = None
      then [quoted key (the (vars key))] else [])"

text \<open>The section on the asset, or None where the source gives the reason it is omitted.\<close>

definition usable_var :: "variables \<Rightarrow> string \<Rightarrow> string option" where
  "usable_var vars k = (if truthy_str (vars k) \<and> usableInAToml (the (vars k)) = None then vars k else None)"

definition asset_code :: "string \<Rightarrow> bool" where
  "asset_code s = (1 \<le> length s \<and> length s \<le> 12 \<and> list_all (\<lambda>c. is_upper c \<or> is_upper (to_upper c) \<or> is_digit c) s)"

definition asset_lines :: "toml_world \<Rightarrow> string \<Rightarrow> string \<Rightarrow> string \<Rightarrow> string \<Rightarrow> string \<Rightarrow> string \<Rightarrow> string \<Rightarrow> string list" where
  "asset_lines w code issuer status isAnchored ty asset description =
     [CHR ''['' # ''[CURRENCIES]]'', quoted ''code'' code, quoted ''issuer'' issuer, quoted ''status'' status, ''is_asset_anchored='' @ isAnchored, quoted ''anchor_asset_type'' ty] @
     (if asset \<noteq> [] then [quoted ''anchor_asset'' asset] else []) @ [quoted ''desc'' description, quoted ''conditions'' (fst (tw_prose w))]"

definition currenciesSection :: "toml_world \<Rightarrow> variables \<Rightarrow> string list option" where
  "currenciesSection w vars =
     (case (usable_var vars ''USDC_ASSET_CODE'', usable_var vars ''USDC_ASSET_ISSUER'') of
        (Some code, Some issuer) \<Rightarrow>
          if \<not> asset_code code \<or> \<not> tw_isPublicKey w issuer then None
          else if vars ''STELLAR_NETWORK_PASSPHRASE'' \<noteq> Some (tw_public w)
          then Some (asset_lines w code issuer ''test'' ''false'' ''crypto'' [] (snd (snd (tw_prose w))))
          else (case (usable_var vars ''CURRENCY_STATUS'', usable_var vars ''CURRENCY_IS_ASSET_ANCHORED'', usable_var vars ''CURRENCY_DESC'') of
                  (Some status, Some anchored, Some description) \<Rightarrow>
                    if anchored \<noteq> ''true'' \<and> anchored \<noteq> ''false'' \<or> status \<notin> {''live'', ''dead'', ''test'', ''private''} then None
                    else if anchored = ''false'' then Some (asset_lines w code issuer status anchored ''crypto'' [] description)
                    else (case (usable_var vars ''CURRENCY_ANCHOR_ASSET_TYPE'', usable_var vars ''CURRENCY_ANCHOR_ASSET'') of
                            (Some ty, Some asset) \<Rightarrow> Some (asset_lines w code issuer status anchored ty asset description)
                          | _ \<Rightarrow> None)
                | _ \<Rightarrow> None)
      | _ \<Rightarrow> None)"

definition documentationSection :: "toml_world \<Rightarrow> string list" where
  "documentationSection w =
     [''[DOCUMENTATION]'', quoted ''ORG_NAME'' ''lolipay'', quoted ''ORG_URL'' ''https://lolipay.app'', quoted ''ORG_DESCRIPTION'' (fst (snd (tw_prose w)))]"

definition newline :: char where "newline = CHR 0x0A"

fun join_lines :: "string list \<Rightarrow> string" where
  "join_lines [] = []"
| "join_lines (l # ls) = l @ newline # join_lines ls"

text \<open>\<open>render\<close>: the complaint, or the text of the file.\<close>

definition toml_lines :: "toml_world \<Rightarrow> variables \<Rightarrow> string list \<Rightarrow> string list" where
  "toml_lines w vars required =
     required @ optional_line w vars ''KYC_SERVER'' @ optional_line w vars ''TRANSFER_SERVER_SEP0024'' @ [quoted ''VERSION'' ''2.7.0''] @
     (case currenciesSection w vars of Some ls \<Rightarrow> ls | None \<Rightarrow> []) @ documentationSection w"

definition render :: "toml_world \<Rightarrow> variables \<Rightarrow> string + string" where
  "render w vars =
     (case tw_prose w of (corridor, org, test) \<Rightarrow>
        case usableInAToml corridor of Some m \<Rightarrow> Inl (''CORRIDOR '' @ m)
      | None \<Rightarrow> (case usableInAToml org of Some m \<Rightarrow> Inl (''ORG_DESCRIPTION '' @ m)
      | None \<Rightarrow> (case usableInAToml test of Some m \<Rightarrow> Inl (''TESTNET_DESC '' @ m)
      | None \<Rightarrow> (case required_lines vars (FIELDS w) of Inl m \<Rightarrow> Inl m | Inr ls \<Rightarrow> Inr (join_lines (toml_lines w vars ls))))))"

definition GET_toml :: "toml_world \<Rightarrow> variables \<Rightarrow> int \<times> string" where
  "GET_toml w vars =
     (case render w vars of
        Inl problem \<Rightarrow> (503, ''this anchor is not configured to describe itself: '' @ problem @ [newline])
      | Inr toml \<Rightarrow> (200, toml))"

section \<open>What the user is told is what the coordinator does\<close>

text \<open>An amount in USDC is sent as exactly the base units that were typed.\<close>

theorem typed_amount_is_sent:
  assumes "usdcToBaseUnits decimals input = Inr sent"
  shows "\<exists>w fr n. decimal_parts (trim input) = Some (w, fr) \<and> sent = dec_nat n \<and> 0 < n \<and>
     (of_nat n :: rat) = (of_nat (digits_val w) + of_nat (digits_val fr) / 10 ^ length fr) * 10 ^ decimals"
proof -
  obtain w fr where p: "decimal_parts (trim input) = Some (w, fr)" "length fr \<le> decimals"
    using assms by (auto simp: usdcToBaseUnits_def split: option.splits if_splits)
  define n where "n = digits_val w * 10 ^ decimals + digits_val (take decimals (fr @ replicate decimals (CHR ''0'')))"
  have "take decimals (fr @ replicate decimals (CHR ''0'')) = fr @ replicate (decimals - length fr) (CHR ''0'')" using p(2) by (simp add: take_replicate min_def)
  then have d: "digits_val (take decimals (fr @ replicate decimals (CHR ''0''))) = digits_val fr * 10 ^ (decimals - length fr)"
    by (simp add: digits_val_append digits_val_zeros)
  have "(10 :: rat) ^ decimals = 10 ^ length fr * 10 ^ (decimals - length fr)" using p(2) by (simp flip: power_add)
  then have "(of_nat n :: rat) = (of_nat (digits_val w) + of_nat (digits_val fr) / 10 ^ length fr) * 10 ^ decimals"
    unfolding n_def d by (simp add: distrib_right)
  moreover have "sent = dec_nat n" "0 < n" using assms p by (auto simp: usdcToBaseUnits_def Let_def n_def split: if_splits)
  ultimately show ?thesis using p(1) by blast
qed

text \<open>The countdown ends where the coordinator's own clock does: the user may be refunded a withdrawal exactly from the moment the page says so, a payment can be confirmed exactly while
  the page says that it can, and a trade can be signed for exactly while the page asks for it.\<close>

theorem countdown_matches_coordinator:
  "(o_status x = FUNDED \<and> o_flow x = WITHDRAW \<longrightarrow>
      (activeCountdown (shown x) now = Some (TimeIsUp ''Merchant's time is up'' ''Refund open'') \<longleftrightarrow> refundOpensAt x < now div 1000)) \<and>
   (o_status x = FUNDED \<and> o_flow x = TOP_UP \<and> o_payDeadline x \<le> now div 1000 \<longrightarrow>
      (activeCountdown (shown x) now \<noteq> None \<longleftrightarrow> \<not> windowClosed now x)) \<and>
   (o_status x \<in> {MATCHED, AWAITING_ONCHAIN} \<longrightarrow>
      (activeCountdown (shown x) now \<noteq> None \<longleftrightarrow> \<not> signingCutoffSecs (o_payDeadline x) * 1000 \<le> now))"
  by (auto simp: activeCountdown_def windowFor_def shown_def windowClosed_def Let_def)

theorem tiers_and_limits_match_coordinator:
  "math_round (limitsFromConfig (c_dailyLimitByTier c) t) * USDC_BASE_UNITS = dailyLimitBaseUnits t (Some c) \<and>
   (nextTierThreshold t = Some n \<longrightarrow> Some (computeTier n 0) = nextTier t \<and> computeTier (n - 1) 0 = t)"
proof -
  have "admin_default_limit t = DEFAULT_DAILY_LIMIT_USDC t" by (cases t) simp_all
  then show ?thesis
    by (cases t) (auto simp: limitsFromConfig_def dailyLimitBaseUnits_def nextTierThreshold_def nextTier_def computeTier_def TIER_LEVELS_def split: option.split)
qed

text \<open>A refusal of an old token does not end a session begun since.\<close>

theorem late_refusal_keeps_session:
  "se_token se \<noteq> token \<Longrightarrow> fst (refuse_response status detail token method path se) = se"
  by (simp add: refuse_response_def)

section \<open>The file is read back as it was configured\<close>

text \<open>The value of a key, as a reader of the format finds it.\<close>

definition toml_get :: "string \<Rightarrow> string list \<Rightarrow> string option" where
  "toml_get key ls =
     map_option (\<lambda>l. takeWhile (\<lambda>c. c \<noteq> CHR 0x22) (drop (length key + 2) l)) (find (\<lambda>l. take (length key + 2) l = key @ ''='' @ [CHR 0x22]) ls)"

definition advertised :: "string \<Rightarrow> advertised_anchor" where
  "advertised body =
     (let ls = split_on newline body
      in \<lparr>ad_SIGNING_KEY = toml_get ''SIGNING_KEY'' ls, ad_WEB_AUTH_ENDPOINT = toml_get ''WEB_AUTH_ENDPOINT'' ls, ad_NETWORK_PASSPHRASE = toml_get ''NETWORK_PASSPHRASE'' ls\<rparr>)"

lemma usable_chars: "usableInAToml v = None \<Longrightarrow> newline \<notin> set v \<and> CHR 0x22 \<notin> set v"
  by (auto simp: usableInAToml_def newline_def list_ex_iff split: if_splits)

lemma split_join_lines: "(\<And>l. l \<in> set ls \<Longrightarrow> newline \<notin> set l) \<Longrightarrow> split_on newline (join_lines ls) = ls @ [[]]"
  by (induction ls) (simp_all add: split_on_front)

lemma takeWhile_upto: "c \<notin> set v \<Longrightarrow> takeWhile (\<lambda>x. x \<noteq> c) (v @ [c]) = v"
  by (induction v) auto

lemma toml_get_hit: "CHR 0x22 \<notin> set v \<Longrightarrow> toml_get key (quoted key v # ls) = Some v"
  by (simp add: toml_get_def quoted_def takeWhile_upto)

lemma toml_get_skip: "take (length key + 2) l \<noteq> key @ ''='' @ [CHR 0x22] \<Longrightarrow> toml_get key (l # ls) = toml_get key ls"
  by (simp add: toml_get_def)

lemma toml_skips:
  "toml_get ''SIGNING_KEY'' (quoted ''NETWORK_PASSPHRASE'' v # ls) = toml_get ''SIGNING_KEY'' ls"
  "toml_get ''WEB_AUTH_ENDPOINT'' (quoted ''NETWORK_PASSPHRASE'' v # ls) = toml_get ''WEB_AUTH_ENDPOINT'' ls"
  "toml_get ''WEB_AUTH_ENDPOINT'' (quoted ''SIGNING_KEY'' v # ls) = toml_get ''WEB_AUTH_ENDPOINT'' ls"
  by (rule toml_get_skip, simp add: quoted_def)+

lemma required_line_Inr:
  "required_line vars (key, var, check) = Inr l \<Longrightarrow> \<exists>v. vars var = Some v \<and> v \<noteq> [] \<and> usableInAToml v = None \<and> check v = None \<and> l = quoted key v"
  by (auto simp: required_line_def split: option.splits if_splits)

lemma usable_var_Some: "usable_var vars k = Some v \<Longrightarrow> usableInAToml v = None"
  by (auto simp: usable_var_def split: if_splits)

definition plain :: "string \<Rightarrow> bool" where "plain l = (newline \<notin> set l)"

lemma plain_simps [simp]:
  "plain []" "plain (c # l) = (c \<noteq> CHR 0x0A \<and> plain l)" "plain (l @ m) = (plain l \<and> plain m)" "plain (quoted key v) = (plain key \<and> plain v)"
  by (auto simp: plain_def newline_def quoted_def)

lemma usable_plain: "usableInAToml v = None \<Longrightarrow> plain v"
  using usable_chars by (simp add: plain_def)

lemma optional_line_plain: "plain key \<Longrightarrow> list_all plain (optional_line w vars key)"
  by (simp add: optional_line_def usable_plain)

lemma currencies_plain:
  assumes "currenciesSection w vars = Some ls" "plain (fst (tw_prose w))" "plain (snd (snd (tw_prose w)))"
  shows "list_all plain ls"
  using assms
  by (auto simp: currenciesSection_def asset_lines_def split: option.splits if_splits dest!: usable_var_Some usable_plain)

lemma render_lines:
  assumes "render w vars = Inr body"
  obtains ls where "required_lines vars (FIELDS w) = Inr ls" "split_on newline body = toml_lines w vars ls @ [[]]"
proof -
  obtain corridor org test where w: "tw_prose w = (corridor, org, test)" by (cases "tw_prose w")
  obtain ls where ls: "required_lines vars (FIELDS w) = Inr ls" "body = join_lines (toml_lines w vars ls)" and
      p: "plain corridor" "plain org" "plain test"
    using assms usable_plain by (auto simp: render_def w split: option.splits sum.splits)
  have "list_all plain ls"
    using ls(1) usable_plain by (auto simp: FIELDS_def split: sum.splits dest!: required_line_Inr)
  then have "list_all plain (toml_lines w vars ls)"
    using currencies_plain [of w vars] p optional_line_plain by (auto simp: toml_lines_def documentationSection_def w split: option.split)
  then show ?thesis using that [OF ls(1)] split_join_lines [of "toml_lines w vars ls"] ls(2) by (simp add: list_all_iff plain_def)
qed

text \<open>No configured value can forge a line of the file: what a reader finds under the three keys of the identity is what was configured for them, a known network, a valid key and an https endpoint; and a
  coordinator that serves challenges for that identity is found consistent with it.\<close>

theorem self_description_reads_back:
  assumes "render w vars = Inr body"
  shows "ad_NETWORK_PASSPHRASE (advertised body) = vars ''STELLAR_NETWORK_PASSPHRASE'' \<and> ad_SIGNING_KEY (advertised body) = vars ''SEP10_SIGNING_PUBLIC'' \<and>
     ad_WEB_AUTH_ENDPOINT (advertised body) = vars ''WEB_AUTH_ENDPOINT'' \<and>
     (\<exists>key endpoint. vars ''SEP10_SIGNING_PUBLIC'' = Some key \<and> tw_isPublicKey w key \<and> vars ''WEB_AUTH_ENDPOINT'' = Some endpoint \<and> take 8 endpoint = ''https://'') \<and>
     (vars ''SEP10_SIGNING_PUBLIC'' = Some (sv_source c) \<and> vars ''STELLAR_NETWORK_PASSPHRASE'' = Some (sv_networkPassphrase c) \<and>
      hostOf parse (vars ''WEB_AUTH_ENDPOINT'') = Some (sv_webAuthDomain c) \<and> sv_homeDomain c = home \<longrightarrow> compareAnchorIdentity parse (advertised body) c home = [])"
proof -
  obtain ls where ls: "required_lines vars (FIELDS w) = Inr ls" and body: "split_on newline body = toml_lines w vars ls @ [[]]" by (rule render_lines [OF assms])
  obtain n k e where v: "vars ''STELLAR_NETWORK_PASSPHRASE'' = Some n" "vars ''SEP10_SIGNING_PUBLIC'' = Some k" "vars ''WEB_AUTH_ENDPOINT'' = Some e"
      "n \<noteq> []" "k \<noteq> []" "usableInAToml n = None" "usableInAToml k = None" "usableInAToml e = None" "stellarPublicKey w k = None" "httpsEndpoint (tw_parse w) e = None"
    and l: "ls = [quoted ''NETWORK_PASSPHRASE'' n, quoted ''SIGNING_KEY'' k, quoted ''WEB_AUTH_ENDPOINT'' e]"
    using ls by (auto simp: FIELDS_def split: sum.splits dest!: required_line_Inr)
  have "tw_isPublicKey w k" "take 8 e = ''https://''" using v(9,10) by (auto simp: stellarPublicKey_def httpsEndpoint_def split: if_splits)
  moreover have "ad_NETWORK_PASSPHRASE (advertised body) = Some n" "ad_SIGNING_KEY (advertised body) = Some k" "ad_WEB_AUTH_ENDPOINT (advertised body) = Some e"
    using v(6-8) usable_chars by (simp_all add: advertised_def body toml_lines_def l toml_get_hit toml_skips)
  ultimately show ?thesis using v(1-5) by (auto simp: identity_agrees)
qed

end
