(* ===== verification/Spec2Isabelle.thy ===== *)
theory Spec2Isabelle
  imports OrderProof Rate Sep12 Indexer Divergence Admin Signing Sep24 Auth System Monitoring Realtime Vendor Boot Web
begin

text \<open>
  A model of the coordinator of the Lolipay anchor (\<open>src/services/coordinator/src\<close>), the TypeScript service that matches a user who buys or sells USDC with a
  liquidity provider, follows the trade in the escrow contract, and speaks the anchor protocols SEP-10, SEP-12 and SEP-24 with wallets.  File names below are relative to that directory.

  \<^bold>\<open>The parts and how they interact.\<close>
  A quote (\<open>rate\<close>) becomes an order (\<open>order\<close>) for a provider chosen by stake and exposure (\<open>matching\<close>), within the limits of the user's tier
  (\<open>reputation\<close>) and of the configuration (\<open>config\<close>, \<open>admin\<close>), if the customer's identity admits to funds (\<open>kyc\<close>).  The parties obtain unsigned contract
  calls (\<open>order-tx\<close>), upload proof (\<open>order-proof\<close>) and file disputes.  The escrow trade moves on chain; the order follows it by refreshing on read (\<open>order-status\<close>), by
  events (\<open>indexer\<close>) and by sweeps (\<open>maintenance\<close>).  The anchor signs two calls itself, the attestation of a payment and a refund (\<open>stellar\<close>).  Messages go
  through a table drained with back-off (\<open>outbox\<close>, \<open>notification\<close>, \<open>email\<close>) and through sockets (\<open>realtime\<close>); a monitor reports what needs a person (\<open>monitoring\<close>).

  \<^bold>\<open>How code becomes definitions.\<close>
  A handler is a function from the database (\<open>db\<close>, one list of rows per Prisma model) to the database after it and an outcome, \<open>Inl\<close> the HTTP error it throws; what was
  written before a throw outside a transaction stays written.  Every early return and every error is a branch, in the order of the source.  A number that JavaScript holds as a double is a
  \<open>jsnum\<close> (a rational rounded to double precision, an infinity or not-a-number), a \<open>bigint\<close> is an \<open>int\<close> with truncating division, an instant is an
  \<open>int\<close> of milliseconds.  One handler reads the clock once unless the source compares two readings.  Where a handler awaits between a read and a write, what other callers do to the
  database meanwhile is an argument (\<open>meanwhile\<close>), and the theorems hold for every such argument or for every run of the other handlers (\<open>System.runs\<close>).  The two halves of
  a socket's connection, of the opening of a session and of a tick are separate steps of an inductive relation (\<open>Realtime.gw_step\<close>, \<open>Vendor.session_run\<close>, \<open>Maintenance.tick_step\<close>).

  \<^bold>\<open>The theories.\<close>
  \<^item> \<open>Prelude\<close>, \<open>JsNumber\<close>, \<open>Store\<close>, \<open>Schema\<close>, \<open>Env\<close>: outcomes and transactions, numbers and decimal strings, the operations of the database
    client, the tables of \<open>prisma/schema.prisma\<close>, and what is taken from outside (configuration, SDK, chain).  The interfaces are locales: \<open>row_write\<close> (an update that keeps
    keys), \<open>latch\<close> and \<open>keyed_latch\<close> (a guarded update that succeeds once), \<open>order_writer\<close> (a handler that keeps the constraints and the identity of every order),
    later \<open>kyc_writer\<close> (one that never lifts a refusal) and \<open>submitter\<close> (a sweep that submits only for funded trades).  Each is interpreted on the handlers that satisfy it.
  \<^item> \<open>Money\<close> (\<open>money/money.ts\<close>), \<open>ContractLimits\<close> (\<open>config/contract-limits.ts\<close>, \<open>rate-guard.ts\<close>), \<open>Trade\<close> (\<open>order/trade-binding.ts\<close>,
    \<open>order.params.ts\<close>, \<open>dispute.util.ts\<close>): amounts and fees, windows, and the comparison of a trade with its order, which accepts exactly the trades that agree in all fourteen terms.
  \<^item> \<open>People\<close>, \<open>Reputation\<close>, \<open>Kyc\<close>, \<open>Sep12\<close>, \<open>Vendor\<close> (\<open>person\<close>, \<open>reputation\<close>, \<open>kyc\<close>): wallets of a person, tiers and losses, customers.  A refusal is
    final, an acceptance comes only from a screened delivery, a delivery counts only when it is signed and fresh, and the daily budget of sessions holds under overlap.
  \<^item> \<open>Markets\<close>, \<open>Rate\<close>, \<open>Matching\<close>: cached configuration, guarded reference price, quotes, choice of a provider.
  \<^item> \<open>OrderStatus\<close>, \<open>OrderTx\<close>, \<open>OrderService\<close>, \<open>OrderView\<close>, \<open>OrderProof\<close> (\<open>order\<close>): refresh from chain, contract calls by role and state, opening, cancelling,
    disputing, reading, uploading.  Opening keeps the daily limit and the provider's stake under concurrency, a quote opens one order, the call that is built creates a trade that binds.
  \<^item> \<open>Indexer\<close>, \<open>Maintenance\<close>, \<open>Divergence\<close>: events are applied once and only forwards, sweeps refund only when the contract allows it and reach every orphan, a divergence is always reported.
  \<^item> \<open>ChainRead\<close>, \<open>Signing\<close>, \<open>Attest\<close> (\<open>stellar\<close>, \<open>admin\<close>): reads with retries, decoding, the guards before the anchor signs, sending and polling, attestation on the
    provider's signed receipt.
  \<^item> \<open>Outbox\<close>, \<open>Notify\<close>, \<open>Alerts\<close>, \<open>Monitoring\<close>, \<open>Realtime\<close>: messages, alerts and sockets.  Delivery is given up after nine attempts, what could not be read is
    never reported as clear, a socket hears only of its own orders.
  \<^item> \<open>Admin\<close>, \<open>Provider\<close>, \<open>Boot\<close>: administration, providers, start-up checks and the identity the anchor advertises.  Starting establishes the configuration rules, every accepted change keeps them.
  \<^item> \<open>Sep24\<close>, \<open>Auth\<close>: the wallet API and its popup, both doors that hand out tokens and the guards that read them.
  \<^item> \<open>Web\<close> (\<open>src/frontend\<close>): what the pages compute themselves.  The countdown of an order ends where the coordinator's deadline does, tiers and limits are those the coordinator applies, an amount
    is sent as it was typed, and \<open>stellar.toml\<close> reads back as it was configured.
  \<^item> \<open>System\<close> and this theory: all handlers that write orders, run against each other.

  \<^bold>\<open>Loops and bounds.\<close>
  Loops over rows are structural.  \<open>JsNumber.scale_up\<close> and \<open>scale_down\<close> have measures.  The polling loop for a sent transaction depends on the network and is a
  \<open>partial_function (option)\<close>; it is proved in \<open>Signing\<close> to return whenever time goes on between two polls.  The retry of a clashing reference is bounded by the source (five), that of an RPC read by
  three attempts, that of a message by nine; the batches of the sweeps (20 refunds, scans of 100 and 500 rows) are the source's own constants, and where a batch could starve a row a
  theorem of \<open>Maintenance\<close> says that it does not.

  \<^bold>\<open>Parameters.\<close>
  The RPC node, Horizon and the answers of the contracts; the Stellar SDK (keys, XDR, challenges); the JWT library, HMAC and hashes; \<open>JSON.parse\<close> of deliveries and the URL parser; the
  identity provider, the mail service and the webhook; random ids.  A theorem that needs something of them says so in a hypothesis and has a witness.

  \<^bold>\<open>What modelling showed.\<close>
  In \<open>OrderView\<close>: a negated condition on a nullable column leaves undisputed trades out of a provider's record.  \<open>OrderService.cancel_can_move_back\<close>: the
  catch-up in \<open>cancelOrder\<close> is not guarded by the status it read.  \<open>Realtime.lost_role_still_joins\<close> and \<open>Realtime.early_close_keeps_the_place\<close>: a room is joined on the role read before,
  and a socket closed while its role is read keeps its place.

  \<^bold>\<open>Not modelled.\<close>
  The Rust contracts and the React components and hooks of the applications (another language, and rendering); controllers, modules and DTO decorators, which only route and validate; HTML, inline scripts and content security policy of the
  popup, and the wording of messages where only their case matters; the S3 client and the price adapters (HTTP and the printing of doubles); fixtures, scripts and tests; log lines.
\<close>

section \<open>The system as a whole\<close>

text \<open>C2 (createFromQuote, cancelOrder, postDispute, uploadProof, applyEvent, expireStaleOrders, autoRefundExpired, reconcileOrphanedEscrows, attestFiatPaid,
  confirmReceiptAsProvider, setStatus, claimPaid, openOrderForAmount, refreshOrderStatus): however the handlers of the coordinator are called and interleaved, no order is
  ever lost or taken over.  After any run an order that was there is there, under its own id, with the trade, the flow, the user
  and the amount it had; a settlement recorded on it stays recorded, the depositor's claim of having paid keeps its time, and
  the constraints of the table hold: ids are unique, a settled order says how it settled, only a top-up carries a claim.\<close>

theorem orders_survive_every_run:
  assumes "runs d d'" "orders_ok d"
  shows "orders_ok d' \<and>
         (\<forall>i x. find_order d i = Some x \<longrightarrow>
            (\<exists>y. find_order d' i = Some y \<and> o_tradeId y = o_tradeId x \<and> o_flow y = o_flow x \<and> o_userAddress y = o_userAddress x \<and>
               o_usdcAmount y = o_usdcAmount x \<and> (o_settledStatus x \<noteq> None \<longrightarrow> o_settledStatus y \<noteq> None) \<and>
               (o_userClaimedPaidAt x \<noteq> None \<longrightarrow> o_userClaimedPaidAt y = o_userClaimedPaidAt x)))"
proof -
  note g = runs_grown [OF assms(1)]
  have "orders_ok d'" using g assms(2) by (simp add: grown_def)
  then show ?thesis using grown_find [OF g assms(2)] by (fastforce simp: row_kept_def order_key_def)
qed

theorem orders_survive_every_run_witness:
  "\<exists>d' y. runs order_db d' \<and> find_order d' ''o1'' = Some y \<and> o_tradeId y = ''t1'' \<and> orders_ok d'"
proof -
  have r: "runs order_db (expireStaleOrders demo_env 1800000000000 (\<lambda>x d. d)
      (fst (cancelOrder demo_env 1700000000000 ''o1'' ''GU'' (\<lambda>d. fst (refreshOrderStatus demo_env 0 ''o1'' demo_order d)) order_db)))"
    by (rule runs.chain [OF runs.cancelled runs.expired]) (rule runs.refreshed runs.none)+
  show ?thesis using orders_survive_every_run [OF r order_db_ok(1)] order_db_ok(2) r by force
qed

end
